(* ===== verification/Prelude.thy ===== *)
theory Prelude
  imports Main "HOL-Library.Char_ord" "HOL-Library.List_Lexorder" "HOL-Library.Code_Target_Nat"
begin

text \<open>
  The shared base of the development: the failures the worker raises and the sequencing of
  computations that may raise, the SQL fragments the projection uses on its tables, and the part
  of the JavaScript string library the modelled code calls.

  A string of the program is represented by its UTF-8 byte sequence (a \<open>string\<close>, whose characters
  are bytes). Comparing two strings by the bytes of \<open>TextEncoder.encode\<close>, and SQLite's
  \<open>COLLATE BINARY\<close>, are then the lexicographic order on lists; \<open>length\<close> of JavaScript counts
  UTF-16 code units and is \<open>js_length\<close> below.
\<close>

section \<open>Collections of rewrite rules\<close>

named_theorems result_simps \<open>sequencing of computations that may raise\<close>
named_theorems table_simps \<open>selection, insertion, update and deletion on tables\<close>

section \<open>Failures\<close>

text \<open>\<open>ProjectionErrorCode\<close> of the contracts package.\<close>

datatype projection_error_code =
    projection_invalid
  | projection_forbidden
  | projection_chat_paused
  | projection_tenant_mismatch
  | projection_conflict
  | projection_rebuilding
  | projection_rebuild_failed
  | projection_rebuild_mismatch
  | projection_not_found
  | projection_too_large
  | projection_unavailable

text \<open>
  What the projection code can throw: a \<open>ProjectionError\<close> with its code, or an error of the
  platform (a \<open>ZodError\<close> of a schema's \<open>parse\<close>, the \<open>RangeError\<close> of \<open>toISOString\<close>, a constraint
  violation of SQLite, or a plain \<open>Error\<close>).
\<close>

datatype failure =
    ProjectionError projection_error_code
  | ZodError
  | RangeError
  | SqliteConstraint
  | PlainError

type_synonym 'a result = "failure + 'a"

definition projectionError :: "projection_error_code \<Rightarrow> 'a result" where
  "projectionError c = Inl (ProjectionError c)"

text \<open>Sequencing: the rest of a function body runs only when no exception was thrown.\<close>

definition andThen :: "'e + 'a \<Rightarrow> ('a \<Rightarrow> 'e + 'b) \<Rightarrow> 'e + 'b" where
  "andThen m f = (case m of Inl e \<Rightarrow> Inl e | Inr x \<Rightarrow> f x)"

text \<open>\<open>if (b) throw e;\<close>\<close>

definition throwIf :: "bool \<Rightarrow> 'e \<Rightarrow> 'e + unit" where
  "throwIf b e = (if b then Inl e else Inr ())"

text \<open>A \<open>for\<close> loop whose body may throw, over a list of elements, threading a state.\<close>

fun forEach :: "'a list \<Rightarrow> 's \<Rightarrow> ('a \<Rightarrow> 's \<Rightarrow> 'e + 's) \<Rightarrow> 'e + 's" where
  "forEach [] s f = Inr s"
| "forEach (x # xs) s f = andThen (f x s) (\<lambda>s'. forEach xs s' f)"

lemma andThen_Inr [simp]: "andThen (Inr x) f = f x"
  by (simp add: andThen_def)

lemma andThen_Inl [simp]: "andThen (Inl e) f = Inl e"
  by (simp add: andThen_def)

lemma andThen_eq_Inr [result_simps]: "andThen m f = Inr y \<longleftrightarrow> (\<exists>x. m = Inr x \<and> f x = Inr y)"
  by (cases m) simp_all

lemma andThen_eq_Inl: "andThen m f = Inl e \<longleftrightarrow> m = Inl e \<or> (\<exists>x. m = Inr x \<and> f x = Inl e)"
  by (cases m) simp_all

lemma andThenE:
  assumes "andThen m f = Inr y"
  obtains x where "m = Inr x" and "f x = Inr y"
  using assms by (auto simp: andThen_eq_Inr)

lemma throwIf_eq_Inr [result_simps]: "throwIf b e = Inr u \<longleftrightarrow> \<not> b"
  by (simp add: throwIf_def)

lemma throwIf_False [simp]: "throwIf False e = Inr ()"
  by (simp add: throwIf_def)

lemma throwIf_True [simp]: "throwIf True e = Inl e"
  by (simp add: throwIf_def)

lemma projectionError_not_Inr [simp]: "projectionError c \<noteq> Inr x"
  by (simp add: projectionError_def)

text \<open>An invariant kept by every round of the loop holds at its end.\<close>

lemma forEach_invariant:
  assumes "forEach xs s f = Inr t" and "P s"
    and "\<And>x s s'. x \<in> set xs \<Longrightarrow> P s \<Longrightarrow> f x s = Inr s' \<Longrightarrow> P s'"
  shows "P t"
  using assms
proof (induction xs arbitrary: s)
  case Nil
  then show ?case by simp
next
  case (Cons x xs)
  then obtain s' where s': "f x s = Inr s'" "forEach xs s' f = Inr t"
    by (auto elim: andThenE)
  moreover have "P s'"
    using Cons.prems(2,3) s'(1) by (meson list.set_intros(1))
  ultimately show ?case
    using Cons.IH Cons.prems(3) by (meson list.set_intros(2))
qed

lemma forEach_append: "forEach (xs @ ys) s f = andThen (forEach xs s f) (\<lambda>t. forEach ys t f)"
proof (induction xs arbitrary: s)
  case (Cons x xs)
  then show ?case by (cases "f x s") simp_all
qed simp

section \<open>Tables\<close>

text \<open>
  A table is the list of its rows in insertion order. \<open>SELECT \<dots> WHERE P\<close> followed by
  \<open>toArray()[0]\<close> is \<open>find P\<close>; \<open>UPDATE\<close>, \<open>DELETE\<close> and \<open>INSERT\<close> are the functions below. A key
  column comparison with a nullable column never selects a \<open>NULL\<close>: it is a comparison with
  \<open>Some\<close>.
\<close>

definition upd_where :: "('r \<Rightarrow> bool) \<Rightarrow> ('r \<Rightarrow> 'r) \<Rightarrow> 'r list \<Rightarrow> 'r list" where
  "upd_where P f rs = map (\<lambda>r. if P r then f r else r) rs"

definition del_where :: "('r \<Rightarrow> bool) \<Rightarrow> 'r list \<Rightarrow> 'r list" where
  "del_where P rs = filter (\<lambda>r. \<not> P r) rs"

definition exists_where :: "('r \<Rightarrow> bool) \<Rightarrow> 'r list \<Rightarrow> bool" where
  "exists_where P rs = list_ex P rs"

text \<open>\<open>INSERT\<close> fails when a \<open>PRIMARY KEY\<close> or \<open>UNIQUE\<close> column already holds the value.\<close>

definition ins_row :: "('r \<Rightarrow> 'k) \<Rightarrow> 'r \<Rightarrow> 'r list \<Rightarrow> 'r list result" where
  "ins_row key r rs = (if list_ex (\<lambda>x. key x = key r) rs then Inl SqliteConstraint else Inr (rs @ [r]))"

text \<open>\<open>ORDER BY \<dots> LIMIT 1\<close>: the first row that no row beats.\<close>

fun best_row :: "('r \<Rightarrow> 'r \<Rightarrow> bool) \<Rightarrow> 'r list \<Rightarrow> 'r option" where
  "best_row beats [] = None"
| "best_row beats (r # rs) =
     (case best_row beats rs of None \<Rightarrow> Some r | Some b \<Rightarrow> if beats b r then Some b else Some r)"

lemma set_upd_where [table_simps]:
  "x \<in> set (upd_where P f rs) \<longleftrightarrow> (\<exists>r \<in> set rs. P r \<and> x = f r \<or> \<not> P r \<and> x = r)"
  by (auto simp: upd_where_def)

lemma set_del_where [table_simps]: "x \<in> set (del_where P rs) \<longleftrightarrow> x \<in> set rs \<and> \<not> P x"
  by (auto simp: del_where_def)

lemma exists_where_iff [table_simps]: "exists_where P rs \<longleftrightarrow> (\<exists>r \<in> set rs. P r)"
  by (auto simp: exists_where_def list_ex_iff)

lemma ins_row_eq_Inr [table_simps, result_simps]:
  "ins_row key r rs = Inr rs' \<longleftrightarrow> rs' = rs @ [r] \<and> key r \<notin> key ` set rs"
  by (auto simp: ins_row_def list_ex_iff image_iff) metis

lemma find_SomeD: "find P xs = Some x \<Longrightarrow> x \<in> set xs \<and> P x"
  by (induction xs) (auto split: if_splits)

lemma find_None_set: "find P xs = None \<longleftrightarrow> (\<forall>x \<in> set xs. \<not> P x)"
  by (auto simp: find_None_iff)

lemma find_key_unique:
  assumes "distinct (map key rs)" and "r \<in> set rs"
  shows "find (\<lambda>x. key x = key r) rs = Some r"
  using assms by (induction rs) (auto simp: image_iff)

lemma find_append: "find P (xs @ ys) = (case find P xs of None \<Rightarrow> find P ys | Some x \<Rightarrow> Some x)"
  by (induction xs) auto

lemma map_key_upd_where [table_simps]:
  assumes "\<And>r. P r \<Longrightarrow> key (f r) = key r"
  shows "map key (upd_where P f rs) = map key rs"
  using assms by (auto simp: upd_where_def)

lemma distinct_key_del_where: "distinct (map key rs) \<Longrightarrow> distinct (map key (del_where P rs))"
  by (induction rs) (auto simp: del_where_def)

lemma find_upd_where:
  assumes "\<And>r. Q (if P r then f r else r) = Q r"
  shows "find Q (upd_where P f rs) = map_option (\<lambda>r. if P r then f r else r) (find Q rs)"
proof (induction rs)
  case (Cons r rs)
  show ?case
  proof (cases "Q r")
    case True
    then have "Q (if P r then f r else r)" using assms by simp
    with True show ?thesis by (simp add: upd_where_def)
  next
    case False
    then have "\<not> Q (if P r then f r else r)" using assms by simp
    with False Cons.IH show ?thesis by (simp add: upd_where_def)
  qed
qed (simp add: upd_where_def)

lemma upd_where_none: "(\<And>r. r \<in> set rs \<Longrightarrow> \<not> P r) \<Longrightarrow> upd_where P f rs = rs"
  by (simp add: upd_where_def map_idI)

lemma best_row_in: "best_row beats rs = Some r \<Longrightarrow> r \<in> set rs"
  by (induction rs arbitrary: r) (auto split: option.splits if_splits)

lemma best_row_None [simp]: "best_row beats rs = None \<longleftrightarrow> rs = []"
  by (cases rs) (auto split: option.splits)

text \<open>When \<open>beats\<close> is a strict weak order, no row beats the selected one.\<close>

lemma best_row_unbeaten:
  assumes "best_row beats rs = Some b"
    and asym: "\<And>x y. beats x y \<Longrightarrow> \<not> beats y x"
    and neg_trans: "\<And>x y z. \<not> beats x y \<Longrightarrow> \<not> beats y z \<Longrightarrow> \<not> beats x z"
    and "r \<in> set rs"
  shows "\<not> beats r b"
  using assms(1,4)
proof (induction rs arbitrary: b r)
  case (Cons a rs)
  show ?case
  proof (cases "best_row beats rs")
    case None
    with Cons.prems show ?thesis using asym by auto
  next
    case (Some c)
    have IH: "\<not> beats x c" if "x \<in> set rs" for x
      using Cons.IH [OF Some that] .
    show ?thesis
    proof (cases "beats c a")
      case True
      with Some Cons.prems(1) have "b = c" by simp
      with True IH Cons.prems(2) show ?thesis using asym by auto
    next
      case False
      with Some Cons.prems(1) have "b = a" by simp
      moreover have "\<not> beats a a" using asym by blast
      moreover have "\<not> beats x a" if "x \<in> set rs" for x
        using neg_trans [OF IH [OF that] False] .
      ultimately show ?thesis using Cons.prems(2) by auto
    qed
  qed
qed simp

section \<open>Strings\<close>

definition is_continuation :: "char \<Rightarrow> bool" where
  "is_continuation c = (128 \<le> (of_char c :: nat) \<and> (of_char c :: nat) < 192)"

text \<open>\<open>String.prototype.length\<close>: one unit for each encoded code point, two from U+10000 on.\<close>

definition js_length :: "string \<Rightarrow> nat" where
  "js_length s =
     length (filter (\<lambda>c. \<not> is_continuation c) s) + length (filter (\<lambda>c. 240 \<le> (of_char c :: nat)) s)"

text \<open>
  The number of bytes of the white-space code point at the head of a string, \<open>0\<close> when there is
  none: the ASCII white space, U+00A0, U+1680, U+2000 to U+200A, U+2028, U+2029, U+202F, U+205F,
  U+3000 and U+FEFF.
\<close>

fun white_space_head :: "nat list \<Rightarrow> nat" where
  "white_space_head (a # b # c # s) =
     (if a \<in> {9, 10, 11, 12, 13, 32} then 1
      else if a = 194 \<and> b = 160 then 2
      else if (a = 225 \<and> b = 154 \<and> c = 128)
            \<or> (a = 226 \<and> b = 128 \<and> (128 \<le> c \<and> c \<le> 138 \<or> c = 168 \<or> c = 169 \<or> c = 175))
            \<or> (a = 226 \<and> b = 129 \<and> c = 159)
            \<or> (a = 227 \<and> b = 128 \<and> c = 128)
            \<or> (a = 239 \<and> b = 187 \<and> c = 191) then 3
      else 0)"
| "white_space_head [a, b] =
     (if a \<in> {9, 10, 11, 12, 13, 32} then 1 else if a = 194 \<and> b = 160 then 2 else 0)"
| "white_space_head [a] = (if a \<in> {9, 10, 11, 12, 13, 32} then 1 else 0)"
| "white_space_head [] = 0"

text \<open>The same at the end of a string, whose bytes are given in reverse.\<close>

definition white_space_last :: "nat list \<Rightarrow> nat" where
  "white_space_last rbs =
     (case rbs of
        [] \<Rightarrow> 0
      | a # _ \<Rightarrow>
          if a \<in> {9, 10, 11, 12, 13, 32} then 1
          else if white_space_head (rev (take 2 rbs)) = 2 then 2
          else if white_space_head (rev (take 3 rbs)) = 3 then 3
          else 0)"

function strip :: "(nat list \<Rightarrow> nat) \<Rightarrow> string \<Rightarrow> string" where
  "strip ws s =
     (let n = ws (map of_char s) in if s = [] \<or> n = 0 then s else strip ws (drop n s))"
  by pat_completeness auto
termination
  by (relation "measure (\<lambda>(ws, s). length s)") auto

declare strip.simps [simp del]

text \<open>\<open>String.prototype.trim\<close>.\<close>

definition js_trim :: "string \<Rightarrow> string" where
  "js_trim s = rev (strip white_space_last (rev (strip white_space_head s)))"

text \<open>
  \<open>s.slice(0, n)\<close>: the first \<open>n\<close> code units. A slice that ends between the two halves of a code
  point above U+FFFF keeps a lone surrogate, which is U+FFFD in UTF-8.
\<close>

fun js_take :: "nat \<Rightarrow> string \<Rightarrow> string" where
  "js_take n [] = []"
| "js_take n (c # s) =
     (if is_continuation c then c # js_take n s
      else if 240 \<le> (of_char c :: nat) then
        (if 2 \<le> n then c # js_take (n - 2) s
         else if n = 1 then [char_of (239 :: nat), char_of (191 :: nat), char_of (189 :: nat)] else [])
      else if 1 \<le> n then c # js_take (n - 1) s else [])"

text \<open>\<open>String.prototype.startsWith\<close>.\<close>

definition starts_with :: "string \<Rightarrow> string \<Rightarrow> bool" where
  "starts_with prefix s = (take (length prefix) s = prefix)"

text \<open>The values a JavaScript number holds exactly.\<close>

definition MAX_SAFE_INTEGER :: int where
  "MAX_SAFE_INTEGER = 9007199254740991"

definition is_safe_integer :: "int \<Rightarrow> bool" where
  "is_safe_integer n = (- MAX_SAFE_INTEGER \<le> n \<and> n \<le> MAX_SAFE_INTEGER)"

text \<open>\<open>[...new Set(xs)]\<close>: the distinct elements in order of first occurrence.\<close>

fun unique_values :: "'a list \<Rightarrow> 'a list" where
  "unique_values [] = []"
| "unique_values (x # xs) = x # filter (\<lambda>y. y \<noteq> x) (unique_values xs)"

lemma set_unique_values [simp]: "set (unique_values xs) = set xs"
  by (induction xs) auto

lemma distinct_unique_values [simp]: "distinct (unique_values xs)"
  by (induction xs) auto

section \<open>Runs of a step relation\<close>

text \<open>A reflexive and transitive relation that every step respects relates the ends of every run.\<close>

locale step_relation =
  fixes step :: "'s \<Rightarrow> 's \<Rightarrow> bool" and R :: "'s \<Rightarrow> 's \<Rightarrow> bool"
  assumes rel_refl: "R s s"
    and rel_trans: "R s t \<Longrightarrow> R t u \<Longrightarrow> R s u"
    and rel_step: "step s t \<Longrightarrow> R s t"
begin

lemma rel_steps: "step\<^sup>*\<^sup>* s t \<Longrightarrow> R s t"
  by (induction rule: rtranclp_induct) (auto intro: rel_refl rel_trans rel_step)

end

end
