(* ===== verification/Js_Date.thy ===== *)
theory Js_Date
  imports Prelude "HOL-Library.Monad_Syntax"
begin

text \<open>
  The part of the JavaScript \<open>Date\<close> library the program relies on: \<open>new Date(ms).toISOString()\<close>
  and \<open>Date.parse\<close>. The calendar functions follow the definitions of the language standard
  (\<open>DayFromYear\<close>, \<open>YearFromTime\<close>, \<open>MonthFromTime\<close>, \<open>DateFromTime\<close>). \<open>date_parse\<close> reads the full
  date-time form with a zone, which is the form every timestamp of the program has after its
  \<open>TimestampSchema\<close>; the other forms of \<open>Date.parse\<close> are not used.
\<close>

section \<open>Calendar\<close>

definition ms_per_day :: int where
  "ms_per_day = 86400000"

definition MAX_TIME :: int where
  "MAX_TIME = 8640000000000000"

definition day_from_year :: "int \<Rightarrow> int" where
  "day_from_year y = 365 * (y - 1970) + (y - 1969) div 4 - (y - 1901) div 100 + (y - 1601) div 400"

definition in_leap_year :: "int \<Rightarrow> bool" where
  "in_leap_year y = (y mod 4 = 0 \<and> (y mod 100 \<noteq> 0 \<or> y mod 400 = 0))"

lemma div_bounds:
  fixes x c :: int
  assumes "0 < c"
  shows "c * (x div c) \<le> x" and "x < c * (x div c) + c"
  using mult_div_mod_eq [of c x] pos_mod_bound [OF assms, of x] pos_mod_sign [OF assms, of x]
  by linarith+

lemma div_succ:
  fixes x c :: int
  assumes "0 < c"
  shows "(x + 1) div c = x div c + (if (x + 1) mod c = 0 then 1 else 0)"
proof (cases "(x + 1) mod c = 0")
  case True
  define k where "k = (x + 1) div c"
  have "x + 1 = c * k"
    using True mult_div_mod_eq [of c "x + 1"] by (simp add: k_def)
  then have x: "x = c * (k - 1) + (c - 1)" by (simp add: algebra_simps)
  have "x div c = k - 1"
    using int_div_pos_eq [OF x] assms by simp
  with True show ?thesis by (simp add: k_def)
next
  case False
  define k r where "k = (x + 1) div c" and "r = (x + 1) mod c"
  have x: "x = c * k + (r - 1)"
    using mult_div_mod_eq [of c "x + 1"] unfolding k_def r_def by linarith
  have "0 < r" "r < c"
    using False pos_mod_bound [OF assms, of "x + 1"] pos_mod_sign [OF assms, of "x + 1"]
    unfolding r_def by linarith+
  then have "x div c = k"
    using int_div_pos_eq [OF x] by simp
  with False show ?thesis by (simp add: k_def)
qed

lemma year_shift_mod:
  fixes y :: int
  shows "(y + 1 - 1969) mod 4 = y mod 4" and "(y + 1 - 1901) mod 100 = y mod 100"
    and "(y + 1 - 1601) mod 400 = y mod 400"
  subgoal using mod_mult_self1 [of y "-492" 4] by simp
  subgoal using mod_mult_self1 [of y "-19" 100] by simp
  subgoal using mod_mult_self1 [of y "-4" 400] by simp
  done

lemma mod_100_mod_4: "y mod 100 = 0 \<Longrightarrow> y mod 4 = (0 :: int)"
  using dvd_trans [of 4 100 y] by (simp add: dvd_eq_mod_eq_0)

lemma mod_400_mod_100: "y mod 400 = 0 \<Longrightarrow> y mod 100 = (0 :: int)"
  using dvd_trans [of 100 400 y] by (simp add: dvd_eq_mod_eq_0)

lemma day_from_year_step:
  "day_from_year (y + 1) = day_from_year y + (if in_leap_year y then 366 else 365)"
proof -
  have step: "(y + 1 - p) div c = (y - p) div c + (if (y + 1 - p) mod c = 0 then 1 else 0)"
    if "0 < c" for p c :: int
    using div_succ [OF that, of "y - p"] by (simp add: algebra_simps)
  define A B C where "A = (y - 1969) div 4" and "B = (y - 1901) div 100" and "C = (y - 1601) div 400"
  define P Q R where "P \<longleftrightarrow> y mod 4 = 0" and "Q \<longleftrightarrow> y mod 100 = 0" and "R \<longleftrightarrow> y mod 400 = 0"
  have imp: "Q \<Longrightarrow> P" "R \<Longrightarrow> Q" unfolding P_def Q_def R_def by (rule mod_100_mod_4 mod_400_mod_100, assumption)+
  have e: "(y + 1 - 1969) div 4 = A + (if P then 1 else 0)"
    "(y + 1 - 1901) div 100 = B + (if Q then 1 else 0)"
    "(y + 1 - 1601) div 400 = C + (if R then 1 else 0)"
    unfolding A_def B_def C_def P_def Q_def R_def year_shift_mod [of y, symmetric] by (rule step, simp)+
  have "day_from_year (y + 1) = 365 * (y + 1 - 1970) + (A + (if P then 1 else 0))
      - (B + (if Q then 1 else 0)) + (C + (if R then 1 else 0))"
    unfolding day_from_year_def e ..
  moreover have "day_from_year y = 365 * (y - 1970) + A - B + C"
    by (simp only: day_from_year_def A_def B_def C_def)
  moreover have "in_leap_year y \<longleftrightarrow> P \<and> (\<not> Q \<or> R)"
    by (simp only: in_leap_year_def P_def Q_def R_def)
  ultimately show ?thesis
    using imp by (cases P; cases Q; cases R) (simp_all only: if_True if_False simp_thms, simp_all)
qed

lemma day_from_year_less: "day_from_year y < day_from_year (y + 1)"
  by (simp add: day_from_year_step)

lemma day_from_year_mono: "x \<le> y \<Longrightarrow> day_from_year x \<le> day_from_year y"
proof (induction "nat (y - x)" arbitrary: y)
  case (Suc n)
  then have "day_from_year x \<le> day_from_year (y - 1)"
    by (intro Suc.hyps(1)) auto
  also have "\<dots> \<le> day_from_year y"
    using day_from_year_less [of "y - 1"] by simp
  finally show ?case .
qed simp

text \<open>\<open>YearFromTime\<close>: the largest year that starts on or before the day, by search from below.\<close>

definition year_guess :: "int \<Rightarrow> int" where
  "year_guess d = 1968 + (if 0 \<le> d then d div 366 else d div 365)"

function year_search :: "int \<Rightarrow> int \<Rightarrow> int" where
  "year_search d y = (if day_from_year (y + 1) \<le> d then year_search d (y + 1) else y)"
  by pat_completeness auto
termination
  by (relation "measure (\<lambda>(d, y). nat (d - day_from_year y))")
    (auto simp: day_from_year_step split: if_splits)

declare year_search.simps [simp del]

lemma year_search_code [code]:
  "year_search d y = (case day_from_year (y + 1) \<le> d of True \<Rightarrow> year_search d (y + 1) | False \<Rightarrow> y)"
  by (subst year_search.simps) simp

definition year_from_day :: "int \<Rightarrow> int" where
  "year_from_day d = year_search d (year_guess d)"

lemma year_guess_le: "day_from_year (year_guess d) \<le> d"
proof -
  define k where "k = year_guess d"
  define A B C where "A = (k - 1969) div 4" and "B = (k - 1901) div 100" and "C = (k - 1601) div 400"
  have bounds: "4 * A \<le> k - 1969" "k - 1901 < 100 * B + 100" "400 * C \<le> k - 1601"
    unfolding A_def B_def C_def by (rule div_bounds, simp)+
  from bounds have sum: "400 * (A - B + C) \<le> 97 * k - 190496" by simp
  have "366 * (k - 1968) \<le> d \<and> 1968 \<le> k \<or> 365 * (k - 1968) \<le> d \<and> k < 1968"
    unfolding k_def year_guess_def
    using div_bounds(1) [of 366 d] div_bounds(1) [of 365 d]
    by (simp add: pos_imp_zdiv_nonneg_iff pos_imp_zdiv_neg_iff)
  with sum have "365 * (k - 1970) + A - B + C \<le> d"
    by (elim disjE conjE) simp_all
  then show ?thesis
    by (simp only: day_from_year_def A_def B_def C_def k_def)
qed

lemma year_search_spec:
  "day_from_year y \<le> d \<Longrightarrow>
     day_from_year (year_search d y) \<le> d \<and> d < day_from_year (year_search d y + 1)"
proof (induction d y rule: year_search.induct)
  case (1 d y)
  then show ?case
    by (cases "day_from_year (y + 1) \<le> d") (simp_all add: year_search.simps [of d y])
qed

lemma year_from_day_spec:
  "day_from_year (year_from_day d) \<le> d \<and> d < day_from_year (year_from_day d + 1)"
  unfolding year_from_day_def by (rule year_search_spec) (rule year_guess_le)

lemma year_from_day_unique:
  assumes "day_from_year y \<le> d" "d < day_from_year (y + 1)"
  shows "year_from_day d = y"
proof (rule antisym)
  show "year_from_day d \<le> y"
    using year_from_day_spec [of d] assms(2) day_from_year_mono [of "y + 1" "year_from_day d"]
    by linarith
  show "y \<le> year_from_day d"
    using year_from_day_spec [of d] assms(1) day_from_year_mono [of "year_from_day d + 1" y]
    by linarith
qed

text \<open>Days of the year before a month (\<open>0\<close> is January), and the month of a day of the year.\<close>

definition days_before_month :: "bool \<Rightarrow> nat \<Rightarrow> int" where
  "days_before_month leap m =
     [0, 31, 59, 90, 120, 151, 181, 212, 243, 273, 304, 334, 365] ! m + (if leap \<and> 2 \<le> m then 1 else 0)"

definition month_from_day :: "bool \<Rightarrow> int \<Rightarrow> nat" where
  "month_from_day leap n = length (filter (\<lambda>m. days_before_month leap m \<le> n) [1..<12])"

definition days_in_month :: "bool \<Rightarrow> nat \<Rightarrow> int" where
  "days_in_month leap m = days_before_month leap (Suc m) - days_before_month leap m"

section \<open>Printing\<close>

definition digit_char :: "nat \<Rightarrow> char" where
  "digit_char d = char_of (48 + d)"

fun pad_digits :: "nat \<Rightarrow> nat \<Rightarrow> string" where
  "pad_digits 0 n = []"
| "pad_digits (Suc w) n = pad_digits w (n div 10) @ [digit_char (n mod 10)]"

definition year_text :: "int \<Rightarrow> string" where
  "year_text y =
     (if 0 \<le> y \<and> y \<le> 9999 then pad_digits 4 (nat y)
      else if y < 0 then ''-'' @ pad_digits 6 (nat (- y)) else ''+'' @ pad_digits 6 (nat y))"

text \<open>\<open>new Date(ms).toISOString()\<close>; \<open>None\<close> is the \<open>RangeError\<close> of an invalid time value.\<close>

definition to_iso_string :: "int \<Rightarrow> string option" where
  "to_iso_string ms =
     (if \<bar>ms\<bar> > MAX_TIME then None
      else
        let d = ms div ms_per_day; t = nat (ms mod ms_per_day);
            y = year_from_day d; n = d - day_from_year y; leap = in_leap_year y;
            m = month_from_day leap n; date = nat (n - days_before_month leap m + 1)
        in Some (year_text y @ ''-'' @ pad_digits 2 (Suc m) @ ''-'' @ pad_digits 2 date @ ''T''
             @ pad_digits 2 (t div 3600000) @ '':'' @ pad_digits 2 (t div 60000 mod 60) @ '':''
             @ pad_digits 2 (t div 1000 mod 60) @ ''.'' @ pad_digits 3 (t mod 1000) @ ''Z''))"

section \<open>Parsing\<close>

definition digit_value :: "char \<Rightarrow> nat option" where
  "digit_value c =
     (let n = (of_char c :: nat) in if 48 \<le> n \<and> n \<le> 57 then Some (n - 48) else None)"

text \<open>Read exactly \<open>w\<close> digits.\<close>

fun read_digits :: "nat \<Rightarrow> nat \<Rightarrow> string \<Rightarrow> (nat \<times> string) option" where
  "read_digits 0 acc s = Some (acc, s)"
| "read_digits (Suc w) acc [] = None"
| "read_digits (Suc w) acc (c # s) =
     (case digit_value c of None \<Rightarrow> None | Some d \<Rightarrow> read_digits w (10 * acc + d) s)"

lemma read_digits_code [code]:
  "read_digits w acc s =
     (if w = 0 then Some (acc, s)
      else case s of
        [] \<Rightarrow> None
      | c # r \<Rightarrow> (case digit_value c of None \<Rightarrow> None | Some d \<Rightarrow> read_digits (w - 1) (10 * acc + d) r))"
  by (cases w; cases s) (simp_all split: option.split)

definition read_char :: "char \<Rightarrow> string \<Rightarrow> string option" where
  "read_char c s = (case s of [] \<Rightarrow> None | x # xs \<Rightarrow> if x = c then Some xs else None)"

text \<open>A fraction of a second: at least one digit, the first three of which count.\<close>

fun read_fraction :: "nat \<Rightarrow> nat \<Rightarrow> string \<Rightarrow> nat \<times> string" where
  "read_fraction w acc [] = (acc * 10 ^ w, [])"
| "read_fraction w acc (c # s) =
     (case digit_value c of
        None \<Rightarrow> (acc * 10 ^ w, c # s)
      | Some d \<Rightarrow> (case w of 0 \<Rightarrow> read_fraction 0 acc s | Suc v \<Rightarrow> read_fraction v (10 * acc + d) s))"

definition read_millis :: "string \<Rightarrow> (nat \<times> string) option" where
  "read_millis s =
     (case s of
        [] \<Rightarrow> Some (0, s)
      | c # r \<Rightarrow>
          if c \<noteq> CHR ''.'' then Some (0, s)
          else case r of
            [] \<Rightarrow> None
          | e # _ \<Rightarrow> if digit_value e = None then None else Some (read_fraction 3 0 r))"

text \<open>The zone, in minutes east of UTC; nothing may follow it.\<close>

definition read_zone :: "string \<Rightarrow> int option" where
  "read_zone s =
     (if s = ''Z'' then Some 0
      else case s of
        [] \<Rightarrow> None
      | c # r \<Rightarrow>
          if c = CHR ''+'' \<or> c = CHR ''-'' then do {
            (h, r1) \<leftarrow> read_digits 2 0 r;
            r2 \<leftarrow> read_char CHR '':'' r1;
            (m, r3) \<leftarrow> read_digits 2 0 r2;
            if r3 = [] \<and> h \<le> 23 \<and> m \<le> 59
            then Some ((if c = CHR ''-'' then -1 else 1) * int (60 * h + m)) else None
          } else None)"

definition time_value :: "nat \<Rightarrow> nat \<Rightarrow> nat \<Rightarrow> nat \<Rightarrow> nat \<Rightarrow> nat \<Rightarrow> nat \<Rightarrow> int \<Rightarrow> int option" where
  "time_value y mo da h mi s ms off =
     (let leap = in_leap_year (int y);
          day = day_from_year (int y) + days_before_month leap (mo - 1) + int da - 1;
          t = day * ms_per_day + int (3600000 * h + 60000 * mi + 1000 * s + ms) - off * 60000
      in if 1 \<le> mo \<and> mo \<le> 12 \<and> 1 \<le> da \<and> int da \<le> days_in_month leap (mo - 1)
            \<and> (h \<le> 23 \<or> h = 24 \<and> mi = 0 \<and> s = 0 \<and> ms = 0) \<and> mi \<le> 59 \<and> s \<le> 59 \<and> \<bar>t\<bar> \<le> MAX_TIME
         then Some t else None)"

text \<open>\<open>Date.parse\<close>; \<open>None\<close> is \<open>NaN\<close>.\<close>

definition date_parse :: "string \<Rightarrow> int option" where
  "date_parse str = do {
     (y, s1) \<leftarrow> read_digits 4 0 str;
     s2 \<leftarrow> read_char CHR ''-'' s1;
     (mo, s3) \<leftarrow> read_digits 2 0 s2;
     s4 \<leftarrow> read_char CHR ''-'' s3;
     (da, s5) \<leftarrow> read_digits 2 0 s4;
     s6 \<leftarrow> read_char CHR ''T'' s5;
     (h, s7) \<leftarrow> read_digits 2 0 s6;
     s8 \<leftarrow> read_char CHR '':'' s7;
     (mi, s9) \<leftarrow> read_digits 2 0 s8;
     s10 \<leftarrow> read_char CHR '':'' s9;
     (s, s11) \<leftarrow> read_digits 2 0 s10;
     (ms, s12) \<leftarrow> read_millis s11;
     off \<leftarrow> read_zone s12;
     time_value y mo da h mi s ms off
   }"

section \<open>Printing and parsing agree\<close>

lemma month_from_day_bounds:
  assumes "0 \<le> n" "n < (if leap then 366 else 365)"
  shows "month_from_day leap n < 12
    \<and> days_before_month leap (month_from_day leap n) \<le> n
    \<and> n < days_before_month leap (Suc (month_from_day leap n))"
proof -
  have up: "[1..<12] = [1, 2, 3, 4, 5, 6, 7, 8, 9, 10, 11 :: nat]"
    by (simp add: upt_rec)
  show ?thesis
    using assms unfolding month_from_day_def up
    by (cases leap) (auto simp: days_before_month_def nth_Cons')
qed

lemma digit_value_digit_char: "d < 10 \<Longrightarrow> digit_value (digit_char d) = Some d"
  by (simp add: digit_value_def digit_char_def)

lemma read_digits_append:
  "read_digits (v + w) acc s =
     Option.bind (read_digits v acc s) (\<lambda>(a, r). read_digits w a r)"
  by (induction v acc s rule: read_digits.induct) (auto split: option.splits)

lemma read_digits_pad:
  "n < 10 ^ w \<Longrightarrow> read_digits w acc (pad_digits w n @ s) = Some (acc * 10 ^ w + n, s)"
proof (induction w arbitrary: n acc s)
  case (Suc w)
  then have "n div 10 < 10 ^ w"
    by (simp add: less_mult_imp_div_less)
  then have "read_digits w acc (pad_digits w (n div 10) @ digit_char (n mod 10) # s)
      = Some (acc * 10 ^ w + n div 10, digit_char (n mod 10) # s)"
    by (rule Suc.IH)
  then show ?case
    using read_digits_append [of w 1 acc "pad_digits (Suc w) n @ s"]
    by (simp add: digit_value_digit_char algebra_simps)
qed simp

lemma read_fraction_pad:
  assumes "n < 1000"
  shows "read_millis (CHR ''.'' # pad_digits 3 n @ ''Z'') = Some (n, ''Z'')"
proof -
  define a b c where "a = n div 100" and "b = n div 10 mod 10" and "c = n mod 10"
  have lt: "a < 10" "b < 10" "c < 10"
    using assms by (auto simp: a_def b_def c_def)
  have n: "n = 100 * a + 10 * b + c"
  proof -
    have "n div 100 = n div 10 div 10" by (simp add: div_mult2_eq [symmetric])
    then show ?thesis
      using mult_div_mod_eq [of 10 n] mult_div_mod_eq [of 10 "n div 10"]
      unfolding a_def b_def c_def by linarith
  qed
  have pad: "pad_digits 3 n = [digit_char a, digit_char b, digit_char c]"
    using assms by (simp add: a_def b_def c_def numeral_3_eq_3 div_mult2_eq [symmetric])
  have "digit_value CHR ''Z'' = None" by (simp add: digit_value_def)
  with lt show ?thesis
    by (simp add: read_millis_def pad digit_value_digit_char numeral_3_eq_3 n)
qed

lemma read_char_self [simp]: "read_char c (c # s) = Some s"
  by (simp add: read_char_def)

text \<open>\<open>Date.parse\<close> reads back what \<open>toISOString\<close> printed, for the years of four digits.\<close>

lemma date_parse_to_iso_string:
  assumes iso: "to_iso_string ms = Some str"
    and year: "0 \<le> year_from_day (ms div ms_per_day)" "year_from_day (ms div ms_per_day) \<le> 9999"
  shows "date_parse str = Some ms"
proof -
  define d where "d = ms div ms_per_day"
  define t where "t = nat (ms mod ms_per_day)"
  define y where "y = nat (year_from_day d)"
  define leap where "leap = in_leap_year (int y)"
  define n where "n = d - day_from_year (int y)"
  define m where "m = month_from_day leap n"
  define da where "da = nat (n - days_before_month leap m + 1)"
  define h where "h = t div 3600000"
  define mi where "mi = t div 60000 mod 60"
  define s where "s = t div 1000 mod 60"
  define f where "f = t mod 1000"
  have y_eq: "int y = year_from_day d" using year by (simp add: y_def d_def)
  have "0 \<le> n" "n < (if leap then 366 else 365)"
    using year_from_day_spec [of d] day_from_year_step [of "int y"]
    unfolding n_def leap_def y_eq by linarith+
  note mon = month_from_day_bounds [OF this, folded m_def]
  have t: "t < 86400000" "int t = ms mod ms_per_day"
    by (simp_all add: t_def ms_per_day_def nat_less_iff)
  then have small: "h < 24" "mi < 60" "s < 60" "f < 1000"
    by (auto simp: h_def mi_def s_def f_def less_mult_imp_div_less)
  have "days_in_month leap m \<le> 31"
    using mon by (cases leap) (auto simp: days_in_month_def days_before_month_def less_Suc_eq numeral_eq_Suc)
  then have da: "1 \<le> da" "int da \<le> days_in_month leap m" "da < 100" "int da = n - days_before_month leap m + 1"
    using mon by (auto simp: da_def days_in_month_def)
  have str: "str = pad_digits 4 y @ ''-'' @ pad_digits 2 (Suc m) @ ''-'' @ pad_digits 2 da @ ''T''
      @ pad_digits 2 h @ '':'' @ pad_digits 2 mi @ '':'' @ pad_digits 2 s @ ''.'' @ pad_digits 3 f @ ''Z''"
    and range: "\<bar>ms\<bar> \<le> MAX_TIME"
    using iso year y_eq
    by (auto simp: to_iso_string_def Let_def year_text_def d_def t_def y_def leap_def n_def m_def da_def
        h_def mi_def s_def f_def split: if_splits)
  have time: "3600000 * h + 60000 * mi + 1000 * s + f = t"
  proof -
    have "t div 60000 = t div 1000 div 60" "t div 3600000 = t div 60000 div 60"
      by (simp_all add: div_mult2_eq [symmetric])
    then show ?thesis
      using mult_div_mod_eq [of 1000 t] mult_div_mod_eq [of 60 "t div 1000"] mult_div_mod_eq [of 60 "t div 60000"]
      unfolding h_def mi_def s_def f_def by linarith
  qed
  have "time_value y (Suc m) da h mi s f 0 = Some ms"
  proof -
    have "day_from_year (int y) + days_before_month leap m + int da - 1 = d"
      using da(4) by (simp add: n_def)
    moreover have "d * ms_per_day + int t = ms"
      unfolding d_def t(2) by simp
    ultimately show ?thesis
      using mon da small range
      by (simp add: time_value_def Let_def leap_def [symmetric] time)
  qed
  moreover have "y < 10000" "Suc m < 100" using year y_eq mon by (auto simp: d_def)
  ultimately show ?thesis
    using da small read_fraction_pad [of f]
    by (simp add: date_parse_def str read_digits_pad read_zone_def)
qed

end
