(* ===== verification/Projection_Types.thy ===== *)
theory Projection_Types
  imports Js_Date "HOL-Library.Product_Lexorder"
begin

text \<open>
  The data of the tenant projection: the event envelopes of the contracts package with one payload
  per event type, the prepared events handed to the projector, and the rows of the projection's
  SQLite tables. Each table column is a record field with a prefix for its table; the columns
  every owned row has (\<open>identity_id\<close>, \<open>account_id\<close>, \<open>connection_id\<close>, \<open>platform\<close>,
  \<open>conversation_id\<close>) are shared through the base records. Nullable columns are options, the 0/1
  integers of SQLite are integers.
\<close>

section \<open>Enumerations of the contracts\<close>

datatype provider = Whatsapp | Telegram | Messenger | Linkedin

datatype canonical_event_source = Live | Backfill | Command_result | Replay | Correction | Deletion

datatype canonical_event_type =
    Message_created | Message_edited | Message_deleted | Reaction_added | Reaction_removed
  | Receipt_read | Receipt_delivered | Typing_started | Typing_stopped | Attachment_observed
  | Conversation_updated | Participant_updated | Command_updated | Bridge_delivery_updated
  | Replay_tombstone | Correction_applied | Deletion_tombstone

datatype message_direction = Inbound | Outbound

datatype delivery_status = Unknown | DAccepted | Sent | DDelivered | Read | DFailed

datatype delivery_mode = Direct | Paced

datatype command_status =
    Accepted | Waiting_for_connection | Confirmation_required | Delivery_uncertain | Scheduled
  | Reading | Typing | Submitted_to_matrix | Matrix_confirmed | Bridged | Delivered | Cancelled
  | Unsupported | Failed

text \<open>\<open>CanonicalResourceType\<close>, and the four types a \<open>deletion.tombstone\<close> may name.\<close>

datatype canonical_resource_type =
    RConversation | RParticipant | RMessage | RReaction | RAttachment | RCommand

datatype deletable_resource_type = DMessage | DConversation | DParticipant | DAttachment

fun canonical_type :: "deletable_resource_type \<Rightarrow> canonical_resource_type" where
  "canonical_type DMessage = RMessage"
| "canonical_type DConversation = RConversation"
| "canonical_type DParticipant = RParticipant"
| "canonical_type DAttachment = RAttachment"

section \<open>Payloads\<close>

record message_created_payload =
  mc_message_id :: string
  mc_direction :: message_direction
  mc_sender_participant_id :: "string option"
  mc_sender_label :: string
  mc_body :: string
  mc_reply_to_message_id :: "string option"
  mc_delivery_status :: delivery_status
  mc_unread :: bool

record message_edited_payload =
  me_message_id :: string
  me_body :: string
  me_editor_participant_id :: "string option"

record message_deleted_payload =
  md_message_id :: string
  md_reason_code :: "string option"

record reaction_added_payload =
  ra_reaction_id :: string
  ra_message_id :: string
  ra_participant_id :: string
  ra_emoji :: string

record reaction_removed_payload =
  rr_reaction_id :: string
  rr_message_id :: string

record receipt_payload =
  rp_message_id :: string
  rp_participant_id :: string
  rp_local_identity :: bool

record typing_started_payload =
  ts_participant_id :: string
  ts_expires_at :: string

record typing_stopped_payload =
  tp_participant_id :: string

record attachment_observed_payload =
  ao_attachment_id :: string
  ao_message_id :: string
  ao_file_name :: "string option"
  ao_mime_type :: "string option"
  ao_size_bytes :: "int option"
  ao_sha256 :: "string option"
  ao_r2_key :: "string option"
  ao_expires_at :: "string option"

record conversation_updated_payload =
  cu_title :: string
  cu_archived :: bool
  cu_muted :: bool

record participant_updated_payload =
  pu_participant_id :: string
  pu_display_name :: string
  pu_remote_id :: "string option"
  pu_avatar_url :: "string option"

record command_updated_payload =
  ku_command_id :: string
  ku_operation :: string
  ku_delivery_mode :: delivery_mode
  ku_status :: command_status
  ku_failure_code :: "string option"

record bridge_delivery_updated_payload =
  bd_message_id :: string
  bd_delivery_status :: delivery_status
  bd_failure_code :: "string option"

record event_marker_payload =
  em_target_event_id :: string
  em_reason_code :: string

record deletion_tombstone_payload =
  dt_resource_type :: deletable_resource_type
  dt_resource_id :: string
  dt_reason_code :: string

text \<open>The discriminated union of payloads; the constructor is the event type.\<close>

datatype projection_payload =
    MessageCreated message_created_payload
  | MessageEdited message_edited_payload
  | MessageDeleted message_deleted_payload
  | ReactionAdded reaction_added_payload
  | ReactionRemoved reaction_removed_payload
  | ReceiptRead receipt_payload
  | ReceiptDelivered receipt_payload
  | TypingStarted typing_started_payload
  | TypingStopped typing_stopped_payload
  | AttachmentObserved attachment_observed_payload
  | ConversationUpdated conversation_updated_payload
  | ParticipantUpdated participant_updated_payload
  | CommandUpdated command_updated_payload
  | BridgeDeliveryUpdated bridge_delivery_updated_payload
  | ReplayTombstone event_marker_payload
  | CorrectionApplied event_marker_payload
  | DeletionTombstone deletion_tombstone_payload

fun payload_event_type :: "projection_payload \<Rightarrow> canonical_event_type" where
  "payload_event_type (MessageCreated _) = Message_created"
| "payload_event_type (MessageEdited _) = Message_edited"
| "payload_event_type (MessageDeleted _) = Message_deleted"
| "payload_event_type (ReactionAdded _) = Reaction_added"
| "payload_event_type (ReactionRemoved _) = Reaction_removed"
| "payload_event_type (ReceiptRead _) = Receipt_read"
| "payload_event_type (ReceiptDelivered _) = Receipt_delivered"
| "payload_event_type (TypingStarted _) = Typing_started"
| "payload_event_type (TypingStopped _) = Typing_stopped"
| "payload_event_type (AttachmentObserved _) = Attachment_observed"
| "payload_event_type (ConversationUpdated _) = Conversation_updated"
| "payload_event_type (ParticipantUpdated _) = Participant_updated"
| "payload_event_type (CommandUpdated _) = Command_updated"
| "payload_event_type (BridgeDeliveryUpdated _) = Bridge_delivery_updated"
| "payload_event_type (ReplayTombstone _) = Replay_tombstone"
| "payload_event_type (CorrectionApplied _) = Correction_applied"
| "payload_event_type (DeletionTombstone _) = Deletion_tombstone"

section \<open>Events\<close>

record projection_event =
  ev_event_id :: string
  ev_event_source :: canonical_event_source
  ev_tenant_id :: string
  ev_identity_id :: string
  ev_platform :: provider
  ev_account_id :: string
  ev_conversation_id :: string
  ev_matrix_room_id :: "string option"
  ev_matrix_event_id :: "string option"
  ev_remote_message_id :: "string option"
  ev_occurred_at :: string
  ev_observed_at :: string
  ev_payload :: projection_payload

abbreviation ev_event_type :: "projection_event \<Rightarrow> canonical_event_type" where
  "ev_event_type e \<equiv> payload_event_type (ev_payload e)"

record connection_binding =
  b_account_id :: string
  b_connection_id :: string
  b_identity_id :: string
  b_platform :: provider

record prepared_event =
  pe_event :: projection_event
  pe_connection :: connection_binding
  pe_eventHash :: string
  pe_canonicalLineBytes :: nat
  pe_observedMs :: int
  pe_occurredMs :: int

record prepared_checkpoint =
  pc_kind :: string
  pc_value :: string
  pc_lastObservedAt :: string
  pc_lastObservedMs :: int
  pc_lastEventId :: string

record prepared_batch =
  pb_tenantId :: string
  pb_inputEventCount :: nat
  pb_events :: "prepared_event list"
  pb_connections :: "connection_binding list"
  pb_checkpointMutation :: "prepared_checkpoint option"

record projection_owner =
  identityId :: string
  accountId :: string
  connectionId :: string
  conversationId :: string
  o_platform :: provider

section \<open>Rows\<close>

record account_row =
  identity_id :: string
  account_id :: string
  connection_id :: string
  platform :: provider

record owned_row = account_row +
  conversation_id :: string

record conversation_row = account_row +
  c_id :: string
  c_title :: string
  c_archived :: int
  c_muted :: int
  c_last_message_preview :: string
  c_shell_activity_at :: string
  c_shell_activity_ms :: int
  c_shell_activity_event_id :: string
  c_last_activity_at :: string
  c_last_activity_ms :: int
  c_unread_count :: int
  c_message_count :: int
  c_attachment_count :: int
  c_metadata_observed_ms :: int
  c_metadata_event_id :: string
  c_deleted_at :: "string option"
  c_last_event_id :: string
  c_updated_at :: string

record participant_row = owned_row +
  p_id :: string
  p_display_name :: string
  p_remote_id :: "string option"
  p_avatar_url :: "string option"
  p_last_observed_ms :: int
  p_last_event_id :: string
  p_deleted_at :: "string option"

record message_row = owned_row +
  m_id :: string
  m_direction :: message_direction
  m_sender_participant_id :: "string option"
  m_sender_label :: string
  m_body :: string
  m_reply_to_message_id :: "string option"
  m_delivery_status :: delivery_status
  m_unread :: int
  m_local_read_at :: "string option"
  m_occurred_at :: string
  m_occurred_ms :: int
  m_observed_at :: string
  m_current_observed_ms :: int
  m_current_event_id :: string
  m_matrix_room_id :: "string option"
  m_matrix_event_id :: "string option"
  m_remote_message_id :: "string option"
  m_edited_at :: "string option"
  m_deleted_at :: "string option"
  m_deletion_reason :: "string option"
  m_attachment_count :: int
  m_delivery_failure_code :: "string option"
  m_delivery_observed_ms :: "int option"
  m_delivery_event_id :: "string option"

datatype version_kind = VCreated | VEdited

record message_version_row = owned_row +
  v_event_id :: string
  v_message_id :: string
  v_version_kind :: version_kind
  v_body :: string
  v_editor_participant_id :: "string option"
  v_occurred_at :: string
  v_observed_at :: string
  v_observed_ms :: int

record reaction_row = owned_row +
  r_id :: string
  r_message_id :: string
  r_participant_id :: "string option"
  r_emoji :: "string option"
  r_occurred_at :: string
  r_last_observed_ms :: int
  r_last_event_id :: string
  r_removed_at :: "string option"

datatype receipt_type = RcRead | RcDelivered

record receipt_row = owned_row +
  rc_message_id :: string
  rc_participant_id :: string
  rc_receipt_type :: receipt_type
  rc_local_identity :: int
  rc_occurred_at :: string
  rc_last_observed_ms :: int
  rc_last_event_id :: string

record typing_row = owned_row +
  t_participant_id :: string
  t_is_typing :: int
  t_expires_at :: "string option"
  t_last_observed_ms :: int
  t_last_event_id :: string

record attachment_row = owned_row +
  a_id :: string
  a_message_id :: string
  a_file_name :: "string option"
  a_mime_type :: "string option"
  a_size_bytes :: "int option"
  a_sha256 :: "string option"
  a_r2_key :: "string option"
  a_observed_at :: string
  a_last_observed_ms :: int
  a_last_event_id :: string
  a_expires_at :: "string option"
  a_deleted_at :: "string option"

record command_row = owned_row +
  k_id :: string
  k_operation :: string
  k_delivery_mode :: delivery_mode
  k_status :: command_status
  k_failure_code :: "string option"
  k_created_at :: string
  k_updated_at :: string
  k_last_observed_ms :: int
  k_last_event_id :: string

record delivery_row = owned_row +
  d_message_id :: string
  d_delivery_status :: delivery_status
  d_failure_code :: "string option"
  d_occurred_at :: string
  d_last_observed_ms :: int
  d_last_event_id :: string

record event_tombstone_row = owned_row +
  et_target_event_id :: string
  et_tombstone_event_id :: string
  et_tombstone_type :: canonical_event_type
  et_reason_code :: string
  et_occurred_at :: string
  et_observed_ms :: int

record resource_tombstone_row = owned_row +
  rt_resource_type :: canonical_resource_type
  rt_resource_id :: string
  rt_tombstone_event_id :: string
  rt_reason_code :: "string option"
  rt_occurred_at :: string
  rt_observed_ms :: int

record applied_event_row =
  ae_event_id :: string
  ae_event_hash :: string
  ae_event_type :: canonical_event_type
  ae_event_source :: canonical_event_source
  ae_identity_id :: string
  ae_account_id :: string
  ae_connection_id :: string
  ae_conversation_id :: string
  ae_occurred_at :: string
  ae_observed_at :: string
  ae_observed_ms :: int
  ae_generation :: int

text \<open>
  The tables the projector reads and writes. \<open>applied_events\<close> and \<open>connection_bindings\<close> are read
  by the event markers and written by the transaction around the projector.
\<close>

record projection_db =
  conversations :: "conversation_row list"
  participants :: "participant_row list"
  messages :: "message_row list"
  message_versions :: "message_version_row list"
  reactions :: "reaction_row list"
  receipts :: "receipt_row list"
  typing_states :: "typing_row list"
  attachments :: "attachment_row list"
  commands :: "command_row list"
  message_delivery_updates :: "delivery_row list"
  event_tombstones :: "event_tombstone_row list"
  resource_tombstones :: "resource_tombstone_row list"
  applied_events :: "applied_event_row list"
  connection_bindings :: "connection_binding list"

definition empty_db :: projection_db where
  "empty_db = \<lparr>conversations = [], participants = [], messages = [], message_versions = [],
     reactions = [], receipts = [], typing_states = [], attachments = [], commands = [],
     message_delivery_updates = [], event_tombstones = [], resource_tombstones = [],
     applied_events = [], connection_bindings = []\<rparr>"

end
