(* ===== verification/Projector_Common.thy ===== *)
theory Projector_Common
  imports Projection_Types
begin

text \<open>
  \<open>projection/projector-common.ts\<close> and \<open>compareOpaqueEventIds\<close> of the contracts package: the
  last-writer-wins order on observed tuples, the ownership assertions every projector runs before
  it writes, the row readers, and the conversation shell each event ensures.
\<close>

section \<open>The last-writer-wins order\<close>

text \<open>\<open>OpaqueEventIdSchema.parse\<close>: \<open>z.string().trim().min(1).max(1024)\<close>.\<close>

definition OpaqueEventIdSchema_parse :: "string \<Rightarrow> string result" where
  "OpaqueEventIdSchema_parse s =
     (let t = js_trim s in if 1 \<le> js_length t \<and> js_length t \<le> 1024 then Inr t else Inl ZodError)"

text \<open>The byte loop of \<open>compareOpaqueEventIds\<close>.\<close>

fun compare_bytes :: "string \<Rightarrow> string \<Rightarrow> int" where
  "compare_bytes [] [] = 0"
| "compare_bytes [] (_ # _) = -1"
| "compare_bytes (_ # _) [] = 1"
| "compare_bytes (a # as) (b # bs) = (if a < b then -1 else if b < a then 1 else compare_bytes as bs)"

definition compareOpaqueEventIds :: "string \<Rightarrow> string \<Rightarrow> int result" where
  "compareOpaqueEventIds a b =
     andThen (OpaqueEventIdSchema_parse a) (\<lambda>left.
     andThen (OpaqueEventIdSchema_parse b) (\<lambda>right.
     Inr (compare_bytes left right)))"

definition compareObservedTuple :: "int \<Rightarrow> string \<Rightarrow> int \<Rightarrow> string \<Rightarrow> int result" where
  "compareObservedTuple leftMs leftEventId rightMs rightEventId =
     (if leftMs < rightMs then Inr (-1)
      else if leftMs > rightMs then Inr 1
      else compareOpaqueEventIds leftEventId rightEventId)"

definition compareOccurredTuple :: "int \<Rightarrow> string \<Rightarrow> int \<Rightarrow> string \<Rightarrow> int result" where
  "compareOccurredTuple leftMs leftEventId rightMs rightEventId =
     compareObservedTuple leftMs leftEventId rightMs rightEventId"

text \<open>\<open>new Date(observedMs).toISOString()\<close>.\<close>

definition canonicalObservedAt :: "int \<Rightarrow> string result" where
  "canonicalObservedAt observedMs =
     (case to_iso_string observedMs of None \<Rightarrow> Inl RangeError | Some s \<Rightarrow> Inr s)"

section \<open>Ownership\<close>

definition METADATA_SENTINEL_OBSERVED_MS :: int where
  "METADATA_SENTINEL_OBSERVED_MS = -9007199254740991"

definition METADATA_SENTINEL_EVENT_ID :: string where
  "METADATA_SENTINEL_EVENT_ID = char_of (1 :: nat) # ''projection_metadata_sentinel''"

definition isMetadataSentinel :: "conversation_row \<Rightarrow> bool" where
  "isMetadataSentinel c =
     (c_metadata_observed_ms c = METADATA_SENTINEL_OBSERVED_MS
      \<and> c_metadata_event_id c = METADATA_SENTINEL_EVENT_ID)"

definition ownerFor :: "prepared_event \<Rightarrow> projection_owner" where
  "ownerFor p = \<lparr>identityId = ev_identity_id (pe_event p), accountId = ev_account_id (pe_event p),
     connectionId = b_connection_id (pe_connection p),
     conversationId = ev_conversation_id (pe_event p), o_platform = ev_platform (pe_event p)\<rparr>"

definition ownerMatches :: "'a owned_row_scheme \<Rightarrow> projection_owner \<Rightarrow> bool" where
  "ownerMatches row owner =
     (identity_id row = identityId owner \<and> account_id row = accountId owner
      \<and> connection_id row = connectionId owner \<and> conversation_id row = conversationId owner
      \<and> platform row = o_platform owner)"

text \<open>The owner columns of a row; a conversation's own id is its \<open>conversation_id\<close>.\<close>

definition owned_of :: "'a owned_row_scheme \<Rightarrow> owned_row" where
  "owned_of r = \<lparr>identity_id = identity_id r, account_id = account_id r,
     connection_id = connection_id r, platform = platform r, conversation_id = conversation_id r\<rparr>"

definition conversation_owned :: "conversation_row \<Rightarrow> owned_row" where
  "conversation_owned c = \<lparr>identity_id = identity_id c, account_id = account_id c,
     connection_id = connection_id c, platform = platform c, conversation_id = c_id c\<rparr>"

definition assertOwner :: "'a owned_row_scheme option \<Rightarrow> projection_owner \<Rightarrow> unit result" where
  "assertOwner row owner =
     (case row of
        None \<Rightarrow> Inr ()
      | Some r \<Rightarrow> throwIf (\<not> ownerMatches r owner) (ProjectionError projection_conflict))"

text \<open>
  \<open>SELECT 1 \<dots> WHERE column = ? AND (identity_id <> ? OR \<dots>) LIMIT 1\<close> on the rows the column
  comparison selects.
\<close>

definition assertNoOwnerMismatch :: "owned_row list \<Rightarrow> projection_owner \<Rightarrow> unit result" where
  "assertNoOwnerMismatch rows owner =
     throwIf (exists_where (\<lambda>r. \<not> ownerMatches r owner) rows) (ProjectionError projection_conflict)"

section \<open>Readers\<close>

definition readConversation :: "projection_db \<Rightarrow> string \<Rightarrow> conversation_row option" where
  "readConversation db cid = find (\<lambda>c. c_id c = cid) (conversations db)"

definition readParticipant :: "projection_db \<Rightarrow> string \<Rightarrow> participant_row option" where
  "readParticipant db pid = find (\<lambda>p. p_id p = pid) (participants db)"

definition readMessage :: "projection_db \<Rightarrow> string \<Rightarrow> message_row option" where
  "readMessage db mid = find (\<lambda>m. m_id m = mid) (messages db)"

text \<open>\<open>ORDER BY observed_ms DESC, event_id COLLATE BINARY DESC LIMIT 1\<close>.\<close>

definition version_beats :: "message_version_row \<Rightarrow> message_version_row \<Rightarrow> bool" where
  "version_beats a b = ((v_observed_ms b, v_event_id b) < (v_observed_ms a, v_event_id a))"

definition readLatestMessageVersion :: "projection_db \<Rightarrow> string \<Rightarrow> message_version_row option" where
  "readLatestMessageVersion db mid =
     best_row version_beats (filter (\<lambda>v. v_message_id v = mid) (message_versions db))"

definition readResourceTombstone ::
  "projection_db \<Rightarrow> canonical_resource_type \<Rightarrow> string \<Rightarrow> resource_tombstone_row option" where
  "readResourceTombstone db ty rid =
     find (\<lambda>t. rt_resource_type t = ty \<and> rt_resource_id t = rid) (resource_tombstones db)"

definition readMessageTombstone :: "projection_db \<Rightarrow> string \<Rightarrow> resource_tombstone_row option" where
  "readMessageTombstone db mid = readResourceTombstone db RMessage mid"

definition readConversationTombstone :: "projection_db \<Rightarrow> string \<Rightarrow> resource_tombstone_row option" where
  "readConversationTombstone db cid = readResourceTombstone db RConversation cid"

definition readParticipantTombstone :: "projection_db \<Rightarrow> string \<Rightarrow> resource_tombstone_row option" where
  "readParticipantTombstone db pid = readResourceTombstone db RParticipant pid"

definition readAttachmentTombstone :: "projection_db \<Rightarrow> string \<Rightarrow> resource_tombstone_row option" where
  "readAttachmentTombstone db aid = readResourceTombstone db RAttachment aid"

section \<open>Ownership of a tenant-global resource id\<close>

text \<open>The first loop of \<open>assertCanonicalResourceIdOwner\<close>: one primary-key lookup per family.\<close>

definition canonical_rows :: "projection_db \<Rightarrow> string \<Rightarrow> (canonical_resource_type \<times> owned_row option) list" where
  "canonical_rows db rid =
     [(RConversation, map_option conversation_owned (find (\<lambda>c. c_id c = rid) (conversations db))),
      (RParticipant, map_option owned_of (find (\<lambda>p. p_id p = rid) (participants db))),
      (RMessage, map_option owned_of (find (\<lambda>m. m_id m = rid) (messages db))),
      (RReaction, map_option owned_of (find (\<lambda>r. r_id r = rid) (reactions db))),
      (RAttachment, map_option owned_of (find (\<lambda>a. a_id a = rid) (attachments db))),
      (RCommand, map_option owned_of (find (\<lambda>k. k_id k = rid) (commands db)))]"

text \<open>The second loop: the child rows that claim the id before its primary row arrives.\<close>

definition unresolved_claims :: "projection_db \<Rightarrow> string \<Rightarrow> (canonical_resource_type \<times> owned_row list) list" where
  "unresolved_claims db rid =
     [(RMessage, map owned_of (filter (\<lambda>v. v_message_id v = rid) (message_versions db))),
      (RMessage, map owned_of (filter (\<lambda>m. m_reply_to_message_id m = Some rid) (messages db))),
      (RParticipant, map owned_of (filter (\<lambda>m. m_sender_participant_id m = Some rid) (messages db))),
      (RParticipant, map owned_of (filter (\<lambda>v. v_editor_participant_id v = Some rid) (message_versions db))),
      (RMessage, map owned_of (filter (\<lambda>r. r_message_id r = rid) (reactions db))),
      (RParticipant, map owned_of (filter (\<lambda>r. r_participant_id r = Some rid) (reactions db))),
      (RMessage, map owned_of (filter (\<lambda>r. rc_message_id r = rid) (receipts db))),
      (RParticipant, map owned_of (filter (\<lambda>r. rc_participant_id r = rid) (receipts db))),
      (RParticipant, map owned_of (filter (\<lambda>t. t_participant_id t = rid) (typing_states db))),
      (RMessage, map owned_of (filter (\<lambda>a. a_message_id a = rid) (attachments db))),
      (RMessage, map owned_of (filter (\<lambda>d. d_message_id d = rid) (message_delivery_updates db)))]"

definition assertCanonicalResourceIdOwner ::
  "projection_db \<Rightarrow> canonical_resource_type \<Rightarrow> string \<Rightarrow> projection_owner \<Rightarrow> unit result" where
  "assertCanonicalResourceIdOwner db resourceType rid owner =
     andThen (forEach (canonical_rows db rid) () (\<lambda>(tableType, row) _.
       case row of
         None \<Rightarrow> Inr ()
       | Some r \<Rightarrow> throwIf (tableType \<noteq> resourceType \<or> \<not> ownerMatches r owner)
                     (ProjectionError projection_conflict))) (\<lambda>_.
     andThen (forEach (unresolved_claims db rid) () (\<lambda>(claimType, rows) _.
       if claimType \<noteq> resourceType
       then throwIf (rows \<noteq> []) (ProjectionError projection_conflict)
       else assertNoOwnerMismatch rows owner)) (\<lambda>_.
     forEach (filter (\<lambda>t. rt_resource_id t = rid) (resource_tombstones db)) () (\<lambda>tombstone _.
       throwIf (rt_resource_type tombstone \<noteq> resourceType \<or> \<not> ownerMatches tombstone owner)
         (ProjectionError projection_conflict))))"

section \<open>The conversation shell\<close>

definition new_conversation :: "prepared_event \<Rightarrow> conversation_row" where
  "new_conversation p =
     (let e = pe_event p; owner = ownerFor p;
          (title, archived, muted) =
            (case ev_payload e of
               ConversationUpdated u \<Rightarrow>
                 (cu_title u, if cu_archived u then 1 else 0, if cu_muted u then 1 else 0)
             | _ \<Rightarrow> (ev_conversation_id e, 0, 0));
          metadataObservedMs =
            (if ev_event_type e = Conversation_updated then pe_observedMs p
             else METADATA_SENTINEL_OBSERVED_MS);
          metadataEventId =
            (if ev_event_type e = Conversation_updated then ev_event_id e
             else METADATA_SENTINEL_EVENT_ID)
      in \<lparr>identity_id = identityId owner, account_id = accountId owner,
          connection_id = connectionId owner, platform = o_platform owner,
          c_id = ev_conversation_id e, c_title = title, c_archived = archived, c_muted = muted,
          c_last_message_preview = '''', c_shell_activity_at = ev_occurred_at e,
          c_shell_activity_ms = pe_occurredMs p, c_shell_activity_event_id = ev_event_id e,
          c_last_activity_at = ev_occurred_at e, c_last_activity_ms = pe_occurredMs p,
          c_unread_count = 0, c_message_count = 0, c_attachment_count = 0,
          c_metadata_observed_ms = metadataObservedMs, c_metadata_event_id = metadataEventId,
          c_deleted_at = None, c_last_event_id = ev_event_id e, c_updated_at = ev_occurred_at e\<rparr>)"

text \<open>
  \<open>ensureConversationShell\<close> returns the new database with the row it read back.
\<close>

definition ensureConversationShell ::
  "projection_db \<Rightarrow> prepared_event \<Rightarrow> (projection_db \<times> conversation_row) result" where
  "ensureConversationShell db p =
     (let e = pe_event p; cid = ev_conversation_id e; owner = ownerFor p in
      andThen (assertCanonicalResourceIdOwner db RConversation cid owner) (\<lambda>_.
      let existing = readConversation db cid in
      andThen (assertOwner (readConversationTombstone db cid) owner) (\<lambda>_.
      case existing of
        None \<Rightarrow>
          andThen (ins_row c_id (new_conversation p) (conversations db)) (\<lambda>cs.
          let db' = db\<lparr>conversations := cs\<rparr> in
          case readConversation db' cid of
            None \<Rightarrow> projectionError projection_unavailable
          | Some inserted \<Rightarrow> Inr (db', inserted))
      | Some c \<Rightarrow>
          andThen (assertOwner (Some (conversation_owned c)) owner) (\<lambda>_.
          andThen (compareOccurredTuple (pe_occurredMs p) (ev_event_id e)
                     (c_shell_activity_ms c) (c_shell_activity_event_id c)) (\<lambda>cmp.
          let db' =
            (if cmp > 0 then
               db\<lparr>conversations := upd_where (\<lambda>r. c_id r = cid)
                    (\<lambda>r. r\<lparr>c_shell_activity_at := ev_occurred_at e,
                           c_shell_activity_ms := pe_occurredMs p,
                           c_shell_activity_event_id := ev_event_id e,
                           c_last_event_id := ev_event_id e,
                           c_updated_at := ev_occurred_at e\<rparr>) (conversations db)\<rparr>
             else db)
          in case readConversation db' cid of
            None \<Rightarrow> projectionError projection_unavailable
          | Some updated \<Rightarrow> Inr (db', updated))))))"

section \<open>Ownership of messages and participants\<close>

definition assertMessageOwner ::
  "projection_db \<Rightarrow> string \<Rightarrow> projection_owner \<Rightarrow> message_row option result" where
  "assertMessageOwner db mid owner =
     andThen (assertCanonicalResourceIdOwner db RMessage mid owner) (\<lambda>_.
     andThen (assertNoOwnerMismatch (map owned_of (filter (\<lambda>m. m_id m = mid) (messages db))) owner) (\<lambda>_.
     andThen (assertNoOwnerMismatch
                (map owned_of (filter (\<lambda>v. v_message_id v = mid) (message_versions db))) owner) (\<lambda>_.
     andThen (assertNoOwnerMismatch
                (map owned_of (filter (\<lambda>t. rt_resource_type t = RMessage \<and> rt_resource_id t = mid)
                   (resource_tombstones db))) owner) (\<lambda>_.
     Inr (readMessage db mid)))))"

definition assertParticipantReferenceOwners ::
  "projection_db \<Rightarrow> string \<Rightarrow> projection_owner \<Rightarrow> unit result" where
  "assertParticipantReferenceOwners db pid owner =
     forEach
       [map owned_of (filter (\<lambda>m. m_sender_participant_id m = Some pid) (messages db)),
        map owned_of (filter (\<lambda>v. v_editor_participant_id v = Some pid) (message_versions db)),
        map owned_of (filter (\<lambda>r. r_participant_id r = Some pid) (reactions db)),
        map owned_of (filter (\<lambda>r. rc_participant_id r = pid) (receipts db)),
        map owned_of (filter (\<lambda>t. t_participant_id t = pid) (typing_states db)),
        map owned_of (filter (\<lambda>t. rt_resource_type t = RParticipant \<and> rt_resource_id t = pid)
          (resource_tombstones db))]
       () (\<lambda>rows _. assertNoOwnerMismatch rows owner)"

definition assertReferencedParticipantOwner ::
  "projection_db \<Rightarrow> string option \<Rightarrow> projection_owner \<Rightarrow> unit result" where
  "assertReferencedParticipantOwner db participantId owner =
     (case participantId of
        None \<Rightarrow> Inr ()
      | Some pid \<Rightarrow>
          andThen (assertCanonicalResourceIdOwner db RParticipant pid owner) (\<lambda>_.
          andThen (assertParticipantReferenceOwners db pid owner) (\<lambda>_.
          assertOwner (readParticipant db pid) owner)))"

definition assertReplyReferenceOwners ::
  "projection_db \<Rightarrow> string \<Rightarrow> projection_owner \<Rightarrow> unit result" where
  "assertReplyReferenceOwners db mid owner =
     assertNoOwnerMismatch
       (map owned_of (filter (\<lambda>m. m_reply_to_message_id m = Some mid) (messages db))) owner"

text \<open>The tombstones of the attachments of a message: the join of the last query.\<close>

definition attachment_tombstones_of ::
  "projection_db \<Rightarrow> string \<Rightarrow> resource_tombstone_row list" where
  "attachment_tombstones_of db mid =
     filter (\<lambda>t. rt_resource_type t = RAttachment
                 \<and> exists_where (\<lambda>a. a_id a = rt_resource_id t \<and> a_message_id a = mid) (attachments db))
       (resource_tombstones db)"

definition assertMessageTargetOwner ::
  "projection_db \<Rightarrow> string \<Rightarrow> projection_owner \<Rightarrow> message_row option result" where
  "assertMessageTargetOwner db mid owner =
     andThen (assertMessageOwner db mid owner) (\<lambda>message.
     andThen (assertReplyReferenceOwners db mid owner) (\<lambda>_.
     andThen (forEach
       [map owned_of (filter (\<lambda>r. r_message_id r = mid) (reactions db)),
        map owned_of (filter (\<lambda>r. rc_message_id r = mid) (receipts db)),
        map owned_of (filter (\<lambda>a. a_message_id a = mid) (attachments db)),
        map owned_of (filter (\<lambda>d. d_message_id d = mid) (message_delivery_updates db))]
       () (\<lambda>rows _. assertNoOwnerMismatch rows owner)) (\<lambda>_.
     andThen (assertNoOwnerMismatch (map owned_of (attachment_tombstones_of db mid)) owner) (\<lambda>_.
     Inr message))))"

definition assertReferencedMessageOwner ::
  "projection_db \<Rightarrow> string option \<Rightarrow> projection_owner \<Rightarrow> unit result" where
  "assertReferencedMessageOwner db messageId owner =
     (case messageId of
        None \<Rightarrow> Inr ()
      | Some mid \<Rightarrow> andThen (assertMessageTargetOwner db mid owner) (\<lambda>_. Inr ()))"

definition assertEventTombstoneOwner ::
  "projection_db \<Rightarrow> string \<Rightarrow> projection_owner \<Rightarrow> unit result" where
  "assertEventTombstoneOwner db eventId owner =
     assertOwner (find (\<lambda>t. et_target_event_id t = eventId) (event_tombstones db)) owner"

section \<open>Facts about the order\<close>

text \<open>
  An event id the schema accepts unchanged: every \<open>event_id\<close> of a parsed envelope is one, since the
  schema's \<open>trim\<close> is idempotent.
\<close>

definition valid_event_id :: "string \<Rightarrow> bool" where
  "valid_event_id s = (OpaqueEventIdSchema_parse s = Inr s)"

lemma compare_bytes_spec:
  "compare_bytes a b = (if a < b then -1 else if b < a then 1 else 0)"
  by (induction a b rule: compare_bytes.induct) auto

lemma compareObservedTuple_valid:
  assumes "valid_event_id x" and "valid_event_id y"
  shows "compareObservedTuple a x b y
    = Inr (if (a, x) < (b, y) then -1 else if (b, y) < (a, x) then 1 else 0)"
  using assms
  by (simp add: compareObservedTuple_def compareOpaqueEventIds_def valid_event_id_def
      compare_bytes_spec)

text \<open>Without that hypothesis the comparison, when it returns, is the order of the trimmed ids.\<close>

lemma compareObservedTuple_positive:
  assumes "compareObservedTuple a x b y = Inr c" and "c > 0"
  shows "(b, js_trim y) < (a, js_trim x)"
  using assms
  by (auto simp: compareObservedTuple_def compareOpaqueEventIds_def OpaqueEventIdSchema_parse_def Let_def
      compare_bytes_spec andThen_eq_Inr split: if_splits)

section \<open>The order of the code is the order of the queries\<close>

text \<open>
  C1: \<open>compareObservedTuple\<close> and the SQL \<open>ORDER BY observed_ms DESC, event_id COLLATE BINARY DESC\<close>
  decide one and the same order. On stored event ids the comparison never throws, one version comes
  before another in the query exactly when the comparison is positive, and the comparison is \<open>0\<close>
  only for equal tuples, so a last-writer-wins decision taken in TypeScript agrees with the row a
  query selects.
\<close>

theorem compareObservedTuple_agrees_with_query:
  assumes "valid_event_id (v_event_id a)" and "valid_event_id (v_event_id b)"
  shows "\<exists>c. compareObservedTuple (v_observed_ms a) (v_event_id a) (v_observed_ms b) (v_event_id b) = Inr c
    \<and> (version_beats a b \<longleftrightarrow> c > 0) \<and> (version_beats b a \<longleftrightarrow> c < 0)
    \<and> (c = 0 \<longleftrightarrow> v_observed_ms a = v_observed_ms b \<and> v_event_id a = v_event_id b)"
  using assms by (auto simp: compareObservedTuple_valid version_beats_def)

definition sample_version :: "int \<Rightarrow> string \<Rightarrow> message_version_row" where
  "sample_version ms eid = \<lparr>identity_id = ''idn_a'', account_id = ''acc_a'', connection_id = ''con_a'',
     platform = Whatsapp, conversation_id = ''cnv_a'', v_event_id = eid, v_message_id = ''msg_a'',
     v_version_kind = VCreated, v_body = ''hello'', v_editor_participant_id = None,
     v_occurred_at = [], v_observed_at = [], v_observed_ms = ms\<rparr>"

lemma valid_event_id_samples: "valid_event_id ''evt_a''" "valid_event_id ''evt_b''"
  by code_simp+

theorem compareObservedTuple_agrees_with_query_witness:
  "valid_event_id ''evt_a'' \<and> valid_event_id ''evt_b''
   \<and> (\<exists>c. compareObservedTuple 5 ''evt_b'' 5 ''evt_a'' = Inr c
         \<and> (version_beats (sample_version 5 ''evt_b'') (sample_version 5 ''evt_a'') \<longleftrightarrow> c > 0))"
  using compareObservedTuple_agrees_with_query [of "sample_version 5 ''evt_b''" "sample_version 5 ''evt_a''"]
    valid_event_id_samples
  by (auto simp: sample_version_def)

end
