(* ===== verification/Projector_Deletion.thy ===== *)
theory Projector_Deletion
  imports Projector_Common
begin

text \<open>
  \<open>projection/projector-deletion.ts\<close>: resource tombstones, whose presence is permanent and whose
  audit metadata follows the last-writer-wins order, and the redaction of messages, participants,
  attachments and whole conversations.
\<close>

section \<open>Tombstones\<close>

definition latestTombstone ::
  "resource_tombstone_row option \<Rightarrow> resource_tombstone_row option
     \<Rightarrow> resource_tombstone_row option result" where
  "latestTombstone left right =
     (case left of
        None \<Rightarrow> Inr right
      | Some l \<Rightarrow>
          (case right of
             None \<Rightarrow> Inr left
           | Some r \<Rightarrow>
               andThen (compareObservedTuple (rt_observed_ms l) (rt_tombstone_event_id l)
                          (rt_observed_ms r) (rt_tombstone_event_id r))
                 (\<lambda>cmp. Inr (if cmp \<ge> 0 then left else right))))"

definition messageIsDeleted :: "projection_db \<Rightarrow> string \<Rightarrow> resource_tombstone_row option" where
  "messageIsDeleted db mid = readMessageTombstone db mid"

definition conversationIsDeleted :: "projection_db \<Rightarrow> string \<Rightarrow> resource_tombstone_row option" where
  "conversationIsDeleted db cid = readConversationTombstone db cid"

definition participantIsDeleted :: "projection_db \<Rightarrow> string \<Rightarrow> resource_tombstone_row option" where
  "participantIsDeleted db pid = readParticipantTombstone db pid"

definition attachmentIsDeleted :: "projection_db \<Rightarrow> string \<Rightarrow> resource_tombstone_row option" where
  "attachmentIsDeleted db aid = readAttachmentTombstone db aid"

definition deletion_readAttachment :: "projection_db \<Rightarrow> string \<Rightarrow> attachment_row option" where
  "deletion_readAttachment db aid = find (\<lambda>a. a_id a = aid) (attachments db)"

definition deletion_assertTombstoneEventIdAvailable ::
  "projection_db \<Rightarrow> string \<Rightarrow> deletable_resource_type \<Rightarrow> string \<Rightarrow> unit result" where
  "deletion_assertTombstoneEventIdAvailable db tombstoneEventId resourceType resourceId =
     andThen (throwIf (find (\<lambda>t. et_tombstone_event_id t = tombstoneEventId) (event_tombstones db) \<noteq> None)
                (ProjectionError projection_conflict)) (\<lambda>_.
     (case find (\<lambda>t. rt_tombstone_event_id t = tombstoneEventId) (resource_tombstones db) of
        None \<Rightarrow> Inr ()
      | Some t \<Rightarrow> throwIf (rt_resource_type t \<noteq> canonical_type resourceType \<or> rt_resource_id t \<noteq> resourceId)
                    (ProjectionError projection_conflict)))"

definition assertConversationChildrenOwned ::
  "projection_db \<Rightarrow> projection_owner \<Rightarrow> unit result" where
  "assertConversationChildrenOwned db owner =
     (let cid = conversationId owner in
      forEach
        [map owned_of (filter (\<lambda>r. conversation_id r = cid) (participants db)),
         map owned_of (filter (\<lambda>r. conversation_id r = cid) (messages db)),
         map owned_of (filter (\<lambda>r. conversation_id r = cid) (message_versions db)),
         map owned_of (filter (\<lambda>r. conversation_id r = cid) (reactions db)),
         map owned_of (filter (\<lambda>r. conversation_id r = cid) (receipts db)),
         map owned_of (filter (\<lambda>r. conversation_id r = cid) (typing_states db)),
         map owned_of (filter (\<lambda>r. conversation_id r = cid) (attachments db)),
         map owned_of (filter (\<lambda>r. conversation_id r = cid) (commands db)),
         map owned_of (filter (\<lambda>r. conversation_id r = cid) (message_delivery_updates db)),
         map owned_of (filter (\<lambda>r. conversation_id r = cid) (event_tombstones db)),
         map owned_of (filter (\<lambda>r. conversation_id r = cid) (resource_tombstones db))]
        () (\<lambda>rows _. assertNoOwnerMismatch rows owner))"

definition assertTargetOwner ::
  "projection_db \<Rightarrow> deletable_resource_type \<Rightarrow> string \<Rightarrow> projection_owner \<Rightarrow> unit result" where
  "assertTargetOwner db resourceType resourceId owner =
     andThen (assertCanonicalResourceIdOwner db (canonical_type resourceType) resourceId owner) (\<lambda>_.
     andThen (assertOwner (readResourceTombstone db (canonical_type resourceType) resourceId) owner) (\<lambda>_.
     case resourceType of
       DMessage \<Rightarrow> andThen (assertMessageTargetOwner db resourceId owner) (\<lambda>_. Inr ())
     | DConversation \<Rightarrow>
         (case readConversation db resourceId of
            None \<Rightarrow> throwIf (resourceId \<noteq> conversationId owner) (ProjectionError projection_conflict)
          | Some c \<Rightarrow>
              andThen (assertOwner (Some (conversation_owned c)) owner) (\<lambda>_.
              assertConversationChildrenOwned db (owner\<lparr>conversationId := resourceId\<rparr>)))
     | DParticipant \<Rightarrow>
         andThen (assertParticipantReferenceOwners db resourceId owner) (\<lambda>_.
         assertOwner (readParticipant db resourceId) owner)
     | DAttachment \<Rightarrow>
         andThen
           (case deletion_readAttachment db resourceId of
              None \<Rightarrow> Inr ()
            | Some a \<Rightarrow>
                andThen (assertOwner (Some a) owner) (\<lambda>_.
                andThen (assertMessageTargetOwner db (a_message_id a) owner) (\<lambda>_. Inr ()))) (\<lambda>_.
         assertOwner (readAttachmentTombstone db resourceId) owner)))"

text \<open>
  The \<open>INSERT\<close> and the \<open>UPDATE\<close> of \<open>resource_tombstones\<close>, with its primary key
  \<open>(resource_type, resource_id)\<close> and its unique \<open>tombstone_event_id\<close>.
\<close>

definition insert_resource_tombstone ::
  "projection_db \<Rightarrow> resource_tombstone_row \<Rightarrow> projection_db result" where
  "insert_resource_tombstone db t =
     andThen (throwIf (exists_where (\<lambda>x. rt_tombstone_event_id x = rt_tombstone_event_id t)
                (resource_tombstones db)) SqliteConstraint) (\<lambda>_.
     andThen (ins_row (\<lambda>x. (rt_resource_type x, rt_resource_id x)) t (resource_tombstones db)) (\<lambda>ts.
     Inr (db\<lparr>resource_tombstones := ts\<rparr>)))"

definition update_resource_tombstone ::
  "projection_db \<Rightarrow> canonical_resource_type \<Rightarrow> string \<Rightarrow> string \<Rightarrow> string option \<Rightarrow> string \<Rightarrow> int
     \<Rightarrow> projection_db result" where
  "update_resource_tombstone db ty rid tombstoneEventId reasonCode occurredAt observedMs =
     andThen (throwIf (exists_where (\<lambda>x. rt_tombstone_event_id x = tombstoneEventId
                  \<and> \<not> (rt_resource_type x = ty \<and> rt_resource_id x = rid))
                (resource_tombstones db)) SqliteConstraint) (\<lambda>_.
     Inr (db\<lparr>resource_tombstones :=
       upd_where (\<lambda>t. rt_resource_type t = ty \<and> rt_resource_id t = rid)
         (\<lambda>t. t\<lparr>rt_tombstone_event_id := tombstoneEventId, rt_reason_code := reasonCode,
                rt_occurred_at := occurredAt, rt_observed_ms := observedMs\<rparr>)
         (resource_tombstones db)\<rparr>))"

definition upsertResourceTombstone ::
  "projection_db \<Rightarrow> prepared_event \<Rightarrow> deletable_resource_type \<Rightarrow> string \<Rightarrow> string option
     \<Rightarrow> (projection_db \<times> resource_tombstone_row) result" where
  "upsertResourceTombstone db p resourceType resourceId reasonCode =
     (let e = pe_event p; owner = ownerFor p; ty = canonical_type resourceType in
      andThen (assertTargetOwner db resourceType resourceId owner) (\<lambda>_.
      andThen (deletion_assertTombstoneEventIdAvailable db (ev_event_id e) resourceType resourceId) (\<lambda>_.
      let existing = readResourceTombstone db ty resourceId in
      andThen (assertOwner existing owner) (\<lambda>_.
      andThen
        (case existing of
           None \<Rightarrow>
             insert_resource_tombstone db
               \<lparr>identity_id = identityId owner, account_id = accountId owner,
                connection_id = connectionId owner, platform = o_platform owner,
                conversation_id = conversationId owner, rt_resource_type = ty,
                rt_resource_id = resourceId, rt_tombstone_event_id = ev_event_id e,
                rt_reason_code = reasonCode, rt_occurred_at = ev_occurred_at e,
                rt_observed_ms = pe_observedMs p\<rparr>
         | Some t \<Rightarrow>
             andThen (compareObservedTuple (pe_observedMs p) (ev_event_id e)
                        (rt_observed_ms t) (rt_tombstone_event_id t)) (\<lambda>cmp.
             if cmp > 0
             then update_resource_tombstone db ty resourceId (ev_event_id e) reasonCode
                    (ev_occurred_at e) (pe_observedMs p)
             else Inr db)) (\<lambda>db'.
      case readResourceTombstone db' ty resourceId of
        None \<Rightarrow> projectionError projection_unavailable
      | Some winner \<Rightarrow> andThen (assertOwner (Some winner) owner) (\<lambda>_. Inr (db', winner)))))))"

section \<open>Redaction\<close>

text \<open>A stored tombstone that is strictly later than a given observed tuple, as the SQL compares.\<close>

definition tombstone_later :: "resource_tombstone_row \<Rightarrow> int \<Rightarrow> string \<Rightarrow> bool" where
  "tombstone_later t ms eventId =
     (rt_observed_ms t > ms \<or> (rt_observed_ms t = ms \<and> rt_tombstone_event_id t > eventId))"

text \<open>
  \<open>CASE WHEN EXISTS (\<dots> later tombstone of the row \<dots>) THEN (SELECT column \<dots>) ELSE ? END\<close>.
\<close>

definition later_tombstone_or ::
  "projection_db \<Rightarrow> canonical_resource_type \<Rightarrow> string \<Rightarrow> resource_tombstone_row
     \<Rightarrow> (resource_tombstone_row \<Rightarrow> 'a) \<Rightarrow> 'a" where
  "later_tombstone_or db ty rid tombstone column =
     (case readResourceTombstone db ty rid of
        None \<Rightarrow> column tombstone
      | Some t \<Rightarrow> if tombstone_later t (rt_observed_ms tombstone) (rt_tombstone_event_id tombstone)
                  then column t else column tombstone)"

definition redact_attachment_row :: "string option \<Rightarrow> attachment_row \<Rightarrow> attachment_row" where
  "redact_attachment_row deletedAt a =
     a\<lparr>a_file_name := None, a_mime_type := None, a_size_bytes := None, a_sha256 := None,
       a_r2_key := None, a_expires_at := None, a_deleted_at := deletedAt\<rparr>"

definition redact_message_row ::
  "string option \<Rightarrow> string option \<Rightarrow> message_row \<Rightarrow> message_row" where
  "redact_message_row deletedAt reason m =
     m\<lparr>m_sender_participant_id := None, m_sender_label := ''Deleted sender'', m_body := '''',
       m_reply_to_message_id := None, m_matrix_room_id := None, m_matrix_event_id := None,
       m_remote_message_id := None, m_unread := 0, m_local_read_at := None, m_edited_at := None,
       m_deleted_at := deletedAt, m_deletion_reason := reason, m_attachment_count := 0,
       m_delivery_failure_code := None\<rparr>"

definition redact_version_row :: "message_version_row \<Rightarrow> message_version_row" where
  "redact_version_row v = v\<lparr>v_body := '''', v_editor_participant_id := None\<rparr>"

definition redact_participant_row :: "string option \<Rightarrow> participant_row \<Rightarrow> participant_row" where
  "redact_participant_row deletedAt p =
     p\<lparr>p_display_name := ''Deleted participant'', p_remote_id := None, p_avatar_url := None,
       p_deleted_at := deletedAt\<rparr>"

definition redactMessage ::
  "projection_db \<Rightarrow> string \<Rightarrow> resource_tombstone_row \<Rightarrow> projection_db result" where
  "redactMessage db mid tombstone =
     (let message = readMessage db mid in
      andThen
        (case message of
           None \<Rightarrow> Inr False
         | Some m \<Rightarrow>
             andThen (compareObservedTuple (rt_observed_ms tombstone) (rt_tombstone_event_id tombstone)
                        (m_current_observed_ms m) (m_current_event_id m)) (\<lambda>cmp. Inr (cmp > 0)))
      (\<lambda>tombstoneWinsCurrent.
      andThen
        (if tombstoneWinsCurrent then canonicalObservedAt (rt_observed_ms tombstone)
         else case message of
           None \<Rightarrow> canonicalObservedAt (rt_observed_ms tombstone)
         | Some m \<Rightarrow> Inr (m_observed_at m))
      (\<lambda>observedAt.
      let observedMs =
            (if tombstoneWinsCurrent then rt_observed_ms tombstone
             else case message of None \<Rightarrow> rt_observed_ms tombstone | Some m \<Rightarrow> m_current_observed_ms m);
          eventId =
            (if tombstoneWinsCurrent then rt_tombstone_event_id tombstone
             else case message of None \<Rightarrow> rt_tombstone_event_id tombstone | Some m \<Rightarrow> m_current_event_id m)
      in Inr (db\<lparr>
        message_versions :=
          upd_where (\<lambda>v. v_message_id v = mid) redact_version_row (message_versions db),
        reactions := del_where (\<lambda>r. r_message_id r = mid) (reactions db),
        receipts := del_where (\<lambda>r. rc_message_id r = mid) (receipts db),
        message_delivery_updates :=
          upd_where (\<lambda>d. d_message_id d = mid) (\<lambda>d. d\<lparr>d_failure_code := None\<rparr>)
            (message_delivery_updates db),
        attachments :=
          upd_where (\<lambda>a. a_message_id a = mid)
            (\<lambda>a. redact_attachment_row
                   (Some (later_tombstone_or db RAttachment (a_id a) tombstone rt_occurred_at)) a)
            (attachments db),
        messages :=
          upd_where (\<lambda>m. m_id m = mid)
            (\<lambda>m. (redact_message_row (Some (rt_occurred_at tombstone)) (rt_reason_code tombstone) m)
                   \<lparr>m_observed_at := observedAt, m_current_observed_ms := observedMs,
                    m_current_event_id := eventId\<rparr>)
            (messages db)\<rparr>))))"

definition redactParticipant ::
  "projection_db \<Rightarrow> string \<Rightarrow> resource_tombstone_row \<Rightarrow> projection_db" where
  "redactParticipant db pid tombstone =
     db\<lparr>participants :=
          upd_where (\<lambda>p. p_id p = pid) (redact_participant_row (Some (rt_occurred_at tombstone)))
            (participants db),
        message_versions :=
          upd_where (\<lambda>v. v_editor_participant_id v = Some pid)
            (\<lambda>v. v\<lparr>v_editor_participant_id := None\<rparr>) (message_versions db),
        messages :=
          upd_where (\<lambda>m. m_sender_participant_id m = Some pid)
            (\<lambda>m. m\<lparr>m_sender_participant_id := None, m_sender_label := ''Deleted sender''\<rparr>)
            (messages db),
        reactions := del_where (\<lambda>r. r_participant_id r = Some pid) (reactions db),
        receipts := del_where (\<lambda>r. rc_participant_id r = pid) (receipts db),
        typing_states := del_where (\<lambda>t. t_participant_id t = pid) (typing_states db)\<rparr>"

definition redactAttachment ::
  "projection_db \<Rightarrow> string \<Rightarrow> resource_tombstone_row \<Rightarrow> projection_db" where
  "redactAttachment db aid tombstone =
     db\<lparr>attachments :=
          upd_where (\<lambda>a. a_id a = aid) (redact_attachment_row (Some (rt_occurred_at tombstone)))
            (attachments db)\<rparr>"

text \<open>
  The common table expression of \<open>redactConversation\<close>: the deletion time of one attachment under
  the attachment's, its message's and the conversation's tombstones.
\<close>

definition effective_attachment_deleted_at ::
  "projection_db \<Rightarrow> resource_tombstone_row \<Rightarrow> attachment_row \<Rightarrow> string" where
  "effective_attachment_deleted_at db conversation_tombstone a =
     (let at = readResourceTombstone db RAttachment (a_id a);
          mt = readResourceTombstone db RMessage (a_message_id a);
          later_than = (\<lambda>t u. case u of None \<Rightarrow> True
                             | Some v \<Rightarrow> tombstone_later t (rt_observed_ms v) (rt_tombstone_event_id v))
      in case at of
           Some t \<Rightarrow>
             if later_than t mt \<and> later_than t (Some conversation_tombstone) then rt_occurred_at t
             else (case mt of
                     Some u \<Rightarrow> if later_than u (Some t) \<and> later_than u (Some conversation_tombstone)
                               then rt_occurred_at u else rt_occurred_at conversation_tombstone
                   | None \<Rightarrow> rt_occurred_at conversation_tombstone)
         | None \<Rightarrow>
             (case mt of
                Some u \<Rightarrow> if later_than u (Some conversation_tombstone)
                          then rt_occurred_at u else rt_occurred_at conversation_tombstone
              | None \<Rightarrow> rt_occurred_at conversation_tombstone))"

definition redactConversation ::
  "projection_db \<Rightarrow> string \<Rightarrow> resource_tombstone_row \<Rightarrow> projection_owner \<Rightarrow> projection_db result" where
  "redactConversation db cid tombstone owner =
     andThen (assertConversationChildrenOwned db (owner\<lparr>conversationId := cid\<rparr>)) (\<lambda>_.
     andThen (canonicalObservedAt (rt_observed_ms tombstone)) (\<lambda>observedAt.
     Inr (db\<lparr>
       conversations :=
         upd_where (\<lambda>c. c_id c = cid)
           (\<lambda>c. c\<lparr>c_title := ''Deleted conversation'', c_last_message_preview := '''', c_archived := 0,
                  c_muted := 0, c_unread_count := 0, c_message_count := 0, c_attachment_count := 0,
                  c_deleted_at := Some (rt_occurred_at tombstone),
                  c_last_event_id := rt_tombstone_event_id tombstone,
                  c_updated_at := c_shell_activity_at c\<rparr>)
           (conversations db),
       message_versions :=
         upd_where (\<lambda>v. conversation_id v = cid) redact_version_row (message_versions db),
       messages :=
         upd_where (\<lambda>m. conversation_id m = cid
                        \<and> (m_current_observed_ms m, m_current_event_id m)
                            < (rt_observed_ms tombstone, rt_tombstone_event_id tombstone))
           (\<lambda>m. m\<lparr>m_observed_at := observedAt, m_current_observed_ms := rt_observed_ms tombstone,
                  m_current_event_id := rt_tombstone_event_id tombstone\<rparr>)
           (upd_where (\<lambda>m. conversation_id m = cid)
             (\<lambda>m. redact_message_row
                    (Some (later_tombstone_or db RMessage (m_id m) tombstone rt_occurred_at))
                    (later_tombstone_or db RMessage (m_id m) tombstone rt_reason_code) m)
             (messages db)),
       participants :=
         upd_where (\<lambda>p. conversation_id p = cid)
           (\<lambda>p. redact_participant_row
                  (Some (later_tombstone_or db RParticipant (p_id p) tombstone rt_occurred_at)) p)
           (participants db),
       attachments :=
         upd_where (\<lambda>a. conversation_id a = cid)
           (\<lambda>a. redact_attachment_row (Some (effective_attachment_deleted_at db tombstone a)) a)
           (attachments db),
       reactions := del_where (\<lambda>r. conversation_id r = cid) (reactions db),
       receipts := del_where (\<lambda>r. conversation_id r = cid) (receipts db),
       typing_states := del_where (\<lambda>t. conversation_id t = cid) (typing_states db),
       message_delivery_updates :=
         upd_where (\<lambda>d. conversation_id d = cid) (\<lambda>d. d\<lparr>d_failure_code := None\<rparr>)
           (message_delivery_updates db),
       commands :=
         upd_where (\<lambda>k. conversation_id k = cid) (\<lambda>k. k\<lparr>k_failure_code := None\<rparr>) (commands db)\<rparr>)))"

section \<open>The two deletion projectors\<close>

definition projectMessageDeleted ::
  "projection_db \<Rightarrow> prepared_event \<Rightarrow> message_deleted_payload \<Rightarrow> projection_db result" where
  "projectMessageDeleted db p payload =
     (let owner = ownerFor p in
      andThen (ensureConversationShell db p) (\<lambda>(db1, _).
      andThen (upsertResourceTombstone db1 p DMessage (md_message_id payload) (md_reason_code payload))
        (\<lambda>(db2, tombstone).
      andThen (latestTombstone (Some tombstone) (readConversationTombstone db2 (conversationId owner)))
        (\<lambda>effective.
      case effective of
        None \<Rightarrow> projectionError projection_unavailable
      | Some t \<Rightarrow> redactMessage db2 (md_message_id payload) t))))"

definition projectDeletionTombstone ::
  "projection_db \<Rightarrow> prepared_event \<Rightarrow> deletion_tombstone_payload \<Rightarrow> projection_db result" where
  "projectDeletionTombstone db p payload =
     (let owner = ownerFor p; resourceId = dt_resource_id payload in
      andThen (ensureConversationShell db p) (\<lambda>(db1, _).
      andThen (upsertResourceTombstone db1 p (dt_resource_type payload) resourceId
                 (Some (dt_reason_code payload))) (\<lambda>(db2, tombstone).
      case dt_resource_type payload of
        DMessage \<Rightarrow>
          andThen (latestTombstone (Some tombstone) (readConversationTombstone db2 (conversationId owner)))
            (\<lambda>effective.
          case effective of
            None \<Rightarrow> projectionError projection_unavailable
          | Some t \<Rightarrow> redactMessage db2 resourceId t)
      | DConversation \<Rightarrow> redactConversation db2 resourceId tombstone owner
      | DParticipant \<Rightarrow>
          andThen (latestTombstone (Some tombstone) (readConversationTombstone db2 (conversationId owner)))
            (\<lambda>effective.
          case effective of
            None \<Rightarrow> projectionError projection_unavailable
          | Some t \<Rightarrow> Inr (redactParticipant db2 resourceId t))
      | DAttachment \<Rightarrow>
          andThen (latestTombstone (Some tombstone)
                     (case deletion_readAttachment db2 resourceId of
                        None \<Rightarrow> None
                      | Some a \<Rightarrow> readMessageTombstone db2 (a_message_id a))) (\<lambda>inner.
          andThen (latestTombstone inner (readConversationTombstone db2 (conversationId owner)))
            (\<lambda>effective.
          case effective of
            None \<Rightarrow> projectionError projection_unavailable
          | Some t \<Rightarrow> Inr (redactAttachment db2 resourceId t))))))"

end
