(* ===== verification/Projector_Conversation.thy ===== *)
theory Projector_Conversation
  imports Projector_Deletion
begin

text \<open>
  \<open>projection/projector-conversation.ts\<close>: conversation metadata and participants.
\<close>

definition projectConversationUpdated ::
  "projection_db \<Rightarrow> prepared_event \<Rightarrow> conversation_updated_payload \<Rightarrow> projection_db result" where
  "projectConversationUpdated db p payload =
     (let e = pe_event p; cid = ev_conversation_id e in
      andThen (ensureConversationShell db p) (\<lambda>(db1, conversation).
      if readConversationTombstone db1 cid \<noteq> None then Inr db1
      else
        andThen
          (if isMetadataSentinel conversation then Inr False
           else andThen (compareObservedTuple (pe_observedMs p) (ev_event_id e)
                           (c_metadata_observed_ms conversation) (c_metadata_event_id conversation))
                  (\<lambda>cmp. Inr (cmp \<le> 0))) (\<lambda>stale.
        if stale then Inr db1
        else Inr (db1\<lparr>conversations :=
          upd_where (\<lambda>c. c_id c = cid \<and> c_deleted_at c = None)
            (\<lambda>c. c\<lparr>c_title := cu_title payload, c_archived := (if cu_archived payload then 1 else 0),
                   c_muted := (if cu_muted payload then 1 else 0),
                   c_metadata_observed_ms := pe_observedMs p, c_metadata_event_id := ev_event_id e,
                   c_updated_at := c_shell_activity_at conversation,
                   c_last_event_id := ev_event_id e\<rparr>) (conversations db1)\<rparr>))))"

definition projectParticipantUpdated ::
  "projection_db \<Rightarrow> prepared_event \<Rightarrow> participant_updated_payload \<Rightarrow> projection_db result" where
  "projectParticipantUpdated db p payload =
     (let e = pe_event p; owner = ownerFor p; pid = pu_participant_id payload in
      andThen (ensureConversationShell db p) (\<lambda>(db1, _).
      andThen (assertCanonicalResourceIdOwner db1 RParticipant pid owner) (\<lambda>_.
      andThen (assertParticipantReferenceOwners db1 pid owner) (\<lambda>_.
      let existing = readParticipant db1 pid;
          participantTombstone = readParticipantTombstone db1 pid;
          conversationTombstone = readConversationTombstone db1 (conversationId owner);
          deleted = participantTombstone \<noteq> None \<or> conversationTombstone \<noteq> None
      in andThen (latestTombstone participantTombstone conversationTombstone) (\<lambda>deletionTombstone.
      let deletedAt = map_option rt_occurred_at deletionTombstone in
      case existing of
        Some q \<Rightarrow>
          andThen (assertOwner (Some q) owner) (\<lambda>_.
          andThen (compareObservedTuple (pe_observedMs p) (ev_event_id e)
                     (p_last_observed_ms q) (p_last_event_id q)) (\<lambda>cmp.
          if cmp \<le> 0 then Inr db1
          else if p_deleted_at q \<noteq> None \<or> deleted then
            Inr (db1\<lparr>participants := upd_where (\<lambda>r. p_id r = pid)
              (\<lambda>r. r\<lparr>p_display_name := ''Deleted participant'', p_remote_id := None,
                     p_avatar_url := None,
                     p_deleted_at := (case p_deleted_at r of None \<Rightarrow> deletedAt | Some d \<Rightarrow> Some d),
                     p_last_observed_ms := pe_observedMs p, p_last_event_id := ev_event_id e\<rparr>)
              (participants db1)\<rparr>)
          else
            Inr (db1\<lparr>participants := upd_where (\<lambda>r. p_id r = pid)
              (\<lambda>r. r\<lparr>p_display_name := pu_display_name payload, p_remote_id := pu_remote_id payload,
                     p_avatar_url := pu_avatar_url payload, p_last_observed_ms := pe_observedMs p,
                     p_last_event_id := ev_event_id e\<rparr>)
              (participants db1)\<rparr>)))
      | None \<Rightarrow>
          andThen (ins_row p_id
            \<lparr>identity_id = identityId owner, account_id = accountId owner,
             connection_id = connectionId owner, platform = o_platform owner,
             conversation_id = conversationId owner, p_id = pid,
             p_display_name = (if deleted then ''Deleted participant'' else pu_display_name payload),
             p_remote_id = (if deleted then None else pu_remote_id payload),
             p_avatar_url = (if deleted then None else pu_avatar_url payload),
             p_last_observed_ms = pe_observedMs p, p_last_event_id = ev_event_id e,
             p_deleted_at = deletedAt\<rparr>
            (participants db1)) (\<lambda>ps. Inr (db1\<lparr>participants := ps\<rparr>)))))))"

end
