(* ===== verification/Projector_Control.thy ===== *)
theory Projector_Control
  imports Projector_Deletion
begin

text \<open>
  \<open>projection/projector-control.ts\<close>: command status, delivery observations (which may precede
  their message) and the event markers of replays and corrections.
\<close>

definition readCommand :: "projection_db \<Rightarrow> string \<Rightarrow> command_row option" where
  "readCommand db kid = find (\<lambda>k. k_id k = kid) (commands db)"

definition readDelivery :: "projection_db \<Rightarrow> string \<Rightarrow> delivery_row option" where
  "readDelivery db mid = find (\<lambda>d. d_message_id d = mid) (message_delivery_updates db)"

definition readEventTombstone :: "projection_db \<Rightarrow> string \<Rightarrow> event_tombstone_row option" where
  "readEventTombstone db eid = find (\<lambda>t. et_target_event_id t = eid) (event_tombstones db)"

definition parseOccurredMs :: "string \<Rightarrow> int result" where
  "parseOccurredMs timestamp =
     (case date_parse timestamp of
        None \<Rightarrow> projectionError projection_unavailable
      | Some ms \<Rightarrow> if is_safe_integer ms then Inr ms else projectionError projection_unavailable)"

definition failureForStatus :: "bool \<Rightarrow> string option \<Rightarrow> bool \<Rightarrow> string option" where
  "failureForStatus failed failureCode blocked = (if blocked \<or> \<not> failed then None else failureCode)"

section \<open>Commands\<close>

text \<open>
  The two updates of an existing command that do not depend on the observed order: an older
  occurrence moves \<open>created_at\<close> back, and a conversation tombstone clears the failure code.
\<close>

definition amend_command ::
  "projection_db \<Rightarrow> prepared_event \<Rightarrow> string \<Rightarrow> command_row \<Rightarrow> int \<Rightarrow> bool \<Rightarrow> projection_db" where
  "amend_command db p kid existing existingCreatedMs blocked =
     (let db1 =
            (if pe_occurredMs p < existingCreatedMs
             then db\<lparr>commands := upd_where (\<lambda>r. k_id r = kid)
                       (\<lambda>r. r\<lparr>k_created_at := ev_occurred_at (pe_event p)\<rparr>) (commands db)\<rparr>
             else db)
      in if blocked \<and> k_failure_code existing \<noteq> None
         then db1\<lparr>commands := upd_where (\<lambda>r. k_id r = kid)
                    (\<lambda>r. r\<lparr>k_failure_code := None\<rparr>) (commands db1)\<rparr>
         else db1)"

definition projectCommandUpdated ::
  "projection_db \<Rightarrow> prepared_event \<Rightarrow> command_updated_payload \<Rightarrow> projection_db result" where
  "projectCommandUpdated db p payload =
     (let e = pe_event p; owner = ownerFor p; kid = ku_command_id payload in
      andThen (ensureConversationShell db p) (\<lambda>(db1, _).
      andThen (assertCanonicalResourceIdOwner db1 RCommand kid owner) (\<lambda>_.
      let existing = readCommand db1 kid in
      andThen (assertOwner existing owner) (\<lambda>_.
      let conversationTombstone = readConversationTombstone db1 (conversationId owner);
          failure = failureForStatus (ku_status payload = Failed) (ku_failure_code payload)
                      (conversationTombstone \<noteq> None)
      in case existing of
           Some k \<Rightarrow>
             andThen (parseOccurredMs (k_created_at k)) (\<lambda>existingCreatedMs.
             let db2 = amend_command db1 p kid k existingCreatedMs (conversationTombstone \<noteq> None)
             in andThen (compareObservedTuple (pe_observedMs p) (ev_event_id e)
                           (k_last_observed_ms k) (k_last_event_id k)) (\<lambda>cmp.
                if cmp \<le> 0 then Inr db2
                else Inr (db2\<lparr>commands := upd_where (\<lambda>r. k_id r = kid)
                       (\<lambda>r. r\<lparr>k_operation := ku_operation payload,
                              k_delivery_mode := ku_delivery_mode payload,
                              k_status := ku_status payload, k_failure_code := failure,
                              k_updated_at := ev_occurred_at e,
                              k_last_observed_ms := pe_observedMs p,
                              k_last_event_id := ev_event_id e\<rparr>) (commands db2)\<rparr>)))
         | None \<Rightarrow>
             andThen (ins_row k_id
               \<lparr>identity_id = identityId owner, account_id = accountId owner,
                connection_id = connectionId owner, platform = o_platform owner,
                conversation_id = conversationId owner, k_id = kid,
                k_operation = ku_operation payload, k_delivery_mode = ku_delivery_mode payload,
                k_status = ku_status payload, k_failure_code = failure,
                k_created_at = ev_occurred_at e, k_updated_at = ev_occurred_at e,
                k_last_observed_ms = pe_observedMs p, k_last_event_id = ev_event_id e\<rparr>
               (commands db1)) (\<lambda>ks. Inr (db1\<lparr>commands := ks\<rparr>))))))"

section \<open>Delivery\<close>

definition owner_of_row :: "'a owned_row_scheme \<Rightarrow> projection_owner" where
  "owner_of_row r = \<lparr>identityId = identity_id r, accountId = account_id r,
     connectionId = connection_id r, conversationId = conversation_id r, o_platform = platform r\<rparr>"

definition applyDeliveryToMessage ::
  "projection_db \<Rightarrow> string \<Rightarrow> delivery_row \<Rightarrow> projection_db result" where
  "applyDeliveryToMessage db mid delivery =
     (case readMessage db mid of
        None \<Rightarrow> Inr db
      | Some message \<Rightarrow>
          andThen (assertOwner (Some message) (owner_of_row delivery)) (\<lambda>_.
          let blocked = readConversationTombstone db (conversation_id message) \<noteq> None
                        \<or> messageIsDeleted db (m_id message) \<noteq> None \<or> m_deleted_at message \<noteq> None
          in andThen
               (case (m_delivery_observed_ms message, m_delivery_event_id message) of
                  (Some ms, Some eid) \<Rightarrow>
                    andThen (compareObservedTuple (d_last_observed_ms delivery)
                               (d_last_event_id delivery) ms eid) (\<lambda>cmp. Inr (cmp > 0))
                | _ \<Rightarrow> Inr True) (\<lambda>currentIsOlder.
             let failureCode = failureForStatus (d_delivery_status delivery = DFailed)
                                 (d_failure_code delivery) blocked
             in if \<not> currentIsOlder then
                  Inr (if blocked
                       then db\<lparr>messages := upd_where (\<lambda>m. m_id m = mid)
                                  (\<lambda>m. m\<lparr>m_delivery_failure_code := None\<rparr>) (messages db)\<rparr>
                       else db)
                else
                  Inr (db\<lparr>messages := upd_where (\<lambda>m. m_id m = mid)
                         (\<lambda>m. m\<lparr>m_delivery_status := d_delivery_status delivery,
                                m_delivery_failure_code := failureCode,
                                m_delivery_observed_ms := Some (d_last_observed_ms delivery),
                                m_delivery_event_id := Some (d_last_event_id delivery)\<rparr>)
                         (messages db)\<rparr>))))"

definition reconcileMessageDelivery :: "projection_db \<Rightarrow> string \<Rightarrow> projection_db result" where
  "reconcileMessageDelivery db mid =
     (case readDelivery db mid of
        None \<Rightarrow> Inr db
      | Some delivery \<Rightarrow> applyDeliveryToMessage db mid delivery)"

text \<open>The \<open>INSERT\<close> or \<open>UPDATE\<close> of the delivery observation of a message.\<close>

definition store_delivery ::
  "projection_db \<Rightarrow> prepared_event \<Rightarrow> bridge_delivery_updated_payload \<Rightarrow> delivery_row option
     \<Rightarrow> string option \<Rightarrow> projection_db result" where
  "store_delivery db p payload existing failureCode =
     (let e = pe_event p; owner = ownerFor p; mid = bd_message_id payload in
      if existing = None then
        andThen (ins_row d_message_id
          \<lparr>identity_id = identityId owner, account_id = accountId owner,
           connection_id = connectionId owner, platform = o_platform owner,
           conversation_id = conversationId owner, d_message_id = mid,
           d_delivery_status = bd_delivery_status payload, d_failure_code = failureCode,
           d_occurred_at = ev_occurred_at e, d_last_observed_ms = pe_observedMs p,
           d_last_event_id = ev_event_id e\<rparr>
          (message_delivery_updates db)) (\<lambda>ds. Inr (db\<lparr>message_delivery_updates := ds\<rparr>))
      else
        Inr (db\<lparr>message_delivery_updates :=
               upd_where (\<lambda>r. d_message_id r = mid)
                 (\<lambda>r. r\<lparr>identity_id := identityId owner, account_id := accountId owner,
                        connection_id := connectionId owner,
                        conversation_id := conversationId owner, platform := o_platform owner,
                        d_delivery_status := bd_delivery_status payload,
                        d_failure_code := failureCode, d_occurred_at := ev_occurred_at e,
                        d_last_observed_ms := pe_observedMs p,
                        d_last_event_id := ev_event_id e\<rparr>)
                 (message_delivery_updates db)\<rparr>))"

text \<open>The stale branch: a blocked observation loses the failure code it kept.\<close>

definition unblock_delivery ::
  "projection_db \<Rightarrow> string \<Rightarrow> delivery_row \<Rightarrow> bool \<Rightarrow> projection_db" where
  "unblock_delivery db mid existing blocked =
     (if d_failure_code existing \<noteq> None \<and> blocked
      then db\<lparr>message_delivery_updates :=
             upd_where (\<lambda>r. d_message_id r = mid) (\<lambda>r. r\<lparr>d_failure_code := None\<rparr>)
               (message_delivery_updates db)\<rparr>
      else db)"

definition projectBridgeDeliveryUpdated ::
  "projection_db \<Rightarrow> prepared_event \<Rightarrow> bridge_delivery_updated_payload \<Rightarrow> projection_db result" where
  "projectBridgeDeliveryUpdated db p payload =
     (let e = pe_event p; owner = ownerFor p; mid = bd_message_id payload in
      andThen (ensureConversationShell db p) (\<lambda>(db1, _).
      andThen (assertMessageTargetOwner db1 mid owner) (\<lambda>_.
      let existing = readDelivery db1 mid in
      andThen (assertOwner existing owner) (\<lambda>_.
      let blocked = readConversationTombstone db1 (conversationId owner) \<noteq> None
                    \<or> readResourceTombstone db1 RMessage mid \<noteq> None;
          failureCode = failureForStatus (bd_delivery_status payload = DFailed)
                          (bd_failure_code payload) blocked
      in andThen
           (case existing of
              None \<Rightarrow> Inr None
            | Some d \<Rightarrow>
                andThen (compareObservedTuple (pe_observedMs p) (ev_event_id e)
                           (d_last_observed_ms d) (d_last_event_id d))
                  (\<lambda>cmp. Inr (if cmp \<le> 0 then Some d else None)))
         (\<lambda>stale.
         case stale of
           Some d \<Rightarrow> reconcileMessageDelivery (unblock_delivery db1 mid d blocked) mid
         | None \<Rightarrow>
             andThen (store_delivery db1 p payload existing failureCode) (\<lambda>db2.
             reconcileMessageDelivery db2 mid))))))"

section \<open>Event markers\<close>

text \<open>The join of \<open>applied_events\<close> with \<open>connection_bindings\<close> on the account.\<close>

definition marker_target :: "projection_db \<Rightarrow> string \<Rightarrow> owned_row option" where
  "marker_target db eid =
     (case find (\<lambda>a. ae_event_id a = eid) (applied_events db) of
        None \<Rightarrow> None
      | Some a \<Rightarrow>
          (case find (\<lambda>b. b_account_id b = ae_account_id a) (connection_bindings db) of
             None \<Rightarrow> None
           | Some b \<Rightarrow> Some \<lparr>identity_id = ae_identity_id a, account_id = ae_account_id a,
               connection_id = ae_connection_id a, platform = b_platform b,
               conversation_id = ae_conversation_id a\<rparr>))"

definition assertEventMarkerTargetOwner ::
  "projection_db \<Rightarrow> string \<Rightarrow> projection_owner \<Rightarrow> unit result" where
  "assertEventMarkerTargetOwner db eid owner = assertOwner (marker_target db eid) owner"

definition control_assertTombstoneEventIdAvailable ::
  "projection_db \<Rightarrow> string \<Rightarrow> string \<Rightarrow> unit result" where
  "control_assertTombstoneEventIdAvailable db tombstoneEventId targetEventId =
     andThen
       (case find (\<lambda>t. et_tombstone_event_id t = tombstoneEventId) (event_tombstones db) of
          None \<Rightarrow> Inr ()
        | Some t \<Rightarrow> throwIf (et_target_event_id t \<noteq> targetEventId) (ProjectionError projection_conflict))
       (\<lambda>_.
     throwIf (find (\<lambda>t. rt_tombstone_event_id t = tombstoneEventId) (resource_tombstones db) \<noteq> None)
       (ProjectionError projection_conflict))"

definition projectEventMarker ::
  "projection_db \<Rightarrow> prepared_event \<Rightarrow> event_marker_payload \<Rightarrow> projection_db result" where
  "projectEventMarker db p payload =
     (let e = pe_event p; owner = ownerFor p; target = em_target_event_id payload in
      andThen (ensureConversationShell db p) (\<lambda>(db1, _).
      andThen (assertEventMarkerTargetOwner db1 target owner) (\<lambda>_.
      let existing = readEventTombstone db1 target in
      andThen (assertOwner existing owner) (\<lambda>_.
      andThen (control_assertTombstoneEventIdAvailable db1 (ev_event_id e) target) (\<lambda>_.
      case existing of
        Some t \<Rightarrow>
          andThen (compareObservedTuple (pe_observedMs p) (ev_event_id e)
                     (et_observed_ms t) (et_tombstone_event_id t)) (\<lambda>cmp.
          if cmp \<le> 0 then Inr db1
          else
            andThen (throwIf (exists_where (\<lambda>x. et_tombstone_event_id x = ev_event_id e
                         \<and> et_target_event_id x \<noteq> target) (event_tombstones db1)) SqliteConstraint) (\<lambda>_.
            Inr (db1\<lparr>event_tombstones :=
              upd_where (\<lambda>x. et_target_event_id x = target)
                (\<lambda>x. x\<lparr>et_tombstone_event_id := ev_event_id e, et_tombstone_type := ev_event_type e,
                       et_reason_code := em_reason_code payload, et_occurred_at := ev_occurred_at e,
                       et_observed_ms := pe_observedMs p\<rparr>) (event_tombstones db1)\<rparr>)))
      | None \<Rightarrow>
          andThen (throwIf (exists_where (\<lambda>x. et_tombstone_event_id x = ev_event_id e)
                     (event_tombstones db1)) SqliteConstraint) (\<lambda>_.
          andThen (ins_row et_target_event_id
            \<lparr>identity_id = identityId owner, account_id = accountId owner,
             connection_id = connectionId owner, platform = o_platform owner,
             conversation_id = conversationId owner, et_target_event_id = target,
             et_tombstone_event_id = ev_event_id e, et_tombstone_type = ev_event_type e,
             et_reason_code = em_reason_code payload, et_occurred_at = ev_occurred_at e,
             et_observed_ms = pe_observedMs p\<rparr>
            (event_tombstones db1)) (\<lambda>ts. Inr (db1\<lparr>event_tombstones := ts\<rparr>))))))))"

end
