(* ===== verification/Projector_Social.thy ===== *)
theory Projector_Social
  imports Projector_Deletion
begin

text \<open>
  \<open>projection/projector-social.ts\<close>: reactions, read and delivery receipts, typing states and
  attachments. Each is one last-writer-wins row per key, gated by the tombstones that redact it.
\<close>

definition readReaction :: "projection_db \<Rightarrow> string \<Rightarrow> reaction_row option" where
  "readReaction db rid = find (\<lambda>r. r_id r = rid) (reactions db)"

definition readReceipt :: "projection_db \<Rightarrow> string \<Rightarrow> string \<Rightarrow> receipt_type \<Rightarrow> receipt_row option" where
  "readReceipt db mid pid ty =
     find (\<lambda>r. rc_message_id r = mid \<and> rc_participant_id r = pid \<and> rc_receipt_type r = ty) (receipts db)"

definition readTyping :: "projection_db \<Rightarrow> string \<Rightarrow> string \<Rightarrow> typing_row option" where
  "readTyping db cid pid =
     find (\<lambda>t. conversation_id t = cid \<and> t_participant_id t = pid) (typing_states db)"

definition readAttachment :: "projection_db \<Rightarrow> string \<Rightarrow> attachment_row option" where
  "readAttachment db aid = find (\<lambda>a. a_id a = aid) (attachments db)"

definition assertReactionTarget :: "projection_db \<Rightarrow> string \<Rightarrow> projection_owner \<Rightarrow> unit result" where
  "assertReactionTarget db mid owner = assertReferencedMessageOwner db (Some mid) owner"

definition assertReactionIdentity ::
  "reaction_row \<Rightarrow> string \<Rightarrow> projection_owner \<Rightarrow> unit result" where
  "assertReactionIdentity row mid owner =
     andThen (assertOwner (Some row) owner) (\<lambda>_.
     throwIf (r_message_id row \<noteq> mid) (ProjectionError projection_conflict))"

definition assertExistingReaction ::
  "reaction_row option \<Rightarrow> string \<Rightarrow> projection_owner \<Rightarrow> unit result" where
  "assertExistingReaction existing mid owner =
     (case existing of None \<Rightarrow> Inr () | Some r \<Rightarrow> assertReactionIdentity r mid owner)"

definition messageIsRedacted ::
  "projection_db \<Rightarrow> string \<Rightarrow> string \<Rightarrow> resource_tombstone_row option result" where
  "messageIsRedacted db mid cid = latestTombstone (messageIsDeleted db mid) (conversationIsDeleted db cid)"

text \<open>\<open>existing !== undefined && compareObservedTuple(\<dots>) <= 0\<close>.\<close>

definition isStale :: "prepared_event \<Rightarrow> (int \<times> string) option \<Rightarrow> bool result" where
  "isStale p existing =
     (case existing of
        None \<Rightarrow> Inr False
      | Some (ms, eid) \<Rightarrow>
          andThen (compareObservedTuple (pe_observedMs p) (ev_event_id (pe_event p)) ms eid)
            (\<lambda>cmp. Inr (cmp \<le> 0)))"

section \<open>Reactions\<close>

definition projectReactionAdded ::
  "projection_db \<Rightarrow> prepared_event \<Rightarrow> reaction_added_payload \<Rightarrow> projection_db result" where
  "projectReactionAdded db p payload =
     (let e = pe_event p; owner = ownerFor p; rid = ra_reaction_id payload in
      andThen (ensureConversationShell db p) (\<lambda>(db1, _).
      andThen (assertCanonicalResourceIdOwner db1 RReaction rid owner) (\<lambda>_.
      andThen (assertReactionTarget db1 (ra_message_id payload) owner) (\<lambda>_.
      andThen (assertReferencedParticipantOwner db1 (Some (ra_participant_id payload)) owner) (\<lambda>_.
      let existing = readReaction db1 rid in
      andThen (assertExistingReaction existing (ra_message_id payload) owner) (\<lambda>_.
      andThen (messageIsRedacted db1 (ra_message_id payload) (conversationId owner)) (\<lambda>tombstone.
      if tombstone \<noteq> None \<or> participantIsDeleted db1 (ra_participant_id payload) \<noteq> None
      then Inr (if existing \<noteq> None
                then db1\<lparr>reactions := del_where (\<lambda>r. r_id r = rid) (reactions db1)\<rparr> else db1)
      else
        andThen (isStale p (map_option (\<lambda>r. (r_last_observed_ms r, r_last_event_id r)) existing)) (\<lambda>stale.
        if stale then Inr db1
        else if existing = None then
          andThen (ins_row r_id
            \<lparr>identity_id = identityId owner, account_id = accountId owner,
             connection_id = connectionId owner, platform = o_platform owner,
             conversation_id = conversationId owner, r_id = rid, r_message_id = ra_message_id payload,
             r_participant_id = Some (ra_participant_id payload), r_emoji = Some (ra_emoji payload),
             r_occurred_at = ev_occurred_at e, r_last_observed_ms = pe_observedMs p,
             r_last_event_id = ev_event_id e, r_removed_at = None\<rparr>
            (reactions db1)) (\<lambda>rs. Inr (db1\<lparr>reactions := rs\<rparr>))
        else
          Inr (db1\<lparr>reactions := upd_where (\<lambda>r. r_id r = rid)
                 (\<lambda>r. r\<lparr>r_participant_id := Some (ra_participant_id payload),
                        r_emoji := Some (ra_emoji payload), r_occurred_at := ev_occurred_at e,
                        r_last_observed_ms := pe_observedMs p, r_last_event_id := ev_event_id e,
                        r_removed_at := None\<rparr>) (reactions db1)\<rparr>)))))))))"

definition projectReactionRemoved ::
  "projection_db \<Rightarrow> prepared_event \<Rightarrow> reaction_removed_payload \<Rightarrow> projection_db result" where
  "projectReactionRemoved db p payload =
     (let e = pe_event p; owner = ownerFor p; rid = rr_reaction_id payload in
      andThen (ensureConversationShell db p) (\<lambda>(db1, _).
      andThen (assertCanonicalResourceIdOwner db1 RReaction rid owner) (\<lambda>_.
      andThen (assertReactionTarget db1 (rr_message_id payload) owner) (\<lambda>_.
      let existing = readReaction db1 rid in
      andThen (assertExistingReaction existing (rr_message_id payload) owner) (\<lambda>_.
      andThen (messageIsRedacted db1 (rr_message_id payload) (conversationId owner)) (\<lambda>tombstone.
      if tombstone \<noteq> None
      then Inr (if existing \<noteq> None
                then db1\<lparr>reactions := del_where (\<lambda>r. r_id r = rid) (reactions db1)\<rparr> else db1)
      else
        andThen (isStale p (map_option (\<lambda>r. (r_last_observed_ms r, r_last_event_id r)) existing)) (\<lambda>stale.
        if stale then Inr db1
        else if existing = None then
          andThen (ins_row r_id
            \<lparr>identity_id = identityId owner, account_id = accountId owner,
             connection_id = connectionId owner, platform = o_platform owner,
             conversation_id = conversationId owner, r_id = rid, r_message_id = rr_message_id payload,
             r_participant_id = None, r_emoji = None, r_occurred_at = ev_occurred_at e,
             r_last_observed_ms = pe_observedMs p, r_last_event_id = ev_event_id e,
             r_removed_at = Some (ev_occurred_at e)\<rparr>
            (reactions db1)) (\<lambda>rs. Inr (db1\<lparr>reactions := rs\<rparr>))
        else
          Inr (db1\<lparr>reactions := upd_where (\<lambda>r. r_id r = rid)
                 (\<lambda>r. r\<lparr>r_participant_id := None, r_emoji := None, r_occurred_at := ev_occurred_at e,
                        r_last_observed_ms := pe_observedMs p, r_last_event_id := ev_event_id e,
                        r_removed_at := Some (ev_occurred_at e)\<rparr>) (reactions db1)\<rparr>))))))))"

section \<open>Receipts\<close>

definition receipt_beats :: "receipt_row \<Rightarrow> receipt_row \<Rightarrow> bool" where
  "receipt_beats a b =
     ((rc_last_observed_ms b, rc_last_event_id b) < (rc_last_observed_ms a, rc_last_event_id a))"

definition latestLocalRead :: "projection_db \<Rightarrow> string \<Rightarrow> receipt_row option" where
  "latestLocalRead db mid =
     best_row receipt_beats
       (filter (\<lambda>r. rc_message_id r = mid \<and> rc_receipt_type r = RcRead \<and> rc_local_identity r = 1)
         (receipts db))"

definition reconcileMessageLocalRead :: "projection_db \<Rightarrow> string \<Rightarrow> projection_db result" where
  "reconcileMessageLocalRead db mid =
     (case readMessage db mid of
        None \<Rightarrow> Inr db
      | Some message \<Rightarrow>
          andThen (messageIsRedacted db mid (conversation_id message)) (\<lambda>redacted.
          if redacted \<noteq> None then Inr db
          else case latestLocalRead db mid of
            None \<Rightarrow> Inr db
          | Some localRead \<Rightarrow>
              Inr (db\<lparr>messages := upd_where (\<lambda>m. m_id m = mid)
                     (\<lambda>m. m\<lparr>m_local_read_at := Some (rc_occurred_at localRead), m_unread := 0\<rparr>)
                     (messages db)\<rparr>)))"

text \<open>The \<open>INSERT\<close> or \<open>UPDATE\<close> of a receipt under its key \<open>(message, participant, type)\<close>.\<close>

definition store_receipt ::
  "projection_db \<Rightarrow> prepared_event \<Rightarrow> receipt_type \<Rightarrow> receipt_payload \<Rightarrow> receipt_row option
     \<Rightarrow> projection_db result" where
  "store_receipt db p receiptType payload existing =
     (let e = pe_event p; owner = ownerFor p; localFlag = (if rp_local_identity payload then 1 else 0) in
      if existing = None then
        andThen (ins_row (\<lambda>r. (rc_message_id r, rc_participant_id r, rc_receipt_type r))
          \<lparr>identity_id = identityId owner, account_id = accountId owner,
           connection_id = connectionId owner, platform = o_platform owner,
           conversation_id = conversationId owner, rc_message_id = rp_message_id payload,
           rc_participant_id = rp_participant_id payload, rc_receipt_type = receiptType,
           rc_local_identity = localFlag, rc_occurred_at = ev_occurred_at e,
           rc_last_observed_ms = pe_observedMs p, rc_last_event_id = ev_event_id e\<rparr>
          (receipts db)) (\<lambda>rs. Inr (db\<lparr>receipts := rs\<rparr>))
      else
        Inr (db\<lparr>receipts := upd_where
               (\<lambda>r. rc_message_id r = rp_message_id payload
                    \<and> rc_participant_id r = rp_participant_id payload \<and> rc_receipt_type r = receiptType)
               (\<lambda>r. r\<lparr>identity_id := identityId owner, account_id := accountId owner,
                      connection_id := connectionId owner,
                      conversation_id := conversationId owner, platform := o_platform owner,
                      rc_local_identity := localFlag, rc_occurred_at := ev_occurred_at e,
                      rc_last_observed_ms := pe_observedMs p,
                      rc_last_event_id := ev_event_id e\<rparr>) (receipts db)\<rparr>))"

definition projectReceipt ::
  "projection_db \<Rightarrow> prepared_event \<Rightarrow> receipt_type \<Rightarrow> receipt_payload \<Rightarrow> projection_db result" where
  "projectReceipt db p receiptType payload =
     (let owner = ownerFor p; mid = rp_message_id payload; pid = rp_participant_id payload in
      andThen (ensureConversationShell db p) (\<lambda>(db1, _).
      andThen (assertReferencedMessageOwner db1 (Some mid) owner) (\<lambda>_.
      andThen (assertReferencedParticipantOwner db1 (Some pid) owner) (\<lambda>_.
      let existing = readReceipt db1 mid pid receiptType in
      andThen (assertOwner existing owner) (\<lambda>_.
      andThen (case existing of
                 None \<Rightarrow> Inr ()
               | Some r \<Rightarrow> throwIf (rc_local_identity r \<noteq> (if rp_local_identity payload then 1 else 0))
                             (ProjectionError projection_conflict)) (\<lambda>_.
      andThen (messageIsRedacted db1 mid (conversationId owner)) (\<lambda>tombstone.
      if tombstone \<noteq> None \<or> participantIsDeleted db1 pid \<noteq> None
      then Inr (if existing \<noteq> None
                then db1\<lparr>receipts := del_where (\<lambda>r. rc_message_id r = mid \<and> rc_participant_id r = pid
                                                \<and> rc_receipt_type r = receiptType) (receipts db1)\<rparr>
                else db1)
      else
        andThen (isStale p (map_option (\<lambda>r. (rc_last_observed_ms r, rc_last_event_id r)) existing)) (\<lambda>stale.
        if stale then Inr db1
        else
          andThen (store_receipt db1 p receiptType payload existing) (\<lambda>db2.
          if receiptType = RcRead \<and> rp_local_identity payload
          then reconcileMessageLocalRead db2 mid else Inr db2)))))))))"

section \<open>Typing\<close>

text \<open>
  \<open>projectTypingStarted\<close> and \<open>projectTypingStopped\<close> have the same body but for the two columns they
  write: the flag and the expiry.
\<close>

definition projectTyping ::
  "projection_db \<Rightarrow> prepared_event \<Rightarrow> string \<Rightarrow> int \<Rightarrow> string option \<Rightarrow> projection_db result" where
  "projectTyping db p pid isTyping expiresAt =
     (let e = pe_event p; owner = ownerFor p;
          key = (\<lambda>t. conversation_id t = conversationId owner \<and> t_participant_id t = pid) in
      andThen (ensureConversationShell db p) (\<lambda>(db1, _).
      andThen (assertReferencedParticipantOwner db1 (Some pid) owner) (\<lambda>_.
      let existing = readTyping db1 (conversationId owner) pid in
      andThen (assertOwner existing owner) (\<lambda>_.
      if conversationIsDeleted db1 (conversationId owner) \<noteq> None \<or> participantIsDeleted db1 pid \<noteq> None
      then Inr (if existing \<noteq> None
                then db1\<lparr>typing_states := del_where key (typing_states db1)\<rparr> else db1)
      else
        andThen (isStale p (map_option (\<lambda>t. (t_last_observed_ms t, t_last_event_id t)) existing)) (\<lambda>stale.
        if stale then Inr db1
        else if existing = None then
          andThen (ins_row (\<lambda>t. (conversation_id t, t_participant_id t))
            \<lparr>identity_id = identityId owner, account_id = accountId owner,
             connection_id = connectionId owner, platform = o_platform owner,
             conversation_id = conversationId owner, t_participant_id = pid, t_is_typing = isTyping,
             t_expires_at = expiresAt, t_last_observed_ms = pe_observedMs p,
             t_last_event_id = ev_event_id e\<rparr>
            (typing_states db1)) (\<lambda>ts. Inr (db1\<lparr>typing_states := ts\<rparr>))
        else
          Inr (db1\<lparr>typing_states := upd_where key
                 (\<lambda>t. t\<lparr>identity_id := identityId owner, account_id := accountId owner,
                        connection_id := connectionId owner, platform := o_platform owner,
                        t_is_typing := isTyping, t_expires_at := expiresAt,
                        t_last_observed_ms := pe_observedMs p, t_last_event_id := ev_event_id e\<rparr>)
                 (typing_states db1)\<rparr>))))))"

definition projectTypingStarted ::
  "projection_db \<Rightarrow> prepared_event \<Rightarrow> typing_started_payload \<Rightarrow> projection_db result" where
  "projectTypingStarted db p payload =
     projectTyping db p (ts_participant_id payload) 1 (Some (ts_expires_at payload))"

definition projectTypingStopped ::
  "projection_db \<Rightarrow> prepared_event \<Rightarrow> typing_stopped_payload \<Rightarrow> projection_db result" where
  "projectTypingStopped db p payload = projectTyping db p (tp_participant_id payload) 0 None"

section \<open>Attachments\<close>

text \<open>The standing redaction of an already stored attachment, before the observed tuple is compared.\<close>

definition redact_stored_attachment ::
  "projection_db \<Rightarrow> string \<Rightarrow> resource_tombstone_row option \<Rightarrow> attachment_row option \<Rightarrow> projection_db" where
  "redact_stored_attachment db aid redactionTombstone existing =
     (case (redactionTombstone, existing) of
        (Some t, Some _) \<Rightarrow>
          db\<lparr>attachments := upd_where (\<lambda>a. a_id a = aid)
               (redact_attachment_row (Some (rt_occurred_at t))) (attachments db)\<rparr>
      | _ \<Rightarrow> db)"

text \<open>The \<open>INSERT\<close> or \<open>UPDATE\<close> of the observed attachment.\<close>

definition store_attachment ::
  "projection_db \<Rightarrow> prepared_event \<Rightarrow> attachment_observed_payload \<Rightarrow> attachment_row option
     \<Rightarrow> resource_tombstone_row option \<Rightarrow> projection_db result" where
  "store_attachment db p payload existing redactionTombstone =
     (let e = pe_event p; owner = ownerFor p; aid = ao_attachment_id payload;
          redacted = redactionTombstone \<noteq> None;
          fileName = (if redacted then None else ao_file_name payload);
          mimeType = (if redacted then None else ao_mime_type payload);
          sizeBytes = (if redacted then None else ao_size_bytes payload);
          sha = (if redacted then None else ao_sha256 payload);
          r2Key = (if redacted then None else ao_r2_key payload);
          deletedAt = map_option rt_occurred_at redactionTombstone
      in if existing = None then
           andThen (ins_row a_id
             \<lparr>identity_id = identityId owner, account_id = accountId owner,
              connection_id = connectionId owner, platform = o_platform owner,
              conversation_id = conversationId owner, a_id = aid,
              a_message_id = ao_message_id payload, a_file_name = fileName,
              a_mime_type = mimeType, a_size_bytes = sizeBytes, a_sha256 = sha,
              a_r2_key = r2Key, a_observed_at = ev_observed_at e,
              a_last_observed_ms = pe_observedMs p, a_last_event_id = ev_event_id e,
              a_expires_at = ao_expires_at payload, a_deleted_at = deletedAt\<rparr>
             (attachments db)) (\<lambda>as. Inr (db\<lparr>attachments := as\<rparr>))
         else
           Inr (db\<lparr>attachments := upd_where (\<lambda>a. a_id a = aid)
                  (\<lambda>a. a\<lparr>identity_id := identityId owner, account_id := accountId owner,
                         connection_id := connectionId owner,
                         conversation_id := conversationId owner, platform := o_platform owner,
                         a_file_name := fileName, a_mime_type := mimeType,
                         a_size_bytes := sizeBytes, a_sha256 := sha, a_r2_key := r2Key,
                         a_observed_at := ev_observed_at e,
                         a_last_observed_ms := pe_observedMs p,
                         a_last_event_id := ev_event_id e,
                         a_expires_at := ao_expires_at payload, a_deleted_at := deletedAt\<rparr>)
                  (attachments db)\<rparr>))"

definition projectAttachmentObserved ::
  "projection_db \<Rightarrow> prepared_event \<Rightarrow> attachment_observed_payload \<Rightarrow> projection_db result" where
  "projectAttachmentObserved db p payload =
     (let owner = ownerFor p; aid = ao_attachment_id payload in
      andThen (ensureConversationShell db p) (\<lambda>(db1, _).
      andThen (assertCanonicalResourceIdOwner db1 RAttachment aid owner) (\<lambda>_.
      andThen (assertReferencedMessageOwner db1 (Some (ao_message_id payload)) owner) (\<lambda>_.
      let existing = readAttachment db1 aid in
      andThen (assertOwner existing owner) (\<lambda>_.
      andThen (case existing of
                 None \<Rightarrow> Inr ()
               | Some a \<Rightarrow> throwIf (a_message_id a \<noteq> ao_message_id payload)
                             (ProjectionError projection_conflict)) (\<lambda>_.
      andThen (messageIsRedacted db1 (ao_message_id payload) (conversationId owner)) (\<lambda>messageTombstone.
      andThen (assertOwner (attachmentIsDeleted db1 aid) owner) (\<lambda>_.
      andThen (latestTombstone (attachmentIsDeleted db1 aid) messageTombstone) (\<lambda>redactionTombstone.
      let db2 = redact_stored_attachment db1 aid redactionTombstone existing in
      andThen (isStale p (map_option (\<lambda>a. (a_last_observed_ms a, a_last_event_id a)) existing)) (\<lambda>stale.
      if stale then Inr db2
      else store_attachment db2 p payload existing redactionTombstone))))))))))"

end
