(* ===== verification/Projector_Messages.thy ===== *)
theory Projector_Messages
  imports Projector_Control Projector_Social
begin

text \<open>
  \<open>projection/projector-messages.ts\<close>: message creation and edits. Every body is a row of
  \<open>message_versions\<close>; the message row shows the version the last-writer-wins order selects, unless
  a tombstone of the message or of its conversation redacts it.
\<close>

definition insertMessageVersion ::
  "projection_db \<Rightarrow> prepared_event \<Rightarrow> string \<Rightarrow> version_kind \<Rightarrow> string \<Rightarrow> string option
     \<Rightarrow> projection_db result" where
  "insertMessageVersion db p mid kind body editor =
     (let e = pe_event p; owner = ownerFor p in
      andThen (ins_row v_event_id
        \<lparr>identity_id = identityId owner, account_id = accountId owner,
         connection_id = connectionId owner, platform = o_platform owner,
         conversation_id = conversationId owner, v_event_id = ev_event_id e, v_message_id = mid,
         v_version_kind = kind, v_body = body, v_editor_participant_id = editor,
         v_occurred_at = ev_occurred_at e, v_observed_at = ev_observed_at e,
         v_observed_ms = pe_observedMs p\<rparr>
        (message_versions db)) (\<lambda>vs. Inr (db\<lparr>message_versions := vs\<rparr>)))"

definition set_current ::
  "projection_db \<Rightarrow> string \<Rightarrow> (message_row \<Rightarrow> message_row) \<Rightarrow> message_version_row \<Rightarrow> projection_db" where
  "set_current db mid f latest =
     db\<lparr>messages := upd_where (\<lambda>m. m_id m = mid)
          (\<lambda>m. (f m)\<lparr>m_observed_at := v_observed_at latest,
                     m_current_observed_ms := v_observed_ms latest,
                     m_current_event_id := v_event_id latest\<rparr>) (messages db)\<rparr>"

definition applyCurrentMessageVersion ::
  "projection_db \<Rightarrow> message_row \<Rightarrow> message_version_row \<Rightarrow> resource_tombstone_row option
     \<Rightarrow> projection_db result" where
  "applyCurrentMessageVersion db message latest tombstone =
     andThen (compareObservedTuple (v_observed_ms latest) (v_event_id latest)
                (m_current_observed_ms message) (m_current_event_id message)) (\<lambda>cmp.
     let currentIsNewer = (cmp > 0) in
     case tombstone of
       None \<Rightarrow>
         if \<not> currentIsNewer then Inr db
         else if v_version_kind latest = VEdited then
           Inr (set_current db (m_id message)
                  (\<lambda>m. m\<lparr>m_body := v_body latest, m_edited_at := Some (v_occurred_at latest)\<rparr>) latest)
         else
           Inr (set_current db (m_id message)
                  (\<lambda>m. m\<lparr>m_body := v_body latest, m_edited_at := None\<rparr>) latest)
     | Some t \<Rightarrow>
         andThen (redactMessage db (m_id message) t) (\<lambda>db1.
         if \<not> currentIsNewer then Inr db1
         else
           andThen (compareObservedTuple (v_observed_ms latest) (v_event_id latest)
                      (rt_observed_ms t) (rt_tombstone_event_id t)) (\<lambda>c.
           if c > 0 then Inr (set_current db1 (m_id message) (\<lambda>m. m) latest) else Inr db1)))"

definition readLatestCreatedVersion :: "projection_db \<Rightarrow> string \<Rightarrow> message_version_row option" where
  "readLatestCreatedVersion db mid =
     best_row version_beats
       (filter (\<lambda>v. v_message_id v = mid \<and> v_version_kind v = VCreated) (message_versions db))"

definition reconcileWinningCreatedFields ::
  "projection_db \<Rightarrow> string \<Rightarrow> prepared_event \<Rightarrow> message_created_payload
     \<Rightarrow> resource_tombstone_row option \<Rightarrow> resource_tombstone_row option \<Rightarrow> projection_db" where
  "reconcileWinningCreatedFields db mid p payload tombstone senderTombstone =
     (let e = pe_event p; redacted = tombstone \<noteq> None;
          hideSender = tombstone \<noteq> None \<or> senderTombstone \<noteq> None in
      if map_option v_event_id (readLatestCreatedVersion db mid) \<noteq> Some (ev_event_id e) then db
      else
        db\<lparr>messages := upd_where (\<lambda>m. m_id m = mid)
          (\<lambda>m. m\<lparr>m_sender_participant_id := (if hideSender then None else mc_sender_participant_id payload),
                 m_sender_label := (if hideSender then ''Deleted sender'' else mc_sender_label payload),
                 m_reply_to_message_id := (if redacted then None else mc_reply_to_message_id payload),
                 m_delivery_status :=
                   (if readDelivery db mid = None then mc_delivery_status payload
                    else m_delivery_status m),
                 m_unread := (if redacted then 0 else if mc_unread payload then 1 else 0),
                 m_occurred_at := ev_occurred_at e, m_occurred_ms := pe_occurredMs p,
                 m_matrix_room_id := (if redacted then None else ev_matrix_room_id e),
                 m_matrix_event_id := (if redacted then None else ev_matrix_event_id e),
                 m_remote_message_id := (if redacted then None else ev_remote_message_id e)\<rparr>)
          (messages db)\<rparr>)"

definition effectiveMessageTombstone ::
  "projection_db \<Rightarrow> string \<Rightarrow> string \<Rightarrow> resource_tombstone_row option result" where
  "effectiveMessageTombstone db mid cid =
     latestTombstone (messageIsDeleted db mid) (conversationIsDeleted db cid)"

definition initializeCreatedDeliveryTuple :: "projection_db \<Rightarrow> string \<Rightarrow> projection_db result" where
  "initializeCreatedDeliveryTuple db mid =
     (if readDelivery db mid \<noteq> None then reconcileMessageDelivery db mid else Inr db)"

text \<open>The row of the \<open>INSERT INTO messages\<close>; \<open>observedAt\<close> is the canonical time of a winning tombstone.\<close>

definition new_message ::
  "prepared_event \<Rightarrow> message_created_payload \<Rightarrow> message_version_row \<Rightarrow> resource_tombstone_row option
     \<Rightarrow> resource_tombstone_row option \<Rightarrow> string \<Rightarrow> int \<Rightarrow> string \<Rightarrow> message_row" where
  "new_message p payload latest tombstone senderTombstone observedAt currentMs currentEventId =
     (let e = pe_event p; owner = ownerFor p; redacted = tombstone \<noteq> None;
          hideSender = redacted \<or> senderTombstone \<noteq> None in
      \<lparr>identity_id = identityId owner, account_id = accountId owner,
       connection_id = connectionId owner, platform = o_platform owner,
       conversation_id = conversationId owner, m_id = mc_message_id payload,
       m_direction = mc_direction payload,
       m_sender_participant_id = (if hideSender then None else mc_sender_participant_id payload),
       m_sender_label = (if hideSender then ''Deleted sender'' else mc_sender_label payload),
       m_body = v_body latest,
       m_reply_to_message_id = (if redacted then None else mc_reply_to_message_id payload),
       m_delivery_status = mc_delivery_status payload,
       m_unread = (if redacted then 0 else if mc_unread payload then 1 else 0),
       m_local_read_at = None, m_occurred_at = ev_occurred_at e, m_occurred_ms = pe_occurredMs p,
       m_observed_at = observedAt, m_current_observed_ms = currentMs,
       m_current_event_id = currentEventId,
       m_matrix_room_id = (if redacted then None else ev_matrix_room_id e),
       m_matrix_event_id = (if redacted then None else ev_matrix_event_id e),
       m_remote_message_id = (if redacted then None else ev_remote_message_id e),
       m_edited_at = (if v_version_kind latest = VEdited \<and> \<not> redacted
                      then Some (v_occurred_at latest) else None),
       m_deleted_at = map_option rt_occurred_at tombstone,
       m_deletion_reason = (case tombstone of None \<Rightarrow> None | Some t \<Rightarrow> rt_reason_code t),
       m_attachment_count = 0, m_delivery_failure_code = None, m_delivery_observed_ms = None,
       m_delivery_event_id = None\<rparr>)"

definition insert_created_message ::
  "projection_db \<Rightarrow> prepared_event \<Rightarrow> message_created_payload \<Rightarrow> message_version_row
     \<Rightarrow> resource_tombstone_row option \<Rightarrow> resource_tombstone_row option \<Rightarrow> projection_db result" where
  "insert_created_message db p payload latest tombstone senderTombstone =
     andThen
       (case tombstone of
          None \<Rightarrow> Inr False
        | Some t \<Rightarrow>
            andThen (compareObservedTuple (rt_observed_ms t) (rt_tombstone_event_id t)
                       (v_observed_ms latest) (v_event_id latest)) (\<lambda>cmp. Inr (cmp > 0)))
     (\<lambda>currentIsTombstone.
     andThen
       (case tombstone of
          Some t \<Rightarrow>
            if currentIsTombstone
            then andThen (canonicalObservedAt (rt_observed_ms t))
                   (\<lambda>at. Inr (at, rt_observed_ms t, rt_tombstone_event_id t))
            else Inr (v_observed_at latest, v_observed_ms latest, v_event_id latest)
        | None \<Rightarrow> Inr (v_observed_at latest, v_observed_ms latest, v_event_id latest))
     (\<lambda>(observedAt, ms, eid).
     andThen (ins_row m_id (new_message p payload latest tombstone senderTombstone observedAt ms eid)
                (messages db)) (\<lambda>ms'.
     Inr (db\<lparr>messages := ms'\<rparr>))))"

definition projectMessageCreated ::
  "projection_db \<Rightarrow> prepared_event \<Rightarrow> message_created_payload \<Rightarrow> projection_db result" where
  "projectMessageCreated db p payload =
     (let owner = ownerFor p; mid = mc_message_id payload in
      andThen (assertReferencedParticipantOwner db (mc_sender_participant_id payload) owner) (\<lambda>_.
      andThen (assertReferencedMessageOwner db (mc_reply_to_message_id payload) owner) (\<lambda>_.
      andThen (assertMessageTargetOwner db mid owner) (\<lambda>message.
      andThen (case message of
                 None \<Rightarrow> Inr ()
               | Some m \<Rightarrow> throwIf (m_direction m \<noteq> mc_direction payload)
                             (ProjectionError projection_conflict)) (\<lambda>_.
      andThen (ensureConversationShell db p) (\<lambda>(db1, _).
      andThen (effectiveMessageTombstone db1 mid (conversationId owner)) (\<lambda>tombstone.
      let senderTombstone =
            (case mc_sender_participant_id payload of
               None \<Rightarrow> None
             | Some pid \<Rightarrow> participantIsDeleted db1 pid);
          redacted = tombstone \<noteq> None
      in andThen (insertMessageVersion db1 p mid VCreated (if redacted then '''' else mc_body payload) None)
        (\<lambda>db2.
      case readLatestMessageVersion db2 mid of
        None \<Rightarrow> projectionError projection_unavailable
      | Some latest \<Rightarrow>
          andThen
            (case message of
               None \<Rightarrow>
                 andThen (insert_created_message db2 p payload latest tombstone senderTombstone) (\<lambda>db3.
                 initializeCreatedDeliveryTuple db3 mid)
             | Some m \<Rightarrow>
                 andThen (applyCurrentMessageVersion db2 m latest tombstone) (\<lambda>db3.
                 initializeCreatedDeliveryTuple
                   (reconcileWinningCreatedFields db3 mid p payload tombstone senderTombstone) mid))
          (\<lambda>db4.
          andThen
            (case tombstone of
               None \<Rightarrow> Inr db4
             | Some t \<Rightarrow> if readMessage db4 mid \<noteq> None then redactMessage db4 mid t else Inr db4)
          (\<lambda>db5. reconcileMessageLocalRead db5 mid))))))))))"

definition projectMessageEdited ::
  "projection_db \<Rightarrow> prepared_event \<Rightarrow> message_edited_payload \<Rightarrow> projection_db result" where
  "projectMessageEdited db p payload =
     (let owner = ownerFor p; mid = me_message_id payload in
      andThen (assertReferencedParticipantOwner db (me_editor_participant_id payload) owner) (\<lambda>_.
      andThen (assertMessageTargetOwner db mid owner) (\<lambda>message.
      andThen (ensureConversationShell db p) (\<lambda>(db1, _).
      andThen (effectiveMessageTombstone db1 mid (conversationId owner)) (\<lambda>tombstone.
      let editorTombstone =
            (case me_editor_participant_id payload of
               None \<Rightarrow> None
             | Some pid \<Rightarrow> participantIsDeleted db1 pid)
      in andThen (insertMessageVersion db1 p mid VEdited
                    (if tombstone = None then me_body payload else '''')
                    (if tombstone = None \<and> editorTombstone = None
                     then me_editor_participant_id payload else None)) (\<lambda>db2.
      case message of
        None \<Rightarrow> Inr db2
      | Some m \<Rightarrow>
          (case readLatestMessageVersion db2 mid of
             None \<Rightarrow> projectionError projection_unavailable
           | Some latest \<Rightarrow>
               andThen (applyCurrentMessageVersion db2 m latest tombstone) (\<lambda>db3.
               reconcileMessageLocalRead db3 mid))))))))"

end
