(* ===== verification/Projector_Domains.thy ===== *)
theory Projector_Domains
  imports Projector_Conversation Projector_Messages
begin

text \<open>
  \<open>projection/projector-domains.ts\<close>: the exhaustive dispatch of one prepared event, and the
  recomputation of the conversation summaries after a batch.
\<close>

definition projectEvent :: "prepared_event \<Rightarrow> projection_db \<Rightarrow> projection_db result" where
  "projectEvent p db =
     andThen (assertEventTombstoneOwner db (ev_event_id (pe_event p)) (ownerFor p)) (\<lambda>_.
     case ev_payload (pe_event p) of
       ConversationUpdated u \<Rightarrow> projectConversationUpdated db p u
     | ParticipantUpdated u \<Rightarrow> projectParticipantUpdated db p u
     | MessageCreated u \<Rightarrow> projectMessageCreated db p u
     | MessageEdited u \<Rightarrow> projectMessageEdited db p u
     | MessageDeleted u \<Rightarrow> projectMessageDeleted db p u
     | ReactionAdded u \<Rightarrow> projectReactionAdded db p u
     | ReactionRemoved u \<Rightarrow> projectReactionRemoved db p u
     | ReceiptRead u \<Rightarrow> projectReceipt db p RcRead u
     | ReceiptDelivered u \<Rightarrow> projectReceipt db p RcDelivered u
     | TypingStarted u \<Rightarrow> projectTypingStarted db p u
     | TypingStopped u \<Rightarrow> projectTypingStopped db p u
     | AttachmentObserved u \<Rightarrow> projectAttachmentObserved db p u
     | CommandUpdated u \<Rightarrow> projectCommandUpdated db p u
     | BridgeDeliveryUpdated u \<Rightarrow> projectBridgeDeliveryUpdated db p u
     | ReplayTombstone u \<Rightarrow> projectEventMarker db p u
     | CorrectionApplied u \<Rightarrow> projectEventMarker db p u
     | DeletionTombstone u \<Rightarrow> projectDeletionTombstone db p u)"

text \<open>Every branch adds the event's conversation to \<open>touchedConversations\<close>.\<close>

definition touched_conversation :: "prepared_event \<Rightarrow> string" where
  "touched_conversation p = ev_conversation_id (pe_event p)"

section \<open>Summaries\<close>

text \<open>The messages the three summary queries of one conversation select.\<close>

definition active_messages :: "projection_db \<Rightarrow> string \<Rightarrow> string \<Rightarrow> message_row list" where
  "active_messages db iid cid =
     filter (\<lambda>m. identity_id m = iid \<and> conversation_id m = cid \<and> m_deleted_at m = None) (messages db)"

definition live_attachment_count :: "projection_db \<Rightarrow> string \<Rightarrow> int" where
  "live_attachment_count db mid =
     int (length (filter (\<lambda>a. a_message_id a = mid \<and> a_deleted_at a = None) (attachments db)))"

text \<open>\<open>ORDER BY occurred_ms DESC, id ASC LIMIT 1\<close>.\<close>

definition message_before :: "message_row \<Rightarrow> message_row \<Rightarrow> bool" where
  "message_before a b =
     (m_occurred_ms a > m_occurred_ms b \<or> (m_occurred_ms a = m_occurred_ms b \<and> m_id a < m_id b))"

text \<open>The two \<open>UPDATE conversations\<close>: of a deleted conversation, and of one with its active messages.\<close>

definition deleted_summary :: "conversation_row \<Rightarrow> conversation_row \<Rightarrow> conversation_row" where
  "deleted_summary shell c =
     c\<lparr>c_last_message_preview := '''', c_last_activity_at := c_shell_activity_at shell,
       c_last_activity_ms := c_shell_activity_ms shell, c_unread_count := 0, c_message_count := 0,
       c_attachment_count := 0, c_last_event_id := c_shell_activity_event_id shell\<rparr>"

definition live_summary :: "conversation_row \<Rightarrow> message_row list \<Rightarrow> conversation_row \<Rightarrow> conversation_row" where
  "live_summary shell active c =
     (let latest = best_row message_before active in
      c\<lparr>c_last_message_preview := (case latest of None \<Rightarrow> '''' | Some m \<Rightarrow> js_take 280 (m_body m)),
        c_last_activity_at := (case latest of None \<Rightarrow> c_shell_activity_at shell | Some m \<Rightarrow> m_occurred_at m),
        c_last_activity_ms := (case latest of None \<Rightarrow> c_shell_activity_ms shell | Some m \<Rightarrow> m_occurred_ms m),
        c_unread_count := int (length (filter (\<lambda>m. m_direction m = Inbound \<and> m_unread m = 1) active)),
        c_message_count := int (length active),
        c_attachment_count := sum_list (map m_attachment_count active),
        c_last_event_id := c_shell_activity_event_id shell\<rparr>)"

text \<open>\<open>UPDATE messages SET attachment_count = (SELECT COUNT(*) \<dots>)\<close> of the active messages.\<close>

definition recount_attachments :: "projection_db \<Rightarrow> string \<Rightarrow> string \<Rightarrow> projection_db" where
  "recount_attachments db iid cid =
     db\<lparr>messages := upd_where (\<lambda>m. identity_id m = iid \<and> conversation_id m = cid \<and> m_deleted_at m = None)
          (\<lambda>m. m\<lparr>m_attachment_count := live_attachment_count db (m_id m)\<rparr>) (messages db)\<rparr>"

definition recompute_conversation :: "string \<Rightarrow> projection_db \<Rightarrow> projection_db" where
  "recompute_conversation cid db =
     (case readConversation db cid of
        None \<Rightarrow> db
      | Some c \<Rightarrow>
          if c_deleted_at c \<noteq> None
          then db\<lparr>conversations := upd_where (\<lambda>r. c_id r = cid) (deleted_summary c) (conversations db)\<rparr>
          else let db1 = recount_attachments db (identity_id c) cid in
            db1\<lparr>conversations := upd_where (\<lambda>r. c_id r = cid)
                 (live_summary c (active_messages db1 (identity_id c) cid)) (conversations db1)\<rparr>)"

definition recomputeConversationSummaries :: "string list \<Rightarrow> projection_db \<Rightarrow> projection_db" where
  "recomputeConversationSummaries touched db =
     fold recompute_conversation (sort (unique_values touched)) db"

end
