(* ===== verification/Table_Steps.thy ===== *)
theory Table_Steps
  imports Projector_Domains
begin

text \<open>
  How a table evolves under the SQL statements of a projector: rows of one owner are inserted under
  a fresh key, updated in place without changing key or owner, or deleted. The three invariants of
  the projection's tables (distinct primary keys, rows of other owners untouched, a predicate on
  every row) are shown once here for every sequence of such steps.
\<close>

inductive table_step ::
  "('r \<Rightarrow> 'k) \<Rightarrow> ('r \<Rightarrow> bool) \<Rightarrow> ('r \<Rightarrow> bool) \<Rightarrow> 'r list \<Rightarrow> 'r list \<Rightarrow> bool"
  for key :: "'r \<Rightarrow> 'k" and owned :: "'r \<Rightarrow> bool" and ok :: "'r \<Rightarrow> bool" where
  step_insert: "owned r \<Longrightarrow> ok r \<Longrightarrow> key r \<notin> key ` set rs \<Longrightarrow> table_step key owned ok rs (rs @ [r])"
| step_update: "(\<And>r. r \<in> set rs \<Longrightarrow> P r \<Longrightarrow> owned r) \<Longrightarrow> (\<And>r. owned r \<Longrightarrow> owned (f r)) \<Longrightarrow>
    (\<And>r. P r \<Longrightarrow> key (f r) = key r) \<Longrightarrow> (\<And>r. r \<in> set rs \<Longrightarrow> P r \<Longrightarrow> ok r \<Longrightarrow> ok (f r)) \<Longrightarrow>
    table_step key owned ok rs (upd_where P f rs)"
| step_delete: "(\<And>r. r \<in> set rs \<Longrightarrow> P r \<Longrightarrow> owned r) \<Longrightarrow> table_step key owned ok rs (del_where P rs)"

definition table_evolves ::
  "('r \<Rightarrow> 'k) \<Rightarrow> ('r \<Rightarrow> bool) \<Rightarrow> ('r \<Rightarrow> bool) \<Rightarrow> 'r list \<Rightarrow> 'r list \<Rightarrow> bool" where
  "table_evolves key owned ok = (table_step key owned ok)\<^sup>*\<^sup>*"

lemma table_evolves_refl [simp, intro]: "table_evolves key owned ok rs rs"
  by (simp add: table_evolves_def)

lemma table_evolves_trans [trans]:
  "table_evolves key owned ok rs ss \<Longrightarrow> table_evolves key owned ok ss ts
     \<Longrightarrow> table_evolves key owned ok rs ts"
  unfolding table_evolves_def by (rule rtranclp_trans)

lemma table_evolves_step: "table_step key owned ok rs ss \<Longrightarrow> table_evolves key owned ok rs ss"
  by (simp add: table_evolves_def)

text \<open>Appending a statement to a sequence of statements.\<close>

lemma table_evolves_insert:
  assumes "table_evolves key owned ok rs ss" and "owned r" and "ok r" and "key r \<notin> key ` set ss"
  shows "table_evolves key owned ok rs (ss @ [r])"
  using assms by (blast intro: table_evolves_trans table_evolves_step step_insert)

lemma table_evolves_update:
  assumes "table_evolves key owned ok rs ss"
    and "\<And>r. r \<in> set ss \<Longrightarrow> P r \<Longrightarrow> owned r"
    and "\<And>r. owned r \<Longrightarrow> owned (f r)" and "\<And>r. P r \<Longrightarrow> key (f r) = key r"
    and "\<And>r. r \<in> set ss \<Longrightarrow> P r \<Longrightarrow> ok r \<Longrightarrow> ok (f r)"
  shows "table_evolves key owned ok rs (upd_where P f ss)"
  by (rule table_evolves_trans [OF assms(1)], rule table_evolves_step, rule step_update)
    (use assms(2-5) in auto)

lemma table_evolves_delete:
  assumes "table_evolves key owned ok rs ss" and "\<And>r. r \<in> set ss \<Longrightarrow> P r \<Longrightarrow> owned r"
  shows "table_evolves key owned ok rs (del_where P ss)"
  by (rule table_evolves_trans [OF assms(1)], rule table_evolves_step, rule step_delete)
    (use assms(2) in auto)

lemma table_step_distinct:
  "table_step key owned ok rs ss \<Longrightarrow> distinct (map key rs) \<Longrightarrow> distinct (map key ss)"
  by (induction rule: table_step.induct) (auto simp: map_key_upd_where distinct_key_del_where)

lemma table_step_foreign:
  "table_step key owned ok rs ss \<Longrightarrow> filter (\<lambda>r. \<not> owned r) ss = filter (\<lambda>r. \<not> owned r) rs"
proof (induction rule: table_step.induct)
  case (step_update rs P f)
  then show ?case by (induction rs) (auto simp: upd_where_def)
next
  case (step_delete rs P)
  then show ?case by (induction rs) (auto simp: del_where_def)
qed simp

lemma table_step_ok:
  "table_step key owned ok rs ss \<Longrightarrow> list_all ok rs \<Longrightarrow> list_all ok ss"
  by (induction rule: table_step.induct) (auto simp: list_all_iff upd_where_def del_where_def)

lemma table_evolves_distinct:
  "table_evolves key owned ok rs ss \<Longrightarrow> distinct (map key rs) \<Longrightarrow> distinct (map key ss)"
  unfolding table_evolves_def by (induction rule: rtranclp_induct) (auto dest: table_step_distinct)

lemma table_evolves_foreign:
  "table_evolves key owned ok rs ss \<Longrightarrow> filter (\<lambda>r. \<not> owned r) ss = filter (\<lambda>r. \<not> owned r) rs"
  unfolding table_evolves_def by (induction rule: rtranclp_induct) (auto dest: table_step_foreign)

lemma table_evolves_owned:
  assumes "table_evolves key owned ok rs ss" and "\<And>r. r \<in> set rs \<Longrightarrow> P r \<Longrightarrow> owned r"
    and "s \<in> set ss" and "P s"
  shows "owned s"
proof (rule ccontr)
  assume "\<not> owned s"
  with assms(3) have "s \<in> set (filter (\<lambda>r. \<not> owned r) ss)" by simp
  then have "s \<in> set rs" unfolding table_evolves_foreign [OF assms(1)] by simp
  with assms(2,4) \<open>\<not> owned s\<close> show False by blast
qed

lemma table_evolves_ok:
  "table_evolves key owned ok rs ss \<Longrightarrow> list_all ok rs \<Longrightarrow> list_all ok ss"
  unfolding table_evolves_def by (induction rule: rtranclp_induct) (auto dest: table_step_ok)

text \<open>A weaker row predicate: the steps are the same.\<close>

lemma table_step_mono:
  "table_step key owned ok rs ss \<Longrightarrow> table_step key owned (\<lambda>_. True) rs ss"
proof (induction rule: table_step.induct)
  case (step_insert r rs)
  then show ?case by (auto intro: table_step.step_insert)
next
  case (step_update rs P f)
  show ?case by (rule table_step.step_update) (use step_update in auto)
next
  case (step_delete rs P)
  then show ?case by (auto intro: table_step.step_delete)
qed

lemma table_evolves_mono:
  "table_evolves key owned ok rs ss \<Longrightarrow> table_evolves key owned (\<lambda>_. True) rs ss"
  unfolding table_evolves_def
  by (induction rule: rtranclp_induct) (auto dest: table_step_mono intro: rtranclp.rtrancl_into_rtrancl)

lemma set_upd_where_keeps:
  assumes "r' \<in> set (upd_where P f rs)" and "\<And>r. g (f r) = g r"
  shows "\<exists>r \<in> set rs. g r' = g r"
  using assms by (auto simp: set_upd_where)

lemma image_key_upd_where:
  assumes "\<And>r. P r \<Longrightarrow> key (f r) = key r"
  shows "key ` set (upd_where P f rs) = key ` set rs"
proof -
  have "set (map key (upd_where P f rs)) = set (map key rs)"
    by (simp only: map_key_upd_where [of P key f, OF assms])
  then show ?thesis by simp
qed

text \<open>With distinct keys the row a lookup returns is the only one with that key.\<close>

lemma find_key_only:
  assumes "distinct (map key rs)" and "find (\<lambda>r. key r = k) rs = Some r" and "s \<in> set rs" and "key s = k"
  shows "s = r"
  using assms find_key_unique [of key rs s] by auto

lemma find_key_fresh: "find (\<lambda>r. key r = k) rs = None \<longleftrightarrow> k \<notin> key ` set rs"
  by (auto simp: find_None_set)

end
