(* ===== verification/Projection_Invariants.thy ===== *)
theory Projection_Invariants
  imports Table_Steps
begin

text \<open>
  The well-formedness of the projection's tables. \<open>wf_db\<close> says that primary keys are distinct and
  that every row a tombstone covers is redacted; \<open>projects\<close> says that a projector changed only rows
  of its event's owner, by steps that keep both.
\<close>

section \<open>Redaction of one row\<close>

type_synonym tombs = "canonical_resource_type \<Rightarrow> string \<Rightarrow> bool"

definition tombs_of :: "projection_db \<Rightarrow> tombs" where
  "tombs_of db = (\<lambda>ty rid. readResourceTombstone db ty rid \<noteq> None)"

definition conversation_ok :: "tombs \<Rightarrow> conversation_row \<Rightarrow> bool" where
  "conversation_ok T c = (T RConversation (c_id c) \<longrightarrow>
     c_title c = ''Deleted conversation'' \<and> c_last_message_preview c = '''' \<and> c_archived c = 0
     \<and> c_muted c = 0 \<and> c_deleted_at c \<noteq> None)"

definition participant_ok :: "tombs \<Rightarrow> participant_row \<Rightarrow> bool" where
  "participant_ok T p = (T RParticipant (p_id p) \<or> T RConversation (conversation_id p) \<longrightarrow>
     p_display_name p = ''Deleted participant'' \<and> p_remote_id p = None \<and> p_avatar_url p = None
     \<and> p_deleted_at p \<noteq> None)"

definition message_redacted :: "message_row \<Rightarrow> bool" where
  "message_redacted m =
     (m_sender_participant_id m = None \<and> m_sender_label m = ''Deleted sender'' \<and> m_body m = ''''
      \<and> m_reply_to_message_id m = None \<and> m_matrix_room_id m = None \<and> m_matrix_event_id m = None
      \<and> m_remote_message_id m = None \<and> m_unread m = 0 \<and> m_local_read_at m = None
      \<and> m_edited_at m = None \<and> m_deleted_at m \<noteq> None \<and> m_attachment_count m = 0
      \<and> m_delivery_failure_code m = None)"

definition message_ok :: "tombs \<Rightarrow> message_row \<Rightarrow> bool" where
  "message_ok T m =
     ((T RMessage (m_id m) \<or> T RConversation (conversation_id m) \<longrightarrow> message_redacted m)
      \<and> (\<forall>pid. m_sender_participant_id m = Some pid \<longrightarrow> \<not> T RParticipant pid))"

definition version_ok :: "tombs \<Rightarrow> message_version_row \<Rightarrow> bool" where
  "version_ok T v =
     ((T RMessage (v_message_id v) \<or> T RConversation (conversation_id v) \<longrightarrow>
         v_body v = '''' \<and> v_editor_participant_id v = None)
      \<and> (\<forall>pid. v_editor_participant_id v = Some pid \<longrightarrow> \<not> T RParticipant pid))"

definition reaction_ok :: "tombs \<Rightarrow> reaction_row \<Rightarrow> bool" where
  "reaction_ok T r =
     (\<not> T RMessage (r_message_id r) \<and> \<not> T RConversation (conversation_id r)
      \<and> (\<forall>pid. r_participant_id r = Some pid \<longrightarrow> \<not> T RParticipant pid))"

definition receipt_ok :: "tombs \<Rightarrow> receipt_row \<Rightarrow> bool" where
  "receipt_ok T r =
     (\<not> T RMessage (rc_message_id r) \<and> \<not> T RConversation (conversation_id r)
      \<and> \<not> T RParticipant (rc_participant_id r))"

definition typing_ok :: "tombs \<Rightarrow> typing_row \<Rightarrow> bool" where
  "typing_ok T t = (\<not> T RConversation (conversation_id t) \<and> \<not> T RParticipant (t_participant_id t))"

definition attachment_ok :: "tombs \<Rightarrow> attachment_row \<Rightarrow> bool" where
  "attachment_ok T a =
     (T RAttachment (a_id a) \<or> T RMessage (a_message_id a) \<or> T RConversation (conversation_id a) \<longrightarrow>
        a_file_name a = None \<and> a_mime_type a = None \<and> a_size_bytes a = None \<and> a_sha256 a = None
        \<and> a_r2_key a = None \<and> a_deleted_at a \<noteq> None)"

definition delivery_ok :: "tombs \<Rightarrow> delivery_row \<Rightarrow> bool" where
  "delivery_ok T d =
     (T RMessage (d_message_id d) \<or> T RConversation (conversation_id d) \<longrightarrow> d_failure_code d = None)"

definition command_ok :: "tombs \<Rightarrow> command_row \<Rightarrow> bool" where
  "command_ok T k = (T RConversation (conversation_id k) \<longrightarrow> k_failure_code k = None)"

lemmas row_ok_defs = conversation_ok_def participant_ok_def message_redacted_def message_ok_def
  version_ok_def reaction_ok_def receipt_ok_def typing_ok_def attachment_ok_def delivery_ok_def
  command_ok_def

section \<open>Well-formed databases\<close>

definition receipt_key :: "receipt_row \<Rightarrow> string \<times> string \<times> receipt_type" where
  "receipt_key r = (rc_message_id r, rc_participant_id r, rc_receipt_type r)"

definition typing_key :: "typing_row \<Rightarrow> string \<times> string" where
  "typing_key t = (conversation_id t, t_participant_id t)"

definition tombstone_key :: "resource_tombstone_row \<Rightarrow> canonical_resource_type \<times> string" where
  "tombstone_key t = (rt_resource_type t, rt_resource_id t)"

text \<open>The primary keys of \<open>schema.ts\<close>.\<close>

definition keys_distinct :: "projection_db \<Rightarrow> bool" where
  "keys_distinct db =
     (distinct (map c_id (conversations db)) \<and> distinct (map p_id (participants db))
      \<and> distinct (map m_id (messages db)) \<and> distinct (map v_event_id (message_versions db))
      \<and> distinct (map r_id (reactions db)) \<and> distinct (map receipt_key (receipts db))
      \<and> distinct (map typing_key (typing_states db)) \<and> distinct (map a_id (attachments db))
      \<and> distinct (map k_id (commands db)) \<and> distinct (map d_message_id (message_delivery_updates db))
      \<and> distinct (map et_target_event_id (event_tombstones db))
      \<and> distinct (map tombstone_key (resource_tombstones db)))"

definition redacted :: "tombs \<Rightarrow> projection_db \<Rightarrow> bool" where
  "redacted T db =
     (list_all (conversation_ok T) (conversations db) \<and> list_all (participant_ok T) (participants db)
      \<and> list_all (message_ok T) (messages db) \<and> list_all (version_ok T) (message_versions db)
      \<and> list_all (reaction_ok T) (reactions db) \<and> list_all (receipt_ok T) (receipts db)
      \<and> list_all (typing_ok T) (typing_states db) \<and> list_all (attachment_ok T) (attachments db)
      \<and> list_all (command_ok T) (commands db)
      \<and> list_all (delivery_ok T) (message_delivery_updates db)
      \<and> (\<forall>cid. T RConversation cid \<longrightarrow> cid \<in> c_id ` set (conversations db)))"

definition wf_db :: "projection_db \<Rightarrow> bool" where
  "wf_db db = (keys_distinct db \<and> redacted (tombs_of db) db)"

section \<open>Evolution of the database\<close>

definition db_evolves :: "projection_owner \<Rightarrow> tombs \<Rightarrow> projection_db \<Rightarrow> projection_db \<Rightarrow> bool" where
  "db_evolves owner T db db' =
     (table_evolves c_id (\<lambda>c. ownerMatches (conversation_owned c) owner) (conversation_ok T)
        (conversations db) (conversations db')
      \<and> table_evolves p_id (\<lambda>r. ownerMatches r owner) (participant_ok T) (participants db) (participants db')
      \<and> table_evolves m_id (\<lambda>r. ownerMatches r owner) (message_ok T) (messages db) (messages db')
      \<and> table_evolves v_event_id (\<lambda>r. ownerMatches r owner) (version_ok T)
          (message_versions db) (message_versions db')
      \<and> table_evolves r_id (\<lambda>r. ownerMatches r owner) (reaction_ok T) (reactions db) (reactions db')
      \<and> table_evolves receipt_key (\<lambda>r. ownerMatches r owner) (receipt_ok T) (receipts db) (receipts db')
      \<and> table_evolves typing_key (\<lambda>r. ownerMatches r owner) (typing_ok T) (typing_states db) (typing_states db')
      \<and> table_evolves a_id (\<lambda>r. ownerMatches r owner) (attachment_ok T) (attachments db) (attachments db')
      \<and> table_evolves k_id (\<lambda>r. ownerMatches r owner) (command_ok T) (commands db) (commands db')
      \<and> table_evolves d_message_id (\<lambda>r. ownerMatches r owner) (delivery_ok T)
          (message_delivery_updates db) (message_delivery_updates db')
      \<and> table_evolves et_target_event_id (\<lambda>r. ownerMatches r owner) (\<lambda>_. True)
          (event_tombstones db) (event_tombstones db')
      \<and> c_id ` set (conversations db) \<subseteq> c_id ` set (conversations db')
      \<and> applied_events db' = applied_events db \<and> connection_bindings db' = connection_bindings db)"

text \<open>A projector that leaves the resource tombstones alone.\<close>

definition projects :: "projection_owner \<Rightarrow> projection_db \<Rightarrow> projection_db \<Rightarrow> bool" where
  "projects owner db db' =
     (db_evolves owner (tombs_of db) db db' \<and> resource_tombstones db' = resource_tombstones db)"

lemma tombs_of_cong: "resource_tombstones db' = resource_tombstones db \<Longrightarrow> tombs_of db' = tombs_of db"
  by (simp add: tombs_of_def readResourceTombstone_def)

lemma db_evolves_refl [simp, intro]: "db_evolves owner T db db"
  by (simp add: db_evolves_def)

lemma db_evolvesD:
  assumes "db_evolves owner T db db'"
  shows "table_evolves c_id (\<lambda>c. ownerMatches (conversation_owned c) owner) (conversation_ok T) (conversations db) (conversations db')"
    and "table_evolves p_id (\<lambda>r. ownerMatches r owner) (participant_ok T) (participants db) (participants db')"
    and "table_evolves m_id (\<lambda>r. ownerMatches r owner) (message_ok T) (messages db) (messages db')"
    and "table_evolves v_event_id (\<lambda>r. ownerMatches r owner) (version_ok T) (message_versions db) (message_versions db')"
    and "table_evolves r_id (\<lambda>r. ownerMatches r owner) (reaction_ok T) (reactions db) (reactions db')"
    and "table_evolves receipt_key (\<lambda>r. ownerMatches r owner) (receipt_ok T) (receipts db) (receipts db')"
    and "table_evolves typing_key (\<lambda>r. ownerMatches r owner) (typing_ok T) (typing_states db) (typing_states db')"
    and "table_evolves a_id (\<lambda>r. ownerMatches r owner) (attachment_ok T) (attachments db) (attachments db')"
    and "table_evolves k_id (\<lambda>r. ownerMatches r owner) (command_ok T) (commands db) (commands db')"
    and "table_evolves d_message_id (\<lambda>r. ownerMatches r owner) (delivery_ok T) (message_delivery_updates db) (message_delivery_updates db')"
    and "table_evolves et_target_event_id (\<lambda>r. ownerMatches r owner) (\<lambda>_. True) (event_tombstones db) (event_tombstones db')"
    and "c_id ` set (conversations db) \<subseteq> c_id ` set (conversations db')"
    and "applied_events db' = applied_events db"
    and "connection_bindings db' = connection_bindings db"
  using assms by (simp_all add: db_evolves_def)

lemma db_evolves_trans [trans]:
  assumes ab: "db_evolves owner T a b" and bc: "db_evolves owner T b c"
  shows "db_evolves owner T a c"
  unfolding db_evolves_def
  by (intro conjI; (rule table_evolves_trans, rule db_evolvesD [OF ab], rule db_evolvesD [OF bc])?)
    (use db_evolvesD(12-14) [OF ab] db_evolvesD(12-14) [OF bc] in auto)

lemma projects_refl [simp, intro]: "projects owner db db"
  by (simp add: projects_def)

lemma projects_trans [trans]:
  assumes "projects owner a b" and "projects owner b c"
  shows "projects owner a c"
  using assms tombs_of_cong [of b a] by (auto simp: projects_def elim: db_evolves_trans)

lemma db_evolves_redacted:
  assumes e: "db_evolves owner T db db'" and r: "redacted T db"
  shows "redacted T db'"
  using r db_evolvesD(1-10) [OF e, THEN table_evolves_ok] subsetD [OF db_evolvesD(12) [OF e]]
  by (simp add: redacted_def)

lemma db_evolves_keys:
  assumes e: "db_evolves owner T db db'" and t: "resource_tombstones db' = resource_tombstones db"
    and k: "keys_distinct db"
  shows "keys_distinct db'"
  using k t db_evolvesD(1-11) [OF e, THEN table_evolves_distinct]
  by (simp add: keys_distinct_def)

lemma projects_wf:
  assumes "projects owner db db'" and "wf_db db"
  shows "wf_db db'"
  using assms db_evolves_keys [of owner "tombs_of db" db db']
    db_evolves_redacted [of owner "tombs_of db" db db'] tombs_of_cong [of db' db]
  by (simp add: projects_def wf_db_def)

section \<open>One table at a time\<close>

text \<open>A statement on one table is a step of the whole database.\<close>

lemma projects_table:
  "table_evolves p_id (\<lambda>r. ownerMatches r owner) (participant_ok (tombs_of db)) (participants db) ps
     \<Longrightarrow> projects owner db (db\<lparr>participants := ps\<rparr>)"
  "table_evolves m_id (\<lambda>r. ownerMatches r owner) (message_ok (tombs_of db)) (messages db) ms
     \<Longrightarrow> projects owner db (db\<lparr>messages := ms\<rparr>)"
  "table_evolves v_event_id (\<lambda>r. ownerMatches r owner) (version_ok (tombs_of db)) (message_versions db) vs
     \<Longrightarrow> projects owner db (db\<lparr>message_versions := vs\<rparr>)"
  "table_evolves r_id (\<lambda>r. ownerMatches r owner) (reaction_ok (tombs_of db)) (reactions db) rs
     \<Longrightarrow> projects owner db (db\<lparr>reactions := rs\<rparr>)"
  "table_evolves receipt_key (\<lambda>r. ownerMatches r owner) (receipt_ok (tombs_of db)) (receipts db) qs
     \<Longrightarrow> projects owner db (db\<lparr>receipts := qs\<rparr>)"
  "table_evolves typing_key (\<lambda>r. ownerMatches r owner) (typing_ok (tombs_of db)) (typing_states db) ts
     \<Longrightarrow> projects owner db (db\<lparr>typing_states := ts\<rparr>)"
  "table_evolves a_id (\<lambda>r. ownerMatches r owner) (attachment_ok (tombs_of db)) (attachments db) as
     \<Longrightarrow> projects owner db (db\<lparr>attachments := as\<rparr>)"
  "table_evolves k_id (\<lambda>r. ownerMatches r owner) (command_ok (tombs_of db)) (commands db) ks
     \<Longrightarrow> projects owner db (db\<lparr>commands := ks\<rparr>)"
  "table_evolves d_message_id (\<lambda>r. ownerMatches r owner) (delivery_ok (tombs_of db))
     (message_delivery_updates db) ds \<Longrightarrow> projects owner db (db\<lparr>message_delivery_updates := ds\<rparr>)"
  "table_evolves et_target_event_id (\<lambda>r. ownerMatches r owner) (\<lambda>_. True) (event_tombstones db) es
     \<Longrightarrow> projects owner db (db\<lparr>event_tombstones := es\<rparr>)"
  by (simp_all add: projects_def db_evolves_def)

lemma projects_conversations:
  assumes "table_evolves c_id (\<lambda>c. ownerMatches (conversation_owned c) owner)
      (conversation_ok (tombs_of db)) (conversations db) cs"
    and "c_id ` set (conversations db) \<subseteq> c_id ` set cs"
  shows "projects owner db (db\<lparr>conversations := cs\<rparr>)"
  using assms by (simp add: projects_def db_evolves_def)

lemma projects_conversation_update:
  assumes "\<And>r. r \<in> set (conversations db) \<Longrightarrow> P r \<Longrightarrow> ownerMatches (conversation_owned r) owner"
    and "\<And>r. conversation_owned (f r) = conversation_owned r"
    and "\<And>r. r \<in> set (conversations db) \<Longrightarrow> P r \<Longrightarrow> conversation_ok (tombs_of db) r \<Longrightarrow> conversation_ok (tombs_of db) (f r)"
  shows "projects owner db (db\<lparr>conversations := upd_where P f (conversations db)\<rparr>)"
proof -
  have key: "c_id (f r) = c_id r" for r
    using arg_cong [OF assms(2) [of r], of conversation_id] by (simp add: conversation_owned_def)
  show ?thesis
    by (intro projects_conversations table_evolves_update)
      (use assms key in \<open>auto simp: image_key_upd_where\<close>)
qed

section \<open>What the assertions establish\<close>

lemma assertOwner_None [simp]: "assertOwner None owner = Inr ()"
  by (simp add: assertOwner_def)

lemma assertOwner_eq_Inr [result_simps]:
  "assertOwner row owner = Inr u \<longleftrightarrow> (\<forall>r. row = Some r \<longrightarrow> ownerMatches r owner)"
  by (cases row) (auto simp: assertOwner_def throwIf_def)

lemma ownerMatches_owned_of [simp]: "ownerMatches (owned_of r) owner = ownerMatches r owner"
  by (simp add: ownerMatches_def owned_of_def)

lemma assertNoOwnerMismatch_eq_Inr [result_simps]:
  "assertNoOwnerMismatch rows owner = Inr u \<longleftrightarrow> (\<forall>r \<in> set rows. ownerMatches r owner)"
  by (auto simp: assertNoOwnerMismatch_def throwIf_def exists_where_iff)

lemma assertMessageOwner_D:
  assumes "assertMessageOwner db mid owner = Inr m"
  shows "m = readMessage db mid"
    and "r \<in> set (messages db) \<Longrightarrow> m_id r = mid \<Longrightarrow> ownerMatches r owner"
    and "v \<in> set (message_versions db) \<Longrightarrow> v_message_id v = mid \<Longrightarrow> ownerMatches v owner"
  using assms by (auto simp: assertMessageOwner_def result_simps)

lemma assertMessageTargetOwner_D:
  assumes "assertMessageTargetOwner db mid owner = Inr m"
  shows "m = readMessage db mid"
    and "r \<in> set (messages db) \<Longrightarrow> m_id r = mid \<Longrightarrow> ownerMatches r owner"
    and "v \<in> set (message_versions db) \<Longrightarrow> v_message_id v = mid \<Longrightarrow> ownerMatches v owner"
    and "x \<in> set (reactions db) \<Longrightarrow> r_message_id x = mid \<Longrightarrow> ownerMatches x owner"
    and "y \<in> set (receipts db) \<Longrightarrow> rc_message_id y = mid \<Longrightarrow> ownerMatches y owner"
    and "a \<in> set (attachments db) \<Longrightarrow> a_message_id a = mid \<Longrightarrow> ownerMatches a owner"
    and "d \<in> set (message_delivery_updates db) \<Longrightarrow> d_message_id d = mid \<Longrightarrow> ownerMatches d owner"
  using assms by (auto simp: assertMessageTargetOwner_def result_simps dest: assertMessageOwner_D)

lemma assertParticipantReferenceOwners_D:
  assumes "assertParticipantReferenceOwners db pid owner = Inr u"
  shows "m \<in> set (messages db) \<Longrightarrow> m_sender_participant_id m = Some pid \<Longrightarrow> ownerMatches m owner"
    and "v \<in> set (message_versions db) \<Longrightarrow> v_editor_participant_id v = Some pid \<Longrightarrow> ownerMatches v owner"
    and "x \<in> set (reactions db) \<Longrightarrow> r_participant_id x = Some pid \<Longrightarrow> ownerMatches x owner"
    and "y \<in> set (receipts db) \<Longrightarrow> rc_participant_id y = pid \<Longrightarrow> ownerMatches y owner"
    and "t \<in> set (typing_states db) \<Longrightarrow> t_participant_id t = pid \<Longrightarrow> ownerMatches t owner"
  using assms by (auto simp: assertParticipantReferenceOwners_def result_simps)

section \<open>The conversation shell\<close>

lemma ensureConversationShell_shape:
  assumes "ensureConversationShell db p = Inr (db1, c)"
  obtains "db1 = db\<lparr>conversations := conversations db @ [new_conversation p]\<rparr>"
      and "readConversation db (ev_conversation_id (pe_event p)) = None"
    | c0 where "readConversation db (ev_conversation_id (pe_event p)) = Some c0"
      and "ownerMatches (conversation_owned c0) (ownerFor p)" and "db1 = db"
    | c0 where "readConversation db (ev_conversation_id (pe_event p)) = Some c0"
      and "ownerMatches (conversation_owned c0) (ownerFor p)"
      and "db1 = db\<lparr>conversations := upd_where (\<lambda>r. c_id r = ev_conversation_id (pe_event p))
             (\<lambda>r. r\<lparr>c_shell_activity_at := ev_occurred_at (pe_event p),
                    c_shell_activity_ms := pe_occurredMs p,
                    c_shell_activity_event_id := ev_event_id (pe_event p),
                    c_last_event_id := ev_event_id (pe_event p),
                    c_updated_at := ev_occurred_at (pe_event p)\<rparr>) (conversations db)\<rparr>"
  using assms
  by (auto simp: ensureConversationShell_def Let_def result_simps split: option.splits if_splits)

lemma new_conversation_id [simp]: "c_id (new_conversation p) = ev_conversation_id (pe_event p)"
  by (simp add: new_conversation_def Let_def split: prod.splits projection_payload.splits)

lemma new_conversation_owned [simp]: "ownerMatches (conversation_owned (new_conversation p)) (ownerFor p)"
  by (simp add: new_conversation_def Let_def ownerMatches_def conversation_owned_def ownerFor_def
      split: prod.splits projection_payload.splits)

lemma ensureConversationShell_projects:
  assumes shell: "ensureConversationShell db p = Inr (db1, c)" and wf: "wf_db db"
  shows "projects (ownerFor p) db db1"
  using shell
proof (cases rule: ensureConversationShell_shape)
  case 1
  have fresh: "ev_conversation_id (pe_event p) \<notin> c_id ` set (conversations db)"
    using 1(2) by (simp add: readConversation_def find_key_fresh)
  then have "\<not> tombs_of db RConversation (ev_conversation_id (pe_event p))"
    using wf by (auto simp: wf_db_def redacted_def)
  then show ?thesis
    unfolding 1(1)
    by (intro projects_conversations table_evolves_insert)
      (use fresh in \<open>auto simp: conversation_ok_def\<close>)
next
  case (3 c0)
  have "ownerMatches (conversation_owned r) (ownerFor p)"
    if "r \<in> set (conversations db)" "c_id r = ev_conversation_id (pe_event p)" for r
    using find_key_only [of c_id "conversations db" _ c0 r] that 3(1,2) wf
    by (simp add: wf_db_def keys_distinct_def readConversation_def)
  then show ?thesis
    unfolding 3(3)
    by (intro projects_conversation_update) (auto simp: conversation_ok_def conversation_owned_def)
qed simp

lemma ensureConversationShell_others:
  assumes "ensureConversationShell db p = Inr (db1, c)"
  shows "\<exists>cs. db1 = db\<lparr>conversations := cs\<rparr>"
  using assms by (cases rule: ensureConversationShell_shape) (auto intro: exI [of _ "conversations db"])

end
