(* ===== verification/Isolation.thy ===== *)
theory Isolation
  imports Projection_Invariants
begin

text \<open>
  Every projector but the two deletion projectors is a \<open>projects\<close> step: it changes only rows of the
  event's owner, keeps primary keys distinct and never exposes what a tombstone covers.
\<close>

section \<open>Shared rules\<close>

lemma tombstone_readers:
  "readConversationTombstone db cid = None \<longleftrightarrow> \<not> tombs_of db RConversation cid"
  "readMessageTombstone db mid = None \<longleftrightarrow> \<not> tombs_of db RMessage mid"
  "readParticipantTombstone db pid = None \<longleftrightarrow> \<not> tombs_of db RParticipant pid"
  "readAttachmentTombstone db aid = None \<longleftrightarrow> \<not> tombs_of db RAttachment aid"
  "readResourceTombstone db ty rid = None \<longleftrightarrow> \<not> tombs_of db ty rid"
  by (simp_all add: tombs_of_def readConversationTombstone_def readMessageTombstone_def
      readParticipantTombstone_def readAttachmentTombstone_def)

lemmas tomb_simps = tombstone_readers messageIsDeleted_def conversationIsDeleted_def
  participantIsDeleted_def attachmentIsDeleted_def

lemma latestTombstone_None [simp]: "latestTombstone l r = Inr None \<longleftrightarrow> l = None \<and> r = None"
  by (auto simp: latestTombstone_def andThen_eq_Inr split: option.splits)

lemma latestTombstone_cases:
  "latestTombstone l r = Inr t \<Longrightarrow> t = l \<or> t = r"
  by (auto simp: latestTombstone_def andThen_eq_Inr split: option.splits if_splits)

lemma latestTombstone_some:
  "latestTombstone l r = Inr t \<Longrightarrow> t = None \<longleftrightarrow> l = None \<and> r = None"
  by (auto simp: latestTombstone_def andThen_eq_Inr split: option.splits if_splits)

lemma messageIsRedacted_iff:
  "messageIsRedacted db mid cid = Inr t
     \<Longrightarrow> t = None \<longleftrightarrow> \<not> tombs_of db RMessage mid \<and> \<not> tombs_of db RConversation cid"
  using latestTombstone_some by (auto simp: messageIsRedacted_def tomb_simps)

lemma keyed_owned:
  assumes "distinct (map key rs)" and "\<forall>r. find (\<lambda>r. key r = k) rs = Some r \<longrightarrow> Q r"
    and "s \<in> set rs" and "key s = k"
  shows "Q s"
  using assms find_key_unique [of key rs s] by auto

lemma after_shell:
  assumes "andThen (ensureConversationShell db p) (\<lambda>(db1, c). body db1 c) = Inr db'" and "wf_db db"
    and "\<And>db1 c. wf_db db1 \<Longrightarrow> body db1 c = Inr db' \<Longrightarrow> projects (ownerFor p) db1 db'"
  shows "projects (ownerFor p) db db'"
proof -
  obtain db1 c where shell: "ensureConversationShell db p = Inr (db1, c)" and "body db1 c = Inr db'"
    using assms(1) by (auto elim!: andThenE)
  then show ?thesis
    using ensureConversationShell_projects [OF shell assms(2)] assms(3) projects_wf assms(2)
    by (meson projects_trans)
qed

lemma ownerFor_conversation [simp]: "conversationId (ownerFor p) = ev_conversation_id (pe_event p)"
  by (simp add: ownerFor_def)

text \<open>The row a reader returns is the only one with its key.\<close>

lemma readTyping_key: "readTyping db cid pid = find (\<lambda>t. typing_key t = (cid, pid)) (typing_states db)"
  by (simp add: readTyping_def typing_key_def)

lemma readReceipt_key:
  "readReceipt db mid pid ty = find (\<lambda>r. receipt_key r = (mid, pid, ty)) (receipts db)"
  by (simp add: readReceipt_def receipt_key_def)

lemma row_unique:
  assumes "wf_db db"
  shows "readConversation db k = Some c \<Longrightarrow> c' \<in> set (conversations db) \<Longrightarrow> c_id c' = k \<Longrightarrow> c' = c"
    and "readParticipant db k = Some q \<Longrightarrow> q' \<in> set (participants db) \<Longrightarrow> p_id q' = k \<Longrightarrow> q' = q"
    and "readMessage db k = Some m \<Longrightarrow> m' \<in> set (messages db) \<Longrightarrow> m_id m' = k \<Longrightarrow> m' = m"
    and "readReaction db k = Some r \<Longrightarrow> r' \<in> set (reactions db) \<Longrightarrow> r_id r' = k \<Longrightarrow> r' = r"
    and "readReceipt db k k2 ty = Some x \<Longrightarrow> x' \<in> set (receipts db) \<Longrightarrow> rc_message_id x' = k
           \<Longrightarrow> rc_participant_id x' = k2 \<Longrightarrow> rc_receipt_type x' = ty \<Longrightarrow> x' = x"
    and "readTyping db k k2 = Some t \<Longrightarrow> t' \<in> set (typing_states db) \<Longrightarrow> conversation_id t' = k
           \<Longrightarrow> t_participant_id t' = k2 \<Longrightarrow> t' = t"
    and "readAttachment db k = Some a \<Longrightarrow> a' \<in> set (attachments db) \<Longrightarrow> a_id a' = k \<Longrightarrow> a' = a"
    and "readCommand db k = Some cm \<Longrightarrow> cm' \<in> set (commands db) \<Longrightarrow> k_id cm' = k \<Longrightarrow> cm' = cm"
    and "readDelivery db k = Some d \<Longrightarrow> d' \<in> set (message_delivery_updates db)
           \<Longrightarrow> d_message_id d' = k \<Longrightarrow> d' = d"
    and "readEventTombstone db k = Some e \<Longrightarrow> e' \<in> set (event_tombstones db)
           \<Longrightarrow> et_target_event_id e' = k \<Longrightarrow> e' = e"
  using assms find_key_only
  unfolding wf_db_def keys_distinct_def readConversation_def readParticipant_def readMessage_def
    readReaction_def readReceipt_key readTyping_key readAttachment_def readCommand_def
    readDelivery_def readEventTombstone_def
  by (metis, metis, metis, metis, metis receipt_key_def, metis typing_key_def, metis, metis, metis, metis)

section \<open>Reactions, receipts and typing\<close>

lemmas row_steps = projects_table table_evolves_insert table_evolves_update table_evolves_delete

lemma projectTyping_projects:
  assumes "projectTyping db p pid flag expires = Inr db'" and "wf_db db"
  shows "projects (ownerFor p) db db'"
  using assms(1) unfolding projectTyping_def Let_def
proof (rule after_shell [OF _ assms(2)], goal_cases)
  case (1 db1 c)
  then show ?case
    by (auto simp: result_simps tomb_simps split: if_splits intro!: row_steps)
      (auto simp: ownerMatches_def typing_key_def typing_ok_def dest: row_unique(6))
qed

lemma projectReactionAdded_projects:
  assumes "projectReactionAdded db p payload = Inr db'" and "wf_db db"
  shows "projects (ownerFor p) db db'"
  using assms(1) unfolding projectReactionAdded_def Let_def
proof (rule after_shell [OF _ assms(2)], goal_cases)
  case (1 db1 c)
  then show ?case
    by (auto simp: result_simps assertExistingReaction_def assertReactionIdentity_def
        split: if_splits option.splits;
        auto simp: tomb_simps intro!: row_steps dest!: messageIsRedacted_iff;
        auto simp: ownerMatches_def reaction_ok_def dest: row_unique(4))
qed

lemma projectReactionRemoved_projects:
  assumes "projectReactionRemoved db p payload = Inr db'" and "wf_db db"
  shows "projects (ownerFor p) db db'"
  using assms(1) unfolding projectReactionRemoved_def Let_def
proof (rule after_shell [OF _ assms(2)], goal_cases)
  case (1 db1 c)
  then show ?case
    by (auto simp: result_simps assertExistingReaction_def assertReactionIdentity_def
        split: if_splits option.splits;
        auto simp: tomb_simps intro!: row_steps dest!: messageIsRedacted_iff;
        auto simp: ownerMatches_def reaction_ok_def dest: row_unique(4))
qed

lemma reconcileMessageLocalRead_projects:
  assumes "reconcileMessageLocalRead db mid = Inr db'" and "wf_db db"
    and "\<And>m. m \<in> set (messages db) \<Longrightarrow> m_id m = mid \<Longrightarrow> ownerMatches m owner"
  shows "projects owner db db'"
  using assms unfolding reconcileMessageLocalRead_def
  by (auto simp: result_simps tomb_simps split: if_splits option.splits
      intro!: row_steps dest!: messageIsRedacted_iff)
    (auto simp: ownerMatches_def message_ok_def message_redacted_def dest: row_unique(3))

lemma redact_stored_attachment_projects:
  assumes "\<And>a. a \<in> set (attachments db) \<Longrightarrow> a_id a = aid \<Longrightarrow> ownerMatches a owner"
  shows "projects owner db (redact_stored_attachment db aid t existing)"
  using assms unfolding redact_stored_attachment_def
  by (auto split: option.splits intro!: row_steps)
    (auto simp: ownerMatches_def attachment_ok_def redact_attachment_row_def)

lemma set_redact_stored_attachment:
  "a' \<in> set (attachments (redact_stored_attachment db aid t existing))
     \<Longrightarrow> \<exists>a \<in> set (attachments db). a_id a' = a_id a \<and> a_message_id a' = a_message_id a
           \<and> owned_of a' = owned_of a"
  by (auto simp: redact_stored_attachment_def set_upd_where redact_attachment_row_def owned_of_def
      split: option.splits if_splits)

lemma store_attachment_projects:
  assumes "store_attachment db p payload existing t = Inr db'"
    and "\<And>a. a \<in> set (attachments db) \<Longrightarrow> a_id a = ao_attachment_id payload
            \<Longrightarrow> ownerMatches a (ownerFor p) \<and> a_message_id a = ao_message_id payload"
    and "t = None \<Longrightarrow> \<not> tombs_of db RAttachment (ao_attachment_id payload)
            \<and> \<not> tombs_of db RMessage (ao_message_id payload) \<and> \<not> tombs_of db RConversation (conversationId (ownerFor p))"
  shows "projects (ownerFor p) db db'"
  using assms
  by (cases t; cases existing; auto simp: store_attachment_def Let_def result_simps intro!: row_steps;
      auto simp: ownerMatches_def attachment_ok_def)

lemma projectAttachmentObserved_projects:
  assumes "projectAttachmentObserved db p payload = Inr db'" and "wf_db db"
  shows "projects (ownerFor p) db db'"
proof (rule after_shell [OF assms(1) [unfolded projectAttachmentObserved_def Let_def] assms(2)],
    elim andThenE, goal_cases)
  case (1 db1 _ _ _ _ _ mt _ t stale)
  let ?aid = "ao_attachment_id payload" and ?ex = "readAttachment db1 (ao_attachment_id payload)"
  let ?db2 = "redact_stored_attachment db1 ?aid t ?ex"
  have owned: "ownerMatches a (ownerFor p) \<and> a_message_id a = ao_message_id payload"
    if "a \<in> set (attachments db1)" "a_id a = ?aid" for a
  proof -
    have ex: "?ex = Some a"
      using that 1(1) by (simp add: readAttachment_def wf_db_def keys_distinct_def find_key_unique flip: that(2))
    then show ?thesis using 1(4,5) by (auto simp: result_simps)
  qed
  have step: "projects (ownerFor p) db1 ?db2"
    by (rule redact_stored_attachment_projects) (use owned in blast)
  have same: "tombs_of ?db2 = tombs_of db1"
    using step by (auto simp: projects_def intro: tombs_of_cong)
  show ?case
  proof (cases stale)
    case True
    then show ?thesis using 1(10) step by simp
  next
    case False
    have "projects (ownerFor p) ?db2 db'"
    proof (rule store_attachment_projects)
      show "store_attachment ?db2 p payload ?ex t = Inr db'"
        using False 1(10) by simp
    next
      fix a assume "a \<in> set (attachments ?db2)" "a_id a = ?aid"
      then show "ownerMatches a (ownerFor p) \<and> a_message_id a = ao_message_id payload"
        using set_redact_stored_attachment owned ownerMatches_owned_of by metis
    next
      assume "t = None"
      then show "\<not> tombs_of ?db2 RAttachment ?aid \<and> \<not> tombs_of ?db2 RMessage (ao_message_id payload)
          \<and> \<not> tombs_of ?db2 RConversation (conversationId (ownerFor p))"
        using 1(8) messageIsRedacted_iff [OF 1(6)] unfolding same
        by (simp add: tomb_simps)
    qed
    with step show ?thesis by (rule projects_trans)
  qed
qed

section \<open>Receipts\<close>

lemma store_receipt_projects:
  assumes "store_receipt db p ty payload existing = Inr db'"
    and "\<And>r. r \<in> set (receipts db) \<Longrightarrow> rc_message_id r = rp_message_id payload
            \<Longrightarrow> rc_participant_id r = rp_participant_id payload \<Longrightarrow> rc_receipt_type r = ty
            \<Longrightarrow> ownerMatches r (ownerFor p)"
    and "\<not> tombs_of db RMessage (rp_message_id payload)"
    and "\<not> tombs_of db RConversation (conversationId (ownerFor p))"
    and "\<not> tombs_of db RParticipant (rp_participant_id payload)"
  shows "projects (ownerFor p) db db' \<and> messages db' = messages db"
  using assms
  by (cases existing; auto simp: store_receipt_def Let_def result_simps intro!: row_steps;
      auto simp: ownerMatches_def receipt_ok_def receipt_key_def)

lemma projectReceipt_projects:
  assumes "projectReceipt db p ty payload = Inr db'" and "wf_db db"
  shows "projects (ownerFor p) db db'"
proof (rule after_shell [OF assms(1) [unfolded projectReceipt_def Let_def] assms(2)],
    elim andThenE, goal_cases)
  case (1 db1 _ _ _ _ _ t)
  let ?ex = "readReceipt db1 (rp_message_id payload) (rp_participant_id payload) ty"
  have owned: "ownerMatches r (ownerFor p)"
    if "r \<in> set (receipts db1)" "rc_message_id r = rp_message_id payload"
      "rc_participant_id r = rp_participant_id payload" "rc_receipt_type r = ty" for r
    using 1(2) that by (auto simp: assertReferencedMessageOwner_def result_simps dest: assertMessageTargetOwner_D)
  have msg: "ownerMatches m (ownerFor p)" if "m \<in> set (messages db1)" "m_id m = rp_message_id payload" for m
    using 1(2) that by (auto simp: assertReferencedMessageOwner_def result_simps dest: assertMessageTargetOwner_D)
  show ?case
  proof (cases "t \<noteq> None \<or> participantIsDeleted db1 (rp_participant_id payload) \<noteq> None")
    case True
    with 1(7) show ?thesis
      by (auto simp: result_simps intro!: row_steps owned split: if_splits)
  next
    case False
    then have clear: "\<not> tombs_of db1 RMessage (rp_message_id payload)"
      "\<not> tombs_of db1 RConversation (conversationId (ownerFor p))"
      "\<not> tombs_of db1 RParticipant (rp_participant_id payload)"
      using messageIsRedacted_iff [OF 1(6)] by (auto simp: tomb_simps)
    have store: "projects (ownerFor p) db1 db2 \<and> messages db2 = messages db1"
      if "store_receipt db1 p ty payload ?ex = Inr db2" for db2
      by (rule store_receipt_projects [OF that owned clear])
    from 1(7) False have "db' = db1 \<or> (\<exists>db2. store_receipt db1 p ty payload ?ex = Inr db2
        \<and> (reconcileMessageLocalRead db2 (rp_message_id payload) = Inr db' \<or> db' = db2))"
      by (auto simp: result_simps split: if_splits)
    then show ?thesis
    proof (elim disjE exE conjE)
      fix db2
      assume st: "store_receipt db1 p ty payload ?ex = Inr db2"
        and read: "reconcileMessageLocalRead db2 (rp_message_id payload) = Inr db'"
      have "projects (ownerFor p) db2 db'"
        by (rule reconcileMessageLocalRead_projects [OF read])
          (use store [OF st] projects_wf 1(1) msg in auto)
      with store [OF st] show ?thesis using projects_trans by blast
    qed (use store in auto)
  qed
qed

section \<open>Commands, deliveries and event markers\<close>

lemma ownerMatches_cong: "owned_of r = owned_of s \<Longrightarrow> ownerMatches r owner = ownerMatches s owner"
  by (metis ownerMatches_owned_of)

lemma upd_keyed_owned:
  assumes "r' \<in> set (upd_where P f rs)" and "key r' = k"
    and "\<And>r. key (f r) = key r" and "\<And>r. owned_of (f r) = owned_of r"
    and "\<And>r. r \<in> set rs \<Longrightarrow> key r = k \<Longrightarrow> ownerMatches r owner"
  shows "ownerMatches r' owner"
  using set_upd_where_keeps [OF assms(1), of "\<lambda>r. (key r, owned_of r)"] assms(2-5) ownerMatches_cong
  by auto blast

lemma projects_command_update:
  assumes "\<And>k. k \<in> set (commands db) \<Longrightarrow> k_id k = kid \<Longrightarrow> ownerMatches k owner"
    and "\<And>k. owned_of (f k) = owned_of k" and "\<And>k. k_id (f k) = k_id k"
    and "\<And>k. k \<in> set (commands db) \<Longrightarrow> k_id k = kid \<Longrightarrow> command_ok (tombs_of db) k
            \<Longrightarrow> command_ok (tombs_of db) (f k)"
  shows "projects owner db (db\<lparr>commands := upd_where (\<lambda>k. k_id k = kid) f (commands db)\<rparr>)"
  by (intro row_steps) (use assms ownerMatches_cong [OF assms(2)] in auto)

lemma amend_command_projects:
  assumes owned: "\<And>k. k \<in> set (commands db) \<Longrightarrow> k_id k = kid \<Longrightarrow> ownerMatches k owner"
  shows "projects owner db (amend_command db p kid k ms blocked)"
proof -
  let ?backdate = "\<lambda>r :: command_row. r\<lparr>k_created_at := ev_occurred_at (pe_event p)\<rparr>"
  let ?db1 = "db\<lparr>commands := upd_where (\<lambda>r. k_id r = kid) ?backdate (commands db)\<rparr>"
  have backdate: "projects owner db ?db1"
    by (rule projects_command_update [OF owned]) (auto simp: owned_of_def command_ok_def)
  have clear: "projects owner d (d\<lparr>commands := upd_where (\<lambda>r. k_id r = kid)
      (\<lambda>r. r\<lparr>k_failure_code := None\<rparr>) (commands d)\<rparr>)"
    if "\<And>k. k \<in> set (commands d) \<Longrightarrow> k_id k = kid \<Longrightarrow> ownerMatches k owner" for d
    by (rule projects_command_update [OF that]) (auto simp: owned_of_def command_ok_def)
  have owned1: "ownerMatches r owner" if "r \<in> set (commands ?db1)" "k_id r = kid" for r
    by (rule upd_keyed_owned [where key = k_id, OF that(1) [simplified] that(2) _ _ owned])
      (simp_all add: owned_of_def)
  show ?thesis
    unfolding amend_command_def Let_def
    using backdate clear [OF owned] projects_trans [OF backdate clear [OF owned1]] by simp
qed

lemma set_amend_command:
  "k' \<in> set (commands (amend_command db p kid k ms blocked))
     \<Longrightarrow> \<exists>k \<in> set (commands db). k_id k' = k_id k \<and> owned_of k' = owned_of k"
  unfolding amend_command_def Let_def
  by (fastforce simp: owned_of_def split: if_splits
      dest!: set_upd_where_keeps [where g = "\<lambda>k. (k_id k, owned_of k)"])

lemma projectCommandUpdated_projects:
  assumes "projectCommandUpdated db p payload = Inr db'" and "wf_db db"
  shows "projects (ownerFor p) db db'"
proof (rule after_shell [OF assms(1) [unfolded projectCommandUpdated_def Let_def] assms(2)],
    elim andThenE, goal_cases)
  case (1 db1)
  let ?kid = "ku_command_id payload"
  let ?blocked = "readConversationTombstone db1 (conversationId (ownerFor p)) \<noteq> None"
  have owned: "ownerMatches k (ownerFor p)" if "k \<in> set (commands db1)" "k_id k = ?kid" for k
  proof -
    have "readCommand db1 ?kid = Some k"
      using that 1(1) by (simp add: readCommand_def wf_db_def keys_distinct_def find_key_unique flip: that(2))
    then show ?thesis using 1(3) by (simp add: result_simps)
  qed
  show ?case
  proof (cases "readCommand db1 ?kid")
    case None
    with 1(4) show ?thesis
      by (auto simp: result_simps tomb_simps failureForStatus_def intro!: row_steps;
          auto simp: ownerMatches_def command_ok_def)
  next
    case (Some k)
    from 1(4) [unfolded Some option.case] show ?thesis
    proof (elim andThenE, goal_cases)
      case (1 ms cmp)
      let ?db2 = "amend_command db1 p ?kid k ms ?blocked"
      have step: "projects (ownerFor p) db1 ?db2"
        by (rule amend_command_projects) (rule owned)
      have same: "tombs_of ?db2 = tombs_of db1"
        using step by (auto simp: projects_def intro: tombs_of_cong)
      have owned2: "ownerMatches k (ownerFor p)" if "k \<in> set (commands ?db2)" "k_id k = ?kid" for k
        using set_amend_command [OF that(1)] owned that(2) ownerMatches_owned_of by metis
      show ?case
      proof (cases "cmp \<le> 0")
        case True
        with 1 step show ?thesis by simp
      next
        case False
        have ok: "command_ok (tombs_of ?db2) (k\<lparr>k_failure_code :=
            failureForStatus (ku_status payload = Failed) (ku_failure_code payload) ?blocked\<rparr>)"
          if "ownerMatches k (ownerFor p)" for k :: command_row
          using that unfolding same command_ok_def
          by (simp add: failureForStatus_def ownerMatches_def tombstone_readers)
        from False 1 have eq: "db' = ?db2\<lparr>commands := upd_where (\<lambda>r. k_id r = ?kid)
               (\<lambda>r. r\<lparr>k_operation := ku_operation payload,
                      k_delivery_mode := ku_delivery_mode payload,
                      k_status := ku_status payload,
                      k_failure_code := failureForStatus (ku_status payload = Failed)
                        (ku_failure_code payload) ?blocked,
                      k_updated_at := ev_occurred_at (pe_event p),
                      k_last_observed_ms := pe_observedMs p,
                      k_last_event_id := ev_event_id (pe_event p)\<rparr>) (commands ?db2)\<rparr>"
          by simp
        have "projects (ownerFor p) ?db2 db'"
          unfolding eq
          by (rule projects_command_update [OF owned2])
            (use ok owned2 in \<open>auto simp: owned_of_def command_ok_def\<close>)
        with step show ?thesis by (rule projects_trans)
      qed
    qed
  qed
qed

lemma projects_message_update:
  assumes "\<And>m. m \<in> set (messages db) \<Longrightarrow> P m \<Longrightarrow> ownerMatches m owner"
    and "\<And>m. owned_of (f m) = owned_of m" and "\<And>m. m_id (f m) = m_id m"
    and "\<And>m. m \<in> set (messages db) \<Longrightarrow> P m \<Longrightarrow> message_ok (tombs_of db) m
            \<Longrightarrow> message_ok (tombs_of db) (f m)"
  shows "projects owner db (db\<lparr>messages := upd_where P f (messages db)\<rparr>)"
  by (intro row_steps) (use assms ownerMatches_cong [OF assms(2)] in auto)

lemma applyDeliveryToMessage_projects:
  assumes "applyDeliveryToMessage db mid d = Inr db'" and "wf_db db"
    and owned: "\<And>m. m \<in> set (messages db) \<Longrightarrow> m_id m = mid \<Longrightarrow> ownerMatches m owner"
  shows "projects owner db db'"
proof (cases "readMessage db mid")
  case None
  with assms(1) show ?thesis by (simp add: applyDeliveryToMessage_def)
next
  case (Some m)
  let ?blocked = "readConversationTombstone db (conversation_id m) \<noteq> None
    \<or> messageIsDeleted db (m_id m) \<noteq> None \<or> m_deleted_at m \<noteq> None"
  let ?failure = "failureForStatus (d_delivery_status d = DFailed) (d_failure_code d) ?blocked"
  let ?f = "\<lambda>m. m\<lparr>m_delivery_status := d_delivery_status d, m_delivery_failure_code := ?failure,
     m_delivery_observed_ms := Some (d_last_observed_ms d), m_delivery_event_id := Some (d_last_event_id d)\<rparr>"
  have uniq: "m' = m" if "m' \<in> set (messages db)" "m_id m' = mid" for m'
    using row_unique(3) [OF assms(2) Some that] .
  have fail: "?failure = None" if "tombs_of db RMessage (m_id m) \<or> tombs_of db RConversation (conversation_id m)"
    using that by (auto simp: failureForStatus_def tomb_simps)
  have "projects owner db (db\<lparr>messages := upd_where (\<lambda>m. m_id m = mid) ?f (messages db)\<rparr>)"
    by (rule projects_message_update [OF owned])
      (use fail in \<open>auto simp: owned_of_def message_ok_def message_redacted_def dest: uniq\<close>)
  moreover have "projects owner db (db\<lparr>messages := upd_where (\<lambda>m. m_id m = mid)
      (\<lambda>m. m\<lparr>m_delivery_failure_code := None\<rparr>) (messages db)\<rparr>)"
    by (rule projects_message_update [OF owned])
      (auto simp: owned_of_def message_ok_def message_redacted_def)
  ultimately show ?thesis
    using assms(1) [unfolded applyDeliveryToMessage_def Some option.case Let_def]
    by (elim andThenE) (simp split: if_splits)
qed

lemma reconcileMessageDelivery_projects:
  assumes "reconcileMessageDelivery db mid = Inr db'" and "wf_db db"
    and "\<And>m. m \<in> set (messages db) \<Longrightarrow> m_id m = mid \<Longrightarrow> ownerMatches m owner"
  shows "projects owner db db'"
  using assms applyDeliveryToMessage_projects
  by (auto simp: reconcileMessageDelivery_def split: option.splits)

lemma projects_delivery_update:
  assumes "\<And>d. d \<in> set (message_delivery_updates db) \<Longrightarrow> d_message_id d = mid \<Longrightarrow> ownerMatches d owner"
    and "\<And>d. ownerMatches d owner \<Longrightarrow> ownerMatches (f d) owner" and "\<And>d. d_message_id (f d) = d_message_id d"
    and "\<And>d. d \<in> set (message_delivery_updates db) \<Longrightarrow> d_message_id d = mid
            \<Longrightarrow> delivery_ok (tombs_of db) d \<Longrightarrow> delivery_ok (tombs_of db) (f d)"
  shows "projects owner db (db\<lparr>message_delivery_updates :=
     upd_where (\<lambda>d. d_message_id d = mid) f (message_delivery_updates db)\<rparr>)"
  by (intro row_steps) (use assms in auto)

lemma unblock_delivery_projects:
  assumes "\<And>d. d \<in> set (message_delivery_updates db) \<Longrightarrow> d_message_id d = mid \<Longrightarrow> ownerMatches d owner"
  shows "projects owner db (unblock_delivery db mid d blocked) \<and> messages (unblock_delivery db mid d blocked) = messages db"
proof -
  have "projects owner db (db\<lparr>message_delivery_updates :=
     upd_where (\<lambda>d. d_message_id d = mid) (\<lambda>r. r\<lparr>d_failure_code := None\<rparr>) (message_delivery_updates db)\<rparr>)"
    by (rule projects_delivery_update [OF assms]) (auto simp: ownerMatches_def delivery_ok_def)
  then show ?thesis by (simp add: unblock_delivery_def)
qed

lemma store_delivery_projects:
  assumes "store_delivery db p payload existing failure = Inr db'"
    and "\<And>d. d \<in> set (message_delivery_updates db) \<Longrightarrow> d_message_id d = bd_message_id payload
            \<Longrightarrow> ownerMatches d (ownerFor p)"
    and "tombs_of db RMessage (bd_message_id payload) \<or> tombs_of db RConversation (conversationId (ownerFor p))
           \<Longrightarrow> failure = None"
  shows "projects (ownerFor p) db db' \<and> messages db' = messages db"
proof (cases existing)
  case None
  with assms show ?thesis
    by (auto simp: store_delivery_def Let_def result_simps intro!: row_steps;
        auto simp: ownerMatches_def delivery_ok_def)
next
  case (Some d)
  let ?f = "\<lambda>r. r\<lparr>identity_id := identityId (ownerFor p), account_id := accountId (ownerFor p),
      connection_id := connectionId (ownerFor p), conversation_id := conversationId (ownerFor p),
      platform := o_platform (ownerFor p), d_delivery_status := bd_delivery_status payload,
      d_failure_code := failure, d_occurred_at := ev_occurred_at (pe_event p),
      d_last_observed_ms := pe_observedMs p, d_last_event_id := ev_event_id (pe_event p)\<rparr>"
  have "projects (ownerFor p) db (db\<lparr>message_delivery_updates :=
      upd_where (\<lambda>d. d_message_id d = bd_message_id payload) ?f (message_delivery_updates db)\<rparr>)"
    by (rule projects_delivery_update [OF assms(2)])
      (use assms(3) in \<open>auto simp: ownerMatches_def delivery_ok_def\<close>)
  with assms(1) Some show ?thesis by (auto simp: store_delivery_def Let_def)
qed

lemma projectBridgeDeliveryUpdated_projects:
  assumes "projectBridgeDeliveryUpdated db p payload = Inr db'" and "wf_db db"
  shows "projects (ownerFor p) db db'"
proof (rule after_shell [OF assms(1) [unfolded projectBridgeDeliveryUpdated_def Let_def] assms(2)],
    elim andThenE, goal_cases)
  case (1 db1 _ _ _ stale)
  let ?mid = "bd_message_id payload"
  let ?blocked = "readConversationTombstone db1 (conversationId (ownerFor p)) \<noteq> None
    \<or> readResourceTombstone db1 RMessage ?mid \<noteq> None"
  let ?failure = "failureForStatus (bd_delivery_status payload = DFailed) (bd_failure_code payload) ?blocked"
  note target = assertMessageTargetOwner_D [OF 1(2)]
  have finish: "projects (ownerFor p) db1 db'"
    if "projects (ownerFor p) db1 db2 \<and> messages db2 = messages db1"
      and "reconcileMessageDelivery db2 ?mid = Inr db'" for db2
  proof -
    have "projects (ownerFor p) db2 db'"
      by (rule reconcileMessageDelivery_projects [OF that(2)])
        (use that(1) projects_wf 1(1) target(2) in auto)
    with that(1) show ?thesis using projects_trans by blast
  qed
  show ?case
  proof (cases stale)
    case (Some d)
    with 1(5) have "reconcileMessageDelivery (unblock_delivery db1 ?mid d ?blocked) ?mid = Inr db'" by simp
    with unblock_delivery_projects [OF target(7)] show ?thesis by (rule finish)
  next
    case None
    with 1(5) obtain db2 where store: "store_delivery db1 p payload (readDelivery db1 ?mid) ?failure = Inr db2"
      and rest: "reconcileMessageDelivery db2 ?mid = Inr db'"
      by (auto simp: result_simps)
    have "projects (ownerFor p) db1 db2 \<and> messages db2 = messages db1"
      by (rule store_delivery_projects [OF store target(7)])
        (auto simp: failureForStatus_def tomb_simps)
    then show ?thesis using rest by (rule finish)
  qed
qed

lemma projectEventMarker_projects:
  assumes "projectEventMarker db p payload = Inr db'" and "wf_db db"
  shows "projects (ownerFor p) db db'"
proof (rule after_shell [OF assms(1) [unfolded projectEventMarker_def Let_def] assms(2)],
    elim andThenE, goal_cases)
  case (1 db1)
  show ?case
  proof (cases "readEventTombstone db1 (em_target_event_id payload)")
    case None
    with 1(5) show ?thesis
      by (auto simp: result_simps intro!: row_steps; simp add: ownerMatches_def)
  next
    case (Some t)
    from 1(5) [unfolded Some option.case] show ?thesis
    proof (elim andThenE, goal_cases)
      case (1 cmp)
      then show ?case
        by (auto simp: result_simps split: if_splits intro!: row_steps;
            use Some \<open>wf_db db1\<close> \<open>assertOwner (readEventTombstone db1 _) _ = _\<close>
              in \<open>auto simp: result_simps ownerMatches_def dest: row_unique(10)\<close>)
    qed
  qed
qed

section \<open>Conversations and participants\<close>

lemma ensureConversationShell_row:
  "ensureConversationShell db p = Inr (db1, c) \<Longrightarrow> readConversation db1 (ev_conversation_id (pe_event p)) = Some c"
  by (auto simp: ensureConversationShell_def Let_def result_simps split: option.splits if_splits)

lemma ensureConversationShell_owned:
  assumes "ensureConversationShell db p = Inr (db1, c)"
  shows "ownerMatches (conversation_owned c) (ownerFor p)"
  using assms
proof (cases rule: ensureConversationShell_shape)
  case 1
  then show ?thesis
    using ensureConversationShell_row [OF assms] new_conversation_owned [of p]
    by (auto simp: readConversation_def find_append)
next
  case (2 c0)
  then show ?thesis using ensureConversationShell_row [OF assms] by simp
next
  case (3 c0)
  then show ?thesis
    using ensureConversationShell_row [OF assms]
    by (auto simp: readConversation_def find_upd_where conversation_owned_def split: if_splits)
qed

lemma projectConversationUpdated_projects:
  assumes "projectConversationUpdated db p payload = Inr db'" and "wf_db db"
  shows "projects (ownerFor p) db db'"
proof -
  let ?cid = "ev_conversation_id (pe_event p)"
  obtain db1 c where shell: "ensureConversationShell db p = Inr (db1, c)"
    using assms(1) by (auto simp: projectConversationUpdated_def Let_def elim!: andThenE)
  have first: "projects (ownerFor p) db db1"
    by (rule ensureConversationShell_projects [OF shell assms(2)])
  then have wf1: "wf_db db1" using assms(2) by (rule projects_wf)
  show ?thesis
  proof (cases "tombs_of db1 RConversation ?cid")
    case True
    then have "db' = db1"
      using assms(1) shell by (simp add: projectConversationUpdated_def Let_def tombstone_readers)
    with first show ?thesis by simp
  next
    case False
    have "projects (ownerFor p) db1 (db1\<lparr>conversations :=
        upd_where (\<lambda>r. c_id r = ?cid \<and> c_deleted_at r = None)
          (\<lambda>r. r\<lparr>c_title := cu_title payload, c_archived := (if cu_archived payload then 1 else 0),
                 c_muted := (if cu_muted payload then 1 else 0),
                 c_metadata_observed_ms := pe_observedMs p,
                 c_metadata_event_id := ev_event_id (pe_event p),
                 c_updated_at := c_shell_activity_at c,
                 c_last_event_id := ev_event_id (pe_event p)\<rparr>) (conversations db1)\<rparr>)" (is "projects _ _ ?db2")
    proof (rule projects_conversation_update)
      fix r assume "r \<in> set (conversations db1)" "c_id r = ?cid \<and> c_deleted_at r = None"
      then have "r = c" using row_unique(1) [OF wf1 ensureConversationShell_row [OF shell]] by simp
      then show "ownerMatches (conversation_owned r) (ownerFor p)"
        using ensureConversationShell_owned [OF shell] by simp
    qed (use False in \<open>auto simp: conversation_owned_def conversation_ok_def\<close>)
    moreover have "db' = db1 \<or> db' = ?db2"
      using assms(1) shell False
      by (auto simp: projectConversationUpdated_def Let_def tombstone_readers result_simps split: if_splits)
    ultimately show ?thesis using first projects_trans by blast
  qed
qed

lemma projectParticipantUpdated_projects:
  assumes "projectParticipantUpdated db p payload = Inr db'" and "wf_db db"
  shows "projects (ownerFor p) db db'"
proof (rule after_shell [OF assms(1) [unfolded projectParticipantUpdated_def Let_def] assms(2)],
    elim andThenE, goal_cases)
  case (1 db1 _ _ _ t)
  let ?pid = "pu_participant_id payload" and ?cid = "conversationId (ownerFor p)"
  let ?deleted = "tombs_of db1 RParticipant ?pid \<or> tombs_of db1 RConversation ?cid"
  have t: "t = None \<longleftrightarrow> \<not> ?deleted"
    using latestTombstone_some [OF 1(4)] by (simp add: tomb_simps)
  show ?case
  proof (cases "readParticipant db1 ?pid")
    case None
    with 1(5) show ?thesis
      by (cases t) (auto simp: result_simps intro!: row_steps;
        use t in \<open>auto simp: ownerMatches_def participant_ok_def tomb_simps\<close>)+
  next
    case (Some q)
    have row: "r = q" if "r \<in> set (participants db1)" "p_id r = ?pid" for r
      using row_unique(2) [OF 1(1) Some that] .
    from 1(5) [unfolded Some option.case] show ?thesis
    proof (elim andThenE, goal_cases)
      case (1 _ cmp)
      note owned = 1(1) [unfolded assertOwner_eq_Inr, rule_format, OF refl]
      have upd: "projects (ownerFor p) db1 (db1\<lparr>participants := upd_where (\<lambda>r. p_id r = ?pid) f (participants db1)\<rparr>)"
        if "\<And>r. owned_of (f r) = owned_of r" "\<And>r. p_id (f r) = p_id r"
          and "participant_ok (tombs_of db1) q \<Longrightarrow> participant_ok (tombs_of db1) (f q)" for f
        by (intro row_steps)
          (use row owned that ownerMatches_cong [OF that(1)] in auto)
      consider "cmp \<le> 0" | "\<not> cmp \<le> 0" "p_deleted_at q \<noteq> None \<or> ?deleted"
        | "\<not> cmp \<le> 0" "p_deleted_at q = None" "\<not> ?deleted" by blast
      then show ?case
      proof cases
        case 2
        then show ?thesis
          using 1(3) t
          by (auto simp: tomb_simps intro!: upd split: option.splits;
              auto simp: owned_of_def participant_ok_def split: option.splits)
      next
        case 3
        have q: "p_id q = ?pid" "conversation_id q = ?cid"
          using Some owned by (auto simp: readParticipant_def ownerMatches_def dest: find_SomeD)
        show ?thesis
          using 1(3) 3 q
          by (auto simp: tomb_simps intro!: upd; auto simp: owned_of_def participant_ok_def)
      qed (use 1(3) in simp)
    qed
  qed
qed

section \<open>Messages\<close>

lemma redactMessage_shape:
  assumes "redactMessage db mid t = Inr db'"
  obtains at ms eid where
    "messages db' = upd_where (\<lambda>m. m_id m = mid)
       (\<lambda>m. (redact_message_row (Some (rt_occurred_at t)) (rt_reason_code t) m)
              \<lparr>m_observed_at := at, m_current_observed_ms := ms, m_current_event_id := eid\<rparr>) (messages db)"
    and "message_versions db' = upd_where (\<lambda>v. v_message_id v = mid) redact_version_row (message_versions db)"
    and "reactions db' = del_where (\<lambda>r. r_message_id r = mid) (reactions db)"
    and "receipts db' = del_where (\<lambda>r. rc_message_id r = mid) (receipts db)"
    and "attachments db' = upd_where (\<lambda>a. a_message_id a = mid)
       (\<lambda>a. redact_attachment_row
              (Some (later_tombstone_or db RAttachment (a_id a) t rt_occurred_at)) a) (attachments db)"
    and "message_delivery_updates db' = upd_where (\<lambda>d. d_message_id d = mid)
       (\<lambda>d. d\<lparr>d_failure_code := None\<rparr>) (message_delivery_updates db)"
    and "conversations db' = conversations db" and "participants db' = participants db"
    and "typing_states db' = typing_states db" and "commands db' = commands db"
    and "event_tombstones db' = event_tombstones db" and "resource_tombstones db' = resource_tombstones db"
    and "applied_events db' = applied_events db" and "connection_bindings db' = connection_bindings db"
  using assms unfolding redactMessage_def Let_def
  by (elim andThenE) (erule sum.inject(2) [THEN iffD1, elim_format], rule that, (hypsubst, simp)+)

lemma redactMessage_projects:
  assumes red: "redactMessage db mid t = Inr db'"
    and "\<And>r. r \<in> set (messages db) \<Longrightarrow> m_id r = mid \<Longrightarrow> ownerMatches r owner"
    and "\<And>v. v \<in> set (message_versions db) \<Longrightarrow> v_message_id v = mid \<Longrightarrow> ownerMatches v owner"
    and "\<And>x. x \<in> set (reactions db) \<Longrightarrow> r_message_id x = mid \<Longrightarrow> ownerMatches x owner"
    and "\<And>y. y \<in> set (receipts db) \<Longrightarrow> rc_message_id y = mid \<Longrightarrow> ownerMatches y owner"
    and "\<And>a. a \<in> set (attachments db) \<Longrightarrow> a_message_id a = mid \<Longrightarrow> ownerMatches a owner"
    and "\<And>d. d \<in> set (message_delivery_updates db) \<Longrightarrow> d_message_id d = mid \<Longrightarrow> ownerMatches d owner"
  shows "projects owner db db'"
  using red
proof (cases rule: redactMessage_shape)
  case (1 at ms eid)
  let ?T = "tombs_of db"
  have "table_evolves m_id (\<lambda>r. ownerMatches r owner) (message_ok ?T) (messages db) (messages db')"
    unfolding 1(1)
    by (intro table_evolves_update table_evolves_refl)
      (use assms(2) in \<open>auto simp: ownerMatches_def redact_message_row_def message_ok_def message_redacted_def\<close>)
  moreover have "table_evolves v_event_id (\<lambda>r. ownerMatches r owner) (version_ok ?T)
      (message_versions db) (message_versions db')"
    unfolding 1(2)
    by (intro table_evolves_update table_evolves_refl)
      (use assms(3) in \<open>auto simp: ownerMatches_def redact_version_row_def version_ok_def\<close>)
  moreover have "table_evolves r_id (\<lambda>r. ownerMatches r owner) (reaction_ok ?T) (reactions db) (reactions db')"
    unfolding 1(3) by (intro table_evolves_delete table_evolves_refl) (rule assms(4))
  moreover have "table_evolves receipt_key (\<lambda>r. ownerMatches r owner) (receipt_ok ?T) (receipts db) (receipts db')"
    unfolding 1(4) by (intro table_evolves_delete table_evolves_refl) (rule assms(5))
  moreover have "table_evolves a_id (\<lambda>r. ownerMatches r owner) (attachment_ok ?T) (attachments db) (attachments db')"
    unfolding 1(5)
    by (intro table_evolves_update table_evolves_refl)
      (use assms(6) in \<open>auto simp: ownerMatches_def redact_attachment_row_def attachment_ok_def\<close>)
  moreover have "table_evolves d_message_id (\<lambda>r. ownerMatches r owner) (delivery_ok ?T)
      (message_delivery_updates db) (message_delivery_updates db')"
    unfolding 1(6)
    by (intro table_evolves_update table_evolves_refl)
      (use assms(7) in \<open>auto simp: ownerMatches_def delivery_ok_def\<close>)
  ultimately show ?thesis by (simp add: projects_def db_evolves_def 1(7-14))
qed

text \<open>Every row that refers to one message belongs to the event's owner.\<close>

definition message_family_owned :: "projection_db \<Rightarrow> string \<Rightarrow> projection_owner \<Rightarrow> bool" where
  "message_family_owned db mid owner =
     ((\<forall>r \<in> set (messages db). m_id r = mid \<longrightarrow> ownerMatches r owner)
      \<and> (\<forall>v \<in> set (message_versions db). v_message_id v = mid \<longrightarrow> ownerMatches v owner)
      \<and> (\<forall>x \<in> set (reactions db). r_message_id x = mid \<longrightarrow> ownerMatches x owner)
      \<and> (\<forall>y \<in> set (receipts db). rc_message_id y = mid \<longrightarrow> ownerMatches y owner)
      \<and> (\<forall>a \<in> set (attachments db). a_message_id a = mid \<longrightarrow> ownerMatches a owner)
      \<and> (\<forall>d \<in> set (message_delivery_updates db). d_message_id d = mid \<longrightarrow> ownerMatches d owner))"

lemma assertMessageTargetOwner_family:
  "assertMessageTargetOwner db mid owner = Inr m \<Longrightarrow> message_family_owned db mid owner"
  using assertMessageTargetOwner_D by (auto simp: message_family_owned_def)

lemma db_evolves_family:
  assumes e: "db_evolves owner T db db'" and f: "message_family_owned db mid owner"
  shows "message_family_owned db' mid owner"
  unfolding message_family_owned_def
proof (intro conjI ballI impI)
  fix r assume "r \<in> set (messages db')" "m_id r = mid"
  then show "ownerMatches r owner"
    using table_evolves_owned [OF db_evolvesD(3) [OF e], of "\<lambda>r. m_id r = mid" r] f
    by (auto simp: message_family_owned_def)
next
  fix r assume "r \<in> set (message_versions db')" "v_message_id r = mid"
  then show "ownerMatches r owner"
    using table_evolves_owned [OF db_evolvesD(4) [OF e], of "\<lambda>r. v_message_id r = mid" r] f
    by (auto simp: message_family_owned_def)
next
  fix r assume "r \<in> set (reactions db')" "r_message_id r = mid"
  then show "ownerMatches r owner"
    using table_evolves_owned [OF db_evolvesD(5) [OF e], of "\<lambda>r. r_message_id r = mid" r] f
    by (auto simp: message_family_owned_def)
next
  fix r assume "r \<in> set (receipts db')" "rc_message_id r = mid"
  then show "ownerMatches r owner"
    using table_evolves_owned [OF db_evolvesD(6) [OF e], of "\<lambda>r. rc_message_id r = mid" r] f
    by (auto simp: message_family_owned_def)
next
  fix r assume "r \<in> set (attachments db')" "a_message_id r = mid"
  then show "ownerMatches r owner"
    using table_evolves_owned [OF db_evolvesD(8) [OF e], of "\<lambda>r. a_message_id r = mid" r] f
    by (auto simp: message_family_owned_def)
next
  fix r assume "r \<in> set (message_delivery_updates db')" "d_message_id r = mid"
  then show "ownerMatches r owner"
    using table_evolves_owned [OF db_evolvesD(10) [OF e], of "\<lambda>r. d_message_id r = mid" r] f
    by (auto simp: message_family_owned_def)
qed

lemma projects_family:
  "projects owner db db' \<Longrightarrow> message_family_owned db mid owner \<Longrightarrow> message_family_owned db' mid owner"
  by (auto simp: projects_def elim: db_evolves_family)

lemma redactMessage_family_projects:
  assumes "redactMessage db mid t = Inr db'" and "message_family_owned db mid owner"
  shows "projects owner db db'"
  by (rule redactMessage_projects [OF assms(1)]) (use assms(2) in \<open>auto simp: message_family_owned_def\<close>)

lemma insertMessageVersion_projects:
  assumes "insertMessageVersion db p mid kind body editor = Inr db'"
    and "tombs_of db RMessage mid \<or> tombs_of db RConversation (conversationId (ownerFor p))
           \<Longrightarrow> body = '''' \<and> editor = None"
    and "\<And>pid. editor = Some pid \<Longrightarrow> \<not> tombs_of db RParticipant pid"
  shows "projects (ownerFor p) db db'"
  using assms
  by (auto simp: insertMessageVersion_def Let_def result_simps intro!: row_steps;
      auto simp: ownerMatches_def version_ok_def)

lemma set_current_projects:
  assumes "\<And>m. m \<in> set (messages db) \<Longrightarrow> m_id m = mid \<Longrightarrow> ownerMatches m owner"
    and "\<And>m. owned_of (f m) = owned_of m" and "\<And>m. m_id (f m) = m_id m"
    and "\<And>m. m \<in> set (messages db) \<Longrightarrow> m_id m = mid \<Longrightarrow> message_ok (tombs_of db) m
            \<Longrightarrow> message_ok (tombs_of db) (f m)"
  shows "projects owner db (set_current db mid f latest)"
  unfolding set_current_def
proof (rule projects_message_update [OF assms(1)])
  fix m assume "m \<in> set (messages db)" "m_id m = mid" "message_ok (tombs_of db) m"
  from assms(4) [OF this]
  show "message_ok (tombs_of db) ((f m)\<lparr>m_observed_at := v_observed_at latest,
      m_current_observed_ms := v_observed_ms latest, m_current_event_id := v_event_id latest\<rparr>)"
    by (simp add: message_ok_def message_redacted_def)
qed (use assms(2,3) in \<open>auto simp: owned_of_def\<close>)

text \<open>The tombstone a message projector computes says whether the message is covered.\<close>

lemma effectiveMessageTombstone_iff:
  "effectiveMessageTombstone db mid cid = Inr t
     \<Longrightarrow> t = None \<longleftrightarrow> \<not> tombs_of db RMessage mid \<and> \<not> tombs_of db RConversation cid"
  using latestTombstone_some by (auto simp: effectiveMessageTombstone_def tomb_simps)

lemma applyCurrentMessageVersion_projects:
  assumes app: "applyCurrentMessageVersion db m latest t = Inr db'"
    and fam: "message_family_owned db (m_id m) owner"
    and clear: "t = None \<Longrightarrow> \<not> tombs_of db RMessage (m_id m) \<and> \<not> tombs_of db RConversation (conversationId owner)"
  shows "projects owner db db'"
proof (cases t)
  case None
  have owned: "\<And>r. r \<in> set (messages db) \<Longrightarrow> m_id r = m_id m \<Longrightarrow> ownerMatches r owner"
    using fam by (auto simp: message_family_owned_def)
  have ok: "\<not> tombs_of db RMessage (m_id r) \<and> \<not> tombs_of db RConversation (conversation_id r)"
    if "r \<in> set (messages db)" "m_id r = m_id m" for r
    using clear None owned [OF that] that(2) by (simp add: ownerMatches_def)
  have step: "projects owner db (set_current db (m_id m) (\<lambda>m. m\<lparr>m_body := b, m_edited_at := e\<rparr>) latest)" for b e
    by (rule set_current_projects [OF owned]) (use ok in \<open>auto simp: owned_of_def message_ok_def\<close>)
  from app show ?thesis
    unfolding applyCurrentMessageVersion_def None option.case Let_def
    by (elim andThenE) (use step in \<open>auto split: if_splits\<close>)
next
  case (Some u)
  from app [unfolded applyCurrentMessageVersion_def Some option.case Let_def] show ?thesis
  proof (elim andThenE, goal_cases)
    case (1 cmp db1)
    have step: "projects owner db db1" by (rule redactMessage_family_projects [OF 1(2) fam])
    have "message_family_owned db1 (m_id m) owner" by (rule projects_family [OF step fam])
    then have "projects owner db1 (set_current db1 (m_id m) (\<lambda>m. m) latest)"
      by (intro set_current_projects) (auto simp: message_family_owned_def)
    with step 1(3) show ?case
      by (auto split: if_splits elim!: andThenE intro: projects_trans)
  qed
qed

lemma reconcileWinningCreatedFields_projects:
  assumes fam: "message_family_owned db mid (ownerFor p)"
    and clear: "t = None \<Longrightarrow> \<not> tombs_of db RMessage mid \<and> \<not> tombs_of db RConversation (conversationId (ownerFor p))"
    and sender: "\<And>pid. st = None \<Longrightarrow> mc_sender_participant_id payload = Some pid \<Longrightarrow> \<not> tombs_of db RParticipant pid"
  shows "projects (ownerFor p) db (reconcileWinningCreatedFields db mid p payload t st)"
proof -
  have owned: "\<And>r. r \<in> set (messages db) \<Longrightarrow> m_id r = mid \<Longrightarrow> ownerMatches r (ownerFor p)"
    using fam by (auto simp: message_family_owned_def)
  have ok: "\<not> tombs_of db RMessage (m_id r) \<and> \<not> tombs_of db RConversation (conversation_id r)"
    if "t = None" "r \<in> set (messages db)" "m_id r = mid" for r
    using clear owned [OF that(2,3)] that by (simp add: ownerMatches_def)
  let ?f = "\<lambda>m. m\<lparr>m_sender_participant_id := (if t \<noteq> None \<or> st \<noteq> None then None else mc_sender_participant_id payload),
       m_sender_label := (if t \<noteq> None \<or> st \<noteq> None then ''Deleted sender'' else mc_sender_label payload),
       m_reply_to_message_id := (if t \<noteq> None then None else mc_reply_to_message_id payload),
       m_delivery_status := (if readDelivery db mid = None then mc_delivery_status payload else m_delivery_status m),
       m_unread := (if t \<noteq> None then 0 else if mc_unread payload then 1 else 0),
       m_occurred_at := ev_occurred_at (pe_event p), m_occurred_ms := pe_occurredMs p,
       m_matrix_room_id := (if t \<noteq> None then None else ev_matrix_room_id (pe_event p)),
       m_matrix_event_id := (if t \<noteq> None then None else ev_matrix_event_id (pe_event p)),
       m_remote_message_id := (if t \<noteq> None then None else ev_remote_message_id (pe_event p))\<rparr>"
  have "projects (ownerFor p) db (db\<lparr>messages := upd_where (\<lambda>m. m_id m = mid) ?f (messages db)\<rparr>)"
  proof (rule projects_message_update [OF owned])
    fix m assume m: "m \<in> set (messages db)" "m_id m = mid" "message_ok (tombs_of db) m"
    show "message_ok (tombs_of db) (?f m)"
    proof (cases t)
      case None
      with ok [OF None m(1,2)] sender show ?thesis by (auto simp: message_ok_def)
    next
      case (Some u)
      with m(3) show ?thesis by (simp add: message_ok_def message_redacted_def)
    qed
  qed (simp_all add: owned_of_def)
  then show ?thesis by (simp add: reconcileWinningCreatedFields_def Let_def)
qed

lemma insert_created_message_projects:
  assumes ins: "insert_created_message db p payload latest t st = Inr db'"
    and body: "t \<noteq> None \<Longrightarrow> v_body latest = ''''"
    and clear: "t = None \<Longrightarrow> \<not> tombs_of db RMessage (mc_message_id payload)
                 \<and> \<not> tombs_of db RConversation (conversationId (ownerFor p))"
    and sender: "\<And>pid. st = None \<Longrightarrow> mc_sender_participant_id payload = Some pid \<Longrightarrow> \<not> tombs_of db RParticipant pid"
  shows "projects (ownerFor p) db db'"
proof -
  have ok: "message_ok (tombs_of db) (new_message p payload latest t st at ms eid)" for at ms eid
    using body clear sender
    by (cases t) (auto simp: new_message_def Let_def message_ok_def message_redacted_def)
  have owned: "ownerMatches (new_message p payload latest t st at ms eid) (ownerFor p)" for at ms eid
    by (simp add: new_message_def Let_def ownerMatches_def)
  from ins show ?thesis
    unfolding insert_created_message_def
    by (elim andThenE) (auto simp: result_simps elim!: andThenE split: prod.splits
        intro!: projects_table(2) table_evolves_insert ok owned)
qed

lemma initializeCreatedDeliveryTuple_projects:
  assumes "initializeCreatedDeliveryTuple db mid = Inr db'" and "wf_db db"
    and "message_family_owned db mid owner"
  shows "projects owner db db'"
  using assms reconcileMessageDelivery_projects [of db mid db' owner]
  by (auto simp: initializeCreatedDeliveryTuple_def message_family_owned_def split: if_splits)

lemma reconcileMessageLocalRead_family:
  assumes "reconcileMessageLocalRead db mid = Inr db'" and "wf_db db"
    and "message_family_owned db mid owner"
  shows "projects owner db db'"
  using assms reconcileMessageLocalRead_projects [of db mid db' owner]
  by (auto simp: message_family_owned_def)

lemma readLatestMessageVersion_in:
  "readLatestMessageVersion db mid = Some v \<Longrightarrow> v \<in> set (message_versions db) \<and> v_message_id v = mid"
  using best_row_in by (fastforce simp: readLatestMessageVersion_def)

text \<open>A version of a covered message has an empty body.\<close>

lemma covered_version_empty:
  assumes "wf_db db" and "readLatestMessageVersion db mid = Some v"
    and "message_family_owned db mid owner"
    and "tombs_of db RMessage mid \<or> tombs_of db RConversation (conversationId owner)"
  shows "v_body v = ''''"
  using assms readLatestMessageVersion_in [OF assms(2)]
  by (auto simp: wf_db_def redacted_def list_all_iff version_ok_def message_family_owned_def ownerMatches_def)

lemma readMessage_id: "readMessage db mid = Some m \<Longrightarrow> m_id m = mid"
  by (auto simp: readMessage_def dest: find_SomeD)

lemma projectMessageEdited_projects:
  assumes edit: "projectMessageEdited db p payload = Inr db'" and wf: "wf_db db"
  shows "projects (ownerFor p) db db'"
  using edit [unfolded projectMessageEdited_def Let_def]
proof (elim andThenE, goal_cases)
  case (1 _ m shell)
  obtain db1 c where shell: "shell = (db1, c)" by (cases shell)
  let ?o = "ownerFor p" and ?mid = "me_message_id payload"
  have s1: "projects ?o db db1"
    by (rule ensureConversationShell_projects [OF 1(3) [unfolded shell] wf])
  have wf1: "wf_db db1" by (rule projects_wf [OF s1 wf])
  have fam1: "message_family_owned db1 ?mid ?o"
    by (rule projects_family [OF s1 assertMessageTargetOwner_family [OF 1(2)]])
  have m: "m_id r = ?mid" if "m = Some r" for r
    using that assertMessageTargetOwner_D(1) [OF 1(2)] readMessage_id by simp
  from 1(4) [unfolded shell prod.case] show ?case
  proof (elim andThenE, goal_cases)
    case (1 t db2)
    note eff = effectiveMessageTombstone_iff [OF 1(1)]
    have s2: "projects ?o db1 db2"
      by (rule insertMessageVersion_projects [OF 1(2)])
        (use eff in \<open>auto simp: tomb_simps split: if_splits option.splits\<close>)
    have tombs2: "tombs_of db2 = tombs_of db1"
      using s2 by (auto simp: projects_def intro: tombs_of_cong)
    have wf2: "wf_db db2" by (rule projects_wf [OF s2 wf1])
    have fam2: "message_family_owned db2 ?mid ?o" by (rule projects_family [OF s2 fam1])
    show ?case
    proof (cases m)
      case None
      with 1(3) s1 s2 show ?thesis by (auto intro: projects_trans)
    next
      case (Some r)
      with 1(3) obtain latest db3 where app: "applyCurrentMessageVersion db2 r latest t = Inr db3"
        and read: "reconcileMessageLocalRead db3 ?mid = Inr db'"
        by (auto simp: result_simps split: option.splits)
      have s3: "projects ?o db2 db3"
        by (rule applyCurrentMessageVersion_projects [OF app])
          (use fam2 m [OF Some] eff in \<open>auto simp: tombs2\<close>)
      have s4: "projects ?o db3 db'"
        by (rule reconcileMessageLocalRead_family [OF read projects_wf [OF s3 wf2] projects_family [OF s3 fam2]])
      show ?thesis using s1 s2 s3 s4 by (blast intro: projects_trans)
    qed
  qed
qed

text \<open>The two branches of \<open>projectMessageCreated\<close>: a new message row, or a row that exists.\<close>

lemma created_insert_projects:
  assumes "andThen (insert_created_message db p payload latest t st)
      (\<lambda>db3. initializeCreatedDeliveryTuple db3 (mc_message_id payload)) = Inr db'"
    and wf: "wf_db db" and fam: "message_family_owned db (mc_message_id payload) (ownerFor p)"
    and body: "t \<noteq> None \<Longrightarrow> v_body latest = []"
    and clear: "t = None \<Longrightarrow> \<not> tombs_of db RMessage (mc_message_id payload)
                 \<and> \<not> tombs_of db RConversation (conversationId (ownerFor p))"
    and sender: "\<And>pid. st = None \<Longrightarrow> mc_sender_participant_id payload = Some pid \<Longrightarrow> \<not> tombs_of db RParticipant pid"
  shows "projects (ownerFor p) db db'"
proof -
  from assms(1) obtain db3 where ins: "insert_created_message db p payload latest t st = Inr db3"
    and ini: "initializeCreatedDeliveryTuple db3 (mc_message_id payload) = Inr db'"
    by (rule andThenE)
  have a: "projects (ownerFor p) db db3"
    by (rule insert_created_message_projects [OF ins body clear sender])
  have "projects (ownerFor p) db3 db'"
    by (rule initializeCreatedDeliveryTuple_projects [OF ini projects_wf [OF a wf] projects_family [OF a fam]])
  with a show ?thesis by (rule projects_trans)
qed

lemma created_update_projects:
  assumes "andThen (applyCurrentMessageVersion db m latest t)
      (\<lambda>db3. initializeCreatedDeliveryTuple (reconcileWinningCreatedFields db3 (mc_message_id payload) p payload t st)
                (mc_message_id payload)) = Inr db'"
    and wf: "wf_db db" and fam: "message_family_owned db (mc_message_id payload) (ownerFor p)"
    and m: "m_id m = mc_message_id payload"
    and clear: "t = None \<Longrightarrow> \<not> tombs_of db RMessage (mc_message_id payload)
                 \<and> \<not> tombs_of db RConversation (conversationId (ownerFor p))"
    and sender: "\<And>pid. st = None \<Longrightarrow> mc_sender_participant_id payload = Some pid \<Longrightarrow> \<not> tombs_of db RParticipant pid"
  shows "projects (ownerFor p) db db'"
proof -
  let ?mid = "mc_message_id payload" and ?o = "ownerFor p"
  from assms(1) obtain db3 where app: "applyCurrentMessageVersion db m latest t = Inr db3"
    and ini: "initializeCreatedDeliveryTuple (reconcileWinningCreatedFields db3 ?mid p payload t st) ?mid = Inr db'"
    by (rule andThenE)
  have a: "projects ?o db db3"
    by (rule applyCurrentMessageVersion_projects [OF app]) (use fam m clear in auto)
  have tombs3: "tombs_of db3 = tombs_of db"
    using a by (auto simp: projects_def dest: tombs_of_cong)
  have fam3: "message_family_owned db3 ?mid ?o" by (rule projects_family [OF a fam])
  have b: "projects ?o db3 (reconcileWinningCreatedFields db3 ?mid p payload t st)"
    by (rule reconcileWinningCreatedFields_projects [OF fam3]) (use clear sender in \<open>auto simp: tombs3\<close>)
  have "projects ?o (reconcileWinningCreatedFields db3 ?mid p payload t st) db'"
    by (rule initializeCreatedDeliveryTuple_projects
        [OF ini projects_wf [OF b projects_wf [OF a wf]] projects_family [OF b fam3]])
  with a b show ?thesis by (blast intro: projects_trans)
qed

lemma projectMessageCreated_projects:
  assumes create: "projectMessageCreated db p payload = Inr db'" and wf: "wf_db db"
  shows "projects (ownerFor p) db db'"
  using create [unfolded projectMessageCreated_def Let_def]
proof (elim andThenE, goal_cases)
  case (1 _ _ m _ shell)
  obtain db1 c where shell: "shell = (db1, c)" by (cases shell)
  let ?o = "ownerFor p" and ?mid = "mc_message_id payload"
  let ?st = "case mc_sender_participant_id payload of None \<Rightarrow> None | Some pid \<Rightarrow> participantIsDeleted db1 pid"
  have s1: "projects ?o db db1"
    by (rule ensureConversationShell_projects [OF 1(5) [unfolded shell] wf])
  have wf1: "wf_db db1" by (rule projects_wf [OF s1 wf])
  have fam1: "message_family_owned db1 ?mid ?o"
    by (rule projects_family [OF s1 assertMessageTargetOwner_family [OF 1(3)]])
  have m: "m_id r = ?mid" if "m = Some r" for r
    using that assertMessageTargetOwner_D(1) [OF 1(3)] readMessage_id by simp
  from 1(6) [unfolded shell prod.case] show ?case
  proof (elim andThenE, goal_cases)
    case (1 t db2)
    note eff = effectiveMessageTombstone_iff [OF 1(1)]
    have s2: "projects ?o db1 db2"
      by (rule insertMessageVersion_projects [OF 1(2)]) (use eff in auto)
    have tombs2: "tombs_of db2 = tombs_of db1"
      using s2 by (auto simp: projects_def intro: tombs_of_cong)
    have wf2: "wf_db db2" by (rule projects_wf [OF s2 wf1])
    have fam2: "message_family_owned db2 ?mid ?o" by (rule projects_family [OF s2 fam1])
    from 1(3) obtain latest where latest: "readLatestMessageVersion db2 ?mid = Some latest"
      by (cases "readLatestMessageVersion db2 ?mid") auto
    have body: "t \<noteq> None \<Longrightarrow> v_body latest = ''''"
      using covered_version_empty [OF wf2 latest fam2] eff by (simp add: tombs2)
    have clear: "t = None \<Longrightarrow> \<not> tombs_of db2 RMessage ?mid \<and> \<not> tombs_of db2 RConversation (conversationId ?o)"
      using eff by (simp add: tombs2)
    have sender: "\<not> tombs_of db2 RParticipant pid"
      if "?st = None" "mc_sender_participant_id payload = Some pid" for pid
      using that by (simp add: tomb_simps tombs2)
    from 1(3) [unfolded latest option.case] show ?case
    proof (elim andThenE, goal_cases)
      case (1 db4 db5)
      have s3: "projects ?o db2 db4"
      proof (cases m)
        case None
        show ?thesis
          by (rule created_insert_projects [OF 1(1) [unfolded None option.case] wf2 fam2 body clear sender])
      next
        case (Some r)
        show ?thesis
          by (rule created_update_projects
              [OF 1(1) [unfolded Some option.case] wf2 fam2 m [OF Some] clear sender])
      qed
      have fam4: "message_family_owned db4 ?mid ?o" by (rule projects_family [OF s3 fam2])
      have s4: "projects ?o db4 db5"
        using 1(2) redactMessage_family_projects [OF _ fam4] by (auto split: option.splits if_splits)
      have wf5: "wf_db db5" by (rule projects_wf [OF s4 projects_wf [OF s3 wf2]])
      have "projects ?o db5 db'"
        by (rule reconcileMessageLocalRead_family [OF 1(3) wf5 projects_family [OF s4 fam4]])
      with s1 s2 s3 s4 show ?case by (blast intro: projects_trans)
    qed
  qed
qed

end
