(* ===== verification/Deletion_Invariants.thy ===== *)
theory Deletion_Invariants
  imports Isolation
begin

text \<open>
  The two deletion projectors add or refresh a tombstone and redact what it covers: they too touch
  only the owner's rows, and they leave every covered row redacted.
\<close>

section \<open>Steps that may change tombstones\<close>

definition isolated :: "projection_owner \<Rightarrow> projection_db \<Rightarrow> projection_db \<Rightarrow> bool" where
  "isolated owner db db' =
     (db_evolves owner (\<lambda>_ _. False) db db'
      \<and> table_evolves tombstone_key (\<lambda>t. ownerMatches t owner) (\<lambda>_. True)
          (resource_tombstones db) (resource_tombstones db'))"

lemma row_ok_False:
  "conversation_ok (\<lambda>_ _. False) = (\<lambda>_. True)" "participant_ok (\<lambda>_ _. False) = (\<lambda>_. True)"
  "message_ok (\<lambda>_ _. False) = (\<lambda>_. True)" "version_ok (\<lambda>_ _. False) = (\<lambda>_. True)"
  "reaction_ok (\<lambda>_ _. False) = (\<lambda>_. True)" "receipt_ok (\<lambda>_ _. False) = (\<lambda>_. True)"
  "typing_ok (\<lambda>_ _. False) = (\<lambda>_. True)" "attachment_ok (\<lambda>_ _. False) = (\<lambda>_. True)"
  "delivery_ok (\<lambda>_ _. False) = (\<lambda>_. True)" "command_ok (\<lambda>_ _. False) = (\<lambda>_. True)"
  by (simp_all add: fun_eq_iff row_ok_defs)

lemma projects_isolated:
  assumes "projects owner db db'"
  shows "isolated owner db db'"
proof -
  have e: "db_evolves owner (tombs_of db) db db'" and t: "resource_tombstones db' = resource_tombstones db"
    using assms by (auto simp: projects_def)
  show ?thesis
    unfolding isolated_def db_evolves_def row_ok_False t
    using db_evolvesD(1-11) [OF e, THEN table_evolves_mono] db_evolvesD(12-14) [OF e] by simp
qed

lemma isolated_trans [trans]: "isolated owner a b \<Longrightarrow> isolated owner b c \<Longrightarrow> isolated owner a c"
  unfolding isolated_def by (blast intro: db_evolves_trans table_evolves_trans)

lemma isolated_refl [simp, intro]: "isolated owner db db"
  by (simp add: isolated_def)

lemma isolated_keys:
  assumes "isolated owner db db'" and "keys_distinct db"
  shows "keys_distinct db'"
proof -
  have e: "db_evolves owner (\<lambda>_ _. False) db db'" using assms(1) by (simp add: isolated_def)
  have "distinct (map tombstone_key (resource_tombstones db'))"
    using assms table_evolves_distinct by (auto simp: isolated_def keys_distinct_def)
  then show ?thesis
    using assms(2) db_evolvesD(1-11) [OF e, THEN table_evolves_distinct] by (simp add: keys_distinct_def)
qed

section \<open>Tombstones\<close>

lemma upsertResourceTombstone_shape:
  assumes "upsertResourceTombstone db p ty rid reason = Inr (db', w)"
  obtains "db' = db" and "tombs_of db (canonical_type ty) rid"
    | t where "db' = db\<lparr>resource_tombstones := resource_tombstones db @ [t]\<rparr>"
      and "tombstone_key t = (canonical_type ty, rid)" and "ownerMatches t (ownerFor p)"
      and "\<not> tombs_of db (canonical_type ty) rid"
    | "db' = db\<lparr>resource_tombstones := upd_where
           (\<lambda>t. rt_resource_type t = canonical_type ty \<and> rt_resource_id t = rid)
           (\<lambda>t. t\<lparr>rt_tombstone_event_id := ev_event_id (pe_event p), rt_reason_code := reason,
                  rt_occurred_at := ev_occurred_at (pe_event p), rt_observed_ms := pe_observedMs p\<rparr>)
           (resource_tombstones db)\<rparr>"
      and "tombs_of db (canonical_type ty) rid"
      and "\<And>t. readResourceTombstone db (canonical_type ty) rid = Some t \<Longrightarrow> ownerMatches t (ownerFor p)"
      and "\<And>t. readResourceTombstone db (canonical_type ty) rid = Some t \<Longrightarrow>
             (rt_observed_ms t, js_trim (rt_tombstone_event_id t))
               < (pe_observedMs p, js_trim (ev_event_id (pe_event p)))"
proof -
  let ?ty = "canonical_type ty"
  have key: "(\<forall>x \<in> set (resource_tombstones db). tombstone_key x \<noteq> (?ty, rid)) \<longleftrightarrow> \<not> tombs_of db ?ty rid"
    by (auto simp: tombs_of_def readResourceTombstone_def find_None_set tombstone_key_def)
  from assms show ?thesis
    unfolding upsertResourceTombstone_def Let_def
  proof (elim andThenE, goal_cases)
    case (1 _ _ _ db1)
    have db': "db' = db1" using 1(5) by (auto simp: result_simps split: option.splits)
    show ?thesis
    proof (cases "readResourceTombstone db ?ty rid")
      case None
      with 1(4) show ?thesis
        by (auto simp: db' insert_resource_tombstone_def result_simps tombs_of_def tombstone_key_def
            ownerMatches_def intro!: that(2))
    next
      case (Some t)
      then have T: "tombs_of db ?ty rid" by (simp add: tombs_of_def)
      from 1(3) Some have owned: "ownerMatches t (ownerFor p)" by (simp add: result_simps)
      from 1(4) [unfolded Some option.case] show ?thesis
      proof (elim andThenE, goal_cases)
        case (1 cmp)
        show ?thesis
        proof (cases "cmp > 0")
          case True
          with 1(2) have "db1 = db\<lparr>resource_tombstones := upd_where
             (\<lambda>t. rt_resource_type t = ?ty \<and> rt_resource_id t = rid)
             (\<lambda>t. t\<lparr>rt_tombstone_event_id := ev_event_id (pe_event p), rt_reason_code := reason,
                    rt_occurred_at := ev_occurred_at (pe_event p), rt_observed_ms := pe_observedMs p\<rparr>)
             (resource_tombstones db)\<rparr>"
            by (auto simp: update_resource_tombstone_def result_simps)
          moreover note compareObservedTuple_positive [OF 1(1) True]
          ultimately show ?thesis using that(3) T Some owned db' by simp
        next
          case False
          with 1(2) have "db1 = db" by simp
          then show ?thesis using that(1) T db' by simp
        qed
      qed
    qed
  qed
qed

lemma tombs_of_iff:
  "tombs_of db ty rid \<longleftrightarrow> (\<exists>t \<in> set (resource_tombstones db). tombstone_key t = (ty, rid))"
  by (auto simp: tombs_of_def readResourceTombstone_def tombstone_key_def find_None_set
      simp flip: not_None_eq)

lemma tombs_of_image: "tombs_of db ty rid \<longleftrightarrow> (ty, rid) \<in> tombstone_key ` set (resource_tombstones db)"
  by (auto simp: tombs_of_iff image_iff) metis

text \<open>After the upsert exactly one more resource is covered, and nothing else has changed.\<close>

lemma upsertResourceTombstone_step:
  assumes up: "upsertResourceTombstone db p ty rid reason = Inr (db', w)" and keys: "keys_distinct db"
  shows "isolated (ownerFor p) db db'"
    and "tombs_of db' = (\<lambda>t i. tombs_of db t i \<or> t = canonical_type ty \<and> i = rid)"
    and "\<exists>ts. db' = db\<lparr>resource_tombstones := ts\<rparr>"
proof -
  have "isolated (ownerFor p) db db'
    \<and> tombs_of db' = (\<lambda>t i. tombs_of db t i \<or> t = canonical_type ty \<and> i = rid)
    \<and> (\<exists>ts. db' = db\<lparr>resource_tombstones := ts\<rparr>)"
    using up
  proof (cases rule: upsertResourceTombstone_shape)
    case 1
    then show ?thesis by (auto simp: fun_eq_iff intro: exI [of _ "resource_tombstones db"])
  next
    case (2 t)
    have "table_evolves tombstone_key (\<lambda>t. ownerMatches t (ownerFor p)) (\<lambda>_. True)
        (resource_tombstones db) (resource_tombstones db @ [t])"
      by (rule table_evolves_insert) (use 2 tombs_of_iff [of db] in \<open>auto simp: image_iff\<close>)
    with 2 show ?thesis
      by (auto simp: isolated_def db_evolves_def fun_eq_iff tombs_of_iff)
  next
    case 3
    let ?P = "\<lambda>t. rt_resource_type t = canonical_type ty \<and> rt_resource_id t = rid"
    let ?f = "\<lambda>t :: resource_tombstone_row. t\<lparr>rt_tombstone_event_id := ev_event_id (pe_event p), rt_reason_code := reason,
      rt_occurred_at := ev_occurred_at (pe_event p), rt_observed_ms := pe_observedMs p\<rparr>"
    let ?ts = "upd_where ?P ?f (resource_tombstones db)"
    have owned: "ownerMatches t (ownerFor p)" if "t \<in> set (resource_tombstones db)" "?P t" for t
    proof -
      have "readResourceTombstone db (canonical_type ty) rid = Some t"
        using find_key_unique [of tombstone_key "resource_tombstones db" t] keys that
        by (simp add: readResourceTombstone_def keys_distinct_def tombstone_key_def)
      then show ?thesis by (rule 3(3))
    qed
    have evolves: "table_evolves tombstone_key (\<lambda>t. ownerMatches t (ownerFor p)) (\<lambda>_. True)
        (resource_tombstones db) ?ts"
      by (rule table_evolves_update [OF table_evolves_refl owned])
        (auto simp: ownerMatches_def tombstone_key_def)
    have same: "tombstone_key ` set ?ts = tombstone_key ` set (resource_tombstones db)"
      by (rule image_key_upd_where) (simp add: tombstone_key_def)
    have "tombs_of db' = tombs_of db"
      unfolding 3(1) fun_eq_iff tombs_of_image by (simp add: same)
    moreover have "isolated (ownerFor p) db db'"
      using evolves unfolding isolated_def db_evolves_def 3(1) by simp
    ultimately show ?thesis using 3(1,2) by (auto simp: fun_eq_iff)
  qed
  then show "isolated (ownerFor p) db db'"
    and "tombs_of db' = (\<lambda>t i. tombs_of db t i \<or> t = canonical_type ty \<and> i = rid)"
    and "\<exists>ts. db' = db\<lparr>resource_tombstones := ts\<rparr>" by blast+
qed

section \<open>Redaction covers the new tombstone\<close>

abbreviation cover :: "tombs \<Rightarrow> canonical_resource_type \<Rightarrow> string \<Rightarrow> tombs" where
  "cover T ty rid \<equiv> \<lambda>t i. T t i \<or> t = ty \<and> i = rid"

text \<open>\<open>redacted\<close> is shown table by table, row by row.\<close>

lemma redactedI:
  assumes "\<And>r. r \<in> set (conversations db) \<Longrightarrow> conversation_ok T r"
    "\<And>r. r \<in> set (participants db) \<Longrightarrow> participant_ok T r"
    "\<And>r. r \<in> set (messages db) \<Longrightarrow> message_ok T r"
    "\<And>r. r \<in> set (message_versions db) \<Longrightarrow> version_ok T r"
    "\<And>r. r \<in> set (reactions db) \<Longrightarrow> reaction_ok T r"
    "\<And>r. r \<in> set (receipts db) \<Longrightarrow> receipt_ok T r"
    "\<And>r. r \<in> set (typing_states db) \<Longrightarrow> typing_ok T r"
    "\<And>r. r \<in> set (attachments db) \<Longrightarrow> attachment_ok T r"
    "\<And>r. r \<in> set (commands db) \<Longrightarrow> command_ok T r"
    "\<And>r. r \<in> set (message_delivery_updates db) \<Longrightarrow> delivery_ok T r"
    "\<And>cid. T RConversation cid \<Longrightarrow> cid \<in> c_id ` set (conversations db)"
  shows "redacted T db"
  using assms by (simp add: redacted_def list_all_iff)

lemma redacted_rows:
  assumes "redacted T db"
  shows "r1 \<in> set (conversations db) \<Longrightarrow> conversation_ok T r1"
    "r2 \<in> set (participants db) \<Longrightarrow> participant_ok T r2"
    "r3 \<in> set (messages db) \<Longrightarrow> message_ok T r3"
    "r4 \<in> set (message_versions db) \<Longrightarrow> version_ok T r4"
    "r5 \<in> set (reactions db) \<Longrightarrow> reaction_ok T r5"
    "r6 \<in> set (receipts db) \<Longrightarrow> receipt_ok T r6"
    "r7 \<in> set (typing_states db) \<Longrightarrow> typing_ok T r7"
    "r8 \<in> set (attachments db) \<Longrightarrow> attachment_ok T r8"
    "r9 \<in> set (commands db) \<Longrightarrow> command_ok T r9"
    "r10 \<in> set (message_delivery_updates db) \<Longrightarrow> delivery_ok T r10"
    "T RConversation cid \<Longrightarrow> cid \<in> c_id ` set (conversations db)"
  using assms by (simp_all add: redacted_def list_all_iff)

lemmas redact_row_defs = row_ok_defs redact_message_row_def redact_version_row_def
  redact_attachment_row_def redact_participant_row_def

lemmas in_changed_tableE = set_upd_where [THEN iffD1, THEN bexE] set_del_where [THEN iffD1, THEN conjE]

lemma redactMessage_covers:
  assumes red: "redactMessage db mid t = Inr db'" and "redacted T db"
  shows "redacted (cover T RMessage mid) db'"
  using red
proof (cases rule: redactMessage_shape)
  case (1 at ms eid)
  note D = redacted_rows [OF assms(2)]
  show ?thesis
    by (rule redactedI; (unfold 1)?; (erule in_changed_tableE)?; (drule D(1-10))?;
        auto simp: redact_row_defs intro: D(11))
qed

lemma redactParticipant_covers:
  assumes "redacted T db"
  shows "redacted (cover T RParticipant pid) (redactParticipant db pid t)"
proof -
  note D = redacted_rows [OF assms]
  show ?thesis
    unfolding redactParticipant_def
    by (rule redactedI; (simp (no_asm_use))?; (erule in_changed_tableE)?; (drule D(1-10))?;
        auto simp: redact_row_defs intro: D(11))
qed

lemma redactAttachment_covers:
  assumes "redacted T db"
  shows "redacted (cover T RAttachment aid) (redactAttachment db aid t)"
proof -
  note D = redacted_rows [OF assms]
  show ?thesis
    unfolding redactAttachment_def
    by (rule redactedI; (simp (no_asm_use))?; (erule in_changed_tableE)?; (drule D(1-10))?;
        auto simp: redact_row_defs intro: D(11))
qed

lemma redactConversation_shape:
  assumes "redactConversation db cid t owner = Inr db'"
  obtains at where "assertConversationChildrenOwned db (owner\<lparr>conversationId := cid\<rparr>) = Inr ()"
    and "conversations db' = upd_where (\<lambda>c. c_id c = cid)
           (\<lambda>c. c\<lparr>c_title := ''Deleted conversation'', c_last_message_preview := '''', c_archived := 0,
                  c_muted := 0, c_unread_count := 0, c_message_count := 0, c_attachment_count := 0,
                  c_deleted_at := Some (rt_occurred_at t),
                  c_last_event_id := rt_tombstone_event_id t,
                  c_updated_at := c_shell_activity_at c\<rparr>) (conversations db)"
    and "message_versions db' =
         upd_where (\<lambda>v. conversation_id v = cid) redact_version_row (message_versions db)"
    and "messages db' =
         upd_where (\<lambda>m. conversation_id m = cid
                        \<and> (m_current_observed_ms m, m_current_event_id m)
                            < (rt_observed_ms t, rt_tombstone_event_id t))
           (\<lambda>m. m\<lparr>m_observed_at := at, m_current_observed_ms := rt_observed_ms t,
                  m_current_event_id := rt_tombstone_event_id t\<rparr>)
           (upd_where (\<lambda>m. conversation_id m = cid)
             (\<lambda>m. redact_message_row
                    (Some (later_tombstone_or db RMessage (m_id m) t rt_occurred_at))
                    (later_tombstone_or db RMessage (m_id m) t rt_reason_code) m)
             (messages db))"
    and "participants db' =
         upd_where (\<lambda>p. conversation_id p = cid)
           (\<lambda>p. redact_participant_row
                  (Some (later_tombstone_or db RParticipant (p_id p) t rt_occurred_at)) p)
           (participants db)"
    and "attachments db' =
         upd_where (\<lambda>a. conversation_id a = cid)
           (\<lambda>a. redact_attachment_row (Some (effective_attachment_deleted_at db t a)) a)
           (attachments db)"
    and "reactions db' = del_where (\<lambda>r. conversation_id r = cid) (reactions db)"
    and "receipts db' = del_where (\<lambda>r. conversation_id r = cid) (receipts db)"
    and "typing_states db' = del_where (\<lambda>t. conversation_id t = cid) (typing_states db)"
    and "message_delivery_updates db' =
         upd_where (\<lambda>d. conversation_id d = cid) (\<lambda>d. d\<lparr>d_failure_code := None\<rparr>)
           (message_delivery_updates db)"
    and "commands db' =
         upd_where (\<lambda>k. conversation_id k = cid) (\<lambda>k. k\<lparr>k_failure_code := None\<rparr>) (commands db)"
    and "event_tombstones db' = event_tombstones db" and "resource_tombstones db' = resource_tombstones db"
    and "applied_events db' = applied_events db" and "connection_bindings db' = connection_bindings db"
  using assms unfolding redactConversation_def
  by (elim andThenE) (erule sum.inject(2) [THEN iffD1, elim_format], rule that, (hypsubst, simp)+)

lemma redactConversation_covers:
  assumes red: "redactConversation db cid t owner = Inr db'" and "redacted T db"
    and "cid \<in> c_id ` set (conversations db)"
  shows "redacted (cover T RConversation cid) db'"
  using red
proof (cases rule: redactConversation_shape)
  case (1 at)
  note D = redacted_rows [OF assms(2)]
  have ids: "c_id ` set (conversations db') = c_id ` set (conversations db)"
    unfolding 1 by (rule image_key_upd_where) simp
  have rows: "message_ok (cover T RConversation cid) m" if "m \<in> set (messages db')" for m
    using that unfolding 1
    by (elim in_changed_tableE disjE conjE) (drule D, auto simp: redact_row_defs)+
  have covered: "i \<in> c_id ` set (conversations db')" if "cover T RConversation cid RConversation i" for i
    using that D(11) assms(3) unfolding ids by auto
  show ?thesis
    by (rule redactedI; (erule rows | rule covered, assumption | (unfold 1)?); (erule in_changed_tableE)?;
        (drule D(1-10))?; auto simp: redact_row_defs)
qed

section \<open>Redaction touches only the owner's rows\<close>

lemma isolatedI:
  assumes "table_evolves c_id (\<lambda>c. ownerMatches (conversation_owned c) owner) (\<lambda>_. True) (conversations db) (conversations db')"
    and "table_evolves p_id (\<lambda>r. ownerMatches r owner) (\<lambda>_. True) (participants db) (participants db')"
    and "table_evolves m_id (\<lambda>r. ownerMatches r owner) (\<lambda>_. True) (messages db) (messages db')"
    and "table_evolves v_event_id (\<lambda>r. ownerMatches r owner) (\<lambda>_. True) (message_versions db) (message_versions db')"
    and "table_evolves r_id (\<lambda>r. ownerMatches r owner) (\<lambda>_. True) (reactions db) (reactions db')"
    and "table_evolves receipt_key (\<lambda>r. ownerMatches r owner) (\<lambda>_. True) (receipts db) (receipts db')"
    and "table_evolves typing_key (\<lambda>r. ownerMatches r owner) (\<lambda>_. True) (typing_states db) (typing_states db')"
    and "table_evolves a_id (\<lambda>r. ownerMatches r owner) (\<lambda>_. True) (attachments db) (attachments db')"
    and "table_evolves k_id (\<lambda>r. ownerMatches r owner) (\<lambda>_. True) (commands db) (commands db')"
    and "table_evolves d_message_id (\<lambda>r. ownerMatches r owner) (\<lambda>_. True) (message_delivery_updates db) (message_delivery_updates db')"
    and "event_tombstones db' = event_tombstones db" and "resource_tombstones db' = resource_tombstones db"
    and "c_id ` set (conversations db) \<subseteq> c_id ` set (conversations db')"
    and "applied_events db' = applied_events db" and "connection_bindings db' = connection_bindings db"
  shows "isolated owner db db'"
  using assms by (simp add: isolated_def db_evolves_def row_ok_False)

lemma redactParticipant_isolated:
  assumes refs: "assertParticipantReferenceOwners db1 pid owner = Inr u"
    and "\<And>r. r \<in> set (participants db1) \<Longrightarrow> p_id r = pid \<Longrightarrow> ownerMatches r owner"
  shows "isolated owner (db1\<lparr>resource_tombstones := us\<rparr>)
           (redactParticipant (db1\<lparr>resource_tombstones := us\<rparr>) pid t)"
proof -
  note D = assertParticipantReferenceOwners_D [OF refs] assms(2)
  show ?thesis
    unfolding redactParticipant_def
    by (rule isolatedI; simp; rule row_steps(11-) [OF table_evolves_refl];
        auto simp: ownerMatches_def [of "redact_participant_row _ _"] redact_participant_row_def ownerMatches_def dest: D)
qed

lemma redactAttachment_isolated:
  assumes "\<And>r. r \<in> set (attachments db) \<Longrightarrow> a_id r = aid \<Longrightarrow> ownerMatches r owner"
  shows "isolated owner db (redactAttachment db aid t)"
  unfolding redactAttachment_def
  by (rule isolatedI; simp; rule row_steps(11-) [OF table_evolves_refl];
      auto simp: redact_attachment_row_def ownerMatches_def dest: assms)

lemma assertConversationChildrenOwned_D:
  assumes "assertConversationChildrenOwned db owner = Inr u" and "conversationId owner = cid"
  shows "r1 \<in> set (participants db) \<Longrightarrow> conversation_id r1 = cid \<Longrightarrow> ownerMatches r1 owner"
    and "r2 \<in> set (messages db) \<Longrightarrow> conversation_id r2 = cid \<Longrightarrow> ownerMatches r2 owner"
    and "r3 \<in> set (message_versions db) \<Longrightarrow> conversation_id r3 = cid \<Longrightarrow> ownerMatches r3 owner"
    and "r4 \<in> set (reactions db) \<Longrightarrow> conversation_id r4 = cid \<Longrightarrow> ownerMatches r4 owner"
    and "r5 \<in> set (receipts db) \<Longrightarrow> conversation_id r5 = cid \<Longrightarrow> ownerMatches r5 owner"
    and "r6 \<in> set (typing_states db) \<Longrightarrow> conversation_id r6 = cid \<Longrightarrow> ownerMatches r6 owner"
    and "r7 \<in> set (attachments db) \<Longrightarrow> conversation_id r7 = cid \<Longrightarrow> ownerMatches r7 owner"
    and "r8 \<in> set (commands db) \<Longrightarrow> conversation_id r8 = cid \<Longrightarrow> ownerMatches r8 owner"
    and "r9 \<in> set (message_delivery_updates db) \<Longrightarrow> conversation_id r9 = cid \<Longrightarrow> ownerMatches r9 owner"
  using assms by (auto simp: assertConversationChildrenOwned_def result_simps)

lemma redactConversation_isolated:
  assumes red: "redactConversation db cid t owner = Inr db'" and cid: "conversationId owner = cid"
    and "\<And>c. c \<in> set (conversations db) \<Longrightarrow> c_id c = cid \<Longrightarrow> ownerMatches (conversation_owned c) owner"
  shows "isolated owner db db'"
  using red
proof (cases rule: redactConversation_shape)
  case (1 at)
  have "owner\<lparr>conversationId := cid\<rparr> = owner" using cid by simp
  note D = assertConversationChildrenOwned_D [OF 1(1) [unfolded this] cid] assms(3)
  let ?m = "\<lambda>m. redact_message_row (Some (later_tombstone_or db RMessage (m_id m) t rt_occurred_at))
                    (later_tombstone_or db RMessage (m_id m) t rt_reason_code) m"
  have one: "table_evolves m_id (\<lambda>r. ownerMatches r owner) (\<lambda>_. True) (messages db)
      (upd_where (\<lambda>m. conversation_id m = cid) ?m (messages db))"
    by (rule table_evolves_update [OF table_evolves_refl])
      (auto simp: redact_message_row_def ownerMatches_def dest: D)
  have msgs: "table_evolves m_id (\<lambda>r. ownerMatches r owner) (\<lambda>_. True) (messages db) (messages db')"
    unfolding 1
    by (rule table_evolves_update [OF one table_evolves_owned [OF one, of "\<lambda>m. conversation_id m = cid"]])
      (auto simp: redact_message_row_def ownerMatches_def dest: D)
  have ids: "c_id ` set (conversations db) \<subseteq> c_id ` set (conversations db')"
    unfolding 1 by (subst image_key_upd_where) auto
  show ?thesis
    by (rule isolatedI; (rule msgs ids)?; (unfold 1)?; (rule refl row_steps(11-) [OF table_evolves_refl])?;
        auto simp: redact_participant_row_def redact_version_row_def redact_attachment_row_def
          conversation_owned_def ownerMatches_def dest: D)
qed

section \<open>The deletion projectors\<close>

text \<open>A step of the projection: only the owner's rows change, and well-formedness is kept.\<close>

definition steps_well :: "projection_owner \<Rightarrow> projection_db \<Rightarrow> projection_db \<Rightarrow> bool" where
  "steps_well owner db db' = (isolated owner db db' \<and> wf_db db')"

lemma projects_steps_well: "projects owner db db' \<Longrightarrow> wf_db db \<Longrightarrow> steps_well owner db db'"
  by (simp add: steps_well_def projects_isolated projects_wf)

lemma redacted_other_tombstones [simp]: "redacted T (db\<lparr>resource_tombstones := ts\<rparr>) = redacted T db"
  by (simp add: redacted_def)

lemma deletion_step:
  assumes shell: "ensureConversationShell db p = Inr (db1, c)" and wf: "wf_db db"
    and up: "upsertResourceTombstone db1 p ty rid reason = Inr (db2, w)"
    and iso: "isolated (ownerFor p) db2 db'"
    and red: "redacted (tombs_of db1) db2 \<Longrightarrow> redacted (cover (tombs_of db1) (canonical_type ty) rid) db'"
    and ts: "resource_tombstones db' = resource_tombstones db2"
  shows "steps_well (ownerFor p) db db'"
proof -
  have p: "projects (ownerFor p) db db1" by (rule ensureConversationShell_projects [OF shell wf])
  then have wf1: "wf_db db1" by (rule projects_wf [OF _ wf])
  then have k1: "keys_distinct db1" and r1: "redacted (tombs_of db1) db1" by (simp_all add: wf_db_def)
  note s = upsertResourceTombstone_step [OF up k1]
  obtain us where us: "db2 = db1\<lparr>resource_tombstones := us\<rparr>" using s(3) by blast
  have all: "isolated (ownerFor p) db db'"
    by (rule isolated_trans [OF isolated_trans [OF projects_isolated [OF p] s(1)] iso])
  have "redacted (tombs_of db1) db2" using r1 by (simp add: us)
  then have "redacted (tombs_of db') db'"
    unfolding tombs_of_cong [OF ts] s(2) by (rule red)
  moreover have "keys_distinct db'"
    using isolated_keys [OF all] wf by (simp add: wf_db_def)
  ultimately show ?thesis using all by (simp add: steps_well_def wf_db_def)
qed

lemma upsert_target:
  "upsertResourceTombstone db p ty rid reason = Inr r \<Longrightarrow> assertTargetOwner db ty rid (ownerFor p) = Inr ()"
  by (auto simp: upsertResourceTombstone_def Let_def andThen_eq_Inr)

lemma message_family_other_tombstones [simp]:
  "message_family_owned (db\<lparr>resource_tombstones := ts\<rparr>) mid owner = message_family_owned db mid owner"
  by (simp add: message_family_owned_def)

lemma upsert_only_tombstones:
  assumes shell: "ensureConversationShell db p = Inr (db1, c)" and wf: "wf_db db"
    and up: "upsertResourceTombstone db1 p ty rid reason = Inr (db2, w)"
  obtains us where "db2 = db1\<lparr>resource_tombstones := us\<rparr>" and "wf_db db1"
proof -
  have "wf_db db1" by (rule projects_wf [OF ensureConversationShell_projects [OF shell wf] wf])
  then show ?thesis
    using upsertResourceTombstone_step(3) [OF up] that by (auto simp: wf_db_def)
qed

lemma redactMessage_steps:
  assumes shell: "ensureConversationShell db p = Inr (db1, c)" and wf: "wf_db db"
    and up: "upsertResourceTombstone db1 p DMessage mid reason = Inr (db2, w)"
    and red: "redactMessage db2 mid t = Inr db'"
  shows "steps_well (ownerFor p) db db'"
proof (rule deletion_step [OF shell wf up])
  obtain us where us: "db2 = db1\<lparr>resource_tombstones := us\<rparr>"
    by (rule upsert_only_tombstones [OF shell wf up])
  have "message_family_owned db1 mid (ownerFor p)"
    using upsert_target [OF up]
    by (auto simp: assertTargetOwner_def result_simps intro: assertMessageTargetOwner_family)
  then have p: "projects (ownerFor p) db2 db'"
    unfolding us by (intro redactMessage_family_projects [OF red [unfolded us]]) simp
  then show "isolated (ownerFor p) db2 db'" and "resource_tombstones db' = resource_tombstones db2"
    by (simp_all add: projects_isolated projects_def)
  show "redacted (cover (tombs_of db1) (canonical_type DMessage) mid) db'" if "redacted (tombs_of db1) db2"
    using redactMessage_covers [OF red that] by simp
qed

lemma projectMessageDeleted_steps:
  assumes "projectMessageDeleted db p payload = Inr db'" and "wf_db db"
  shows "steps_well (ownerFor p) db db'"
  using assms redactMessage_steps
  by (auto simp: projectMessageDeleted_def Let_def andThen_eq_Inr split: option.splits)

lemma redactParticipant_steps:
  assumes shell: "ensureConversationShell db p = Inr (db1, c)" and wf: "wf_db db"
    and up: "upsertResourceTombstone db1 p DParticipant pid reason = Inr (db2, w)"
  shows "steps_well (ownerFor p) db (redactParticipant db2 pid t)"
proof (rule deletion_step [OF shell wf up])
  obtain us where us: "db2 = db1\<lparr>resource_tombstones := us\<rparr>" and wf1: "wf_db db1"
    by (rule upsert_only_tombstones [OF shell wf up])
  have refs: "assertParticipantReferenceOwners db1 pid (ownerFor p) = Inr ()"
    and own: "assertOwner (readParticipant db1 pid) (ownerFor p) = Inr ()"
    using upsert_target [OF up] by (simp_all add: assertTargetOwner_def result_simps)
  have "ownerMatches r (ownerFor p)" if "r \<in> set (participants db1)" "p_id r = pid" for r
    using keyed_owned [of p_id "participants db1" pid _ r] that own wf1
    by (simp add: result_simps readParticipant_def wf_db_def keys_distinct_def)
  then show "isolated (ownerFor p) db2 (redactParticipant db2 pid t)"
    unfolding us by (rule redactParticipant_isolated [OF refs])
qed (use redactParticipant_covers in \<open>simp_all add: redactParticipant_def\<close>)

lemma redactAttachment_steps:
  assumes shell: "ensureConversationShell db p = Inr (db1, c)" and wf: "wf_db db"
    and up: "upsertResourceTombstone db1 p DAttachment aid reason = Inr (db2, w)"
  shows "steps_well (ownerFor p) db (redactAttachment db2 aid t)"
proof (rule deletion_step [OF shell wf up])
  obtain us where us: "db2 = db1\<lparr>resource_tombstones := us\<rparr>" and wf1: "wf_db db1"
    by (rule upsert_only_tombstones [OF shell wf up])
  have own: "\<forall>a. deletion_readAttachment db1 aid = Some a \<longrightarrow> ownerMatches a (ownerFor p)"
    using upsert_target [OF up] by (auto simp: assertTargetOwner_def result_simps)
  have "ownerMatches r (ownerFor p)" if "r \<in> set (attachments db2)" "a_id r = aid" for r
    using keyed_owned [of a_id "attachments db1" aid _ r] that own wf1
    by (simp add: us deletion_readAttachment_def wf_db_def keys_distinct_def)
  then show "isolated (ownerFor p) db2 (redactAttachment db2 aid t)"
    by (rule redactAttachment_isolated)
qed (use redactAttachment_covers in \<open>simp_all add: redactAttachment_def\<close>)

text \<open>A conversation can be deleted only by an event of that conversation.\<close>

lemma assertTargetOwner_conversation:
  assumes "assertTargetOwner db DConversation cid owner = Inr u"
  shows "cid = conversationId owner"
  using assms
  by (auto simp: assertTargetOwner_def result_simps ownerMatches_def conversation_owned_def
      readConversation_def split: option.splits dest!: find_SomeD)

lemma redactConversation_steps:
  assumes shell: "ensureConversationShell db p = Inr (db1, c)" and wf: "wf_db db"
    and up: "upsertResourceTombstone db1 p DConversation cid reason = Inr (db2, w)"
    and red: "redactConversation db2 cid t (ownerFor p) = Inr db'"
  shows "steps_well (ownerFor p) db db'"
proof (rule deletion_step [OF shell wf up])
  obtain us where us: "db2 = db1\<lparr>resource_tombstones := us\<rparr>" and wf1: "wf_db db1"
    by (rule upsert_only_tombstones [OF shell wf up])
  have cid: "conversationId (ownerFor p) = cid"
    using assertTargetOwner_conversation [OF upsert_target [OF up]] by simp
  have row: "readConversation db1 cid = Some c"
    using ensureConversationShell_row [OF shell] cid by simp
  have "ownerMatches (conversation_owned r) (ownerFor p)" if "r \<in> set (conversations db2)" "c_id r = cid" for r
    using row_unique(1) [OF wf1 row] that ensureConversationShell_owned [OF shell] by (simp add: us)
  then show "isolated (ownerFor p) db2 db'"
    by (rule redactConversation_isolated [OF red cid])
  have "cid \<in> c_id ` set (conversations db2)"
    using row by (auto simp: us readConversation_def dest!: find_SomeD)
  then show "redacted (cover (tombs_of db1) (canonical_type DConversation) cid) db'"
    if "redacted (tombs_of db1) db2"
    using redactConversation_covers [OF red that] by simp
  show "resource_tombstones db' = resource_tombstones db2"
    using red by (cases rule: redactConversation_shape)
qed

lemma projectDeletionTombstone_steps:
  assumes "projectDeletionTombstone db p payload = Inr db'" and "wf_db db"
  shows "steps_well (ownerFor p) db db'"
proof -
  obtain db1 c db2 w where shell: "ensureConversationShell db p = Inr (db1, c)"
    and up: "upsertResourceTombstone db1 p (dt_resource_type payload) (dt_resource_id payload)
        (Some (dt_reason_code payload)) = Inr (db2, w)"
    using assms(1) by (auto simp: projectDeletionTombstone_def Let_def andThen_eq_Inr)
  note body = assms(1) [unfolded projectDeletionTombstone_def Let_def shell up andThen_Inr case_prod_conv]
  note steps = redactMessage_steps [OF shell assms(2)] redactParticipant_steps [OF shell assms(2)]
    redactAttachment_steps [OF shell assms(2)] redactConversation_steps [OF shell assms(2)]
  show ?thesis
    using body up steps
    by (cases "dt_resource_type payload")
      (auto simp: shell andThen_eq_Inr split: option.splits)
qed

lemmas projector_steps = projectConversationUpdated_projects projectParticipantUpdated_projects
  projectMessageCreated_projects projectMessageEdited_projects projectReactionAdded_projects
  projectReactionRemoved_projects projectReceipt_projects projectTyping_projects
  projectAttachmentObserved_projects projectCommandUpdated_projects
  projectBridgeDeliveryUpdated_projects projectEventMarker_projects

text \<open>An event either projects with the tombstones unchanged or is one of the two deletions.\<close>

lemma projectEvent_cases:
  assumes "projectEvent p db = Inr db'" and "wf_db db"
  obtains (projects) "projects (ownerFor p) db db'"
    | (message_deleted) u where "projectMessageDeleted db p u = Inr db'"
    | (deletion_tombstone) u where "projectDeletionTombstone db p u = Inr db'"
  using assms projector_steps
  by (cases "ev_payload (pe_event p)")
    (auto simp: projectEvent_def projectTypingStarted_def projectTypingStopped_def andThen_eq_Inr)

lemma projectEvent_steps:
  assumes "projectEvent p db = Inr db'" and "wf_db db"
  shows "steps_well (ownerFor p) db db'"
  by (rule projectEvent_cases [OF assms])
    (blast intro: projects_steps_well projectMessageDeleted_steps projectDeletionTombstone_steps assms(2))+

end
