(* ===== verification/Batch_Loop.thy ===== *)
theory Batch_Loop
  imports Prelude
begin

text \<open>
  Loops over a batch whose body may throw: what each successful round keeps, the whole loop keeps.
\<close>

text \<open>
  The interface between the transaction that applies a batch and the projector it calls for every
  event: an invariant that each successful call keeps, and a preorder along which each successful
  call moves.
\<close>

locale invariant_step =
  fixes step :: "'e \<Rightarrow> 's \<Rightarrow> 'err + 's" and inv :: "'s \<Rightarrow> bool"
  assumes step_inv: "step e s = Inr s' \<Longrightarrow> inv s \<Longrightarrow> inv s'"
begin

lemma loop_inv: "forEach es s step = Inr s' \<Longrightarrow> inv s \<Longrightarrow> inv s'"
  by (rule forEach_invariant) (auto intro: step_inv)

end

locale preserving_step = invariant_step +
  fixes rel :: "'a \<Rightarrow> 's \<Rightarrow> 's \<Rightarrow> bool" and guard :: "'a \<Rightarrow> 'e \<Rightarrow> bool"
  assumes rel_refl: "rel a s s"
    and rel_trans: "rel a s t \<Longrightarrow> rel a t u \<Longrightarrow> rel a s u"
    and step_rel: "step e s = Inr s' \<Longrightarrow> inv s \<Longrightarrow> guard a e \<Longrightarrow> rel a s s'"
begin

lemma loop_rel:
  assumes "forEach es s step = Inr s'" and "inv s" and "\<And>e. e \<in> set es \<Longrightarrow> guard a e"
  shows "rel a s s'"
  using assms
proof (induction es arbitrary: s)
  case Nil
  then show ?case by (simp add: rel_refl)
next
  case (Cons e es)
  then obtain t where t: "step e s = Inr t" "forEach es t step = Inr s'" by (auto elim: andThenE)
  then show ?case
    using Cons.IH [OF t(2) step_inv [OF t(1) Cons.prems(2)]] Cons.prems
      rel_trans [OF step_rel [OF t(1) Cons.prems(2)]] by simp
qed

end

end
