(* ===== verification/Projection_Properties.thy ===== *)
theory Projection_Properties
  imports Deletion_Invariants Batch_Loop
begin

text \<open>
  What a batch of events does to the projection's tables: the properties of \<open>projectEvent\<close> that hold
  for every event type, carried from one event to a batch by the interface of \<open>Batch_Loop\<close>.
\<close>

section \<open>Rows of one owner\<close>

definition rows_of :: "projection_owner \<Rightarrow> projection_db \<Rightarrow> projection_db" where
  "rows_of owner db = db\<lparr>
     conversations := filter (\<lambda>c. ownerMatches (conversation_owned c) owner) (conversations db),
     participants := filter (\<lambda>r. ownerMatches r owner) (participants db),
     messages := filter (\<lambda>r. ownerMatches r owner) (messages db),
     message_versions := filter (\<lambda>r. ownerMatches r owner) (message_versions db),
     reactions := filter (\<lambda>r. ownerMatches r owner) (reactions db),
     receipts := filter (\<lambda>r. ownerMatches r owner) (receipts db),
     typing_states := filter (\<lambda>r. ownerMatches r owner) (typing_states db),
     attachments := filter (\<lambda>r. ownerMatches r owner) (attachments db),
     commands := filter (\<lambda>r. ownerMatches r owner) (commands db),
     message_delivery_updates := filter (\<lambda>r. ownerMatches r owner) (message_delivery_updates db),
     event_tombstones := filter (\<lambda>r. ownerMatches r owner) (event_tombstones db),
     resource_tombstones := filter (\<lambda>r. ownerMatches r owner) (resource_tombstones db)\<rparr>"

lemma table_evolves_other:
  assumes "table_evolves key (\<lambda>r. ownerMatches (g r) a) ok rs ss" and "a \<noteq> b"
  shows "filter (\<lambda>r. ownerMatches (g r) b) ss = filter (\<lambda>r. ownerMatches (g r) b) rs"
proof -
  have *: "filter (\<lambda>r. ownerMatches (g r) b) xs
      = filter (\<lambda>r. ownerMatches (g r) b) (filter (\<lambda>r. \<not> ownerMatches (g r) a) xs)" for xs
    using assms(2) by (auto simp: ownerMatches_def projection_owner.equality intro: filter_cong)
  show ?thesis
    using table_evolves_foreign [OF assms(1)] * [of ss] * [of rs] by simp
qed

lemma isolated_rows_of:
  assumes "isolated a db db'" and "a \<noteq> b"
  shows "rows_of b db' = rows_of b db"
proof -
  have e: "db_evolves a (\<lambda>_ _. False) db db'"
    and t: "table_evolves tombstone_key (\<lambda>t. ownerMatches t a) (\<lambda>_. True) (resource_tombstones db) (resource_tombstones db')"
    using assms(1) by (simp_all add: isolated_def)
  note D = db_evolvesD [OF e]
  have c: "filter (\<lambda>c. ownerMatches (conversation_owned c) b) (conversations db')
      = filter (\<lambda>c. ownerMatches (conversation_owned c) b) (conversations db)"
    by (rule table_evolves_other [OF D(1) assms(2)])
  note rows = table_evolves_other [where g = "\<lambda>x. x", OF _ assms(2)]
  show ?thesis
    unfolding rows_of_def c rows [OF D(2)] rows [OF D(3)] rows [OF D(4)] rows [OF D(5)] rows [OF D(6)]
      rows [OF D(7)] rows [OF D(8)] rows [OF D(9)] rows [OF D(10)] rows [OF D(11)] rows [OF t]
    using D(13,14) by simp
qed

lemma projectEvent_isolated: "projectEvent p db = Inr db' \<Longrightarrow> wf_db db \<Longrightarrow> isolated (ownerFor p) db db'"
  using projectEvent_steps by (simp add: steps_well_def)

lemma projectEvent_wf: "projectEvent p db = Inr db' \<Longrightarrow> wf_db db \<Longrightarrow> wf_db db'"
  using projectEvent_steps by (simp add: steps_well_def)

interpretation isolation: preserving_step projectEvent wf_db
  "\<lambda>owner db db'. rows_of owner db' = rows_of owner db" "\<lambda>owner p. ownerFor p \<noteq> owner"
  by unfold_locales (auto intro: projectEvent_wf isolated_rows_of [OF projectEvent_isolated])

section \<open>Tombstones only grow\<close>

text \<open>The observed tuple of a tombstone as \<open>compareOpaqueEventIds\<close> reads it.\<close>

definition tombstone_tuple :: "resource_tombstone_row \<Rightarrow> int \<times> string" where
  "tombstone_tuple t = (rt_observed_ms t, js_trim (rt_tombstone_event_id t))"

definition tombstones_grow :: "projection_db \<Rightarrow> projection_db \<Rightarrow> bool" where
  "tombstones_grow db db' =
     (\<forall>ty rid t. readResourceTombstone db ty rid = Some t \<longrightarrow>
        (\<exists>t'. readResourceTombstone db' ty rid = Some t' \<and> owned_of t' = owned_of t
              \<and> tombstone_tuple t \<le> tombstone_tuple t'))"

lemma tombstones_grow_refl [simp]: "tombstones_grow db db"
  by (simp add: tombstones_grow_def)

lemma tombstones_grow_trans:
  assumes "tombstones_grow a b" and "tombstones_grow b c"
  shows "tombstones_grow a c"
  unfolding tombstones_grow_def
proof (intro allI impI)
  fix ty rid t assume "readResourceTombstone a ty rid = Some t"
  then obtain u where "readResourceTombstone b ty rid = Some u" and u: "owned_of u = owned_of t"
    "tombstone_tuple t \<le> tombstone_tuple u"
    using assms(1) unfolding tombstones_grow_def by blast
  then obtain v where "readResourceTombstone c ty rid = Some v" "owned_of v = owned_of u"
    "tombstone_tuple u \<le> tombstone_tuple v"
    using assms(2) unfolding tombstones_grow_def by blast
  with u show "\<exists>v. readResourceTombstone c ty rid = Some v \<and> owned_of v = owned_of t
      \<and> tombstone_tuple t \<le> tombstone_tuple v"
    by (intro exI [of _ v]) auto
qed

lemma tombstones_grow_cong:
  "resource_tombstones db' = resource_tombstones db \<Longrightarrow> tombstones_grow db db'"
  by (simp add: tombstones_grow_def readResourceTombstone_def)

lemma upsertResourceTombstone_grows:
  assumes "upsertResourceTombstone db p ty rid reason = Inr (db', w)"
  shows "tombstones_grow db db'"
  using assms
proof (cases rule: upsertResourceTombstone_shape)
  case (2 t)
  then show ?thesis by (auto simp: tombstones_grow_def readResourceTombstone_def find_append)
next
  case 3
  let ?P = "\<lambda>t. rt_resource_type t = canonical_type ty \<and> rt_resource_id t = rid"
  let ?f = "\<lambda>t :: resource_tombstone_row. t\<lparr>rt_tombstone_event_id := ev_event_id (pe_event p), rt_reason_code := reason,
      rt_occurred_at := ev_occurred_at (pe_event p), rt_observed_ms := pe_observedMs p\<rparr>"
  have read: "readResourceTombstone db' ty' rid' = map_option (\<lambda>t. if ?P t then ?f t else t)
      (readResourceTombstone db ty' rid')" for ty' rid'
    unfolding readResourceTombstone_def 3(1) by (simp add: find_upd_where)
  show ?thesis
    unfolding tombstones_grow_def
  proof (intro allI impI)
    fix ty' rid' t assume t: "readResourceTombstone db ty' rid' = Some t"
    show "\<exists>t'. readResourceTombstone db' ty' rid' = Some t' \<and> owned_of t' = owned_of t
      \<and> tombstone_tuple t \<le> tombstone_tuple t'"
    proof (cases "?P t")
      case True
      have "rt_resource_type t = ty' \<and> rt_resource_id t = rid'"
        using t by (auto simp: readResourceTombstone_def dest!: find_SomeD)
      with t True have "readResourceTombstone db (canonical_type ty) rid = Some t" by simp
      from 3(4) [OF this] True t show ?thesis
        by (auto simp: read owned_of_def tombstone_tuple_def)
    next
      case False
      then show ?thesis unfolding read t option.map if_not_P [OF False] by simp
    qed
  qed
qed simp

lemma projects_grow: "projects owner db db' \<Longrightarrow> tombstones_grow db db'"
  by (simp add: projects_def tombstones_grow_cong)

lemma redactMessage_grows: "redactMessage db mid t = Inr db' \<Longrightarrow> tombstones_grow db db'"
  by (erule redactMessage_shape) (rule tombstones_grow_cong)

lemma redactConversation_grows: "redactConversation db cid t owner = Inr db' \<Longrightarrow> tombstones_grow db db'"
  by (erule redactConversation_shape) (rule tombstones_grow_cong)

lemma redactParticipant_grows: "tombstones_grow db (redactParticipant db pid t)"
  by (simp add: redactParticipant_def tombstones_grow_cong)

lemma redactAttachment_grows: "tombstones_grow db (redactAttachment db aid t)"
  by (simp add: redactAttachment_def tombstones_grow_cong)

lemma ensureConversationShell_grows: "ensureConversationShell db p = Inr (db1, c) \<Longrightarrow> tombstones_grow db db1"
  by (drule ensureConversationShell_others) (auto intro: tombstones_grow_cong)

lemma deletion_grows:
  assumes "ensureConversationShell db p = Inr (db1, c)"
    and "upsertResourceTombstone db1 p ty rid reason = Inr (db2, w)" and "tombstones_grow db2 db'"
  shows "tombstones_grow db db'"
  by (rule tombstones_grow_trans [OF ensureConversationShell_grows [OF assms(1)]
        tombstones_grow_trans [OF upsertResourceTombstone_grows [OF assms(2)] assms(3)]])

lemmas redaction_grows = deletion_grows [OF _ _ redactMessage_grows] deletion_grows [OF _ _ redactConversation_grows]
  deletion_grows [OF _ _ redactParticipant_grows] deletion_grows [OF _ _ redactAttachment_grows]

lemma projectMessageDeleted_grows:
  assumes "projectMessageDeleted db p payload = Inr db'"
  shows "tombstones_grow db db'"
  using assms unfolding projectMessageDeleted_def Let_def
  by (auto simp: andThen_eq_Inr split: option.splits intro: redaction_grows)

lemma projectDeletionTombstone_grows:
  assumes "projectDeletionTombstone db p payload = Inr db'"
  shows "tombstones_grow db db'"
proof -
  obtain db1 c db2 w where shell: "ensureConversationShell db p = Inr (db1, c)"
    and up: "upsertResourceTombstone db1 p (dt_resource_type payload) (dt_resource_id payload)
        (Some (dt_reason_code payload)) = Inr (db2, w)"
    using assms by (auto simp: projectDeletionTombstone_def Let_def andThen_eq_Inr)
  note body = assms [unfolded projectDeletionTombstone_def Let_def shell up andThen_Inr case_prod_conv]
  have "tombstones_grow db2 db'"
    using body
    by (cases "dt_resource_type payload")
      (auto simp: andThen_eq_Inr split: option.splits
        intro: redactMessage_grows redactConversation_grows redactParticipant_grows redactAttachment_grows)
  then show ?thesis by (rule deletion_grows [OF shell up])
qed

lemma projectEvent_grows:
  assumes "projectEvent p db = Inr db'" and "wf_db db"
  shows "tombstones_grow db db'"
  by (rule projectEvent_cases [OF assms])
    (blast intro: projects_grow projectMessageDeleted_grows projectDeletionTombstone_grows)+

interpretation tombstones: preserving_step projectEvent wf_db
  "\<lambda>(_ :: unit) db db'. tombstones_grow db db'" "\<lambda>_ _. True"
  by unfold_locales (auto intro: projectEvent_wf projectEvent_grows tombstones_grow_trans)

section \<open>A sample conversation\<close>

definition sample_event :: "string \<Rightarrow> string \<Rightarrow> int \<Rightarrow> projection_payload \<Rightarrow> prepared_event" where
  "sample_event cid eid ms payload =
     \<lparr>pe_event = \<lparr>ev_event_id = eid, ev_event_source = Live, ev_tenant_id = ''tnt_a'',
        ev_identity_id = ''idn_a'', ev_platform = Whatsapp, ev_account_id = ''acc_a'',
        ev_conversation_id = cid, ev_matrix_room_id = None, ev_matrix_event_id = None,
        ev_remote_message_id = None, ev_occurred_at = ''2026-01-01T00:00:00.000Z'',
        ev_observed_at = ''2026-01-01T00:00:00.000Z'', ev_payload = payload\<rparr>,
      pe_connection = \<lparr>b_account_id = ''acc_a'', b_connection_id = ''con_a'',
        b_identity_id = ''idn_a'', b_platform = Whatsapp\<rparr>,
      pe_eventHash = [], pe_canonicalLineBytes = 0, pe_observedMs = ms, pe_occurredMs = ms\<rparr>"

definition sample_created :: prepared_event where
  "sample_created = sample_event ''cnv_a'' ''evt_a'' 5 (MessageCreated \<lparr>mc_message_id = ''msg_a'',
     mc_direction = Inbound, mc_sender_participant_id = None, mc_sender_label = ''Ann'',
     mc_body = ''hello'', mc_reply_to_message_id = None, mc_delivery_status = DAccepted,
     mc_unread = True\<rparr>)"

definition sample_deleted :: prepared_event where
  "sample_deleted = sample_event ''cnv_a'' ''evt_b'' 7
     (MessageDeleted \<lparr>md_message_id = ''msg_a'', md_reason_code = None\<rparr>)"

definition sample_batch :: "prepared_event list" where
  "sample_batch = [sample_created, sample_deleted]"

definition sample_result :: projection_db where
  "sample_result = (case forEach sample_batch empty_db projectEvent of Inr db \<Rightarrow> db | Inl _ \<Rightarrow> empty_db)"

lemma sample_batch_runs: "forEach sample_batch empty_db projectEvent = Inr sample_result"
proof -
  have "\<not> isl (forEach sample_batch empty_db projectEvent)"
    by code_simp
  then show ?thesis
    by (cases "forEach sample_batch empty_db projectEvent") (simp_all add: sample_result_def)
qed

lemma sample_created_runs: "\<exists>db. projectEvent sample_created empty_db = Inr db"
proof -
  have "\<not> isl (projectEvent sample_created empty_db)"
    by code_simp
  then show ?thesis by (cases "projectEvent sample_created empty_db") simp_all
qed

lemma wf_empty_db [simp]: "wf_db empty_db"
  by (simp add: wf_db_def keys_distinct_def redacted_def tombs_of_def readResourceTombstone_def empty_db_def)

definition sample_edited :: prepared_event where
  "sample_edited = sample_event ''cnv_a'' ''evt_c'' 9
     (MessageEdited \<lparr>me_message_id = ''msg_a'', me_body = ''again'', me_editor_participant_id = None\<rparr>)"

definition sample_after :: projection_db where
  "sample_after = (case projectEvent sample_edited sample_result of Inr db \<Rightarrow> db | Inl _ \<Rightarrow> empty_db)"

lemma sample_edited_runs: "forEach [sample_edited] sample_result projectEvent = Inr sample_after"
proof -
  have "\<not> isl (forEach (sample_batch @ [sample_edited]) empty_db projectEvent)"
    by code_simp
  then show ?thesis
    unfolding forEach_append sample_batch_runs andThen_Inr forEach.simps
    by (cases "projectEvent sample_edited sample_result") (simp_all add: sample_after_def)
qed

lemma sample_result_tombstone:
  "map_option rt_tombstone_event_id (readResourceTombstone sample_result RMessage ''msg_a'') = Some ''evt_b''"
  by code_simp

lemma wf_sample_result: "wf_db sample_result"
  using isolation.loop_inv [OF sample_batch_runs wf_empty_db] .

definition other_owner :: projection_owner where
  "other_owner = \<lparr>identityId = ''idn_b'', accountId = ''acc_b'', connectionId = ''con_b'',
     conversationId = ''cnv_b'', o_platform = Whatsapp\<rparr>"

section \<open>Properties\<close>

text \<open>
  C2: isolation. A batch of events leaves every row of an owner (identity, account, connection,
  conversation and platform) alone when no event of the batch has that owner: in all twelve tables
  the rows of that owner are the same, in the same order, whatever the events contain.
\<close>

theorem projectEvent_isolates_owners:
  assumes "forEach ps db projectEvent = Inr db'" and "wf_db db"
    and "\<And>p. p \<in> set ps \<Longrightarrow> ownerFor p \<noteq> owner"
  shows "rows_of owner db' = rows_of owner db"
  using isolation.loop_rel [OF assms] .

theorem projectEvent_isolates_owners_witness:
  "forEach sample_batch empty_db projectEvent = Inr sample_result \<and> wf_db empty_db
   \<and> list_all (\<lambda>p. ownerFor p \<noteq> other_owner) sample_batch
   \<and> rows_of other_owner sample_result = rows_of other_owner empty_db"
proof -
  have "ownerFor p \<noteq> other_owner" if "p \<in> set sample_batch" for p
    using that
    by (auto simp: sample_batch_def sample_created_def sample_deleted_def sample_event_def ownerFor_def
        other_owner_def)
  with projectEvent_isolates_owners [OF sample_batch_runs wf_empty_db] sample_batch_runs
  show ?thesis by (auto simp: list_all_iff)
qed

text \<open>
  C3: well-formedness. From a well-formed database (the empty one in particular) every batch that
  does not throw ends in a well-formed one: primary keys stay distinct in all twelve tables, and
  every row that a stored tombstone covers is redacted.
\<close>

theorem projectEvent_keeps_well_formed:
  assumes "forEach ps db projectEvent = Inr db'" and "wf_db db"
  shows "keys_distinct db' \<and> redacted (tombs_of db') db'"
  using isolation.loop_inv [OF assms] by (simp add: wf_db_def)

theorem projectEvent_keeps_well_formed_witness:
  "wf_db empty_db \<and> keys_distinct sample_result \<and> redacted (tombs_of sample_result) sample_result"
  using projectEvent_keeps_well_formed [OF sample_batch_runs wf_empty_db] by simp

text \<open>
  C4: deletion is final. Once a message has a tombstone, or its conversation has one, no later batch
  brings its content back: after every batch the message row shows no body, sender, reply, provider
  ids or attachments, no version of it has a body or an editor, it has no reactions and no receipts,
  and its attachments have no name, type, size, hash or storage key.
\<close>

theorem deleted_message_stays_redacted:
  assumes "forEach ps db projectEvent = Inr db'" and "wf_db db"
    and "tombs_of db RMessage mid \<or> tombs_of db RConversation cid"
  shows "(\<forall>m \<in> set (messages db'). m_id m = mid \<and> conversation_id m = cid \<longrightarrow> message_redacted m)
    \<and> (\<forall>v \<in> set (message_versions db'). v_message_id v = mid \<and> conversation_id v = cid \<longrightarrow>
         v_body v = '''' \<and> v_editor_participant_id v = None)
    \<and> (\<forall>r \<in> set (reactions db'). \<not> (r_message_id r = mid \<and> conversation_id r = cid))
    \<and> (\<forall>r \<in> set (receipts db'). \<not> (rc_message_id r = mid \<and> conversation_id r = cid))
    \<and> (\<forall>a \<in> set (attachments db'). a_message_id a = mid \<and> conversation_id a = cid \<longrightarrow>
         a_file_name a = None \<and> a_mime_type a = None \<and> a_size_bytes a = None \<and> a_sha256 a = None
         \<and> a_r2_key a = None \<and> a_deleted_at a \<noteq> None)"
proof -
  have wf: "wf_db db'" using isolation.loop_inv [OF assms(1,2)] .
  have "tombstones_grow db db'" using tombstones.loop_rel [OF assms(1,2)] by simp
  then have T: "tombs_of db' RMessage mid \<or> tombs_of db' RConversation cid"
    using assms(3) by (fastforce simp: tombstones_grow_def tombs_of_def)
  note D = redacted_rows [of "tombs_of db'" db']
  show ?thesis
    using T wf D(3,4,5,6,8) by (intro conjI ballI) (auto simp: wf_db_def row_ok_defs)
qed

theorem deleted_message_stays_redacted_witness:
  "tombs_of sample_result RMessage ''msg_a'' \<and> wf_db sample_result
   \<and> forEach [sample_edited] sample_result projectEvent = Inr sample_after
   \<and> (\<exists>m \<in> set (messages sample_after). m_id m = ''msg_a'' \<and> message_redacted m)"
proof -
  have "list_ex (\<lambda>m. m_id m = ''msg_a'' \<and> conversation_id m = ''cnv_a'') (messages sample_after)"
    by code_simp
  then obtain m where m: "m \<in> set (messages sample_after)" "m_id m = ''msg_a''" "conversation_id m = ''cnv_a''"
    by (auto simp: list_ex_iff)
  have T: "tombs_of sample_result RMessage ''msg_a''"
    using sample_result_tombstone by (auto simp: tombs_of_def)
  then have "message_redacted m"
    using deleted_message_stays_redacted [OF sample_edited_runs wf_sample_result, of "''msg_a''" "''cnv_a''"] m
    by blast
  then show ?thesis
    using T m sample_edited_runs wf_sample_result by blast
qed

text \<open>
  C5: tombstones are permanent. No batch removes the tombstone of a resource or moves it to another
  owner, and its observed tuple (time, then event id) never goes back.
\<close>

theorem tombstones_are_permanent:
  assumes "forEach ps db projectEvent = Inr db'" and "wf_db db"
    and "readResourceTombstone db ty rid = Some t"
  shows "\<exists>t'. readResourceTombstone db' ty rid = Some t' \<and> owned_of t' = owned_of t
    \<and> (rt_observed_ms t, js_trim (rt_tombstone_event_id t))
        \<le> (rt_observed_ms t', js_trim (rt_tombstone_event_id t'))"
  using tombstones.loop_rel [OF assms(1,2)] assms(3) by (simp add: tombstones_grow_def tombstone_tuple_def)

theorem tombstones_are_permanent_witness:
  "\<exists>t t'. readResourceTombstone sample_result RMessage ''msg_a'' = Some t
     \<and> readResourceTombstone sample_after RMessage ''msg_a'' = Some t' \<and> owned_of t' = owned_of t"
proof -
  obtain t where "readResourceTombstone sample_result RMessage ''msg_a'' = Some t"
    using sample_result_tombstone by auto
  then show ?thesis
    using tombstones_are_permanent [OF sample_edited_runs wf_sample_result] by blast
qed

end
