(* ===== verification/Tenant_Batch.thy ===== *)
theory Tenant_Batch
  imports Projection_Properties
begin

text \<open>
  \<open>projection/tenant-projection.ts\<close>: the transaction \<open>#applyPreparedBatch\<close> that owns every write of
  a batch. It checks the lifecycle state, the connection bindings and the replay cursor, projects
  the events that are not yet applied, logs one change per event under an identity-local sequence,
  recomputes the summaries, trims the change log and advances the checkpoint. \<open>transactionSync\<close>
  rolls every write back when its body throws, so a failing run returns no store at all here.
\<close>

section \<open>The store of one tenant\<close>

datatype projection_state = Ready | Rebuilding | Rebuild_failed

datatype rebuild_failure_code =
    operator_abort | unsupported_archive | archive_gap | binding_conflict | validation_failed

record projection_meta_row =
  pm_tenant_id :: string
  pm_state :: projection_state
  pm_generation :: int
  pm_rebuild_id :: "string option"
  pm_rebuild_started_at :: "string option"
  pm_last_completed_rebuild_id :: "string option"
  pm_last_failed_rebuild_id :: "string option"
  pm_last_rebuild_failure_code :: "rebuild_failure_code option"
  pm_initialized_at :: string
  pm_updated_at :: string

record projection_change_row =
  ch_sequence :: int
  ch_event_id :: string
  ch_event_type :: canonical_event_type
  ch_identity_id :: string
  ch_account_id :: string
  ch_connection_id :: string
  ch_conversation_id :: string
  ch_occurred_at :: string
  ch_observed_at :: string
  ch_generation :: int
  ch_identity_sequence :: int

record checkpoint_row =
  cp_kind :: string
  cp_value :: string
  cp_source_cursor :: "string option"
  cp_page_digest :: "string option"
  cp_last_observed_at :: "string option"
  cp_last_observed_ms :: "int option"
  cp_last_event_id :: "string option"
  cp_generation :: int
  cp_updated_at :: string
  cp_last_applied_count :: "int option"
  cp_last_duplicate_count :: "int option"
  cp_last_sequence :: "int option"

record rebuild_row =
  rb_rebuild_id :: string
  rb_generation :: int
  rb_at :: string

record failed_rebuild_row = rebuild_row +
  rb_failure_code :: rebuild_failure_code

text \<open>
  \<open>change_autoincrement\<close> is the row of \<open>projection_changes\<close> in \<open>sqlite_sequence\<close>: the largest
  \<open>sequence\<close> ever used.
\<close>

record tenant_store =
  projection_meta :: "projection_meta_row option"
  tables :: projection_db
  identity_sequences :: "(string \<times> int) list"
  projection_changes :: "projection_change_row list"
  change_autoincrement :: int
  change_floors :: "(string \<times> int) list"
  checkpoints :: "checkpoint_row list"
  completed_rebuilds :: "rebuild_row list"
  failed_rebuilds :: "failed_rebuild_row list"

definition empty_store :: tenant_store where
  "empty_store = \<lparr>projection_meta = None, tables = empty_db, identity_sequences = [],
     projection_changes = [], change_autoincrement = 0, change_floors = [], checkpoints = [],
     completed_rebuilds = [], failed_rebuilds = []\<rparr>"

record prepared_replay_checkpoint =
  pr_value :: string
  pr_sourceCursor :: "string option"
  pr_pageDigest :: string
  pr_lastObservedAt :: "string option"
  pr_lastObservedMs :: "int option"
  pr_lastEventId :: "string option"
  pr_updatedAt :: string

text \<open>
  \<open>mode\<close> and the checkpoint it is cast to. The replay checkpoint's \<open>kind\<close> has a single value, so
  the guard on it is the \<open>None\<close> case.
\<close>

datatype batch_mode =
    Live "prepared_checkpoint option"
  | Replay "prepared_replay_checkpoint option"

record apply_input =
  ai_tenantId :: string
  ai_mode :: batch_mode
  ai_rebuildId :: "string option"
  ai_preparedEvents :: "prepared_event list"
  ai_inputEventCount :: int
  ai_connections :: "connection_binding list"

record broadcast_change =
  bc_identity_id :: string
  bc_generation :: int
  bc_sequence :: int
  bc_event_type :: canonical_event_type
  bc_connection_id :: string
  bc_conversation_id :: string
  bc_occurred_at :: string

record apply_result =
  ar_tenant_id :: string
  ar_generation :: int
  ar_applied_count :: int
  ar_duplicate_count :: int
  ar_last_sequence :: int

definition REPLAY_CHECKPOINT_KIND :: string where
  "REPLAY_CHECKPOINT_KIND = ''r2_manifest_cursor''"

definition MAX_PROJECTION_CHANGES :: nat where
  "MAX_PROJECTION_CHANGES = 10000"

section \<open>Guards\<close>

definition safeProjectionError :: "failure \<Rightarrow> projection_error_code \<Rightarrow> failure" where
  "safeProjectionError error fallback =
     (case error of ProjectionError c \<Rightarrow> ProjectionError c | _ \<Rightarrow> ProjectionError fallback)"

text \<open>\<open>try { \<dots> } catch (error) { throw safeProjectionError(error, fallback); }\<close>\<close>

definition catching :: "projection_error_code \<Rightarrow> 'a result \<Rightarrow> 'a result" where
  "catching fallback m = (case m of Inl e \<Rightarrow> Inl (safeProjectionError e fallback) | Inr x \<Rightarrow> Inr x)"

definition requireStoredTenant :: "projection_meta_row \<Rightarrow> string \<Rightarrow> unit result" where
  "requireStoredTenant meta tenantId =
     throwIf (pm_tenant_id meta \<noteq> tenantId) (ProjectionError projection_tenant_mismatch)"

definition requireReadyState :: "projection_meta_row \<Rightarrow> unit result" where
  "requireReadyState meta =
     (case pm_state meta of
        Rebuilding \<Rightarrow> projectionError projection_rebuilding
      | Rebuild_failed \<Rightarrow> projectionError projection_rebuild_failed
      | Ready \<Rightarrow> Inr ())"

definition readProjectionMeta :: "tenant_store \<Rightarrow> projection_meta_row result" where
  "readProjectionMeta st =
     (case projection_meta st of None \<Rightarrow> projectionError projection_not_found | Some m \<Rightarrow> Inr m)"

definition ensure_binding :: "connection_binding \<Rightarrow> connection_binding list \<Rightarrow> connection_binding list result" where
  "ensure_binding binding rows =
     (let accountRow = find (\<lambda>r. b_account_id r = b_account_id binding) rows;
          connectionRow = find (\<lambda>r. b_connection_id r = b_connection_id binding) rows in
      andThen
        (case accountRow of
           None \<Rightarrow> Inr ()
         | Some r \<Rightarrow>
             throwIf (b_connection_id r \<noteq> b_connection_id binding \<or> b_identity_id r \<noteq> b_identity_id binding
                        \<or> b_platform r \<noteq> b_platform binding) (ProjectionError projection_conflict)) (\<lambda>_.
      andThen
        (case connectionRow of
           None \<Rightarrow> Inr ()
         | Some r \<Rightarrow>
             throwIf (b_account_id r \<noteq> b_account_id binding \<or> b_connection_id r \<noteq> b_connection_id binding
                        \<or> b_identity_id r \<noteq> b_identity_id binding
                        \<or> b_platform r \<noteq> b_platform binding) (ProjectionError projection_conflict)) (\<lambda>_.
      if accountRow = None \<and> connectionRow = None
      then ins_row b_account_id binding rows else Inr rows)))"

definition ensurePersistentBindings :: "connection_binding list \<Rightarrow> projection_db \<Rightarrow> projection_db result" where
  "ensurePersistentBindings bindings db =
     andThen (forEach bindings (connection_bindings db) ensure_binding) (\<lambda>rows.
     Inr (db\<lparr>connection_bindings := rows\<rparr>))"

section \<open>Applied events\<close>

text \<open>\<open>#readAppliedEvents\<close>: the stored rows of the batch's event ids, read in chunks of 90 ids.\<close>

definition read_applied_chunk ::
  "applied_event_row list \<Rightarrow> prepared_event list \<Rightarrow> (string \<rightharpoonup> applied_event_row)
     \<Rightarrow> (string \<rightharpoonup> applied_event_row)" where
  "read_applied_chunk rows chunk result =
     fold (\<lambda>row m. m(ae_event_id row \<mapsto> row))
       (filter (\<lambda>row. ae_event_id row \<in> set (map (\<lambda>p. ev_event_id (pe_event p)) chunk)) rows) result"

fun read_applied_chunks ::
  "applied_event_row list \<Rightarrow> prepared_event list \<Rightarrow> (string \<rightharpoonup> applied_event_row)
     \<Rightarrow> (string \<rightharpoonup> applied_event_row)" where
  "read_applied_chunks rows [] result = result"
| "read_applied_chunks rows (p # ps) result =
     read_applied_chunks rows (drop 89 ps) (read_applied_chunk rows (p # take 89 ps) result)"

definition readAppliedEvents :: "projection_db \<Rightarrow> prepared_event list \<Rightarrow> (string \<rightharpoonup> applied_event_row)" where
  "readAppliedEvents db events = read_applied_chunks (applied_events db) events Map.empty"

definition assertStoredEventMatches :: "applied_event_row \<Rightarrow> prepared_event \<Rightarrow> unit result" where
  "assertStoredEventMatches stored p =
     (let event = pe_event p in
      throwIf (ae_event_hash stored \<noteq> pe_eventHash p \<or> ae_event_type stored \<noteq> ev_event_type event
         \<or> ae_event_source stored \<noteq> ev_event_source event \<or> ae_identity_id stored \<noteq> ev_identity_id event
         \<or> ae_account_id stored \<noteq> ev_account_id event
         \<or> ae_connection_id stored \<noteq> b_connection_id (pe_connection p)
         \<or> ae_conversation_id stored \<noteq> ev_conversation_id event
         \<or> ae_occurred_at stored \<noteq> ev_occurred_at event \<or> ae_observed_at stored \<noteq> ev_observed_at event
         \<or> ae_observed_ms stored \<noteq> pe_observedMs p) (ProjectionError projection_conflict))"

definition applied_row :: "int \<Rightarrow> prepared_event \<Rightarrow> applied_event_row" where
  "applied_row generation p =
     \<lparr>ae_event_id = ev_event_id (pe_event p), ae_event_hash = pe_eventHash p,
      ae_event_type = ev_event_type (pe_event p), ae_event_source = ev_event_source (pe_event p),
      ae_identity_id = ev_identity_id (pe_event p), ae_account_id = ev_account_id (pe_event p),
      ae_connection_id = b_connection_id (pe_connection p),
      ae_conversation_id = ev_conversation_id (pe_event p), ae_occurred_at = ev_occurred_at (pe_event p),
      ae_observed_at = ev_observed_at (pe_event p), ae_observed_ms = pe_observedMs p,
      ae_generation = generation\<rparr>"

section \<open>The change log\<close>

definition latest_sequence :: "(string \<times> int) list \<Rightarrow> string \<Rightarrow> int" where
  "latest_sequence seqs iid = (case find (\<lambda>(i, _). i = iid) seqs of None \<Rightarrow> 0 | Some (_, n) \<Rightarrow> n)"

text \<open>\<open>INSERT \<dots> VALUES (?, 1) ON CONFLICT(identity_id) DO UPDATE SET latest_sequence = latest_sequence + 1\<close>.\<close>

definition bump_identity_sequence :: "string \<Rightarrow> (string \<times> int) list \<Rightarrow> (string \<times> int) list" where
  "bump_identity_sequence iid seqs =
     (if find (\<lambda>(i, _). i = iid) seqs = None then seqs @ [(iid, 1)]
      else upd_where (\<lambda>(i, _). i = iid) (\<lambda>(i, n). (i, n + 1)) seqs)"

definition change_row :: "int \<Rightarrow> int \<Rightarrow> int \<Rightarrow> prepared_event \<Rightarrow> projection_change_row" where
  "change_row sequence generation identitySequence p =
     \<lparr>ch_sequence = sequence, ch_event_id = ev_event_id (pe_event p),
      ch_event_type = ev_event_type (pe_event p), ch_identity_id = ev_identity_id (pe_event p),
      ch_account_id = ev_account_id (pe_event p), ch_connection_id = b_connection_id (pe_connection p),
      ch_conversation_id = ev_conversation_id (pe_event p), ch_occurred_at = ev_occurred_at (pe_event p),
      ch_observed_at = ev_observed_at (pe_event p), ch_generation = generation,
      ch_identity_sequence = identitySequence\<rparr>"

definition broadcast_of :: "projection_change_row \<Rightarrow> broadcast_change" where
  "broadcast_of c = \<lparr>bc_identity_id = ch_identity_id c, bc_generation = ch_generation c,
     bc_sequence = ch_identity_sequence c, bc_event_type = ch_event_type c,
     bc_connection_id = ch_connection_id c, bc_conversation_id = ch_conversation_id c,
     bc_occurred_at = ch_occurred_at c\<rparr>"

text \<open>The rows one newly applied event adds after \<open>projectEvent\<close>.\<close>

definition log_change :: "int \<Rightarrow> prepared_event \<Rightarrow> tenant_store \<Rightarrow> (tenant_store \<times> broadcast_change) result" where
  "log_change generation p st =
     andThen (ins_row ae_event_id (applied_row generation p) (applied_events (tables st))) (\<lambda>rows.
     let iid = ev_identity_id (pe_event p);
         seqs = bump_identity_sequence iid (identity_sequences st);
         sequence = change_autoincrement st + 1;
         change = change_row sequence generation (latest_sequence seqs iid) p
     in andThen (ins_row ch_event_id change (projection_changes st)) (\<lambda>changes.
        Inr (st\<lparr>tables := (tables st)\<lparr>applied_events := rows\<rparr>, identity_sequences := seqs,
                change_autoincrement := sequence, projection_changes := changes\<rparr>,
             broadcast_of change)))"

record loop_state =
  ls_store :: tenant_store
  ls_appliedCount :: int
  ls_changes :: "broadcast_change list"
  ls_touched :: "string list"

definition project_prepared ::
  "(string \<rightharpoonup> applied_event_row) \<Rightarrow> int \<Rightarrow> prepared_event \<Rightarrow> loop_state \<Rightarrow> loop_state result" where
  "project_prepared storedEvents generation p ls =
     (case storedEvents (ev_event_id (pe_event p)) of
        Some stored \<Rightarrow> andThen (assertStoredEventMatches stored p) (\<lambda>_. Inr ls)
      | None \<Rightarrow>
          andThen (projectEvent p (tables (ls_store ls))) (\<lambda>db.
          andThen (log_change generation p ((ls_store ls)\<lparr>tables := db\<rparr>)) (\<lambda>(st, change).
          Inr (ls\<lparr>ls_store := st, ls_appliedCount := ls_appliedCount ls + 1,
                  ls_changes := ls_changes ls @ [change],
                  ls_touched := ls_touched ls @ [touched_conversation p]\<rparr>))))"

definition readLastSequence :: "tenant_store \<Rightarrow> int" where
  "readLastSequence st = fold max (map ch_sequence (projection_changes st)) 0"

section \<open>Trimming\<close>

text \<open>\<open>ORDER BY sequence DESC LIMIT 1 OFFSET n\<close>.\<close>

definition trim_boundary :: "nat \<Rightarrow> projection_change_row list \<Rightarrow> int option" where
  "trim_boundary n changes =
     (let ss = rev (sort (map ch_sequence changes)) in if n < length ss then Some (ss ! n) else None)"

definition discarded_through :: "int \<Rightarrow> string \<Rightarrow> projection_change_row list \<Rightarrow> int" where
  "discarded_through boundary iid changes =
     fold max (map ch_identity_sequence
       (filter (\<lambda>c. ch_identity_id c = iid \<and> ch_sequence c \<le> boundary) changes)) 0"

definition raise_floor :: "string \<Rightarrow> int \<Rightarrow> (string \<times> int) list \<Rightarrow> (string \<times> int) list" where
  "raise_floor iid discarded floors =
     (case find (\<lambda>(i, _). i = iid) floors of
        None \<Rightarrow> floors @ [(iid, discarded)]
      | Some (_, n) \<Rightarrow>
          if discarded > n then upd_where (\<lambda>(i, _). i = iid) (\<lambda>(i, _). (i, discarded)) floors else floors)"

definition trim_changes_at :: "int \<Rightarrow> tenant_store \<Rightarrow> tenant_store" where
  "trim_changes_at boundary st =
     (let affected = sort (unique_values (map ch_identity_id
            (filter (\<lambda>c. ch_sequence c \<le> boundary) (projection_changes st))))
      in st\<lparr>change_floors :=
              fold (\<lambda>iid. raise_floor iid (discarded_through boundary iid (projection_changes st)))
                affected (change_floors st),
            projection_changes := del_where (\<lambda>c. ch_sequence c \<le> boundary) (projection_changes st)\<rparr>)"

definition trimProjectionChanges :: "tenant_store \<Rightarrow> tenant_store" where
  "trimProjectionChanges st =
     (case trim_boundary MAX_PROJECTION_CHANGES (projection_changes st) of
        None \<Rightarrow> st
      | Some boundary \<Rightarrow> trim_changes_at boundary st)"

section \<open>The events of a batch\<close>

record project_result =
  pj_appliedCount :: int
  pj_duplicateCount :: int
  pj_lastSequence :: int
  pj_changes :: "broadcast_change list"

definition projectPreparedEvents ::
  "prepared_event list \<Rightarrow> int \<Rightarrow> projection_meta_row \<Rightarrow> tenant_store
     \<Rightarrow> (tenant_store \<times> project_result) result" where
  "projectPreparedEvents events inputEventCount meta st =
     andThen (forEach events \<lparr>ls_store = st, ls_appliedCount = 0, ls_changes = [], ls_touched = []\<rparr>
                (project_prepared (readAppliedEvents (tables st) events) (pm_generation meta))) (\<lambda>ls.
     let st1 = (ls_store ls)\<lparr>tables := recomputeConversationSummaries (ls_touched ls) (tables (ls_store ls))\<rparr>;
         st2 = trimProjectionChanges st1
     in Inr (st2, \<lparr>pj_appliedCount = ls_appliedCount ls,
                   pj_duplicateCount = inputEventCount - ls_appliedCount ls,
                   pj_lastSequence = readLastSequence st2, pj_changes = ls_changes ls\<rparr>))"

section \<open>Checkpoints\<close>

definition find_checkpoint :: "string \<Rightarrow> tenant_store \<Rightarrow> checkpoint_row option" where
  "find_checkpoint kind st = find (\<lambda>c. cp_kind c = kind) (checkpoints st)"

definition store_checkpoint :: "checkpoint_row \<Rightarrow> tenant_store \<Rightarrow> tenant_store" where
  "store_checkpoint row st =
     (if find_checkpoint (cp_kind row) st = None
      then st\<lparr>checkpoints := checkpoints st @ [row]\<rparr>
      else st\<lparr>checkpoints := upd_where (\<lambda>c. cp_kind c = cp_kind row) (\<lambda>_. row) (checkpoints st)\<rparr>)"

definition live_checkpoint_row :: "prepared_checkpoint \<Rightarrow> int \<Rightarrow> int \<Rightarrow> checkpoint_row" where
  "live_checkpoint_row c generation lastSequence =
     \<lparr>cp_kind = pc_kind c, cp_value = pc_value c, cp_source_cursor = None, cp_page_digest = None,
      cp_last_observed_at = Some (pc_lastObservedAt c), cp_last_observed_ms = Some (pc_lastObservedMs c),
      cp_last_event_id = Some (pc_lastEventId c), cp_generation = generation,
      cp_updated_at = pc_lastObservedAt c, cp_last_applied_count = None, cp_last_duplicate_count = None,
      cp_last_sequence = Some lastSequence\<rparr>"

text \<open>
  The two comparisons of \<open>#applyLiveCheckpoint\<close> call \<open>compareOpaqueEventIds\<close> only when the times are
  equal.
\<close>

definition applyLiveCheckpoint ::
  "prepared_checkpoint option \<Rightarrow> projection_meta_row \<Rightarrow> int \<Rightarrow> tenant_store \<Rightarrow> tenant_store result" where
  "applyLiveCheckpoint checkpoint meta lastSequence st =
     (case checkpoint of
        None \<Rightarrow> Inr st
      | Some c \<Rightarrow>
          let row = live_checkpoint_row c (pm_generation meta) lastSequence in
          (case find_checkpoint (pc_kind c) st of
             None \<Rightarrow> Inr (store_checkpoint row st)
           | Some existing \<Rightarrow>
               (case (cp_last_observed_ms existing, cp_last_event_id existing) of
                  (Some ms, Some eid) \<Rightarrow>
                    andThen (compareObservedTuple (pc_lastObservedMs c) (pc_lastEventId c) ms eid) (\<lambda>cmp.
                    if cmp = 0 then
                      andThen (throwIf (cp_value existing \<noteq> pc_value c
                                  \<or> cp_last_observed_at existing \<noteq> Some (pc_lastObservedAt c))
                                (ProjectionError projection_conflict)) (\<lambda>_. Inr st)
                    else if \<not> cmp > 0 then Inr st
                    else Inr (store_checkpoint row st))
                | _ \<Rightarrow> projectionError projection_conflict)))"

text \<open>The retained tuple of a replay checkpoint: the later of the page's and the stored one.\<close>

definition replay_tuple ::
  "prepared_replay_checkpoint \<Rightarrow> checkpoint_row option
     \<Rightarrow> (string option \<times> int option \<times> string option \<times> string) result" where
  "replay_tuple c existing =
     (let incoming = (pr_lastObservedAt c, pr_lastObservedMs c, pr_lastEventId c, pr_updatedAt c) in
      case existing of
        None \<Rightarrow> Inr incoming
      | Some e \<Rightarrow>
          let stored = (cp_last_observed_at e, cp_last_observed_ms e, cp_last_event_id e, cp_updated_at e) in
          (case (pr_lastObservedMs c, pr_lastEventId c) of
             (Some ims, Some ieid) \<Rightarrow>
               (case (cp_last_observed_ms e, cp_last_event_id e) of
                  (Some ems, Some eeid) \<Rightarrow>
                    andThen (compareObservedTuple ims ieid ems eeid) (\<lambda>cmp.
                    Inr (if cmp > 0 then incoming else stored))
                | _ \<Rightarrow> Inr incoming)
           | _ \<Rightarrow> Inr stored))"

definition writeReplayCheckpoint ::
  "prepared_replay_checkpoint \<Rightarrow> checkpoint_row option \<Rightarrow> int \<Rightarrow> int \<Rightarrow> int \<Rightarrow> projection_meta_row
     \<Rightarrow> tenant_store \<Rightarrow> tenant_store result" where
  "writeReplayCheckpoint c existing appliedCount duplicateCount lastSequence meta st =
     andThen (replay_tuple c existing) (\<lambda>(at, ms, eid, updatedAt).
     andThen (throwIf (at = None \<and> ms \<noteq> None) (ProjectionError projection_conflict)) (\<lambda>_.
     andThen (throwIf (at \<noteq> None \<and> ms = None) (ProjectionError projection_conflict)) (\<lambda>_.
     Inr (store_checkpoint
       \<lparr>cp_kind = REPLAY_CHECKPOINT_KIND, cp_value = pr_value c, cp_source_cursor = pr_sourceCursor c,
        cp_page_digest = Some (pr_pageDigest c), cp_last_observed_at = at, cp_last_observed_ms = ms,
        cp_last_event_id = eid, cp_generation = pm_generation meta, cp_updated_at = updatedAt,
        cp_last_applied_count = Some appliedCount, cp_last_duplicate_count = Some duplicateCount,
        cp_last_sequence = Some lastSequence\<rparr> st))))"

section \<open>The transaction\<close>

definition result_of :: "apply_input \<Rightarrow> projection_meta_row \<Rightarrow> int \<Rightarrow> int \<Rightarrow> int \<Rightarrow> apply_result" where
  "result_of input meta applied duplicate lastSequence =
     \<lparr>ar_tenant_id = ai_tenantId input, ar_generation = pm_generation meta, ar_applied_count = applied,
      ar_duplicate_count = duplicate, ar_last_sequence = lastSequence\<rparr>"

definition check_mode :: "apply_input \<Rightarrow> projection_meta_row \<Rightarrow> unit result" where
  "check_mode input meta =
     (case ai_mode input of
        Live _ \<Rightarrow>
          andThen (throwIf (ai_rebuildId input \<noteq> None) (ProjectionError projection_invalid)) (\<lambda>_.
          requireReadyState meta)
      | Replay _ \<Rightarrow>
          andThen (throwIf (pm_state meta = Rebuild_failed) (ProjectionError projection_rebuild_failed)) (\<lambda>_.
          throwIf (pm_state meta \<noteq> Rebuilding \<or> pm_rebuild_id meta \<noteq> ai_rebuildId input
                     \<or> ai_rebuildId input = None) (ProjectionError projection_rebuild_mismatch)))"

text \<open>
  The cursor protocol of a replay page: \<open>Inr (Some e)\<close> is a page that was applied before, \<open>Inr None\<close>
  a page that continues the stored cursor.
\<close>

definition check_replay_cursor ::
  "prepared_replay_checkpoint \<Rightarrow> checkpoint_row option \<Rightarrow> projection_meta_row \<Rightarrow> checkpoint_row option result" where
  "check_replay_cursor c existing meta =
     (case existing of
        None \<Rightarrow> andThen (throwIf (pr_sourceCursor c \<noteq> None) (ProjectionError projection_conflict)) (\<lambda>_. Inr None)
      | Some e \<Rightarrow>
          andThen (throwIf (cp_generation e \<noteq> pm_generation meta) (ProjectionError projection_conflict)) (\<lambda>_.
          if cp_source_cursor e = pr_sourceCursor c then
            (if cp_page_digest e = Some (pr_pageDigest c) then Inr (Some e)
             else projectionError projection_conflict)
          else
            andThen (throwIf (cp_value e = ''terminal'' \<or> Some (cp_value e) \<noteq> pr_sourceCursor c)
                      (ProjectionError projection_conflict)) (\<lambda>_. Inr None)))"

definition apply_replay ::
  "apply_input \<Rightarrow> prepared_replay_checkpoint \<Rightarrow> projection_meta_row \<Rightarrow> tenant_store
     \<Rightarrow> (tenant_store \<times> apply_result \<times> broadcast_change list) result" where
  "apply_replay input c meta st =
     (let existing = find_checkpoint REPLAY_CHECKPOINT_KIND st in
      andThen (check_replay_cursor c existing meta) (\<lambda>repeated.
      case repeated of
        Some e \<Rightarrow>
          Inr (st, result_of input meta
                 (case cp_last_applied_count e of None \<Rightarrow> 0 | Some n \<Rightarrow> n)
                 (case cp_last_duplicate_count e of None \<Rightarrow> 0 | Some n \<Rightarrow> n)
                 (case cp_last_sequence e of None \<Rightarrow> readLastSequence st | Some n \<Rightarrow> n), [])
      | None \<Rightarrow>
          andThen (projectPreparedEvents (ai_preparedEvents input) (ai_inputEventCount input) meta st)
            (\<lambda>(st1, r).
          andThen (writeReplayCheckpoint c existing (pj_appliedCount r) (pj_duplicateCount r)
                     (pj_lastSequence r) meta st1) (\<lambda>st2.
          Inr (st2, result_of input meta (pj_appliedCount r) (pj_duplicateCount r) (pj_lastSequence r), [])))))"

definition apply_live ::
  "apply_input \<Rightarrow> prepared_checkpoint option \<Rightarrow> projection_meta_row \<Rightarrow> tenant_store
     \<Rightarrow> (tenant_store \<times> apply_result \<times> broadcast_change list) result" where
  "apply_live input checkpoint meta st =
     andThen (throwIf (map_option pc_kind checkpoint = Some REPLAY_CHECKPOINT_KIND)
               (ProjectionError projection_invalid)) (\<lambda>_.
     andThen (projectPreparedEvents (ai_preparedEvents input) (ai_inputEventCount input) meta st)
       (\<lambda>(st1, r).
     andThen (applyLiveCheckpoint checkpoint meta (pj_lastSequence r) st1) (\<lambda>st2.
     Inr (st2, result_of input meta (pj_appliedCount r) (pj_duplicateCount r) (pj_lastSequence r),
          pj_changes r))))"

definition applyPreparedBatch ::
  "apply_input \<Rightarrow> tenant_store \<Rightarrow> (tenant_store \<times> apply_result \<times> broadcast_change list) result" where
  "applyPreparedBatch input st = catching projection_unavailable
     (andThen (readProjectionMeta st) (\<lambda>meta.
      andThen (requireStoredTenant meta (ai_tenantId input)) (\<lambda>_.
      andThen (check_mode input meta) (\<lambda>_.
      andThen (ensurePersistentBindings (ai_connections input) (tables st)) (\<lambda>db.
      let st1 = st\<lparr>tables := db\<rparr> in
      case ai_mode input of
        Replay None \<Rightarrow> projectionError projection_invalid
      | Replay (Some c) \<Rightarrow> apply_replay input c meta st1
      | Live checkpoint \<Rightarrow> apply_live input checkpoint meta st1)))))"

end
