(* ===== verification/Change_Log.thy ===== *)
theory Change_Log
  imports Tenant_Batch
begin

text \<open>
  The change log of a tenant: \<open>readChangePage\<close> of \<open>projection/tenant-projection.ts\<close>, the invariant
  that identity-local sequences have no gaps between the trimming floor and the latest sequence,
  and what it means for a client that follows the log page by page.
\<close>

section \<open>Reading a page\<close>

definition MAX_PROJECTION_PAGE_SIZE :: nat where
  "MAX_PROJECTION_PAGE_SIZE = 100"

record change_page =
  pg_items :: "projection_change_row list"
  pg_latest_sequence :: int
  pg_reset_required :: bool

text \<open>
  The final \<open>ProjectionChangePageSchema.parse\<close> accepts only items of the page's generation and
  identity; its other checks hold for rows built from parsed events.
\<close>

definition readChangePage ::
  "tenant_store \<Rightarrow> string \<Rightarrow> int \<Rightarrow> int \<Rightarrow> nat option \<Rightarrow> projection_meta_row \<Rightarrow> change_page result" where
  "readChangePage st iid generation afterSequence limit meta =
     andThen (throwIf (generation \<noteq> pm_generation meta) (ProjectionError projection_conflict)) (\<lambda>_.
     let floor = latest_sequence (change_floors st) iid;
         resetRequired = afterSequence < floor;
         n = (case limit of None \<Rightarrow> MAX_PROJECTION_PAGE_SIZE | Some k \<Rightarrow> k);
         rows = (if resetRequired then []
                 else take n (sort_key ch_identity_sequence
                   (filter (\<lambda>c. ch_identity_id c = iid \<and> ch_identity_sequence c > afterSequence)
                     (projection_changes st))))
     in andThen (throwIf (list_ex (\<lambda>c. ch_generation c \<noteq> generation \<or> ch_identity_id c \<noteq> iid) rows)
                  ZodError) (\<lambda>_.
        Inr \<lparr>pg_items = rows, pg_latest_sequence = latest_sequence (identity_sequences st) iid,
             pg_reset_required = resetRequired\<rparr>))"

section \<open>Sequences per identity\<close>

abbreviation changes_of :: "string \<Rightarrow> projection_change_row list \<Rightarrow> projection_change_row list" where
  "changes_of iid \<equiv> filter (\<lambda>c. ch_identity_id c = iid)"

definition change_log_ok :: "tenant_store \<Rightarrow> bool" where
  "change_log_ok st =
     (sorted_wrt (<) (map ch_sequence (projection_changes st))
      \<and> (\<forall>c \<in> set (projection_changes st). ch_sequence c \<le> change_autoincrement st)
      \<and> (\<forall>iid. 0 \<le> latest_sequence (change_floors st) iid
           \<and> latest_sequence (change_floors st) iid \<le> latest_sequence (identity_sequences st) iid
           \<and> map ch_identity_sequence (changes_of iid (projection_changes st))
               = [latest_sequence (change_floors st) iid + 1 .. latest_sequence (identity_sequences st) iid]))"

text \<open>A two-column table with its key is an association list.\<close>

lemma find_pair: "find (\<lambda>(i, _). i = k) xs = map_option (Pair k) (map_of xs k)"
  by (induction xs) auto

lemma map_of_upd_where:
  "map_of (upd_where (\<lambda>(i, _). i = k) (\<lambda>(i, n). (i, f n)) xs) j
     = (if j = k then map_option f (map_of xs j) else map_of xs j)"
  by (induction xs) (auto simp: upd_where_def)

lemma latest_sequence_map_of:
  "latest_sequence seqs iid = (case map_of seqs iid of None \<Rightarrow> 0 | Some n \<Rightarrow> n)"
  by (simp add: latest_sequence_def find_pair split: option.splits)

lemma latest_sequence_bump:
  "latest_sequence (bump_identity_sequence iid seqs) jid
     = latest_sequence seqs jid + (if jid = iid then 1 else 0)"
  by (cases "map_of seqs iid")
    (auto simp: latest_sequence_map_of bump_identity_sequence_def find_pair map_of_upd_where map_of_append
      map_add_def split: option.splits)

lemma latest_sequence_raise:
  assumes "0 \<le> d"
  shows "latest_sequence (raise_floor iid d floors) jid
     = (if jid = iid then (if map_of floors iid = None then d else max (latest_sequence floors iid) d)
        else latest_sequence floors jid)"
  by (cases "map_of floors iid")
    (auto simp: latest_sequence_map_of raise_floor_def find_pair map_of_upd_where map_add_def
      split: option.splits)

lemma latest_sequence_raise_max:
  assumes "0 \<le> d" and "0 \<le> latest_sequence floors iid"
  shows "latest_sequence (raise_floor iid d floors) jid
     = (if jid = iid then max (latest_sequence floors iid) d else latest_sequence floors jid)"
  using assms by (auto simp: latest_sequence_raise) (simp add: latest_sequence_map_of)

lemma latest_sequence_raise_fold:
  assumes "\<And>i. 0 \<le> D i" and "\<And>i. 0 \<le> latest_sequence floors i"
  shows "latest_sequence (fold (\<lambda>i. raise_floor i (D i)) is floors) jid
     = (if jid \<in> set is then max (latest_sequence floors jid) (D jid) else latest_sequence floors jid)"
  using assms(2)
proof (induction "is" arbitrary: floors)
  case (Cons i "is")
  then have "0 \<le> latest_sequence (raise_floor i (D i) floors) j" for j
    using assms(1) by (simp add: latest_sequence_raise_max le_max_iff_disj)
  then show ?case
    using Cons assms(1) by (auto simp: latest_sequence_raise_max)
qed simp

text \<open>Splitting an interval.\<close>

lemma upto_split:
  fixes a b :: int
  assumes "xs @ ys = [a..b]"
  shows "xs = [a..a + int (length xs) - 1] \<and> ys = [a + int (length xs)..b]"
  using assms
proof (induction xs arbitrary: a)
  case (Cons x xs)
  then have "a \<le> b" and "x = a" and "xs @ ys = [a + 1..b]"
    by (auto simp: upto.simps [of a b] split: if_splits)
  then show ?case
    using Cons.IH [of "a + 1"] by (auto simp: upto.simps [of a "a + int (length xs)"] algebra_simps)
qed simp

lemma fold_max_upto:
  fixes a b :: int
  assumes "0 \<le> a" and "a \<le> b"
  shows "fold max [a..b] 0 = b"
proof -
  have "fold max [a..b] 0 = Max (set (0 # [a..b]))"
    by (simp only: Max.set_eq_fold)
  also have "\<dots> = b"
    using assms by (intro Max_eqI) auto
  finally show ?thesis .
qed

section \<open>The log stays gapless\<close>

lemma change_log_okD:
  assumes "change_log_ok st"
  shows "sorted_wrt (<) (map ch_sequence (projection_changes st))"
    and "\<And>c. c \<in> set (projection_changes st) \<Longrightarrow> ch_sequence c \<le> change_autoincrement st"
    and "\<And>iid. 0 \<le> latest_sequence (change_floors st) iid"
    and "\<And>iid. latest_sequence (change_floors st) iid \<le> latest_sequence (identity_sequences st) iid"
    and "\<And>iid. map ch_identity_sequence (changes_of iid (projection_changes st))
           = [latest_sequence (change_floors st) iid + 1 .. latest_sequence (identity_sequences st) iid]"
  using assms by (auto simp: change_log_ok_def)

lemma log_change_shape:
  assumes "log_change generation p st = Inr (st', change)"
  defines "seqs \<equiv> bump_identity_sequence (ev_identity_id (pe_event p)) (identity_sequences st)"
  shows "st' = st\<lparr>tables := (tables st)\<lparr>applied_events := applied_events (tables st) @ [applied_row generation p]\<rparr>,
           identity_sequences := seqs, change_autoincrement := change_autoincrement st + 1,
           projection_changes := projection_changes st
             @ [change_row (change_autoincrement st + 1) generation
                  (latest_sequence seqs (ev_identity_id (pe_event p))) p]\<rparr>"
    and "ev_event_id (pe_event p) \<notin> ae_event_id ` set (applied_events (tables st))"
  using assms by (auto simp: log_change_def Let_def andThen_eq_Inr table_simps applied_row_def)

lemma log_change_ok:
  assumes "log_change generation p st = Inr (st', change)" and "change_log_ok st"
  shows "change_log_ok st'"
proof -
  note D = change_log_okD [OF assms(2)]
  let ?i = "ev_identity_id (pe_event p)"
  let ?l = "latest_sequence (identity_sequences st)" and ?f = "latest_sequence (change_floors st)"
  have step: "[?f ?i + 1 .. ?l ?i + 1] = [?f ?i + 1 .. ?l ?i] @ [?l ?i + 1]"
    using D(4) [of ?i] by (simp add: upto_rec2)
  show ?thesis
    unfolding change_log_ok_def log_change_shape(1) [OF assms(1)]
    using D(1,3,4,5) D(2) [THEN order.strict_trans1, of _ "change_autoincrement st + 1"]
    by (auto simp: sorted_wrt_append change_row_def latest_sequence_bump step add_increasing2 le_less)
qed

lemma sorted_changes_split:
  fixes b :: int
  assumes "sorted_wrt (<) (map key cs)"
  shows "cs = filter (\<lambda>c. key c \<le> b) cs @ filter (\<lambda>c. \<not> key c \<le> b) cs"
  using assms
proof (induction cs)
  case (Cons c cs)
  show ?case
  proof (cases "key c \<le> b")
    case False
    then have none: "filter (\<lambda>c. key c \<le> b) cs = []"
      using Cons.prems by (auto simp: filter_empty_conv)
    from Cons False show ?thesis by (simp add: none)
  qed (use Cons in simp)
qed simp

lemma trim_changes_at_simps [simp]:
  "projection_changes (trim_changes_at b st) = del_where (\<lambda>c. ch_sequence c \<le> b) (projection_changes st)"
  "identity_sequences (trim_changes_at b st) = identity_sequences st"
  "change_autoincrement (trim_changes_at b st) = change_autoincrement st"
  "tables (trim_changes_at b st) = tables st"
  "projection_meta (trim_changes_at b st) = projection_meta st"
  "checkpoints (trim_changes_at b st) = checkpoints st"
  by (simp_all add: trim_changes_at_def Let_def)

lemma trim_changes_at_ok:
  assumes "change_log_ok st"
  shows "change_log_ok (trim_changes_at b st)"
proof -
  note D = change_log_okD [OF assms]
  define cs where "cs = projection_changes st"
  define f l where "f = latest_sequence (change_floors st)" and "l = latest_sequence (identity_sequences st)"
  define old where "old iid = changes_of iid (filter (\<lambda>c. ch_sequence c \<le> b) cs)" for iid
  define new where "new iid = changes_of iid (del_where (\<lambda>c. ch_sequence c \<le> b) cs)" for iid
  have "changes_of iid cs = old iid @ new iid" for iid
    unfolding old_def new_def del_where_def filter_append [symmetric]
    using sorted_changes_split [of ch_sequence cs b] D(1) by (simp add: cs_def)
  then have whole: "map ch_identity_sequence (old iid) @ map ch_identity_sequence (new iid) = [f iid + 1..l iid]" for iid
    using D(5) [of iid] by (simp add: cs_def f_def l_def flip: map_append)
  note split = upto_split [OF whole]
  have len: "f iid + int (length (old iid)) \<le> l iid" for iid
    using arg_cong [OF whole [of iid], of length] D(4) [of iid] by (auto simp: f_def l_def)
  have disc: "discarded_through b iid cs = (if old iid = [] then 0 else f iid + int (length (old iid)))" for iid
  proof -
    have "map ch_identity_sequence (old iid) = [f iid + 1..f iid + int (length (old iid))]"
      using split [of iid] by (simp add: algebra_simps)
    moreover have "discarded_through b iid cs = fold max (map ch_identity_sequence (old iid)) 0"
      by (simp add: discarded_through_def old_def conj_commute)
    ultimately show ?thesis
      using fold_max_upto [of "f iid + 1" "f iid + int (length (old iid))"] D(3) [of iid]
      by (cases "old iid") (auto simp: f_def)
  qed
  have affected: "iid \<in> set (map ch_identity_id (filter (\<lambda>c. ch_sequence c \<le> b) cs)) \<longleftrightarrow> old iid \<noteq> []" for iid
    by (auto simp: old_def filter_empty_conv)
  have floor: "latest_sequence (change_floors (trim_changes_at b st)) iid = f iid + int (length (old iid))" for iid
  proof -
    have pos: "0 \<le> discarded_through b i (projection_changes st)" for i
      using disc [of i] D(3) [of i] by (simp add: f_def cs_def)
    show ?thesis
      using D(3) affected [of iid] disc [of iid]
      by (simp add: trim_changes_at_def Let_def latest_sequence_raise_fold [OF pos D(3)] f_def cs_def)
  qed
  have kept: "map ch_identity_sequence (changes_of iid (projection_changes (trim_changes_at b st)))
      = [latest_sequence (change_floors (trim_changes_at b st)) iid + 1..l iid]" for iid
    using split [of iid] by (simp add: floor new_def cs_def algebra_simps)
  have "sorted_wrt (<) (map ch_sequence (projection_changes (trim_changes_at b st)))"
    using D(1) by (simp add: del_where_def sorted_wrt_filter sorted_wrt_map)
  then show ?thesis
    unfolding change_log_ok_def kept floor
    using len D(2,3) by (auto simp: f_def l_def table_simps)
qed

end
