(* ===== verification/Summaries.thy ===== *)
theory Summaries
  imports Projection_Properties
begin

text \<open>
  The conversation summaries: \<open>recomputeConversationSummaries\<close> keeps the tables well formed, touches
  nothing but the summary columns of the touched conversations, and leaves each summary equal to
  what its messages and attachments say.
\<close>

section \<open>Well-formedness\<close>

lemma summary_columns [simp]:
  "c_id (deleted_summary s c) = c_id c" "c_id (live_summary s ms c) = c_id c"
  "c_title (deleted_summary s c) = c_title c" "c_title (live_summary s ms c) = c_title c"
  "c_archived (deleted_summary s c) = c_archived c" "c_archived (live_summary s ms c) = c_archived c"
  "c_muted (deleted_summary s c) = c_muted c" "c_muted (live_summary s ms c) = c_muted c"
  "c_deleted_at (deleted_summary s c) = c_deleted_at c" "c_deleted_at (live_summary s ms c) = c_deleted_at c"
  "conversation_owned (deleted_summary s c) = conversation_owned c"
  "conversation_owned (live_summary s ms c) = conversation_owned c"
  "c_last_message_preview (deleted_summary s c) = ''''"
  by (simp_all add: deleted_summary_def live_summary_def Let_def conversation_owned_def)

lemma recount_attachments_other [simp]:
  "conversations (recount_attachments db iid cid) = conversations db"
  "participants (recount_attachments db iid cid) = participants db"
  "message_versions (recount_attachments db iid cid) = message_versions db"
  "reactions (recount_attachments db iid cid) = reactions db"
  "receipts (recount_attachments db iid cid) = receipts db"
  "typing_states (recount_attachments db iid cid) = typing_states db"
  "attachments (recount_attachments db iid cid) = attachments db"
  "commands (recount_attachments db iid cid) = commands db"
  "message_delivery_updates (recount_attachments db iid cid) = message_delivery_updates db"
  "event_tombstones (recount_attachments db iid cid) = event_tombstones db"
  "resource_tombstones (recount_attachments db iid cid) = resource_tombstones db"
  "applied_events (recount_attachments db iid cid) = applied_events db"
  "connection_bindings (recount_attachments db iid cid) = connection_bindings db"
  by (simp_all add: recount_attachments_def)

text \<open>A change of the conversations and the messages alone, with the keys kept.\<close>

lemma wf_db_conversations:
  assumes "wf_db db" and keys: "\<And>r. c_id (f r) = c_id r"
    and ok: "\<And>r. r \<in> set (conversations db) \<Longrightarrow> P r \<Longrightarrow> conversation_ok (tombs_of db) r
        \<Longrightarrow> conversation_ok (tombs_of db) (f r)"
  shows "wf_db (db\<lparr>conversations := upd_where P f (conversations db)\<rparr>)"
proof -
  have T: "tombs_of (db\<lparr>conversations := cs\<rparr>) = tombs_of db" for cs by (rule tombs_of_cong) simp
  have "list_all (conversation_ok (tombs_of db)) (upd_where P f (conversations db))"
    using assms(1) ok by (auto simp: wf_db_def redacted_def list_all_iff set_upd_where)
  moreover have "map c_id (upd_where P f (conversations db)) = map c_id (conversations db)"
    by (rule map_key_upd_where) (rule keys)
  moreover have "c_id ` set (upd_where P f (conversations db)) = c_id ` set (conversations db)"
    by (rule image_key_upd_where) (rule keys)
  ultimately show ?thesis
    using assms(1) unfolding wf_db_def redacted_def keys_distinct_def T by simp
qed

lemma message_ok_recount:
  "message_ok T m \<Longrightarrow> m_deleted_at m = None \<Longrightarrow> message_ok T (m\<lparr>m_attachment_count := n\<rparr>)"
  by (simp add: message_ok_def message_redacted_def)

lemma wf_db_recount: 
  assumes "wf_db db"
  shows "wf_db (recount_attachments db iid cid)"
proof -
  have T: "tombs_of (recount_attachments db iid cid) = tombs_of db" by (rule tombs_of_cong) simp
  have ok: "message_ok (tombs_of db) m" if "m \<in> set (messages db)" for m
    using redacted_rows(3) [of "tombs_of db" db m] assms that by (simp add: wf_db_def)
  have "list_all (message_ok (tombs_of db)) (messages (recount_attachments db iid cid))"
    by (auto simp: list_all_iff recount_attachments_def set_upd_where ok message_ok_recount)
  moreover have "map m_id (messages (recount_attachments db iid cid)) = map m_id (messages db)"
    unfolding recount_attachments_def by (simp add: map_key_upd_where)
  ultimately show ?thesis
    using assms unfolding wf_db_def redacted_def keys_distinct_def T by simp
qed

lemma recompute_conversation_wf:
  assumes "wf_db db"
  shows "wf_db (recompute_conversation cid db)"
proof (cases "readConversation db cid")
  case None
  with assms show ?thesis by (simp add: recompute_conversation_def)
next
  case (Some c)
  show ?thesis
  proof (cases "c_deleted_at c = None")
    case False
    have "wf_db (db\<lparr>conversations := upd_where (\<lambda>r. c_id r = cid) (deleted_summary c) (conversations db)\<rparr>)"
      by (rule wf_db_conversations [OF assms]) (simp_all add: conversation_ok_def)
    with Some False show ?thesis by (simp add: recompute_conversation_def)
  next
    case True
    let ?db1 = "recount_attachments db (identity_id c) cid"
    have wf1: "wf_db ?db1" by (rule wf_db_recount [OF assms])
    have live: "\<not> tombs_of ?db1 RConversation (c_id r)"
      if "r \<in> set (conversations ?db1)" "c_id r = cid" "conversation_ok (tombs_of ?db1) r" for r
      using row_unique(1) [OF assms Some] that True by (auto simp: conversation_ok_def)
    have "wf_db (?db1\<lparr>conversations := upd_where (\<lambda>r. c_id r = cid)
        (live_summary c (active_messages ?db1 (identity_id c) cid)) (conversations ?db1)\<rparr>)"
      by (rule wf_db_conversations [OF wf1]) (use live in \<open>auto simp: conversation_ok_def\<close>)
    with Some True show ?thesis by (simp add: recompute_conversation_def Let_def)
  qed
qed

lemma recompute_wf: "wf_db db \<Longrightarrow> wf_db (recomputeConversationSummaries touched db)"
  unfolding recomputeConversationSummaries_def
  by (rule fold_invariant [of _ "\<lambda>_. True"]) (auto intro: recompute_conversation_wf)

section \<open>What a summary says\<close>

text \<open>A conversation's summary columns agree with its messages and attachments.\<close>

definition summary_ok :: "projection_db \<Rightarrow> string \<Rightarrow> bool" where
  "summary_ok db cid =
     (\<forall>c. readConversation db cid = Some c \<longrightarrow>
        (if c_deleted_at c \<noteq> None then c = deleted_summary c c
         else c = live_summary c (active_messages db (identity_id c) cid) c
           \<and> (\<forall>m \<in> set (active_messages db (identity_id c) cid).
                m_attachment_count m = live_attachment_count db (m_id m))))"

lemma live_summary_twice:
  "live_summary (live_summary s ms c) ms' (live_summary s ms c) = live_summary c ms' c"
  "deleted_summary (deleted_summary s c) (deleted_summary s c) = deleted_summary c c"
  by (cases "best_row message_before ms'"; simp add: live_summary_def Let_def)
    (simp add: deleted_summary_def)

lemma summary_identity [simp]:
  "identity_id (live_summary s ms c) = identity_id c" "identity_id (deleted_summary s c) = identity_id c"
  by (simp_all add: live_summary_def deleted_summary_def Let_def)

lemma deleted_summary_counts:
  "c_message_count (deleted_summary s c) = 0" "c_unread_count (deleted_summary s c) = 0"
  "c_attachment_count (deleted_summary s c) = 0" "c_last_message_preview (deleted_summary s c) = ''''"
  by (simp_all add: deleted_summary_def)

lemma readConversation_upd:
  assumes "\<And>r. c_id (f r) = c_id r"
  shows "readConversation (d\<lparr>conversations := upd_where (\<lambda>r. c_id r = cid) f (conversations db)\<rparr>) cid'
     = map_option (\<lambda>r. if cid' = cid then f r else r) (readConversation db cid')"
proof -
  have "find (\<lambda>c. c_id c = cid') (upd_where (\<lambda>r. c_id r = cid) f (conversations db))
      = map_option (\<lambda>r. if c_id r = cid then f r else r) (find (\<lambda>c. c_id c = cid') (conversations db))"
    by (rule find_upd_where) (simp add: assms)
  then show ?thesis
    unfolding readConversation_def
    by (cases "find (\<lambda>c. c_id c = cid') (conversations db)") (auto dest!: find_SomeD)
qed

lemma readConversation_recount [simp]:
  "readConversation (recount_attachments db iid cid) cid' = readConversation db cid'"
  by (simp add: readConversation_def)

lemma active_messages_conversations [simp]:
  "active_messages (db\<lparr>conversations := cs\<rparr>) iid cid = active_messages db iid cid"
  "live_attachment_count (db\<lparr>conversations := cs\<rparr>) mid = live_attachment_count db mid"
  "live_attachment_count (recount_attachments db iid cid) mid = live_attachment_count db mid"
  by (simp_all add: active_messages_def live_attachment_count_def)

lemma active_messages_recount:
  assumes "m \<in> set (active_messages (recount_attachments db iid cid) iid cid)"
  shows "m_attachment_count m = live_attachment_count db (m_id m)"
proof -
  have m: "m \<in> set (messages (recount_attachments db iid cid))"
    and active: "identity_id m = iid \<and> conversation_id m = cid \<and> m_deleted_at m = None"
    using assms by (simp_all add: active_messages_def)
  from m obtain r where "m = r\<lparr>m_attachment_count := live_attachment_count db (m_id r)\<rparr>
      \<or> m = r \<and> \<not> (identity_id r = iid \<and> conversation_id r = cid \<and> m_deleted_at r = None)"
    unfolding recount_attachments_def by (auto simp: upd_where_def)
  then show ?thesis
  proof
    assume eq: "m = r\<lparr>m_attachment_count := live_attachment_count db (m_id r)\<rparr>"
    show ?thesis by (subst (1 2) eq) simp
  qed (use active in blast)
qed

lemma filter_upd_where_disjoint:
  assumes "\<And>r. P r \<Longrightarrow> \<not> Q r" and "\<And>r. P r \<Longrightarrow> \<not> Q (f r)"
  shows "filter Q (upd_where P f rs) = filter Q rs"
  using assms by (induction rs) (auto simp: upd_where_def)

lemma active_messages_recount_other:
  assumes "cid' \<noteq> cid"
  shows "active_messages (recount_attachments db iid cid) iid' cid' = active_messages db iid' cid'"
  unfolding active_messages_def recount_attachments_def
  using assms by (simp, intro filter_upd_where_disjoint) auto

lemma recompute_conversation_summary: "summary_ok (recompute_conversation cid db) cid"
proof (cases "readConversation db cid")
  case None
  then show ?thesis by (simp add: recompute_conversation_def summary_ok_def)
next
  case (Some c)
  show ?thesis
  proof (cases "c_deleted_at c = None")
    case False
    with Some show ?thesis
      by (simp add: recompute_conversation_def summary_ok_def readConversation_upd deleted_summary_def)
  next
    case True
    let ?db1 = "recount_attachments db (identity_id c) cid"
    have "readConversation (recompute_conversation cid db) cid
        = Some (live_summary c (active_messages ?db1 (identity_id c) cid) c)"
      using Some True by (simp add: recompute_conversation_def Let_def readConversation_upd)
    moreover have "active_messages (recompute_conversation cid db) (identity_id c) cid
        = active_messages ?db1 (identity_id c) cid"
      and "live_attachment_count (recompute_conversation cid db) = live_attachment_count db"
      using Some True by (auto simp: recompute_conversation_def Let_def)
    ultimately show ?thesis
      using True active_messages_recount [of _ db "identity_id c" cid]
      by (simp add: summary_ok_def live_summary_twice)
  qed
qed

lemma recompute_conversation_other:
  assumes "summary_ok db cid" and "cid' \<noteq> cid"
  shows "summary_ok (recompute_conversation cid' db) cid"
proof (cases "readConversation db cid'")
  case None
  with assms show ?thesis by (simp add: recompute_conversation_def)
next
  case (Some c)
  have "readConversation (recompute_conversation cid' db) cid = readConversation db cid"
    and "\<And>iid. active_messages (recompute_conversation cid' db) iid cid = active_messages db iid cid"
    and "\<And>mid. live_attachment_count (recompute_conversation cid' db) mid = live_attachment_count db mid"
    using Some assms(2)
    by (auto simp: recompute_conversation_def Let_def readConversation_upd active_messages_recount_other
        intro: option.map_ident)
  with assms(1) show ?thesis by (simp add: summary_ok_def)
qed

lemma recompute_summary_ok:
  assumes "cid \<in> set touched"
  shows "summary_ok (recomputeConversationSummaries touched db) cid"
proof -
  have later: "summary_ok (fold recompute_conversation cids db) cid" if "summary_ok db cid" for cids db
    using that
  proof (induction cids arbitrary: db)
    case (Cons a cids)
    then show ?case
      by (cases "a = cid") (simp_all add: recompute_conversation_summary recompute_conversation_other)
  qed simp
  have "cid \<in> set cids \<Longrightarrow> summary_ok (fold recompute_conversation cids db) cid" for cids
    by (induction cids arbitrary: db) (auto simp: recompute_conversation_summary later)
  then show ?thesis using assms by (simp add: recomputeConversationSummaries_def)
qed

end
