(* ===== verification/Tenant_Batch_Invariants.thy ===== *)
theory Tenant_Batch_Invariants
  imports Change_Log Summaries
begin

text \<open>
  The invariant of the whole store and that every run of \<open>#applyPreparedBatch\<close> keeps it.
\<close>

section \<open>The invariant of the store\<close>

definition store_ok :: "tenant_store \<Rightarrow> bool" where
  "store_ok st =
     (wf_db (tables st) \<and> change_log_ok st
      \<and> distinct (map ae_event_id (applied_events (tables st)))
      \<and> distinct (map b_account_id (connection_bindings (tables st)))
      \<and> distinct (map b_connection_id (connection_bindings (tables st)))
      \<and> distinct (map cp_kind (checkpoints st))
      \<and> list_all (\<lambda>c. map_option pm_generation (projection_meta st) = Some (ch_generation c))
          (projection_changes st))"

lemma wf_db_applied [simp]: "wf_db (db\<lparr>applied_events := es\<rparr>) = wf_db db"
  by (simp add: wf_db_def keys_distinct_def redacted_def tombs_of_def readResourceTombstone_def)

lemma wf_db_bindings [simp]: "wf_db (db\<lparr>connection_bindings := bs\<rparr>) = wf_db db"
  by (simp add: wf_db_def keys_distinct_def redacted_def tombs_of_def readResourceTombstone_def)

lemma change_log_ok_tables [simp]: "change_log_ok (st\<lparr>tables := db\<rparr>) = change_log_ok st"
  by (simp add: change_log_ok_def)

lemma change_log_ok_checkpoints [simp]: "change_log_ok (st\<lparr>checkpoints := cs\<rparr>) = change_log_ok st"
  by (simp add: change_log_ok_def)

lemma projectEvent_keeps_log_tables:
  assumes "projectEvent p db = Inr db'" and "wf_db db"
  shows "applied_events db' = applied_events db" and "connection_bindings db' = connection_bindings db"
  using projectEvent_isolated [OF assms] by (simp_all add: isolated_def db_evolves_def)

lemma recompute_keeps_log_tables [simp]:
  "applied_events (recomputeConversationSummaries touched db) = applied_events db"
  "connection_bindings (recomputeConversationSummaries touched db) = connection_bindings db"
  "resource_tombstones (recomputeConversationSummaries touched db) = resource_tombstones db"
proof -
  have one: "applied_events (recompute_conversation c d) = applied_events d"
    "connection_bindings (recompute_conversation c d) = connection_bindings d"
    "resource_tombstones (recompute_conversation c d) = resource_tombstones d" for c d
    by (simp_all add: recompute_conversation_def Let_def split: option.splits)
  have "applied_events (fold recompute_conversation cs d) = applied_events d"
    "connection_bindings (fold recompute_conversation cs d) = connection_bindings d"
    "resource_tombstones (fold recompute_conversation cs d) = resource_tombstones d" for cs d
    by (induction cs arbitrary: d) (simp_all add: one)
  then show "applied_events (recomputeConversationSummaries touched db) = applied_events db"
    and "connection_bindings (recomputeConversationSummaries touched db) = connection_bindings db"
    and "resource_tombstones (recomputeConversationSummaries touched db) = resource_tombstones db"
    by (simp_all add: recomputeConversationSummaries_def)
qed

lemma row_columns [simp]:
  "ae_event_id (applied_row g p) = ev_event_id (pe_event p)" "ch_generation (change_row n g k p) = g"
  by (simp_all add: applied_row_def change_row_def)

lemma project_prepared_ok:
  assumes "project_prepared stored generation p ls = Inr ls'" and "store_ok (ls_store ls)"
    and gen: "map_option pm_generation (projection_meta (ls_store ls)) = Some generation"
  shows "store_ok (ls_store ls') \<and> projection_meta (ls_store ls') = projection_meta (ls_store ls)"
proof (cases "stored (ev_event_id (pe_event p))")
  case (Some r)
  with assms show ?thesis by (auto simp: project_prepared_def andThen_eq_Inr)
next
  case None
  let ?st = "ls_store ls"
  obtain db st change where pe: "projectEvent p (tables ?st) = Inr db"
    and log: "log_change generation p (?st\<lparr>tables := db\<rparr>) = Inr (st, change)" and ls': "ls_store ls' = st"
    using assms(1) None by (auto simp: project_prepared_def andThen_eq_Inr)
  have wf: "wf_db (tables ?st)" and cl: "change_log_ok (?st\<lparr>tables := db\<rparr>)"
    using assms(2) by (simp_all add: store_ok_def)
  note keep = projectEvent_keeps_log_tables [OF pe wf]
  show ?thesis
    unfolding ls' store_ok_def
    using log_change_ok [OF log cl] projectEvent_wf [OF pe wf] assms(2) log_change_shape(2) [OF log] gen
    by (auto simp: log_change_shape(1) [OF log] keep store_ok_def)
qed

interpretation batch: invariant_step "project_prepared stored generation"
  "\<lambda>ls. store_ok (ls_store ls) \<and> map_option pm_generation (projection_meta (ls_store ls)) = Some generation"
  for stored generation
  by unfold_locales (use project_prepared_ok in auto)

lemma trimProjectionChanges_ok: "store_ok st \<Longrightarrow> store_ok (trimProjectionChanges st)"
  by (auto simp: store_ok_def trimProjectionChanges_def trim_changes_at_ok list_all_iff table_simps
      split: option.splits)

lemma projectPreparedEvents_shape:
  assumes "projectPreparedEvents events n meta st = Inr (st', r)"
  obtains ls where
    "forEach events \<lparr>ls_store = st, ls_appliedCount = 0, ls_changes = [], ls_touched = []\<rparr>
       (project_prepared (readAppliedEvents (tables st) events) (pm_generation meta)) = Inr ls"
    and "st' = trimProjectionChanges ((ls_store ls)\<lparr>tables :=
           recomputeConversationSummaries (ls_touched ls) (tables (ls_store ls))\<rparr>)"
    and "r = \<lparr>pj_appliedCount = ls_appliedCount ls, pj_duplicateCount = n - ls_appliedCount ls,
           pj_lastSequence = readLastSequence st', pj_changes = ls_changes ls\<rparr>"
  using assms by (auto simp: projectPreparedEvents_def Let_def andThen_eq_Inr)

lemma projectPreparedEvents_ok:
  assumes "projectPreparedEvents events n meta st = Inr (st', r)" and "store_ok st"
    and "projection_meta st = Some meta"
  shows "store_ok st'"
  using assms(1)
proof (cases rule: projectPreparedEvents_shape)
  case (1 ls)
  have "store_ok (ls_store ls)"
    using batch.loop_inv [OF 1(1)] assms(2,3) by simp
  then have "store_ok ((ls_store ls)\<lparr>tables :=
           recomputeConversationSummaries (ls_touched ls) (tables (ls_store ls))\<rparr>)"
    by (simp add: store_ok_def recompute_wf)
  then show ?thesis unfolding 1(2) by (rule trimProjectionChanges_ok)
qed

lemma ensure_binding_distinct:
  assumes "ensure_binding b rows = Inr rows'" and "distinct (map b_account_id rows)"
    and "distinct (map b_connection_id rows)"
  shows "distinct (map b_account_id rows')" and "distinct (map b_connection_id rows')"
  using assms
  by (auto simp: ensure_binding_def Let_def andThen_eq_Inr ins_row_eq_Inr find_key_fresh split: if_splits)

lemma ensurePersistentBindings_shape:
  assumes "ensurePersistentBindings bs db = Inr db'"
    and "distinct (map b_account_id (connection_bindings db))"
    and "distinct (map b_connection_id (connection_bindings db))"
  obtains rows where "db' = db\<lparr>connection_bindings := rows\<rparr>"
    and "distinct (map b_account_id rows)" and "distinct (map b_connection_id rows)"
proof -
  obtain rows where rows: "forEach bs (connection_bindings db) ensure_binding = Inr rows"
    and db': "db' = db\<lparr>connection_bindings := rows\<rparr>"
    using assms(1) by (auto simp: ensurePersistentBindings_def andThen_eq_Inr)
  have "distinct (map b_account_id rows) \<and> distinct (map b_connection_id rows)"
    by (rule forEach_invariant [OF rows]) (use assms(2,3) ensure_binding_distinct in blast)+
  then show ?thesis using that db' by simp
qed

lemma store_checkpoint_ok: "store_ok st \<Longrightarrow> store_ok (store_checkpoint row st)"
  by (auto simp: store_ok_def store_checkpoint_def find_checkpoint_def find_key_fresh map_key_upd_where)

lemma applyLiveCheckpoint_ok:
  "applyLiveCheckpoint c meta n st = Inr st' \<Longrightarrow> store_ok st \<Longrightarrow> store_ok st'"
  by (auto simp: applyLiveCheckpoint_def Let_def andThen_eq_Inr store_checkpoint_ok
      split: option.splits if_splits)

lemma writeReplayCheckpoint_ok:
  "writeReplayCheckpoint c e a d n meta st = Inr st' \<Longrightarrow> store_ok st \<Longrightarrow> store_ok st'"
  by (auto simp: writeReplayCheckpoint_def andThen_eq_Inr store_checkpoint_ok)

lemma catching_eq_Inr [result_simps]: "catching code m = Inr x \<longleftrightarrow> m = Inr x"
  by (cases m) (auto simp: catching_def)

lemma applyPreparedBatch_parts:
  assumes "applyPreparedBatch input st = Inr (st', r, changes)"
  obtains meta db where "projection_meta st = Some meta" and "pm_tenant_id meta = ai_tenantId input"
    and "check_mode input meta = Inr ()"
    and "ensurePersistentBindings (ai_connections input) (tables st) = Inr db"
    and "(\<exists>c. ai_mode input = Replay (Some c) \<and> apply_replay input c meta (st\<lparr>tables := db\<rparr>) = Inr (st', r, changes))
       \<or> (\<exists>c. ai_mode input = Live c \<and> apply_live input c meta (st\<lparr>tables := db\<rparr>) = Inr (st', r, changes))"
proof -
  obtain meta db where *: "projection_meta st = Some meta" "pm_tenant_id meta = ai_tenantId input"
    "check_mode input meta = Inr ()"
    "ensurePersistentBindings (ai_connections input) (tables st) = Inr db"
    "(case ai_mode input of
        Replay None \<Rightarrow> projectionError projection_invalid
      | Replay (Some c) \<Rightarrow> apply_replay input c meta (st\<lparr>tables := db\<rparr>)
      | Live checkpoint \<Rightarrow> apply_live input checkpoint meta (st\<lparr>tables := db\<rparr>)) = Inr (st', r, changes)"
    using assms
    by (auto simp: applyPreparedBatch_def Let_def result_simps readProjectionMeta_def requireStoredTenant_def
        split: option.splits)
  from *(5) show ?thesis
    by (intro that [OF *(1-4)]) (auto split: batch_mode.splits option.splits)
qed

lemma applyPreparedBatch_ok:
  assumes "applyPreparedBatch input st = Inr (st', r, changes)" and "store_ok st"
  shows "store_ok st'"
  using assms(1)
proof (cases rule: applyPreparedBatch_parts)
  case (1 meta db)
  obtain rows where "db = (tables st)\<lparr>connection_bindings := rows\<rparr>"
    and "distinct (map b_account_id rows)" "distinct (map b_connection_id rows)"
    using ensurePersistentBindings_shape [OF 1(4)] assms(2) by (auto simp: store_ok_def)
  then have ok: "store_ok (st\<lparr>tables := db\<rparr>)" using assms(2) by (simp add: store_ok_def)
  have meta: "projection_meta (st\<lparr>tables := db\<rparr>) = Some meta" using 1(1) by simp
  have project: "store_ok st1" if "projectPreparedEvents es n meta (st\<lparr>tables := db\<rparr>) = Inr (st1, r1)" for es n st1 r1
    by (rule projectPreparedEvents_ok [OF that ok meta])
  from 1(5) show ?thesis
  proof (elim disjE exE conjE)
    fix c assume "apply_replay input c meta (st\<lparr>tables := db\<rparr>) = Inr (st', r, changes)"
    then show ?thesis
      using ok unfolding apply_replay_def Let_def
      by (elim andThenE) (auto simp: andThen_eq_Inr split: option.splits dest!: project writeReplayCheckpoint_ok)
  next
    fix c assume "apply_live input c meta (st\<lparr>tables := db\<rparr>) = Inr (st', r, changes)"
    then show ?thesis
      unfolding apply_live_def
      by (elim andThenE) (auto simp: andThen_eq_Inr dest!: project applyLiveCheckpoint_ok)
  qed
qed

end
