(* ===== verification/Redelivery.thy ===== *)
theory Redelivery
  imports Tenant_Batch_Invariants
begin

text \<open>
  Redelivery: what a batch leaves behind is enough to recognise every one of its events, bindings and
  its checkpoint when it comes again.
\<close>

section \<open>Applied events\<close>

text \<open>The chunked read of \<open>#readAppliedEvents\<close> is one lookup.\<close>

lemma fold_map_upd:
  "distinct (map key rows) \<Longrightarrow>
     fold (\<lambda>row m. m(key row \<mapsto> row)) rows result k
       = (case find (\<lambda>r. key r = k) rows of None \<Rightarrow> result k | Some r \<Rightarrow> Some r)"
proof (induction rows arbitrary: result)
  case (Cons r rows)
  then show ?case
    by (auto simp: find_None_set image_iff split: option.splits dest!: find_SomeD)
qed simp

lemma find_filter: "find P (filter Q xs) = find (\<lambda>x. Q x \<and> P x) xs"
  by (induction xs) auto

lemma read_applied_chunk_lookup:
  assumes "distinct (map ae_event_id rows)"
  shows "read_applied_chunk rows chunk result k
    = (if k \<in> (\<lambda>p. ev_event_id (pe_event p)) ` set chunk \<and> find (\<lambda>r. ae_event_id r = k) rows \<noteq> None
       then find (\<lambda>r. ae_event_id r = k) rows else result k)"
proof -
  let ?I = "set (map (\<lambda>p. ev_event_id (pe_event p)) chunk)"
  have "find (\<lambda>r. ae_event_id r \<in> ?I \<and> ae_event_id r = k) rows
      = (if k \<in> ?I then find (\<lambda>r. ae_event_id r = k) rows else None)"
    by (induction rows) auto
  then show ?thesis
    unfolding read_applied_chunk_def
    by (subst fold_map_upd) (use assms in \<open>auto simp: distinct_map_filter find_filter split: option.splits\<close>)
qed

lemma read_applied_chunks_lookup:
  assumes "distinct (map ae_event_id rows)"
  shows "read_applied_chunks rows events result k
    = (if k \<in> (\<lambda>p. ev_event_id (pe_event p)) ` set events \<and> find (\<lambda>r. ae_event_id r = k) rows \<noteq> None
       then find (\<lambda>r. ae_event_id r = k) rows else result k)"
  using assms
proof (induction rows events result rule: read_applied_chunks.induct)
  case (2 rows p ps result)
  let ?id = "\<lambda>p. ev_event_id (pe_event p)"
  have ids: "?id ` set (p # ps) = ?id ` set (p # take 89 ps) \<union> ?id ` set (drop 89 ps)"
    using set_append [of "take 89 ps" "drop 89 ps"] by (simp add: image_Un)
  show ?case
    unfolding read_applied_chunks.simps 2(1) [OF 2(2)] read_applied_chunk_lookup [OF 2(2)] ids by auto
qed simp

lemma readAppliedEvents_lookup:
  assumes "distinct (map ae_event_id (applied_events db))" and "p \<in> set events"
  shows "readAppliedEvents db events (ev_event_id (pe_event p))
    = find (\<lambda>r. ae_event_id r = ev_event_id (pe_event p)) (applied_events db)"
  using assms by (auto simp: readAppliedEvents_def read_applied_chunks_lookup)

text \<open>After the loop every event of the batch is stored and matches.\<close>

definition stored_matching :: "applied_event_row list \<Rightarrow> prepared_event \<Rightarrow> bool" where
  "stored_matching rows p =
     (\<exists>r \<in> set rows. ae_event_id r = ev_event_id (pe_event p) \<and> assertStoredEventMatches r p = Inr ())"

lemma assertStoredEventMatches_applied_row [simp]: "assertStoredEventMatches (applied_row g p) p = Inr ()"
  by (simp add: assertStoredEventMatches_def applied_row_def Let_def)

lemma project_prepared_stores:
  assumes run: "project_prepared stored g p ls = Inr ls'" and ok: "store_ok (ls_store ls)"
    and stored: "\<And>r. stored (ev_event_id (pe_event p)) = Some r
        \<Longrightarrow> r \<in> set (applied_events (tables (ls_store ls))) \<and> ae_event_id r = ev_event_id (pe_event p)"
  shows "stored_matching (applied_events (tables (ls_store ls'))) p"
    and "set (applied_events (tables (ls_store ls))) \<subseteq> set (applied_events (tables (ls_store ls')))"
    and "projection_meta (ls_store ls') = projection_meta (ls_store ls)"
    and "connection_bindings (tables (ls_store ls')) = connection_bindings (tables (ls_store ls))"
    and "checkpoints (ls_store ls') = checkpoints (ls_store ls)"
proof -
  have "stored_matching (applied_events (tables (ls_store ls'))) p
    \<and> set (applied_events (tables (ls_store ls))) \<subseteq> set (applied_events (tables (ls_store ls')))
    \<and> projection_meta (ls_store ls') = projection_meta (ls_store ls)
    \<and> connection_bindings (tables (ls_store ls')) = connection_bindings (tables (ls_store ls))
    \<and> checkpoints (ls_store ls') = checkpoints (ls_store ls)"
  proof (cases "stored (ev_event_id (pe_event p))")
    case (Some r)
    with run stored [OF Some] show ?thesis
      by (auto simp: project_prepared_def andThen_eq_Inr stored_matching_def)
  next
    case None
    obtain db st change where pe: "projectEvent p (tables (ls_store ls)) = Inr db"
      and log: "log_change g p ((ls_store ls)\<lparr>tables := db\<rparr>) = Inr (st, change)" and ls': "ls_store ls' = st"
      using run None by (auto simp: project_prepared_def andThen_eq_Inr)
    have "wf_db (tables (ls_store ls))" using ok by (simp add: store_ok_def)
    note keep = projectEvent_keeps_log_tables [OF pe this]
    have "ae_event_id (applied_row g p) = ev_event_id (pe_event p)" by (simp add: applied_row_def)
    then show ?thesis
      unfolding ls' stored_matching_def log_change_shape(1) [OF log] by (simp add: keep subset_insertI)
  qed
  then show "stored_matching (applied_events (tables (ls_store ls'))) p"
    and "set (applied_events (tables (ls_store ls))) \<subseteq> set (applied_events (tables (ls_store ls')))"
    and "projection_meta (ls_store ls') = projection_meta (ls_store ls)"
    and "connection_bindings (tables (ls_store ls')) = connection_bindings (tables (ls_store ls))"
    and "checkpoints (ls_store ls') = checkpoints (ls_store ls)" by blast+
qed

lemma stored_matching_mono: "stored_matching rows p \<Longrightarrow> set rows \<subseteq> set rows' \<Longrightarrow> stored_matching rows' p"
  by (auto simp: stored_matching_def)

lemma project_loop_stores:
  assumes "forEach events ls (project_prepared stored g) = Inr ls'"
    and "store_ok (ls_store ls) \<and> map_option pm_generation (projection_meta (ls_store ls)) = Some g"
    and "\<And>p r. p \<in> set events \<Longrightarrow> stored (ev_event_id (pe_event p)) = Some r
        \<Longrightarrow> r \<in> set (applied_events (tables (ls_store ls))) \<and> ae_event_id r = ev_event_id (pe_event p)"
  shows "(\<forall>p \<in> set events. stored_matching (applied_events (tables (ls_store ls'))) p)
    \<and> set (applied_events (tables (ls_store ls))) \<subseteq> set (applied_events (tables (ls_store ls')))
    \<and> projection_meta (ls_store ls') = projection_meta (ls_store ls)
    \<and> connection_bindings (tables (ls_store ls')) = connection_bindings (tables (ls_store ls))
    \<and> checkpoints (ls_store ls') = checkpoints (ls_store ls)"
  using assms
proof (induction events arbitrary: ls)
  case (Cons p events)
  then obtain ls1 where one: "project_prepared stored g p ls = Inr ls1"
    and rest: "forEach events ls1 (project_prepared stored g) = Inr ls'" by (auto elim: andThenE)
  note s = project_prepared_stores [OF one conjunct1 [OF Cons.prems(2)] Cons.prems(3)]
  have ok1: "store_ok (ls_store ls1) \<and> map_option pm_generation (projection_meta (ls_store ls1)) = Some g"
    using project_prepared_ok [OF one] Cons.prems(2) by simp
  have "(\<forall>p \<in> set events. stored_matching (applied_events (tables (ls_store ls'))) p)
    \<and> set (applied_events (tables (ls_store ls1))) \<subseteq> set (applied_events (tables (ls_store ls')))
    \<and> projection_meta (ls_store ls') = projection_meta (ls_store ls1)
    \<and> connection_bindings (tables (ls_store ls')) = connection_bindings (tables (ls_store ls1))
    \<and> checkpoints (ls_store ls') = checkpoints (ls_store ls1)"
    by (rule Cons.IH [OF rest ok1]) (use Cons.prems(3) s(2) in auto)
  then show ?case using s stored_matching_mono [OF s(1)] by auto
qed simp

text \<open>A batch whose events are all stored changes nothing.\<close>

lemma project_loop_stored:
  assumes "\<And>p. p \<in> set events \<Longrightarrow> \<exists>r. stored (ev_event_id (pe_event p)) = Some r \<and> assertStoredEventMatches r p = Inr ()"
  shows "forEach events ls (project_prepared stored g) = Inr ls"
  using assms
proof (induction events)
  case (Cons p events)
  obtain r where "stored (ev_event_id (pe_event p)) = Some r" "assertStoredEventMatches r p = Inr ()"
    using Cons.prems [of p] by auto
  then show ?case using Cons by (simp add: project_prepared_def)
qed simp

text \<open>Trimming leaves at most the bound.\<close>

lemma sorted_above_nth:
  fixes ss :: "int list"
  assumes "sorted_wrt (<) ss" and "n < length ss"
  shows "length (filter (\<lambda>s. \<not> s \<le> rev ss ! n) ss) = n"
proof -
  define k where "k = length ss - Suc n"
  have nth: "rev ss ! n = ss ! k" using assms(2) by (simp add: rev_nth k_def)
  have k: "k < length ss" using assms(2) by (simp add: k_def)
  have "filter (\<lambda>s. \<not> s \<le> ss ! k) ss = drop (Suc k) ss"
  proof -
    have le: "s \<le> ss ! k" if "s \<in> set (take (Suc k) ss)" for s
      using that assms(1) k
      by (auto simp: in_set_conv_nth sorted_wrt_iff_nth_less less_Suc_eq le_less)
    have gr: "\<not> s \<le> ss ! k" if "s \<in> set (drop (Suc k) ss)" for s
      using that assms(1) k
      by (auto simp: in_set_conv_nth sorted_wrt_iff_nth_less not_le)
    have "filter (\<lambda>s. \<not> s \<le> ss ! k) (take (Suc k) ss @ drop (Suc k) ss) = drop (Suc k) ss"
      unfolding filter_append using le gr by (auto simp: filter_empty_conv filter_id_conv)
    then show ?thesis by simp
  qed
  then show ?thesis using assms(2) by (simp add: nth k_def)
qed

lemma trimProjectionChanges_bound:
  assumes "change_log_ok st"
  shows "length (projection_changes (trimProjectionChanges st)) \<le> MAX_PROJECTION_CHANGES"
proof (cases "trim_boundary MAX_PROJECTION_CHANGES (projection_changes st)")
  case None
  then show ?thesis by (simp add: trimProjectionChanges_def trim_boundary_def Let_def split: if_splits)
next
  case (Some b)
  let ?ss = "map ch_sequence (projection_changes st)"
  have sorted: "sorted_wrt (<) ?ss" using change_log_okD(1) [OF assms] .
  then have "sort ?ss = ?ss"
    by (simp add: sort_key_id_if_sorted strict_sorted_imp_sorted)
  then have b: "b = rev ?ss ! MAX_PROJECTION_CHANGES" and n: "MAX_PROJECTION_CHANGES < length ?ss"
    using Some by (simp_all add: trim_boundary_def Let_def split: if_splits)
  have "length (del_where (\<lambda>c. ch_sequence c \<le> b) (projection_changes st))
      = length (filter (\<lambda>s. \<not> s \<le> b) ?ss)"
    by (simp add: del_where_def filter_map o_def)
  also have "\<dots> = MAX_PROJECTION_CHANGES" unfolding b by (rule sorted_above_nth [OF sorted n])
  finally show ?thesis using Some by (simp add: trimProjectionChanges_def)
qed

lemma trim_small: "length (projection_changes st) \<le> MAX_PROJECTION_CHANGES \<Longrightarrow> trimProjectionChanges st = st"
  by (simp add: trimProjectionChanges_def trim_boundary_def Let_def)

text \<open>Bindings that were ensured are there.\<close>

lemma ensure_binding_in:
  assumes "ensure_binding b rows = Inr rows'"
  shows "b \<in> set rows'" and "set rows \<subseteq> set rows'"
proof -
  show "set rows \<subseteq> set rows'"
    using assms by (auto simp: ensure_binding_def Let_def andThen_eq_Inr ins_row_eq_Inr split: if_splits)
  show "b \<in> set rows'"
  proof (cases "find (\<lambda>r. b_account_id r = b_account_id b) rows")
    case (Some r)
    with assms have "r = b" and "rows' = rows"
      by (auto simp: ensure_binding_def Let_def andThen_eq_Inr throwIf_eq_Inr dest!: find_SomeD
          intro: connection_binding.equality)
    with Some show ?thesis by (auto dest: find_SomeD)
  next
    case None
    with assms have "find (\<lambda>r. b_connection_id r = b_connection_id b) rows = None"
      by (auto simp: ensure_binding_def Let_def andThen_eq_Inr throwIf_eq_Inr find_None_set
          split: option.splits dest!: find_SomeD)
    with None assms show ?thesis
      by (auto simp: ensure_binding_def Let_def andThen_eq_Inr ins_row_eq_Inr)
  qed
qed

lemma ensure_binding_again:
  assumes "b \<in> set rows" and "distinct (map b_account_id rows)" and "distinct (map b_connection_id rows)"
  shows "ensure_binding b rows = Inr rows"
  using find_key_unique [OF assms(2,1)] find_key_unique [OF assms(3,1)] by (simp add: ensure_binding_def)

lemma ensure_loop_in:
  "forEach bs rows ensure_binding = Inr rows' \<Longrightarrow> set bs \<subseteq> set rows' \<and> set rows \<subseteq> set rows'"
proof (induction bs arbitrary: rows)
  case (Cons b bs)
  then show ?case
    by (auto simp: andThen_eq_Inr dest: ensure_binding_in) (meson ensure_binding_in subsetD)+
qed simp

lemma ensurePersistentBindings_again:
  assumes "set bs \<subseteq> set (connection_bindings db)" and "distinct (map b_account_id (connection_bindings db))"
    and "distinct (map b_connection_id (connection_bindings db))"
  shows "ensurePersistentBindings bs db = Inr db"
proof -
  have "forEach bs (connection_bindings db) ensure_binding = Inr (connection_bindings db)"
    using assms(1) by (induction bs) (simp_all add: ensure_binding_again [OF _ assms(2,3)])
  then show ?thesis by (simp add: ensurePersistentBindings_def)
qed

text \<open>A live checkpoint applied twice.\<close>

lemma find_store_checkpoint: "find_checkpoint (cp_kind row) (store_checkpoint row st) = Some row"
proof (cases "find_checkpoint (cp_kind row) st")
  case None
  then show ?thesis by (simp add: store_checkpoint_def find_checkpoint_def find_append)
next
  case (Some e)
  have "find (\<lambda>c. cp_kind c = cp_kind row) (upd_where (\<lambda>c. cp_kind c = cp_kind row) (\<lambda>_. row) (checkpoints st))
      = map_option (\<lambda>r. if cp_kind r = cp_kind row then row else r)
          (find (\<lambda>c. cp_kind c = cp_kind row) (checkpoints st))"
    by (rule find_upd_where) simp
  with Some show ?thesis by (auto simp: store_checkpoint_def find_checkpoint_def dest: find_SomeD)
qed

lemma compareObservedTuple_same: "valid_event_id x \<Longrightarrow> compareObservedTuple a x a x = Inr 0"
  by (simp add: compareObservedTuple_valid)

lemma applyLiveCheckpoint_again:
  assumes "applyLiveCheckpoint c meta n st = Inr st'"
    and "\<And>k. c = Some k \<Longrightarrow> valid_event_id (pc_lastEventId k)"
  shows "applyLiveCheckpoint c meta n' st' = Inr st'"
proof (cases c)
  case (Some k)
  let ?row = "live_checkpoint_row k (pm_generation meta) n"
  have kind: "cp_kind ?row = pc_kind k" by (simp add: live_checkpoint_row_def)
  have stored: "applyLiveCheckpoint (Some k) meta n' (store_checkpoint ?row st) = Inr (store_checkpoint ?row st)"
    using find_store_checkpoint [of ?row st] compareObservedTuple_same [OF assms(2) [OF Some]]
    by (simp add: applyLiveCheckpoint_def Let_def kind) (simp add: live_checkpoint_row_def)
  show ?thesis
  proof (cases "find_checkpoint (pc_kind k) st")
    case None
    with assms(1) Some stored show ?thesis by (simp add: applyLiveCheckpoint_def Let_def)
  next
    case (Some e)
    with assms(1) \<open>c = Some k\<close> have "st' = store_checkpoint ?row st \<or> st' = st \<and> applyLiveCheckpoint c meta n' st = Inr st"
      by (auto simp: applyLiveCheckpoint_def Let_def andThen_eq_Inr throwIf_eq_Inr split: option.splits if_splits)
    with stored \<open>c = Some k\<close> show ?thesis by auto
  qed
qed (use assms in \<open>simp add: applyLiveCheckpoint_def\<close>)

lemma applyLiveCheckpoint_keeps:
  assumes "applyLiveCheckpoint c meta n st = Inr st'"
  shows "tables st' = tables st \<and> projection_meta st' = projection_meta st
    \<and> projection_changes st' = projection_changes st"
  using assms
  by (auto simp: applyLiveCheckpoint_def Let_def andThen_eq_Inr store_checkpoint_def split: option.splits if_splits)

lemma recompute_nothing [simp]: "recomputeConversationSummaries [] db = db"
  by (simp add: recomputeConversationSummaries_def)

lemma projectPreparedEvents_again:
  assumes "\<And>p. p \<in> set events \<Longrightarrow> stored_matching (applied_events (tables st)) p" and "store_ok st"
    and "length (projection_changes st) \<le> MAX_PROJECTION_CHANGES"
  shows "projectPreparedEvents events n meta st
    = Inr (st, \<lparr>pj_appliedCount = 0, pj_duplicateCount = n, pj_lastSequence = readLastSequence st, pj_changes = []\<rparr>)"
proof -
  have d: "distinct (map ae_event_id (applied_events (tables st)))" using assms(2) by (simp add: store_ok_def)
  have "\<exists>r. readAppliedEvents (tables st) events (ev_event_id (pe_event p)) = Some r
      \<and> assertStoredEventMatches r p = Inr ()" if p: "p \<in> set events" for p
  proof -
    obtain r where "r \<in> set (applied_events (tables st))" "ae_event_id r = ev_event_id (pe_event p)"
      "assertStoredEventMatches r p = Inr ()"
      using assms(1) [OF p] by (auto simp: stored_matching_def)
    then show ?thesis
      using find_key_unique [OF d, of r] by (simp add: readAppliedEvents_lookup [OF d p])
  qed
  then show ?thesis
    using trim_small [OF assms(3)] by (simp add: projectPreparedEvents_def project_loop_stored Let_def)
qed

lemma projectPreparedEvents_stores:
  assumes "projectPreparedEvents events n meta st = Inr (st', r)" and "store_ok st"
    and "projection_meta st = Some meta"
  shows "(\<forall>p \<in> set events. stored_matching (applied_events (tables st')) p)
    \<and> length (projection_changes st') \<le> MAX_PROJECTION_CHANGES
    \<and> projection_meta st' = projection_meta st
    \<and> connection_bindings (tables st') = connection_bindings (tables st)"
  using assms(1)
proof (cases rule: projectPreparedEvents_shape)
  case (1 ls)
  have d: "distinct (map ae_event_id (applied_events (tables st)))" using assms(2) by (simp add: store_ok_def)
  have "(\<forall>p \<in> set events. stored_matching (applied_events (tables (ls_store ls))) p)
    \<and> set (applied_events (tables st)) \<subseteq> set (applied_events (tables (ls_store ls)))
    \<and> projection_meta (ls_store ls) = projection_meta st
    \<and> connection_bindings (tables (ls_store ls)) = connection_bindings (tables st)
    \<and> checkpoints (ls_store ls) = checkpoints st"
    using project_loop_stores [OF 1(1)] assms(2,3) readAppliedEvents_lookup [OF d]
    by (fastforce dest: find_SomeD)
  moreover have "change_log_ok (ls_store ls)"
    using batch.loop_inv [OF 1(1)] assms(2,3) by (simp add: store_ok_def)
  ultimately show ?thesis
    using trimProjectionChanges_bound [of "(ls_store ls)\<lparr>tables := recomputeConversationSummaries (ls_touched ls) (tables (ls_store ls))\<rparr>"]
    unfolding 1(2) by (auto simp: trimProjectionChanges_def split: option.splits)
qed

section \<open>A committed batch\<close>

lemma writeReplayCheckpoint_keeps:
  assumes "writeReplayCheckpoint c e a d n meta st = Inr st'"
  shows "tables st' = tables st \<and> projection_meta st' = projection_meta st
    \<and> projection_changes st' = projection_changes st"
  using assms by (auto simp: writeReplayCheckpoint_def andThen_eq_Inr store_checkpoint_def)

lemma applyPreparedBatch_committed:
  assumes "applyPreparedBatch input st = Inr (st', r, changes)" and "store_ok st"
  obtains (repeated) db where "ensurePersistentBindings (ai_connections input) (tables st) = Inr db"
      and "st' = st\<lparr>tables := db\<rparr>" and "changes = []" and "\<exists>c. ai_mode input = Replay (Some c)"
    | (projected) meta db st1 r1 where "projection_meta st = Some meta" and "store_ok (st\<lparr>tables := db\<rparr>)"
      and "ensurePersistentBindings (ai_connections input) (tables st) = Inr db"
      and "projectPreparedEvents (ai_preparedEvents input) (ai_inputEventCount input) meta (st\<lparr>tables := db\<rparr>)
             = Inr (st1, r1)"
      and "tables st' = tables st1 \<and> projection_meta st' = projection_meta st1
             \<and> projection_changes st' = projection_changes st1"
      and "r = result_of input meta (pj_appliedCount r1) (pj_duplicateCount r1) (pj_lastSequence r1)"
      and "\<And>c. ai_mode input = Live c \<Longrightarrow> changes = pj_changes r1
             \<and> map_option pc_kind c \<noteq> Some REPLAY_CHECKPOINT_KIND
             \<and> applyLiveCheckpoint c meta (pj_lastSequence r1) st1 = Inr st'"
      and "check_mode input meta = Inr ()" and "pm_tenant_id meta = ai_tenantId input"
  using assms(1)
proof (cases rule: applyPreparedBatch_parts)
  case (1 meta db)
  obtain rows where "db = (tables st)\<lparr>connection_bindings := rows\<rparr>"
    and "distinct (map b_account_id rows)" "distinct (map b_connection_id rows)"
    using ensurePersistentBindings_shape [OF 1(4)] assms(2) by (auto simp: store_ok_def)
  then have ok: "store_ok (st\<lparr>tables := db\<rparr>)" using assms(2) by (simp add: store_ok_def)
  from 1(5) show ?thesis
  proof (elim disjE exE conjE)
    fix c assume mode: "ai_mode input = Replay (Some c)"
      and run: "apply_replay input c meta (st\<lparr>tables := db\<rparr>) = Inr (st', r, changes)"
    show ?thesis
    proof (cases "check_replay_cursor c (find_checkpoint REPLAY_CHECKPOINT_KIND (st\<lparr>tables := db\<rparr>)) meta = Inr None")
      case True
      with run obtain st1 r1 where
        pp: "projectPreparedEvents (ai_preparedEvents input) (ai_inputEventCount input) meta (st\<lparr>tables := db\<rparr>) = Inr (st1, r1)"
        and cp: "writeReplayCheckpoint c (find_checkpoint REPLAY_CHECKPOINT_KIND (st\<lparr>tables := db\<rparr>)) (pj_appliedCount r1)
               (pj_duplicateCount r1) (pj_lastSequence r1) meta st1 = Inr st'"
        and r: "r = result_of input meta (pj_appliedCount r1) (pj_duplicateCount r1) (pj_lastSequence r1)"
        by (auto simp: apply_replay_def Let_def andThen_eq_Inr)
      show ?thesis
        by (rule projected [OF 1(1) ok 1(4) pp writeReplayCheckpoint_keeps [OF cp] r _ 1(3,2)]) (simp add: mode)
    next
      case False
      obtain x where x: "check_replay_cursor c (find_checkpoint REPLAY_CHECKPOINT_KIND (st\<lparr>tables := db\<rparr>)) meta = Inr x"
        using run unfolding apply_replay_def Let_def by (elim andThenE)
      with False obtain e where "x = Some e" by auto
      with run x have "st' = st\<lparr>tables := db\<rparr>" and "changes = []"
        by (simp_all add: apply_replay_def Let_def)
      then show ?thesis using mode by (intro repeated [OF 1(4)]) auto
    qed
  next
    fix c assume mode: "ai_mode input = Live c"
      and run: "apply_live input c meta (st\<lparr>tables := db\<rparr>) = Inr (st', r, changes)"
    then obtain st1 r1 where
      pp: "projectPreparedEvents (ai_preparedEvents input) (ai_inputEventCount input) meta (st\<lparr>tables := db\<rparr>) = Inr (st1, r1)"
      and cp: "applyLiveCheckpoint c meta (pj_lastSequence r1) st1 = Inr st'"
      and r: "r = result_of input meta (pj_appliedCount r1) (pj_duplicateCount r1) (pj_lastSequence r1)"
      and live: "changes = pj_changes r1" "map_option pc_kind c \<noteq> Some REPLAY_CHECKPOINT_KIND"
      by (auto simp: apply_live_def andThen_eq_Inr throwIf_eq_Inr)
    show ?thesis
      by (rule projected [OF 1(1) ok 1(4) pp applyLiveCheckpoint_keeps [OF cp] r _ 1(3,2)]) (use mode live cp in simp)
  qed
qed

end
