(* ===== verification/Tenant_Batch_Properties.thy ===== *)
theory Tenant_Batch_Properties
  imports Redelivery
begin

text \<open>
  The properties of one run of \<open>#applyPreparedBatch\<close>: the store stays well formed and the change log
  bounded, a client can follow the log without gaps, a redelivered batch changes nothing, and the
  summaries agree with the messages.
\<close>

section \<open>A sample store\<close>

definition sample_meta :: projection_meta_row where
  "sample_meta = \<lparr>pm_tenant_id = ''tnt_a'', pm_state = Ready, pm_generation = 1, pm_rebuild_id = None,
     pm_rebuild_started_at = None, pm_last_completed_rebuild_id = None, pm_last_failed_rebuild_id = None,
     pm_last_rebuild_failure_code = None, pm_initialized_at = ''2026-01-01T00:00:00.000Z'',
     pm_updated_at = ''2026-01-01T00:00:00.000Z''\<rparr>"

definition sample_store :: tenant_store where
  "sample_store = empty_store\<lparr>projection_meta := Some sample_meta\<rparr>"

definition sample_input :: apply_input where
  "sample_input = \<lparr>ai_tenantId = ''tnt_a'',
     ai_mode = Live (Some \<lparr>pc_kind = ''live'', pc_value = ''v1'', pc_lastObservedAt = ''2026-01-01T00:00:00.000Z'',
       pc_lastObservedMs = 5, pc_lastEventId = ''evt_a''\<rparr>),
     ai_rebuildId = None, ai_preparedEvents = [sample_created], ai_inputEventCount = 1,
     ai_connections = [pe_connection sample_created]\<rparr>"

definition sample_applied :: "tenant_store \<times> apply_result \<times> broadcast_change list" where
  "sample_applied = (case applyPreparedBatch sample_input sample_store of
     Inr r \<Rightarrow> r | Inl _ \<Rightarrow> (empty_store, result_of sample_input sample_meta 0 0 0, []))"

lemma sample_applied_runs: "applyPreparedBatch sample_input sample_store = Inr sample_applied"
proof -
  have "\<not> isl (applyPreparedBatch sample_input sample_store)"
    by code_simp
  then show ?thesis
    by (cases "applyPreparedBatch sample_input sample_store") (simp_all add: sample_applied_def)
qed

lemma store_ok_empty: "store_ok (empty_store\<lparr>projection_meta := m\<rparr>)"
  by (simp add: store_ok_def empty_store_def change_log_ok_def latest_sequence_def)
    (simp add: empty_db_def)

lemma sample_store_ok: "store_ok sample_store"
  by (simp add: sample_store_def store_ok_empty)

section \<open>Properties\<close>

text \<open>
  C6: the transaction keeps the invariant of the whole store. Whatever the batch, live or replayed,
  if it commits then the tables stay well formed, the change log stays gapless per identity with
  every change of the current generation, applied events, bindings and checkpoints keep their keys,
  and the log never exceeds \<open>MAX_PROJECTION_CHANGES\<close>.
\<close>

theorem applyPreparedBatch_keeps_store:
  assumes "applyPreparedBatch input st = Inr (st', r, changes)" and "store_ok st"
    and "length (projection_changes st) \<le> MAX_PROJECTION_CHANGES"
  shows "store_ok st' \<and> length (projection_changes st') \<le> MAX_PROJECTION_CHANGES"
proof
  show "store_ok st'" by (rule applyPreparedBatch_ok [OF assms(1,2)])
  show "length (projection_changes st') \<le> MAX_PROJECTION_CHANGES"
    using assms(1,2)
  proof (cases rule: applyPreparedBatch_committed)
    case (projected meta db st1 r1)
    then show ?thesis using projectPreparedEvents_stores [OF projected(4,2)] by simp
  qed (use assms(3) in simp)
qed

theorem applyPreparedBatch_keeps_store_witness:
  "store_ok sample_store \<and> store_ok (fst sample_applied)
   \<and> length (projection_changes (fst sample_applied)) \<le> MAX_PROJECTION_CHANGES"
  using applyPreparedBatch_keeps_store
    [of sample_input sample_store "fst sample_applied" "fst (snd sample_applied)" "snd (snd sample_applied)"]
    sample_applied_runs sample_store_ok
  by (simp add: sample_store_def empty_store_def)

text \<open>
  C7: the change log can be followed without gaps. On a well-formed store a page request for the
  current generation never throws; if the position is below the trimming floor the page is empty and
  asks for a reset, and otherwise it holds exactly the changes \<open>after + 1\<close>, \<open>after + 2\<close>, and so on up
  to the limit or the latest sequence, each of the requested identity, in order.
\<close>

lemma filter_upto: "a \<ge> f \<Longrightarrow> filter (\<lambda>s. s > a) [f + 1..l] = [a + 1..(l :: int)]"
proof (induction f l rule: upto.induct)
  case (1 f l)
  then show ?case
    by (cases "a = f") (auto simp: upto.simps [of "f + 1" l] filter_id_conv)
qed

lemma take_upto: "take n [a + 1..l] = [a + 1..min (a + int n) (l :: int)]"
  by (rule nth_equalityI) (auto simp: nth_upto)

theorem readChangePage_gapless:
  assumes "store_ok st" and "projection_meta st = Some meta" and "generation = pm_generation meta"
  shows "\<exists>page. readChangePage st iid generation after limit meta = Inr page
    \<and> pg_latest_sequence page = latest_sequence (identity_sequences st) iid
    \<and> pg_reset_required page = (after < latest_sequence (change_floors st) iid)
    \<and> (\<forall>c \<in> set (pg_items page). ch_identity_id c = iid)
    \<and> map ch_identity_sequence (pg_items page) =
        (if pg_reset_required page then []
         else [after + 1..min (after + int (case limit of None \<Rightarrow> MAX_PROJECTION_PAGE_SIZE | Some k \<Rightarrow> k))
                            (pg_latest_sequence page)])"
proof -
  let ?rows = "filter (\<lambda>c. ch_identity_id c = iid \<and> ch_identity_sequence c > after) (projection_changes st)"
  let ?l = "latest_sequence (identity_sequences st) iid" and ?f = "latest_sequence (change_floors st) iid"
  let ?n = "case limit of None \<Rightarrow> MAX_PROJECTION_PAGE_SIZE | Some k \<Rightarrow> k"
  have log: "map ch_identity_sequence (changes_of iid (projection_changes st)) = [?f + 1..?l]"
    using assms(1) change_log_okD(5) by (simp add: store_ok_def)
  have rows: "?rows = filter (\<lambda>c. ch_identity_sequence c > after) (changes_of iid (projection_changes st))"
    by (simp add: conj_commute)
  have seqs: "map ch_identity_sequence ?rows = [after + 1..?l]" if "\<not> after < ?f"
  proof -
    have "map ch_identity_sequence ?rows = filter (\<lambda>s. s > after) [?f + 1..?l]"
      unfolding rows log [symmetric] by (simp add: filter_map o_def)
    also have "\<dots> = [after + 1..?l]" using that by (intro filter_upto) simp
    finally show ?thesis .
  qed
  have sorted: "sort_key ch_identity_sequence ?rows = ?rows" if "\<not> after < ?f"
    by (rule sort_key_id_if_sorted) (simp only: seqs [OF that] sorted_upto)
  have gen: "ch_generation c = generation" if "c \<in> set (projection_changes st)" for c
    using that assms by (auto simp: store_ok_def list_all_iff)
  show ?thesis
  proof (cases "after < ?f")
    case True
    then show ?thesis using assms(3) by (simp add: readChangePage_def Let_def)
  next
    case False
    have "\<not> list_ex (\<lambda>c. ch_generation c \<noteq> generation \<or> ch_identity_id c \<noteq> iid) (take ?n ?rows)"
      by (auto simp: list_ex_iff dest!: in_set_takeD gen)
    then have "readChangePage st iid generation after limit meta
        = Inr \<lparr>pg_items = take ?n ?rows, pg_latest_sequence = ?l, pg_reset_required = False\<rparr>"
      using False assms(3) by (simp add: readChangePage_def Let_def sorted throwIf_def)
    then show ?thesis
      using False seqs by (auto simp: take_map [symmetric] take_upto dest: in_set_takeD)
  qed
qed

lemma sample_applied_ok: "store_ok (fst sample_applied)"
  by (rule applyPreparedBatch_ok [of sample_input sample_store _ "fst (snd sample_applied)" "snd (snd sample_applied)"])
    (simp_all add: sample_applied_runs sample_store_ok)

lemma sample_applied_meta: "projection_meta (fst sample_applied) = Some sample_meta"
  by code_simp

theorem readChangePage_gapless_witness:
  "store_ok (fst sample_applied) \<and> projection_meta (fst sample_applied) = Some sample_meta
   \<and> (\<exists>page. readChangePage (fst sample_applied) ''idn_a'' 1 0 None sample_meta = Inr page)"
proof -
  have "1 = pm_generation sample_meta" by (simp add: sample_meta_def)
  from readChangePage_gapless [OF sample_applied_ok sample_applied_meta this, of "''idn_a''" 0 None]
  show ?thesis using sample_applied_ok sample_applied_meta by blast
qed

text \<open>
  C8: redelivery is harmless. When a live batch that committed is delivered again, in the state the
  first run left, the second run commits too, leaves the store as it is, broadcasts nothing and
  reports every input event as a duplicate.
\<close>

theorem redelivered_batch_changes_nothing:
  assumes first: "applyPreparedBatch input st = Inr (st', r, changes)" and ok: "store_ok st"
    and live: "ai_mode input = Live checkpoint"
    and valid: "\<And>c. checkpoint = Some c \<Longrightarrow> valid_event_id (pc_lastEventId c)"
  shows "\<exists>r'. applyPreparedBatch input st' = Inr (st', r', []) \<and> ar_applied_count r' = 0
    \<and> ar_duplicate_count r' = ai_inputEventCount input"
  using first ok
proof (cases rule: applyPreparedBatch_committed)
  case (repeated db)
  with live show ?thesis by simp
next
  case (projected meta db st1 r1)
  let ?events = "ai_preparedEvents input"
  note stored = projectPreparedEvents_stores [OF projected(4,2)]
  have meta: "projection_meta st' = Some meta"
    using stored projected(1,5) by simp
  have ok': "store_ok st'" by (rule applyPreparedBatch_ok [OF first ok])
  note mode = projected(8) and tenant = projected(9)
  have "set (ai_connections input) \<subseteq> set (connection_bindings (tables st'))"
    using projected(3,5) stored projected(1)
    by (auto simp: ensurePersistentBindings_def andThen_eq_Inr dest!: ensure_loop_in)
  then have again: "ensurePersistentBindings (ai_connections input) (tables st') = Inr (tables st')"
    by (rule ensurePersistentBindings_again) (use ok' in \<open>simp_all add: store_ok_def\<close>)
  have "projectPreparedEvents ?events (ai_inputEventCount input) meta st'
      = Inr (st', \<lparr>pj_appliedCount = 0, pj_duplicateCount = ai_inputEventCount input,
          pj_lastSequence = readLastSequence st', pj_changes = []\<rparr>)"
    by (rule projectPreparedEvents_again) (use stored projected(1,5) ok' in auto)
  moreover have "applyLiveCheckpoint checkpoint meta (readLastSequence st') st' = Inr st'"
    using applyLiveCheckpoint_again projected(7) [OF live] valid by blast
  ultimately have "apply_live input checkpoint meta st' = Inr (st',
      result_of input meta 0 (ai_inputEventCount input) (readLastSequence st'), [])"
    using projected(7) [OF live] by (cases checkpoint) (simp_all add: apply_live_def)
  then show ?thesis
    by (simp add: applyPreparedBatch_def readProjectionMeta_def requireStoredTenant_def meta mode tenant again
        live catching_def result_of_def)
qed

theorem redelivered_batch_changes_nothing_witness:
  "\<exists>r'. applyPreparedBatch sample_input (fst sample_applied) = Inr (fst sample_applied, r', [])
     \<and> ar_applied_count r' = 0 \<and> ar_duplicate_count r' = 1"
proof -
  have run: "applyPreparedBatch sample_input sample_store
      = Inr (fst sample_applied, fst (snd sample_applied), snd (snd sample_applied))"
    by (simp add: sample_applied_runs)
  have mode: "ai_mode sample_input = Live (Some \<lparr>pc_kind = ''live'', pc_value = ''v1'',
      pc_lastObservedAt = ''2026-01-01T00:00:00.000Z'', pc_lastObservedMs = 5, pc_lastEventId = ''evt_a''\<rparr>)"
    by (simp add: sample_input_def)
  show ?thesis
    using redelivered_batch_changes_nothing [OF run sample_store_ok mode] valid_event_id_samples
    by (auto simp: sample_input_def)
qed

text \<open>
  C9: summaries agree with the messages. After a batch commits, every conversation that a newly
  applied event of the batch belongs to and that is not deleted shows the number of its undeleted
  messages, the number of unread inbound ones, the number of their undeleted attachments, and the
  first 280 characters of a message than which none is later; a deleted conversation shows nothing.
\<close>

lemma message_before_tuple: "message_before a b \<longleftrightarrow> (- m_occurred_ms a, m_id a) < (- m_occurred_ms b, m_id b)"
  by (auto simp: message_before_def)

lemma summary_ok_live:
  assumes "summary_ok db cid" and "readConversation db cid = Some c" and "c_deleted_at c = None"
  defines "active \<equiv> active_messages db (identity_id c) cid"
  shows "c_message_count c = int (length active)"
    and "c_unread_count c = int (length (filter (\<lambda>m. m_direction m = Inbound \<and> m_unread m = 1) active))"
    and "c_attachment_count c = (\<Sum>m \<leftarrow> active. live_attachment_count db (m_id m))"
    and "active = [] \<Longrightarrow> c_last_message_preview c = ''''"
    and "active \<noteq> [] \<Longrightarrow> \<exists>m \<in> set active. c_last_message_preview c = js_take 280 (m_body m)
           \<and> (\<forall>k \<in> set active. \<not> message_before k m)"
proof -
  have live: "c = live_summary c active c"
    and count: "\<And>m. m \<in> set active \<Longrightarrow> m_attachment_count m = live_attachment_count db (m_id m)"
    using assms(1-3) by (simp_all add: summary_ok_def active_def)
  show "c_message_count c = int (length active)"
    and "c_unread_count c = int (length (filter (\<lambda>m. m_direction m = Inbound \<and> m_unread m = 1) active))"
    by (subst live, simp add: live_summary_def Let_def)+
  have "c_attachment_count c = sum_list (map m_attachment_count active)"
    by (subst live, simp add: live_summary_def Let_def)
  also have "map m_attachment_count active = map (\<lambda>m. live_attachment_count db (m_id m)) active"
    using count by (intro map_cong) auto
  finally show "c_attachment_count c = (\<Sum>m \<leftarrow> active. live_attachment_count db (m_id m))" .
  have preview: "c_last_message_preview c
      = (case best_row message_before active of None \<Rightarrow> '''' | Some m \<Rightarrow> js_take 280 (m_body m))"
    by (subst live, simp add: live_summary_def Let_def)
  then show "c_last_message_preview c = ''''" if "active = []" using that by simp
  show "\<exists>m \<in> set active. c_last_message_preview c = js_take 280 (m_body m)
           \<and> (\<forall>k \<in> set active. \<not> message_before k m)" if ne: "active \<noteq> []"
  proof -
    obtain m where m: "best_row message_before active = Some m"
      using ne best_row_None by (metis option.exhaust)
    have "\<not> message_before k m" if "k \<in> set active" for k
      by (rule best_row_unbeaten [OF m _ _ that]) (auto simp: message_before_tuple)
    then show ?thesis using preview m best_row_in [OF m] by auto
  qed
qed

lemma project_loop_touches:
  assumes "forEach events ls (project_prepared stored g) = Inr ls'"
  shows "set (ls_touched ls) \<subseteq> set (ls_touched ls')
    \<and> (\<forall>p \<in> set events. stored (ev_event_id (pe_event p)) = None \<longrightarrow> touched_conversation p \<in> set (ls_touched ls'))"
  using assms
proof (induction events arbitrary: ls)
  case (Cons p events)
  then obtain ls1 where one: "project_prepared stored g p ls = Inr ls1"
    and rest: "forEach events ls1 (project_prepared stored g) = Inr ls'" by (auto elim: andThenE)
  have "set (ls_touched ls) \<subseteq> set (ls_touched ls1)"
    and "stored (ev_event_id (pe_event p)) = None \<Longrightarrow> touched_conversation p \<in> set (ls_touched ls1)"
    using one by (auto simp: project_prepared_def andThen_eq_Inr split: option.splits)
  then show ?case using Cons.IH [OF rest] by auto
qed simp

lemma projectPreparedEvents_summaries:
  assumes "projectPreparedEvents events n meta st = Inr (st', r)" and "store_ok st"
    and "p \<in> set events" and "ev_event_id (pe_event p) \<notin> ae_event_id ` set (applied_events (tables st))"
  shows "summary_ok (tables st') (touched_conversation p)"
  using assms(1)
proof (cases rule: projectPreparedEvents_shape)
  case (1 ls)
  have d: "distinct (map ae_event_id (applied_events (tables st)))" using assms(2) by (simp add: store_ok_def)
  have "readAppliedEvents (tables st) events (ev_event_id (pe_event p)) = None"
    using assms(4) by (simp add: readAppliedEvents_lookup [OF d assms(3)] find_key_fresh)
  then have "touched_conversation p \<in> set (ls_touched ls)"
    using project_loop_touches [OF 1(1)] assms(3) by blast
  then have "summary_ok (recomputeConversationSummaries (ls_touched ls) (tables (ls_store ls))) (touched_conversation p)"
    by (rule recompute_summary_ok)
  then show ?thesis
    unfolding 1(2) by (auto simp: trimProjectionChanges_def split: option.splits)
qed

theorem batch_summaries_agree:
  assumes "applyPreparedBatch input st = Inr (st', r, changes)" and "store_ok st"
    and "ai_mode input = Live checkpoint" and "p \<in> set (ai_preparedEvents input)"
    and "ev_event_id (pe_event p) \<notin> ae_event_id ` set (applied_events (tables st))"
    and "readConversation (tables st') (ev_conversation_id (pe_event p)) = Some c"
  shows "if c_deleted_at c \<noteq> None
     then c_message_count c = 0 \<and> c_unread_count c = 0 \<and> c_attachment_count c = 0 \<and> c_last_message_preview c = ''''
     else let active = active_messages (tables st') (identity_id c) (ev_conversation_id (pe_event p)) in
       c_message_count c = int (length active)
       \<and> c_unread_count c = int (length (filter (\<lambda>m. m_direction m = Inbound \<and> m_unread m = 1) active))
       \<and> c_attachment_count c = (\<Sum>m \<leftarrow> active. live_attachment_count (tables st') (m_id m))
       \<and> (active = [] \<and> c_last_message_preview c = ''''
          \<or> (\<exists>m \<in> set active. c_last_message_preview c = js_take 280 (m_body m)
               \<and> (\<forall>k \<in> set active. \<not> message_before k m)))"
proof -
  have ok: "summary_ok (tables st') (ev_conversation_id (pe_event p))"
    using assms(1,2)
  proof (cases rule: applyPreparedBatch_committed)
    case (projected meta db st1 r1)
    have "ev_event_id (pe_event p) \<notin> ae_event_id ` set (applied_events (tables (st\<lparr>tables := db\<rparr>)))"
      using assms(5) projected(3) by (auto simp: ensurePersistentBindings_def andThen_eq_Inr)
    then show ?thesis
      using projectPreparedEvents_summaries [OF projected(4,2) assms(4)] projected(5)
      by (simp add: touched_conversation_def)
  qed (use assms(3) in simp)
  show ?thesis
  proof (cases "c_deleted_at c = None")
    case True
    then show ?thesis using summary_ok_live [OF ok assms(6) True] by (simp add: Let_def) metis
  next
    case False
    then have "c = deleted_summary c c" using ok assms(6) by (auto simp: summary_ok_def)
    then have "c_message_count c = 0 \<and> c_unread_count c = 0 \<and> c_attachment_count c = 0 \<and> c_last_message_preview c = ''''"
      by (metis deleted_summary_counts)
    with False show ?thesis by simp
  qed
qed

lemma sample_conversation: "\<exists>c. readConversation (tables (fst sample_applied)) ''cnv_a'' = Some c \<and> c_deleted_at c = None"
proof -
  have "map_option c_deleted_at (readConversation (tables (fst sample_applied)) ''cnv_a'') = Some None"
    by code_simp
  then show ?thesis by auto
qed

theorem batch_summaries_agree_witness:
  "\<exists>c. readConversation (tables (fst sample_applied)) ''cnv_a'' = Some c
     \<and> c_message_count c = int (length (active_messages (tables (fst sample_applied)) (identity_id c) ''cnv_a''))"
proof -
  obtain c where c: "readConversation (tables (fst sample_applied)) ''cnv_a'' = Some c" "c_deleted_at c = None"
    using sample_conversation by blast
  have run: "applyPreparedBatch sample_input sample_store
      = Inr (fst sample_applied, fst (snd sample_applied), snd (snd sample_applied))"
    by (simp add: sample_applied_runs)
  have cid: "ev_conversation_id (pe_event sample_created) = ''cnv_a''"
    by (simp add: sample_created_def sample_event_def)
  show ?thesis
    using batch_summaries_agree [OF run sample_store_ok, of _ sample_created c] c
    by (simp add: sample_input_def cid sample_store_def empty_store_def empty_db_def Let_def)
qed

end
