(* ===== verification/Restore_Lease.thy ===== *)
theory Restore_Lease
  imports Js_Date Batch_Loop
begin

text \<open>
  \<open>restore/lease.ts\<close>: the lease a restore holds while it makes restored message state readable, and
  the tables of the control database it shares with the removal ledger. Every SQL statement is one
  definition, because other workers may run between two statements of one handler; the handlers
  compose them. A handler returns the database it leaves together with its result or its error,
  since a statement that ran stays committed when a later one throws.
\<close>

section \<open>The shared tables\<close>

datatype removal_reason = Requested | Expired | Retention
datatype removal_status = Active | Completed | Failed
datatype removal_purge_status = Purge_not_started | Purge_pending | Purge_complete | Purge_failed

record authority_key =
  ra_tenant_id :: string
  ra_resource_type :: string
  ra_resource_id :: string
  ra_content_generation :: string

record removal_scope = authority_key +
  ra_account_id :: "string option"
  ra_conversation_id :: "string option"
  ra_source_event_id :: "string option"
  ra_source_object_key :: "string option"

record authority_row = removal_scope +
  ra_id :: string
  ra_reason :: removal_reason
  ra_removed_at :: string
  ra_deletion_epoch :: int
  ra_status :: removal_status
  ra_purge_status :: removal_purge_status
  ra_failure_code :: "string option"
  ra_completed_at :: "string option"
  ra_created_at :: string
  ra_updated_at :: string

datatype expiry_status = Exp_scheduled | Exp_processing | Exp_completed | Exp_failed

record schedule_row = removal_scope +
  rs_id :: string
  rs_expires_at :: string
  rs_status :: expiry_status
  rs_lease_token :: "string option"
  rs_lease_expires_at :: "string option"
  rs_removal_id :: "string option"
  rs_last_error :: "string option"
  rs_created_at :: string
  rs_updated_at :: string

datatype lease_status = Lease_active | Lease_released | Lease_expired

record lease_row =
  rl_id :: string
  rl_tenant_id :: string
  rl_token_hash :: string
  rl_deletion_epoch :: int
  rl_ledger_head :: string
  rl_expires_at :: string
  rl_status :: lease_status
  rl_created_at :: string
  rl_updated_at :: string

record control_db =
  removal_authority :: "authority_row list"
  removal_expiry_schedule :: "schedule_row list"
  restore_activation_leases :: "lease_row list"

datatype control_error =
    Invalid_id | Invalid_clock | Invalid_epoch | Invalid_ttl | Invalid_text | Constraint_failed
  | Lease_already_active | Authority_changed | Lease_not_acquired
  | Removal_not_recorded | Removal_scope_conflict | Expiry_not_scheduled | Expiry_scope_conflict
  | Expiry_limit_invalid | Failure_code_required

type_synonym 'a control = "control_db \<times> (control_error + 'a)"

section \<open>Inputs\<close>

definition lower :: "char \<Rightarrow> bool" where
  "lower c = (97 \<le> (of_char c :: nat) \<and> (of_char c :: nat) \<le> 122)"

definition digit :: "char \<Rightarrow> bool" where
  "digit c = (48 \<le> (of_char c :: nat) \<and> (of_char c :: nat) \<le> 57)"

text \<open>\<open>CommunicatorIdSchema\<close>: \<open>/^[a-z]+_[a-z0-9_]+$/\<close>.\<close>

definition communicator_id :: "string \<Rightarrow> bool" where
  "communicator_id s =
     (let rest = dropWhile lower s in
      takeWhile lower s \<noteq> [] \<and> rest \<noteq> [] \<and> hd rest = CHR ''_'' \<and> tl rest \<noteq> []
      \<and> list_all (\<lambda>c. lower c \<or> digit c \<or> c = CHR ''_'') (tl rest))"

definition CommunicatorIdSchema_parse :: "string \<Rightarrow> control_error + string" where
  "CommunicatorIdSchema_parse s = (if communicator_id s then Inr s else Inl Invalid_id)"

definition timestampFor :: "int \<Rightarrow> control_error + string" where
  "timestampFor now = (case to_iso_string now of None \<Rightarrow> Inl Invalid_clock | Some s \<Rightarrow> Inr s)"

definition positiveEpoch :: "int \<Rightarrow> control_error + int" where
  "positiveEpoch value = (if \<not> is_safe_integer value \<or> value < 0 then Inl Invalid_epoch else Inr value)"

definition RESTORE_ACTIVATION_LEASE_TTL_MS :: int where
  "RESTORE_ACTIVATION_LEASE_TTL_MS = 10 * 60 * 1000"

definition RESTORE_ACTIVATION_LEASE_MAX_TTL_MS :: int where
  "RESTORE_ACTIVATION_LEASE_MAX_TTL_MS = 15 * 60 * 1000"

definition boundedTtl :: "int option \<Rightarrow> control_error + int" where
  "boundedTtl value =
     (let ttl = (case value of None \<Rightarrow> RESTORE_ACTIVATION_LEASE_TTL_MS | Some t \<Rightarrow> t) in
      if \<not> is_safe_integer ttl \<or> ttl < 1000 \<or> ttl > RESTORE_ACTIVATION_LEASE_MAX_TTL_MS
      then Inl Invalid_ttl else Inr ttl)"

definition requiredText :: "string \<Rightarrow> control_error + string" where
  "requiredText value =
     (let trimmed = js_trim value in
      if js_length trimmed = 0 \<or> js_length trimmed > 256 then Inl Invalid_text else Inr trimmed)"

section \<open>Statements\<close>

text \<open>\<open>COALESCE(MAX(deletion_epoch), 0)\<close> of one tenant.\<close>

definition tenant_epoch :: "control_db \<Rightarrow> string \<Rightarrow> int" where
  "tenant_epoch db tenant =
     fold max (map ra_deletion_epoch (filter (\<lambda>a. ra_tenant_id a = tenant) (removal_authority db))) 0"

text \<open>\<open>WHERE tenant_id = ? AND status = 'active' AND expires_at > ?\<close>.\<close>

definition lease_live :: "string \<Rightarrow> string \<Rightarrow> lease_row \<Rightarrow> bool" where
  "lease_live tenant nowIso l =
     (rl_tenant_id l = tenant \<and> rl_status l = Lease_active \<and> rl_expires_at l > nowIso)"

definition active_lease :: "control_db \<Rightarrow> string \<Rightarrow> string \<Rightarrow> bool" where
  "active_lease db tenant nowIso = exists_where (lease_live tenant nowIso) (restore_activation_leases db)"

definition expire_leases :: "string \<Rightarrow> string \<Rightarrow> control_db \<Rightarrow> control_db" where
  "expire_leases tenant nowIso db = db\<lparr>restore_activation_leases :=
     upd_where (\<lambda>l. rl_tenant_id l = tenant \<and> rl_status l = Lease_active \<and> rl_expires_at l \<le> nowIso)
       (\<lambda>l. l\<lparr>rl_status := Lease_expired, rl_updated_at := nowIso\<rparr>) (restore_activation_leases db)\<rparr>"

text \<open>
  The conditional \<open>INSERT \<dots> SELECT\<close> of a lease, with the primary key and the unique index on the
  active lease of a tenant: \<open>None\<close> is a violated constraint, the flag is \<open>meta.changes = 1\<close>.
\<close>

definition insert_lease ::
  "string \<Rightarrow> string \<Rightarrow> string \<Rightarrow> int \<Rightarrow> string \<Rightarrow> string \<Rightarrow> string \<Rightarrow> control_db \<Rightarrow> (control_db \<times> bool) option" where
  "insert_lease leaseId tenant hash expectedEpoch head expiresAtIso nowIso db =
     (if tenant_epoch db tenant = expectedEpoch \<and> \<not> active_lease db tenant nowIso then
        if list_ex (\<lambda>l. rl_id l = leaseId \<or> rl_tenant_id l = tenant \<and> rl_status l = Lease_active)
             (restore_activation_leases db)
        then None
        else Some (db\<lparr>restore_activation_leases := restore_activation_leases db
          @ [\<lparr>rl_id = leaseId, rl_tenant_id = tenant, rl_token_hash = hash, rl_deletion_epoch = expectedEpoch,
              rl_ledger_head = head, rl_expires_at = expiresAtIso, rl_status = Lease_active,
              rl_created_at = nowIso, rl_updated_at = nowIso\<rparr>]\<rparr>, True)
      else Some (db, False))"

text \<open>The three guarded \<open>UPDATE\<close>s; each returns whether exactly one row changed.\<close>

definition update_lease ::
  "(lease_row \<Rightarrow> bool) \<Rightarrow> (lease_row \<Rightarrow> lease_row) \<Rightarrow> control_db \<Rightarrow> control_db \<times> bool" where
  "update_lease P f db =
     (db\<lparr>restore_activation_leases := upd_where P f (restore_activation_leases db)\<rparr>,
      length (filter P (restore_activation_leases db)) = 1)"

definition holds_lease :: "string \<Rightarrow> string \<Rightarrow> string \<Rightarrow> lease_row \<Rightarrow> bool" where
  "holds_lease tenant leaseId hash l =
     (rl_tenant_id l = tenant \<and> rl_id l = leaseId \<and> rl_status l = Lease_active \<and> rl_token_hash l = hash)"

definition extend_lease :: "string \<Rightarrow> string \<Rightarrow> lease_row \<Rightarrow> lease_row" where
  "extend_lease expiresAtIso nowIso l = l\<lparr>rl_expires_at := expiresAtIso, rl_updated_at := nowIso\<rparr>"

section \<open>Handlers\<close>

text \<open>\<open>sha256Hex\<close> of the platform's \<open>crypto.subtle\<close> is the parameter \<open>tokenHash\<close>; the random token is an argument.\<close>

record acquired_lease =
  al_lease_id :: string
  al_tenant_id :: string
  al_lease_token :: string
  al_deletion_epoch :: int
  al_ledger_head :: string
  al_expires_at :: string

definition withInput :: "control_db \<Rightarrow> control_error + 'a \<Rightarrow> ('a \<Rightarrow> 'b control) \<Rightarrow> 'b control" where
  "withInput db m f = (case m of Inl e \<Rightarrow> (db, Inl e) | Inr x \<Rightarrow> f x)"

definition restoreActivationLeaseIsActive :: "control_db \<Rightarrow> string \<Rightarrow> int \<Rightarrow> bool control" where
  "restoreActivationLeaseIsActive db tenantId now =
     withInput db (CommunicatorIdSchema_parse tenantId) (\<lambda>tenant.
     withInput db (timestampFor now) (\<lambda>timestamp. (db, Inr (active_lease db tenant timestamp))))"

text \<open>The two statements of \<open>acquireRestoreActivationLease\<close> and the diagnosis when no row was inserted.\<close>

definition try_acquire ::
  "string \<Rightarrow> string \<Rightarrow> string \<Rightarrow> string \<Rightarrow> int \<Rightarrow> string \<Rightarrow> string \<Rightarrow> string \<Rightarrow> control_db \<Rightarrow> acquired_lease control" where
  "try_acquire hash leaseToken tenant leaseId epoch head nowIso expiresAtIso db =
     (let db1 = expire_leases tenant nowIso db in
      case insert_lease leaseId tenant hash epoch head expiresAtIso nowIso db1 of
        None \<Rightarrow> (db1, Inl Constraint_failed)
      | Some (db2, inserted) \<Rightarrow>
          (db2,
           if inserted then
             Inr \<lparr>al_lease_id = leaseId, al_tenant_id = tenant, al_lease_token = leaseToken,
                  al_deletion_epoch = epoch, al_ledger_head = head, al_expires_at = expiresAtIso\<rparr>
           else if active_lease db2 tenant nowIso then Inl Lease_already_active
           else if tenant_epoch db2 tenant \<noteq> epoch then Inl Authority_changed
           else Inl Lease_not_acquired))"

definition acquireRestoreActivationLease ::
  "(string \<Rightarrow> string) \<Rightarrow> string \<Rightarrow> string \<Rightarrow> string \<Rightarrow> int \<Rightarrow> string \<Rightarrow> int \<Rightarrow> int option \<Rightarrow> control_db
     \<Rightarrow> acquired_lease control" where
  "acquireRestoreActivationLease tokenHash leaseToken tenantId leaseId0 expectedEpoch expectedHead now ttlMs db =
     withInput db (CommunicatorIdSchema_parse tenantId) (\<lambda>tenant.
     withInput db (CommunicatorIdSchema_parse leaseId0) (\<lambda>leaseId.
     withInput db (positiveEpoch expectedEpoch) (\<lambda>epoch.
     withInput db (requiredText expectedHead) (\<lambda>head.
     withInput db (timestampFor now) (\<lambda>nowIso.
     withInput db (boundedTtl ttlMs) (\<lambda>ttl.
     withInput db (timestampFor (now + ttl)) (\<lambda>expiresAtIso.
     try_acquire (tokenHash leaseToken) leaseToken tenant leaseId epoch head nowIso expiresAtIso db)))))))"

definition renewRestoreActivationLease ::
  "(string \<Rightarrow> string) \<Rightarrow> string \<Rightarrow> string \<Rightarrow> string \<Rightarrow> int \<Rightarrow> int option \<Rightarrow> control_db \<Rightarrow> bool control" where
  "renewRestoreActivationLease tokenHash tenantId leaseId0 leaseToken now ttlMs db =
     withInput db (CommunicatorIdSchema_parse tenantId) (\<lambda>tenant.
     withInput db (CommunicatorIdSchema_parse leaseId0) (\<lambda>leaseId.
     withInput db (timestampFor now) (\<lambda>nowIso.
     withInput db (boundedTtl ttlMs) (\<lambda>ttl.
     withInput db (timestampFor (now + ttl)) (\<lambda>expiresAtIso.
     map_prod id Inr (update_lease
           (\<lambda>l. holds_lease tenant leaseId (tokenHash leaseToken) l \<and> rl_expires_at l > nowIso)
           (extend_lease expiresAtIso nowIso) db))))))"

definition renewRestoreActivationLeaseForCompletion ::
  "(string \<Rightarrow> string) \<Rightarrow> string \<Rightarrow> string \<Rightarrow> string \<Rightarrow> int \<Rightarrow> string \<Rightarrow> int \<Rightarrow> control_db \<Rightarrow> bool control" where
  "renewRestoreActivationLeaseForCompletion tokenHash tenantId leaseId0 leaseToken expectedEpoch expectedHead now db =
     withInput db (CommunicatorIdSchema_parse tenantId) (\<lambda>tenant.
     withInput db (CommunicatorIdSchema_parse leaseId0) (\<lambda>leaseId.
     withInput db (positiveEpoch expectedEpoch) (\<lambda>epoch.
     withInput db (requiredText expectedHead) (\<lambda>head.
     withInput db (timestampFor now) (\<lambda>nowIso.
     withInput db (timestampFor (now + RESTORE_ACTIVATION_LEASE_MAX_TTL_MS)) (\<lambda>expiresAtIso.
     map_prod id Inr (update_lease
           (\<lambda>l. holds_lease tenant leaseId (tokenHash leaseToken) l \<and> rl_expires_at l > nowIso
                  \<and> rl_deletion_epoch l = epoch \<and> rl_ledger_head l = head)
           (extend_lease expiresAtIso nowIso) db)))))))"

definition releaseRestoreActivationLease ::
  "(string \<Rightarrow> string) \<Rightarrow> string \<Rightarrow> string \<Rightarrow> string \<Rightarrow> int \<Rightarrow> control_db \<Rightarrow> bool control" where
  "releaseRestoreActivationLease tokenHash tenantId leaseId0 leaseToken now db =
     withInput db (CommunicatorIdSchema_parse tenantId) (\<lambda>tenant.
     withInput db (CommunicatorIdSchema_parse leaseId0) (\<lambda>leaseId.
     withInput db (timestampFor now) (\<lambda>nowIso.
     map_prod id Inr (update_lease (holds_lease tenant leaseId (tokenHash leaseToken))
           (\<lambda>l. l\<lparr>rl_status := Lease_released, rl_updated_at := nowIso\<rparr>) db))))"

end
