(* ===== verification/Removal_Ledger.thy ===== *)
theory Removal_Ledger
  imports Restore_Lease "HOL-Library.Product_Lexorder"
begin

text \<open>
  \<open>removals/ledger.ts\<close> and the lookups of \<open>removals/service.ts\<close>: the non-rebuildable ledger of removal
  authorities, each with a tenant-wide deletion epoch, and the durable schedule of expiries that
  record through it.
\<close>

section \<open>Recording a removal\<close>

record removal_input = removal_scope +
  ri_reason :: removal_reason
  ri_removed_at :: "string option"

abbreviation key_of :: "'a authority_key_scheme \<Rightarrow> string \<times> string \<times> string \<times> string" where
  "key_of r \<equiv> (ra_tenant_id r, ra_resource_type r, ra_resource_id r, ra_content_generation r)"

text \<open>
  \<open>COALESCE(MAX(deletion_epoch), 0) + 1 \<dots> FROM removal_authority WHERE tenant_id = ? AND NOT EXISTS
  (\<dots> active lease \<dots>)\<close>. An aggregate query without \<open>GROUP BY\<close> yields one row even when its \<open>WHERE\<close>
  selects none, so the statement inserts in either case and the lease only changes the epoch.
\<close>

definition allocate_epoch :: "control_db \<Rightarrow> string \<Rightarrow> string \<Rightarrow> int" where
  "allocate_epoch db tenant nowIso =
     fold max (map ra_deletion_epoch
       (filter (\<lambda>a. ra_tenant_id a = tenant \<and> \<not> active_lease db tenant nowIso) (removal_authority db))) 0 + 1"

definition new_authority :: "removal_input \<Rightarrow> string \<Rightarrow> string \<Rightarrow> int \<Rightarrow> authority_row" where
  "new_authority input rid createdAt epoch =
     \<lparr>ra_tenant_id = ra_tenant_id input, ra_resource_type = ra_resource_type input,
      ra_resource_id = ra_resource_id input, ra_content_generation = ra_content_generation input,
      ra_account_id = ra_account_id input, ra_conversation_id = ra_conversation_id input,
      ra_source_event_id = ra_source_event_id input, ra_source_object_key = ra_source_object_key input,
      ra_id = rid, ra_reason = ri_reason input,
      ra_removed_at = (case ri_removed_at input of None \<Rightarrow> createdAt | Some t \<Rightarrow> t),
      ra_deletion_epoch = epoch, ra_status = Active, ra_purge_status = Purge_not_started,
      ra_failure_code = None, ra_completed_at = None, ra_created_at = createdAt, ra_updated_at = createdAt\<rparr>"

text \<open>\<open>INSERT OR IGNORE\<close>: nothing happens when the primary key or the resource key is taken.\<close>

definition insert_authority :: "removal_input \<Rightarrow> string \<Rightarrow> string \<Rightarrow> control_db \<Rightarrow> control_db" where
  "insert_authority input rid createdAt db =
     (let row = new_authority input rid createdAt (allocate_epoch db (ra_tenant_id input) createdAt) in
      if list_ex (\<lambda>a. ra_id a = rid \<or> key_of a = key_of input) (removal_authority db) then db
      else db\<lparr>removal_authority := removal_authority db @ [row]\<rparr>)"

definition readAuthorityForInput :: "'a authority_key_scheme \<Rightarrow> control_db \<Rightarrow> authority_row option" where
  "readAuthorityForInput input db = find (\<lambda>a. key_of a = key_of input) (removal_authority db)"

definition scopeMatches :: "authority_row \<Rightarrow> removal_input \<Rightarrow> bool" where
  "scopeMatches authority input =
     (ra_account_id authority = ra_account_id input \<and> ra_conversation_id authority = ra_conversation_id input)"

text \<open>\<open>recordRemoval\<close>; \<open>rid\<close> is the \<open>randomIdentifier("removal")\<close> it draws.\<close>

definition recordRemoval :: "string \<Rightarrow> removal_input \<Rightarrow> int \<Rightarrow> control_db \<Rightarrow> authority_row control" where
  "recordRemoval rid input now db =
     withInput db (timestampFor now) (\<lambda>createdAt.
     let db1 = insert_authority input rid createdAt db in
     case readAuthorityForInput input db1 of
       None \<Rightarrow> (db1, Inl Removal_not_recorded)
     | Some authority \<Rightarrow>
         if \<not> scopeMatches authority input then (db1, Inl Removal_scope_conflict) else (db1, Inr authority))"

section \<open>Reading authorities\<close>

record authority_lookup =
  lk_tenantId :: string
  lk_resourceType :: string
  lk_resourceId :: string
  lk_contentGeneration :: "string option"
  lk_accountId :: "string option option"
  lk_conversationId :: "string option option"

definition lookup_matches :: "authority_lookup \<Rightarrow> authority_row \<Rightarrow> bool" where
  "lookup_matches lookup a =
     (ra_tenant_id a = lk_tenantId lookup \<and> ra_resource_type a = lk_resourceType lookup
      \<and> ra_resource_id a = lk_resourceId lookup
      \<and> (case lk_contentGeneration lookup of None \<Rightarrow> True | Some g \<Rightarrow> ra_content_generation a = g)
      \<and> (case lk_accountId lookup of None \<Rightarrow> True | Some acc \<Rightarrow> ra_account_id a = acc)
      \<and> (case lk_conversationId lookup of None \<Rightarrow> True | Some c \<Rightarrow> ra_conversation_id a = c))"

text \<open>\<open>ORDER BY deletion_epoch DESC, removed_at DESC, id DESC LIMIT 1\<close>.\<close>

definition authority_beats :: "authority_row \<Rightarrow> authority_row \<Rightarrow> bool" where
  "authority_beats a b =
     ((ra_deletion_epoch b, ra_removed_at b, ra_id b) < (ra_deletion_epoch a, ra_removed_at a, ra_id a))"

definition readRemovalAuthority :: "control_db \<Rightarrow> authority_lookup \<Rightarrow> authority_row option" where
  "readRemovalAuthority db lookup =
     best_row authority_beats (filter (lookup_matches lookup) (removal_authority db))"

definition listRemovalAuthorities :: "control_db \<Rightarrow> string \<Rightarrow> authority_row list" where
  "listRemovalAuthorities db tenant =
     sort_key (\<lambda>a. (ra_deletion_epoch a, ra_id a)) (filter (\<lambda>a. ra_tenant_id a = tenant) (removal_authority db))"

definition readTenantDeletionEpoch :: "control_db \<Rightarrow> string \<Rightarrow> int" where
  "readTenantDeletionEpoch db tenant = tenant_epoch db tenant"

definition readAuthorizedResourceRemoval ::
  "control_db \<Rightarrow> string \<Rightarrow> string \<Rightarrow> string \<Rightarrow> string \<Rightarrow> string \<Rightarrow> authority_row option" where
  "readAuthorizedResourceRemoval db tenant resourceType resourceId account conversation =
     (case readRemovalAuthority db \<lparr>lk_tenantId = tenant, lk_resourceType = resourceType,
         lk_resourceId = resourceId, lk_contentGeneration = None, lk_accountId = None, lk_conversationId = None\<rparr> of
        None \<Rightarrow> None
      | Some a \<Rightarrow>
          if ra_account_id a \<noteq> None \<and> ra_account_id a \<noteq> Some account then None
          else if ra_conversation_id a \<noteq> None \<and> ra_conversation_id a \<noteq> Some conversation then None
          else Some a)"

definition readAuthorizedMessageRemoval ::
  "control_db \<Rightarrow> string \<Rightarrow> string \<Rightarrow> string \<Rightarrow> string \<Rightarrow> authority_row option" where
  "readAuthorizedMessageRemoval db tenant messageId account conversation =
     (case readAuthorizedResourceRemoval db tenant ''message'' messageId account conversation of
        Some a \<Rightarrow> Some a
      | None \<Rightarrow> readAuthorizedResourceRemoval db tenant ''conversation'' conversation account conversation)"

section \<open>Completion\<close>

definition update_authority ::
  "string \<Rightarrow> string \<Rightarrow> (authority_row \<Rightarrow> authority_row) \<Rightarrow> control_db \<Rightarrow> control_db" where
  "update_authority tenant removalId f db = db\<lparr>removal_authority :=
     upd_where (\<lambda>a. ra_tenant_id a = tenant \<and> ra_id a = removalId) f (removal_authority db)\<rparr>"

definition readAuthorityById :: "control_db \<Rightarrow> string \<Rightarrow> string \<Rightarrow> authority_row option" where
  "readAuthorityById db tenant removalId =
     find (\<lambda>a. ra_tenant_id a = tenant \<and> ra_id a = removalId) (removal_authority db)"

definition markRemovalSuppressionComplete ::
  "string \<Rightarrow> string \<Rightarrow> int \<Rightarrow> control_db \<Rightarrow> authority_row option control" where
  "markRemovalSuppressionComplete tenant removalId completedAt db =
     withInput db (timestampFor completedAt) (\<lambda>timestamp.
     let db1 = update_authority tenant removalId
           (\<lambda>a. a\<lparr>ra_status := Completed,
                  ra_completed_at := (case ra_completed_at a of None \<Rightarrow> Some timestamp | Some t \<Rightarrow> Some t),
                  ra_failure_code := None, ra_updated_at := timestamp\<rparr>) db
     in (db1, Inr (readAuthorityById db1 tenant removalId)))"

definition markRemovalFailed ::
  "string \<Rightarrow> string \<Rightarrow> string \<Rightarrow> int \<Rightarrow> control_db \<Rightarrow> authority_row option control" where
  "markRemovalFailed tenant removalId failureCode updatedAt db =
     (let code = js_take 512 (js_trim failureCode) in
      if code = [] then (db, Inl Failure_code_required)
      else withInput db (timestampFor updatedAt) (\<lambda>timestamp.
        let db1 = update_authority tenant removalId
              (\<lambda>a. a\<lparr>ra_status := Failed, ra_failure_code := Some code, ra_updated_at := timestamp\<rparr>) db
        in (db1, Inr (readAuthorityById db1 tenant removalId))))"

section \<open>Scheduled expiry\<close>

definition REMOVAL_EXPIRY_LEASE_MS :: int where
  "REMOVAL_EXPIRY_LEASE_MS = 60000"

definition MAX_REMOVAL_EXPIRY_BATCH :: nat where
  "MAX_REMOVAL_EXPIRY_BATCH = 100"

definition new_schedule :: "removal_scope \<Rightarrow> string \<Rightarrow> string \<Rightarrow> string \<Rightarrow> schedule_row" where
  "new_schedule input sid expiresAt timestamp =
     \<lparr>ra_tenant_id = ra_tenant_id input, ra_resource_type = ra_resource_type input,
      ra_resource_id = ra_resource_id input, ra_content_generation = ra_content_generation input,
      ra_account_id = ra_account_id input, ra_conversation_id = ra_conversation_id input,
      ra_source_event_id = ra_source_event_id input, ra_source_object_key = ra_source_object_key input,
      rs_id = sid, rs_expires_at = expiresAt, rs_status = Exp_scheduled, rs_lease_token = None,
      rs_lease_expires_at = None, rs_removal_id = None, rs_last_error = None,
      rs_created_at = timestamp, rs_updated_at = timestamp\<rparr>"

definition insert_schedule :: "removal_scope \<Rightarrow> string \<Rightarrow> string \<Rightarrow> string \<Rightarrow> control_db \<Rightarrow> control_db" where
  "insert_schedule input sid expiresAt timestamp db =
     (if list_ex (\<lambda>s. rs_id s = sid \<or> key_of s = key_of input) (removal_expiry_schedule db) then db
      else db\<lparr>removal_expiry_schedule := removal_expiry_schedule db @ [new_schedule input sid expiresAt timestamp]\<rparr>)"

definition scheduleRemovalExpiry ::
  "string \<Rightarrow> removal_scope \<Rightarrow> string \<Rightarrow> int \<Rightarrow> control_db \<Rightarrow> schedule_row control" where
  "scheduleRemovalExpiry sid input expiresAt now db =
     withInput db (timestampFor now) (\<lambda>timestamp.
     let db1 = insert_schedule input sid expiresAt timestamp db in
     case find (\<lambda>s. key_of s = key_of input) (removal_expiry_schedule db1) of
       None \<Rightarrow> (db1, Inl Expiry_not_scheduled)
     | Some schedule \<Rightarrow>
         if ra_account_id schedule \<noteq> ra_account_id input \<or> ra_conversation_id schedule \<noteq> ra_conversation_id input
         then (db1, Inl Expiry_scope_conflict) else (db1, Inr schedule))"

definition expiry_due :: "string \<Rightarrow> schedule_row \<Rightarrow> bool" where
  "expiry_due nowIso s =
     (rs_expires_at s \<le> nowIso
      \<and> (rs_status s = Exp_scheduled \<or> rs_status s = Exp_failed
         \<or> rs_status s = Exp_processing
           \<and> (case rs_lease_expires_at s of None \<Rightarrow> True | Some t \<Rightarrow> t \<le> nowIso)))"

definition claim_schedule :: "string \<Rightarrow> string \<Rightarrow> string \<Rightarrow> string \<Rightarrow> control_db \<Rightarrow> control_db \<times> bool" where
  "claim_schedule sid token leaseUntilIso nowIso db =
     (db\<lparr>removal_expiry_schedule := upd_where (\<lambda>s. rs_id s = sid \<and> expiry_due nowIso s)
          (\<lambda>s. s\<lparr>rs_status := Exp_processing, rs_lease_token := Some token,
                 rs_lease_expires_at := Some leaseUntilIso, rs_last_error := None, rs_updated_at := nowIso\<rparr>)
          (removal_expiry_schedule db)\<rparr>,
      length (filter (\<lambda>s. rs_id s = sid \<and> expiry_due nowIso s) (removal_expiry_schedule db)) = 1)"

text \<open>The acknowledgement of a claimed row, guarded by the lease token.\<close>

definition finish_schedule ::
  "string \<Rightarrow> string \<Rightarrow> string \<Rightarrow> control_error + string \<Rightarrow> (control_error \<Rightarrow> string) \<Rightarrow> control_db \<Rightarrow> control_db" where
  "finish_schedule sid token nowIso outcome message db =
     db\<lparr>removal_expiry_schedule := upd_where (\<lambda>s. rs_id s = sid \<and> rs_lease_token s = Some token)
          (\<lambda>s. case outcome of
             Inr removalId \<Rightarrow> s\<lparr>rs_status := Exp_completed, rs_removal_id := Some removalId, rs_lease_token := None,
               rs_lease_expires_at := None, rs_last_error := None, rs_updated_at := nowIso\<rparr>
           | Inl e \<Rightarrow> s\<lparr>rs_status := Exp_failed, rs_lease_token := None, rs_lease_expires_at := None,
               rs_last_error := Some (message e), rs_updated_at := nowIso\<rparr>)
          (removal_expiry_schedule db)\<rparr>"

definition expiry_input :: "schedule_row \<Rightarrow> removal_input" where
  "expiry_input s =
     \<lparr>ra_tenant_id = ra_tenant_id s, ra_resource_type = ra_resource_type s,
      ra_resource_id = ra_resource_id s, ra_content_generation = ra_content_generation s,
      ra_account_id = ra_account_id s, ra_conversation_id = ra_conversation_id s,
      ra_source_event_id = ra_source_event_id s, ra_source_object_key = ra_source_object_key s,
      ri_reason = Expired, ri_removed_at = Some (rs_expires_at s)\<rparr>"

text \<open>\<open>errorMessage\<close> on the errors \<open>recordRemoval\<close> throws.\<close>

definition errorMessage :: "control_error \<Rightarrow> string" where
  "errorMessage e =
     (case e of
        Removal_not_recorded \<Rightarrow> ''removal authority was not recorded''
      | Removal_scope_conflict \<Rightarrow> ''removal authority scope conflict''
      | Invalid_clock \<Rightarrow> ''Invalid time value''
      | _ \<Rightarrow> ''removal expiry failed'')"

record tick_result =
  tr_claimed :: nat
  tr_completed :: "authority_row list"
  tr_failed :: "(string \<times> string) list"

text \<open>
  One candidate of the tick. \<open>tokens\<close> and \<open>rids\<close> are the two random identifiers drawn for it.
\<close>

definition expire_candidate ::
  "(string \<Rightarrow> string) \<Rightarrow> (string \<Rightarrow> string) \<Rightarrow> int \<Rightarrow> string \<Rightarrow> string \<Rightarrow> schedule_row
     \<Rightarrow> control_db \<times> tick_result \<Rightarrow> control_db \<times> tick_result" where
  "expire_candidate tokens rids now nowIso leaseUntilIso s acc =
     (let (db, r) = acc; sid = rs_id s;
          (db1, claimed) = claim_schedule sid (tokens sid) leaseUntilIso nowIso db
      in if \<not> claimed then (db1, r)
         else
           let (db2, outcome) = recordRemoval (rids sid) (expiry_input s) now db1;
               db3 = finish_schedule sid (tokens sid) nowIso
                       (case outcome of Inl e \<Rightarrow> Inl e | Inr a \<Rightarrow> Inr (ra_id a)) errorMessage db2
           in (db3,
               case outcome of
                 Inr a \<Rightarrow> r\<lparr>tr_claimed := tr_claimed r + 1, tr_completed := tr_completed r @ [a]\<rparr>
               | Inl e \<Rightarrow> r\<lparr>tr_claimed := tr_claimed r + 1, tr_failed := tr_failed r @ [(sid, errorMessage e)]\<rparr>))"

definition runRemovalExpiryTick ::
  "(string \<Rightarrow> string) \<Rightarrow> (string \<Rightarrow> string) \<Rightarrow> int \<Rightarrow> int \<Rightarrow> control_db \<Rightarrow> tick_result control" where
  "runRemovalExpiryTick tokens rids now limit db =
     (if \<not> is_safe_integer limit \<or> limit < 1 \<or> limit > int MAX_REMOVAL_EXPIRY_BATCH
      then (db, Inl Expiry_limit_invalid)
      else withInput db (timestampFor now) (\<lambda>nowIso.
        withInput db (timestampFor (now + REMOVAL_EXPIRY_LEASE_MS)) (\<lambda>leaseUntilIso.
        let candidates = take (nat limit) (sort_key (\<lambda>s. (rs_expires_at s, rs_id s))
              (filter (expiry_due nowIso) (removal_expiry_schedule db)));
            (db1, r) = fold (expire_candidate tokens rids now nowIso leaseUntilIso) candidates
              (db, \<lparr>tr_claimed = 0, tr_completed = [], tr_failed = []\<rparr>)
        in (db1, Inr r))))"

end
