(* ===== verification/Ledger_Steps.thy ===== *)
theory Ledger_Steps
  imports Removal_Ledger
begin

text \<open>
  The control database under any interleaving of workers: one step is one SQL statement of
  \<open>restore/lease.ts\<close> or \<open>removals/ledger.ts\<close>. Every handler is a sequence of such steps, so what every
  step keeps holds whatever other workers do between the statements of a handler.
\<close>

inductive control_step :: "control_db \<Rightarrow> control_db \<Rightarrow> bool" where
  step_expire_leases: "control_step db (expire_leases tenant nowIso db)"
| step_insert_lease: "insert_lease leaseId tenant hash epoch head expiresAtIso nowIso db = Some (db', changed)
    \<Longrightarrow> control_step db db'"
| step_extend_lease: "(\<And>l. P l \<Longrightarrow> holds_lease tenant leaseId hash l)
    \<Longrightarrow> control_step db (fst (update_lease P (extend_lease expiresAtIso nowIso) db))"
| step_release_lease: "control_step db (fst (update_lease (holds_lease tenant leaseId hash)
    (\<lambda>l. l\<lparr>rl_status := Lease_released, rl_updated_at := nowIso\<rparr>) db))"
| step_insert_authority: "control_step db (insert_authority input rid createdAt db)"
| step_complete_authority: "control_step db (update_authority tenant removalId
    (\<lambda>a. a\<lparr>ra_status := Completed,
           ra_completed_at := (case ra_completed_at a of None \<Rightarrow> Some timestamp | Some t \<Rightarrow> Some t),
           ra_failure_code := None, ra_updated_at := timestamp\<rparr>) db)"
| step_fail_authority: "control_step db (update_authority tenant removalId
    (\<lambda>a. a\<lparr>ra_status := Failed, ra_failure_code := Some code, ra_updated_at := timestamp\<rparr>) db)"
| step_insert_schedule: "control_step db (insert_schedule scope sid expiresAt timestamp db)"
| step_claim_schedule: "control_step db (fst (claim_schedule sid token leaseUntilIso nowIso db))"
| step_finish_schedule: "control_step db (finish_schedule sid token nowIso outcome message db)"

section \<open>Handlers are sequences of steps\<close>

lemma withInput_fst:
  assumes "\<And>x. m = Inr x \<Longrightarrow> control_step\<^sup>*\<^sup>* db (fst (f x))"
  shows "control_step\<^sup>*\<^sup>* db (fst (withInput db m f))"
  using assms by (cases m) (auto simp: withInput_def)

lemma try_acquire_steps: "control_step\<^sup>*\<^sup>* db (fst (try_acquire hash token tenant leaseId epoch head nowIso expiresAtIso db))"
proof -
  have one: "control_step db (expire_leases tenant nowIso db)" by (rule step_expire_leases)
  then show ?thesis
    by (auto simp: try_acquire_def Let_def split: option.splits
        intro: converse_rtranclp_into_rtranclp step_insert_lease)
qed

lemma fst_map_prod_id [simp]: "fst (map_prod id f x) = fst x"
  by (cases x) simp

lemma lease_handler_steps:
  "control_step\<^sup>*\<^sup>* db (fst (acquireRestoreActivationLease tokenHash token tenantId lid epoch ledgerHead now ttl db))"
  "control_step\<^sup>*\<^sup>* db (fst (renewRestoreActivationLease tokenHash tenantId lid token now ttl db))"
  "control_step\<^sup>*\<^sup>* db (fst (renewRestoreActivationLeaseForCompletion tokenHash tenantId lid token epoch ledgerHead now db))"
  "control_step\<^sup>*\<^sup>* db (fst (releaseRestoreActivationLease tokenHash tenantId lid token now db))"
  unfolding acquireRestoreActivationLease_def renewRestoreActivationLease_def
    renewRestoreActivationLeaseForCompletion_def releaseRestoreActivationLease_def
  by (intro withInput_fst; (rule try_acquire_steps | simp only: fst_map_prod_id,
      rule r_into_rtranclp, (rule step_release_lease | rule step_extend_lease, erule conjunct1)))+

lemma recordRemoval_step: "control_step db (fst (recordRemoval rid input now db)) \<or> fst (recordRemoval rid input now db) = db"
  by (cases "timestampFor now")
    (auto simp: recordRemoval_def withInput_def Let_def step_insert_authority split: option.splits)

lemma removal_handler_steps:
  "control_step\<^sup>*\<^sup>* db (fst (recordRemoval rid input now db))"
  "control_step\<^sup>*\<^sup>* db (fst (scheduleRemovalExpiry sid scope expiresAt now db))"
  "control_step\<^sup>*\<^sup>* db (fst (markRemovalSuppressionComplete tenant removalId now db))"
  "control_step\<^sup>*\<^sup>* db (fst (markRemovalFailed tenant removalId code now db))"
proof -
  show "control_step\<^sup>*\<^sup>* db (fst (recordRemoval rid input now db))"
    using recordRemoval_step [of db rid input now] by auto
  show "control_step\<^sup>*\<^sup>* db (fst (scheduleRemovalExpiry sid scope expiresAt now db))"
    unfolding scheduleRemovalExpiry_def Let_def
    by (intro withInput_fst) (auto intro: r_into_rtranclp step_insert_schedule split: option.splits)
  show "control_step\<^sup>*\<^sup>* db (fst (markRemovalSuppressionComplete tenant removalId now db))"
    unfolding markRemovalSuppressionComplete_def Let_def
    by (intro withInput_fst) (auto intro: r_into_rtranclp step_complete_authority)
  show "control_step\<^sup>*\<^sup>* db (fst (markRemovalFailed tenant removalId code now db))"
    by (cases "timestampFor now")
      (auto simp: markRemovalFailed_def withInput_def Let_def intro: r_into_rtranclp step_fail_authority)
qed

lemma expire_candidate_fst:
  "fst (expire_candidate tokens rids now nowIso leaseUntilIso s (db, r)) =
     (let c = claim_schedule (rs_id s) (tokens (rs_id s)) leaseUntilIso nowIso db;
          rr = recordRemoval (rids (rs_id s)) (expiry_input s) now (fst c)
      in if \<not> snd c then fst c
         else finish_schedule (rs_id s) (tokens (rs_id s)) nowIso
           (case snd rr of Inl e \<Rightarrow> Inl e | Inr a \<Rightarrow> Inr (ra_id a)) errorMessage (fst rr))"
  by (simp add: expire_candidate_def Let_def case_prod_beta)

lemma expire_candidate_steps:
  "control_step\<^sup>*\<^sup>* (fst acc) (fst (expire_candidate tokens rids now nowIso leaseUntilIso s acc))"
proof -
  obtain db r where acc: "acc = (db, r)" by (cases acc)
  let ?c = "claim_schedule (rs_id s) (tokens (rs_id s)) leaseUntilIso nowIso db"
  have c: "control_step db (fst ?c)" by (rule step_claim_schedule)
  have r: "control_step\<^sup>*\<^sup>* (fst ?c) (fst (recordRemoval (rids (rs_id s)) (expiry_input s) now (fst ?c)))"
    by (rule removal_handler_steps(1))
  show ?thesis
    unfolding acc expire_candidate_fst Let_def fst_conv
    using r_into_rtranclp [of control_step, OF c]
      rtranclp.rtrancl_into_rtrancl [OF converse_rtranclp_into_rtranclp [of control_step, OF c r] step_finish_schedule]
    by (simp only: split: if_split) blast
qed

lemma tick_steps: "control_step\<^sup>*\<^sup>* db (fst (runRemovalExpiryTick tokens rids now limit db))"
proof -
  have loop: "control_step\<^sup>*\<^sup>* (fst acc) (fst (fold (expire_candidate tokens rids now nowIso until) cs acc))"
    for cs nowIso until acc
  proof (induction cs arbitrary: acc)
    case (Cons c cs)
    show ?case
      unfolding fold_simps by (rule rtranclp_trans [OF expire_candidate_steps Cons.IH])
  qed simp
  have pair: "fst (case x of (db1, r) \<Rightarrow> (db1, Inr r)) = fst x" for x :: "control_db \<times> tick_result"
    by (cases x) simp
  show ?thesis
  proof (cases "\<not> is_safe_integer limit \<or> limit < 1 \<or> limit > int MAX_REMOVAL_EXPIRY_BATCH")
    case True
    then show ?thesis by (simp only: runRemovalExpiryTick_def if_True fst_conv rtranclp.rtrancl_refl)
  next
    case False
    show ?thesis
      unfolding runRemovalExpiryTick_def Let_def if_not_P [OF False]
      using loop [of "(db, \<lparr>tr_claimed = 0, tr_completed = [], tr_failed = []\<rparr>)"]
      by (intro withInput_fst) (simp only: pair fst_conv)
  qed
qed

section \<open>Invariant\<close>

definition ledger_ok :: "control_db \<Rightarrow> bool" where
  "ledger_ok db =
     (distinct (map ra_id (removal_authority db)) \<and> distinct (map key_of (removal_authority db))
      \<and> (\<forall>a \<in> set (removal_authority db). 1 \<le> ra_deletion_epoch a)
      \<and> distinct (map rs_id (removal_expiry_schedule db)) \<and> distinct (map key_of (removal_expiry_schedule db))
      \<and> distinct (map rl_id (restore_activation_leases db))
      \<and> distinct (map rl_tenant_id (filter (\<lambda>l. rl_status l = Lease_active) (restore_activation_leases db))))"

lemma filter_upd_where_keep:
  assumes "\<And>r. P r \<Longrightarrow> Q (f r) = Q r" and "\<And>r. P r \<Longrightarrow> g (f r) = g r"
  shows "map g (filter Q (upd_where P f rs)) = map g (filter Q rs)"
  using assms by (induction rs) (auto simp: upd_where_def)

lemma filter_upd_where_drop:
  assumes "\<And>r. \<not> Q (f r)" and "distinct (map g (filter Q rs))"
  shows "distinct (map g (filter Q (upd_where P f rs)))"
proof -
  have "filter Q (upd_where P f rs) = filter Q (del_where P rs)"
    using assms(1) by (induction rs) (auto simp: upd_where_def del_where_def)
  moreover have "filter Q (del_where P rs) = filter (\<lambda>r. \<not> P r) (filter Q rs)"
    by (simp add: del_where_def conj_commute)
  ultimately show ?thesis
    using assms(2) by (simp only: distinct_map_filter)
qed

lemma fold_max_ge: "n \<le> fold max xs (n :: int)"
  by (induction xs arbitrary: n) (auto intro: order_trans [OF max.cobounded2])

lemma control_step_ok: "control_step db db' \<Longrightarrow> ledger_ok db \<Longrightarrow> ledger_ok db'"
proof (induction rule: control_step.induct)
  case (step_expire_leases db tenant nowIso)
  then show ?case
    by (simp add: ledger_ok_def expire_leases_def map_key_upd_where filter_upd_where_drop)
next
  case (step_insert_lease leaseId tenant hash epoch head expiresAtIso nowIso db db' changed)
  then show ?case
    by (auto simp: ledger_ok_def insert_lease_def list_ex_iff split: if_splits)
next
  case (step_extend_lease P tenant leaseId hash db expiresAtIso nowIso)
  then show ?case
    by (simp add: ledger_ok_def update_lease_def map_key_upd_where filter_upd_where_keep extend_lease_def)
next
  case (step_release_lease db tenant leaseId hash nowIso)
  then show ?case
    by (simp add: ledger_ok_def update_lease_def map_key_upd_where filter_upd_where_drop)
next
  case (step_insert_authority db input rid createdAt)
  then show ?case
    using fold_max_ge [of 0]
    by (auto simp: ledger_ok_def insert_authority_def Let_def new_authority_def list_ex_iff allocate_epoch_def)
next
  case (step_complete_authority db tenant removalId timestamp)
  then show ?case
    by (auto simp: ledger_ok_def update_authority_def map_key_upd_where set_upd_where)
next
  case (step_fail_authority db tenant removalId code timestamp)
  then show ?case
    by (auto simp: ledger_ok_def update_authority_def map_key_upd_where set_upd_where)
next
  case (step_insert_schedule db scope sid expiresAt timestamp)
  then show ?case
    by (auto simp: ledger_ok_def insert_schedule_def new_schedule_def list_ex_iff)
next
  case (step_claim_schedule db sid token leaseUntilIso nowIso)
  then show ?case
    by (simp add: ledger_ok_def claim_schedule_def map_key_upd_where)
next
  case (step_finish_schedule db sid token nowIso outcome message)
  then show ?case
    by (simp add: ledger_ok_def finish_schedule_def map_key_upd_where split: sum.split)
qed

end
