(* ===== verification/Ledger_Properties.thy ===== *)
theory Ledger_Properties
  imports Ledger_Steps
begin

text \<open>
  What the removal ledger and the restore lease promise, whatever the workers interleave.
\<close>

section \<open>Relations every statement keeps\<close>

text \<open>A reflexive and transitive relation between control databases that every SQL statement respects.\<close>

locale control_relation = step_relation control_step R for R :: "control_db \<Rightarrow> control_db \<Rightarrow> bool"
begin

lemma rel_handlers:
  "R db (fst (acquireRestoreActivationLease tokenHash token tenantId lid epoch ledgerHead now ttl db))"
  "R db (fst (recordRemoval rid input now db))"
  "R db (fst (runRemovalExpiryTick tokens rids now limit db))"
  by (intro rel_steps lease_handler_steps(1) removal_handler_steps(1) tick_steps)+

end

text \<open>The columns of an authority that no statement changes.\<close>

definition authority_facts :: "authority_row \<Rightarrow> _" where
  "authority_facts a = (key_of a, ra_account_id a, ra_conversation_id a, ra_source_event_id a,
     ra_source_object_key a, ra_id a, ra_reason a, ra_removed_at a, ra_deletion_epoch a)"

definition authorities_kept :: "control_db \<Rightarrow> control_db \<Rightarrow> bool" where
  "authorities_kept db db' =
     (\<exists>new. map authority_facts (removal_authority db') = map authority_facts (removal_authority db) @ new)"

lemma control_step_kept: "control_step a b \<Longrightarrow> authorities_kept a b"
  by (induction rule: control_step.induct)
    (auto simp: authorities_kept_def expire_leases_def insert_lease_def update_lease_def insert_authority_def
      update_authority_def insert_schedule_def claim_schedule_def finish_schedule_def Let_def
      authority_facts_def map_key_upd_where split: if_splits)

interpretation ledger: control_relation authorities_kept
proof
  fix a b c assume "authorities_kept a b" and "authorities_kept b c"
  then show "authorities_kept a c" by (auto simp: authorities_kept_def)
qed (auto simp: authorities_kept_def [of db db for db] intro: control_step_kept)

interpretation ledger_inv: control_relation "\<lambda>a b. ledger_ok a \<longrightarrow> ledger_ok b"
  by unfold_locales (auto intro: control_step_ok)

section \<open>Sample databases\<close>

definition empty_control :: control_db where
  "empty_control = \<lparr>removal_authority = [], removal_expiry_schedule = [], restore_activation_leases = []\<rparr>"

lemma ledger_ok_empty [simp]: "ledger_ok empty_control"
  by (simp add: ledger_ok_def empty_control_def)

definition sample_removal :: "string \<Rightarrow> string \<Rightarrow> removal_input" where
  "sample_removal resource account =
     \<lparr>ra_tenant_id = ''tnt_a'', ra_resource_type = ''message'', ra_resource_id = resource,
      ra_content_generation = ''1'', ra_account_id = Some account, ra_conversation_id = None,
      ra_source_event_id = None, ra_source_object_key = None, ri_reason = Requested, ri_removed_at = None\<rparr>"

definition sample_removed :: control_db where
  "sample_removed = fst (recordRemoval ''removal_1'' (sample_removal ''msg_a'' ''acc_a'') 0 empty_control)"

definition sample_leased :: control_db where
  "sample_leased = fst (acquireRestoreActivationLease (\<lambda>t. t) ''tok_a'' ''tnt_a'' ''lease_a'' 1 ''head'' 0 None sample_removed)"

lemma run_pair: "\<not> isl (snd r) \<Longrightarrow> \<exists>x. r = (fst r, Inr x)"
  by (cases r; cases "snd r") auto

lemma sample_removed_runs: "\<exists>a. recordRemoval ''removal_1'' (sample_removal ''msg_a'' ''acc_a'') 0 empty_control = (sample_removed, Inr a)"
  unfolding sample_removed_def by (rule run_pair) code_simp

lemma sample_leased_runs: "\<exists>l. acquireRestoreActivationLease (\<lambda>t. t) ''tok_a'' ''tnt_a'' ''lease_a'' 1 ''head'' 0 None sample_removed
    = (sample_leased, Inr l)"
  unfolding sample_leased_def by (rule run_pair) code_simp

lemma sample_removed_steps: "control_step\<^sup>*\<^sup>* empty_control sample_removed"
  unfolding sample_removed_def by (rule removal_handler_steps(1))

lemma sample_leased_steps: "control_step\<^sup>*\<^sup>* sample_removed sample_leased"
  unfolding sample_leased_def by (rule lease_handler_steps(1))

lemma sample_removed_ok: "ledger_ok sample_removed" and sample_leased_ok: "ledger_ok sample_leased"
  using ledger_inv.rel_steps [OF sample_removed_steps] ledger_inv.rel_steps [OF sample_leased_steps] by simp_all

section \<open>Lemmas on reading and recording\<close>

lemma insert_authority_read:
  assumes "\<not> list_ex (\<lambda>a. ra_id a = rid \<or> key_of a = key_of input) (removal_authority db)"
  shows "readAuthorityForInput input (insert_authority input rid createdAt db)
    = Some (new_authority input rid createdAt (allocate_epoch db (ra_tenant_id input) createdAt))"
proof -
  have "find (\<lambda>a. key_of a = key_of input) (removal_authority db) = None"
    using assms by (auto simp: find_None_iff list_ex_iff)
  then show ?thesis
    using assms by (simp add: readAuthorityForInput_def insert_authority_def Let_def find_append new_authority_def)
qed

lemma recordRemoval_known:
  assumes "readAuthorityForInput input db = Some a" and "timestampFor now = Inr t"
  shows "recordRemoval rid input now db
    = (db, if scopeMatches a input then Inr a else Inl Removal_scope_conflict)"
proof -
  have "list_ex (\<lambda>a. ra_id a = rid \<or> key_of a = key_of input) (removal_authority db)"
    using assms(1) by (auto simp: readAuthorityForInput_def list_ex_iff dest!: find_SomeD)
  then have "insert_authority input rid t db = db" by (simp add: insert_authority_def Let_def)
  then show ?thesis using assms by (simp add: recordRemoval_def withInput_def Let_def)
qed

lemma recordRemoval_fresh:
  assumes "\<not> list_ex (\<lambda>a. ra_id a = rid \<or> key_of a = key_of input) (removal_authority db)"
    and "timestampFor now = Inr t"
  shows "recordRemoval rid input now db
    = (db\<lparr>removal_authority := removal_authority db @
          [new_authority input rid t (allocate_epoch db (ra_tenant_id input) t)]\<rparr>,
       Inr (new_authority input rid t (allocate_epoch db (ra_tenant_id input) t)))"
  using insert_authority_read [OF assms(1), of t] assms(2) assms(1)
  by (simp add: recordRemoval_def withInput_def Let_def scopeMatches_def new_authority_def insert_authority_def)

lemma recordRemoval_stored:
  assumes "recordRemoval rid input now db = (db', Inr a)"
  shows "readAuthorityForInput input db' = Some a \<and> scopeMatches a input"
  using assms by (cases "timestampFor now")
    (auto simp: recordRemoval_def withInput_def Let_def split: option.splits if_splits)

lemma find_key_facts:
  assumes "map authority_facts ys = map authority_facts xs @ new"
    and "find (\<lambda>a. key_of a = k) xs = Some a"
  shows "\<exists>a'. find (\<lambda>a. key_of a = k) ys = Some a' \<and> authority_facts a' = authority_facts a"
  using assms
proof (induction xs arbitrary: ys)
  case (Cons x xs)
  then obtain y zs where ys: "ys = y # zs" "authority_facts y = authority_facts x"
    "map authority_facts zs = map authority_facts xs @ new"
    by (cases ys) auto
  then have "key_of y = key_of x" by (simp add: authority_facts_def)
  then show ?case
    using Cons.IH [OF ys(3)] Cons.prems(2) ys(1,2) by (auto split: if_splits)
qed simp

lemma tenant_epoch_facts:
  "tenant_epoch db tenant = fold max (map (\<lambda>f. snd (snd (snd (snd (snd (snd (snd (snd f))))))))
     (filter (\<lambda>f. fst (fst f) = tenant) (map authority_facts (removal_authority db)))) 0"
  by (simp add: tenant_epoch_def filter_map o_def authority_facts_def)

lemma fold_max_member: "x \<in> set xs \<Longrightarrow> x \<le> fold max xs (n :: int)"
  by (induction xs arbitrary: n) (auto intro: order_trans [OF _ fold_max_ge])

lemma fold_max_append_ge: "fold max xs n \<le> fold max (xs @ ys) (n :: int)"
  by (simp add: fold_max_ge)

lemma tenant_epoch_mono: "authorities_kept db db' \<Longrightarrow> tenant_epoch db tenant \<le> tenant_epoch db' tenant"
  by (auto simp: tenant_epoch_facts authorities_kept_def fold_max_ge)

section \<open>Properties\<close>

text \<open>
  C11: mutual exclusion and keys. From a well-formed control database (the empty one in particular)
  no interleaving of statements gives a tenant two active restore leases, two authorities for one
  resource and generation, two schedules for one, or an authority with an epoch below 1.
\<close>

lemma distinct_filter_le_one:
  assumes "distinct (map g (filter Q rs))"
  shows "length (filter (\<lambda>r. g r = k \<and> Q r) rs) \<le> 1"
proof -
  have "filter (\<lambda>r. g r = k \<and> Q r) rs = filter (\<lambda>r. g r = k) (filter Q rs)"
    by (simp add: conj_commute)
  moreover have "length (filter (\<lambda>r. g r = k) xs) \<le> 1" if "distinct (map g xs)" for xs
    using that
  proof (induction xs)
    case (Cons x xs)
    then show ?case by (cases "g x = k") (auto simp: filter_empty_conv image_iff)
  qed simp
  ultimately show ?thesis using assms by (simp only:)
qed

theorem one_active_lease_per_tenant:
  assumes "control_step\<^sup>*\<^sup>* db db'" and "ledger_ok db"
  shows "length (filter (\<lambda>l. rl_tenant_id l = tenant \<and> rl_status l = Lease_active) (restore_activation_leases db')) \<le> 1
    \<and> distinct (map key_of (removal_authority db')) \<and> distinct (map key_of (removal_expiry_schedule db'))
    \<and> list_all (\<lambda>a. 1 \<le> ra_deletion_epoch a) (removal_authority db')"
  using ledger_inv.rel_steps [OF assms(1)] assms(2)
    distinct_filter_le_one [of rl_tenant_id "\<lambda>l. rl_status l = Lease_active" "restore_activation_leases db'" tenant]
  by (simp add: ledger_ok_def list_all_iff)

theorem one_active_lease_per_tenant_witness:
  "control_step\<^sup>*\<^sup>* sample_removed sample_leased \<and> ledger_ok sample_removed
   \<and> length (filter (\<lambda>l. rl_tenant_id l = ''tnt_a'' \<and> rl_status l = Lease_active) (restore_activation_leases sample_leased)) = 1"
proof -
  have "restore_activation_leases sample_leased \<noteq> []
      \<and> list_all (\<lambda>l. rl_tenant_id l = ''tnt_a'' \<and> rl_status l = Lease_active) (restore_activation_leases sample_leased)"
    by code_simp
  then have "filter (\<lambda>l. rl_tenant_id l = ''tnt_a'' \<and> rl_status l = Lease_active) (restore_activation_leases sample_leased) \<noteq> []"
    by (cases "restore_activation_leases sample_leased") simp_all
  then show ?thesis
    using one_active_lease_per_tenant [OF sample_leased_steps sample_removed_ok, of "''tnt_a''"]
      sample_leased_steps sample_removed_ok by (auto simp: le_Suc_eq)
qed

text \<open>
  C12: authorities are permanent. No interleaving of statements removes a removal authority or
  changes its resource, scope, source, id, reason, removal time or epoch, and the deletion epoch of a
  tenant never goes down.
\<close>

theorem removal_authorities_are_permanent:
  assumes "control_step\<^sup>*\<^sup>* db db'"
  shows "(\<exists>new. map authority_facts (removal_authority db') = map authority_facts (removal_authority db) @ new)
    \<and> readTenantDeletionEpoch db tenant \<le> readTenantDeletionEpoch db' tenant"
  using ledger.rel_steps [OF assms] tenant_epoch_mono [of db db' tenant]
  by (simp add: authorities_kept_def readTenantDeletionEpoch_def)

theorem removal_authorities_are_permanent_witness:
  "control_step\<^sup>*\<^sup>* sample_removed sample_leased
   \<and> readTenantDeletionEpoch sample_removed ''tnt_a'' \<le> readTenantDeletionEpoch sample_leased ''tnt_a''"
  using removal_authorities_are_permanent [OF sample_leased_steps] sample_leased_steps by blast

text \<open>
  C13: recording a removal again converges. Once a removal is recorded, recording one for the same
  resource and generation at any later point, whatever other statements ran between, changes nothing
  and returns the same authority (same id, epoch, reason and time) when the account and conversation
  agree, and throws the scope conflict when they do not.
\<close>

theorem recordRemoval_converges:
  assumes "recordRemoval rid input now db = (db1, Inr a)" and "control_step\<^sup>*\<^sup>* db1 db2"
    and "key_of input' = key_of input" and "timestampFor now' = Inr t"
  shows "\<exists>a'. authority_facts a' = authority_facts a
    \<and> recordRemoval rid' input' now' db2
      = (db2, if ra_account_id input' = ra_account_id input \<and> ra_conversation_id input' = ra_conversation_id input
              then Inr a' else Inl Removal_scope_conflict)"
proof -
  note first = recordRemoval_stored [OF assms(1)]
  obtain new where "map authority_facts (removal_authority db2) = map authority_facts (removal_authority db1) @ new"
    using ledger.rel_steps [OF assms(2)] by (auto simp: authorities_kept_def)
  moreover have "find (\<lambda>x. key_of x = key_of input') (removal_authority db1) = Some a"
    using first assms(3) by (simp add: readAuthorityForInput_def)
  ultimately obtain a' where a': "readAuthorityForInput input' db2 = Some a'" "authority_facts a' = authority_facts a"
    unfolding readAuthorityForInput_def by (blast dest: find_key_facts)
  have "scopeMatches a' input' \<longleftrightarrow>
      ra_account_id input' = ra_account_id input \<and> ra_conversation_id input' = ra_conversation_id input"
    using a'(2) first by (auto simp: scopeMatches_def authority_facts_def)
  then show ?thesis using recordRemoval_known [OF a'(1) assms(4)] a'(2) by auto
qed

lemma timestampFor_zero: "timestampFor 0 = Inr ''1970-01-01T00:00:00.000Z''"
  by code_simp

theorem recordRemoval_converges_witness:
  "\<exists>a. recordRemoval ''removal_2'' (sample_removal ''msg_a'' ''acc_a'') 0 sample_leased = (sample_leased, Inr a)
     \<and> recordRemoval ''removal_2'' (sample_removal ''msg_a'' ''acc_b'') 0 sample_leased
       = (sample_leased, Inl Removal_scope_conflict)"
proof -
  obtain a where run: "recordRemoval ''removal_1'' (sample_removal ''msg_a'' ''acc_a'') 0 empty_control = (sample_removed, Inr a)"
    using sample_removed_runs by blast
  have k: "key_of (sample_removal ''msg_a'' x) = key_of (sample_removal ''msg_a'' ''acc_a'')" for x
    by (simp add: sample_removal_def)
  show ?thesis
    using recordRemoval_converges [OF run sample_leased_steps k timestampFor_zero, of "''removal_2''" "''acc_a''"]
      recordRemoval_converges [OF run sample_leased_steps k timestampFor_zero, of "''removal_2''" "''acc_b''"]
    by (auto simp: sample_removal_def)
qed

text \<open>
  C14: epochs order removals. While no restore lease of the tenant is active, a removal of a new
  resource is recorded with an epoch one above the tenant's and so above every earlier one, which
  becomes the tenant's epoch.
\<close>

lemma tenant_epoch_snoc:
  "tenant_epoch (db\<lparr>removal_authority := removal_authority db @ [a]\<rparr>) tenant
     = (if ra_tenant_id a = tenant then max (ra_deletion_epoch a) (tenant_epoch db tenant) else tenant_epoch db tenant)"
  by (simp add: tenant_epoch_def)

theorem removal_epochs_grow:
  assumes "timestampFor now = Inr t" and "\<not> active_lease db (ra_tenant_id input) t"
    and "\<not> list_ex (\<lambda>a. ra_id a = rid \<or> key_of a = key_of input) (removal_authority db)"
  shows "\<exists>db' a. recordRemoval rid input now db = (db', Inr a)
    \<and> ra_deletion_epoch a = readTenantDeletionEpoch db (ra_tenant_id input) + 1
    \<and> readTenantDeletionEpoch db' (ra_tenant_id input) = ra_deletion_epoch a
    \<and> (\<forall>b \<in> set (removal_authority db). ra_tenant_id b = ra_tenant_id input \<longrightarrow> ra_deletion_epoch b < ra_deletion_epoch a)"
proof -
  let ?tenant = "ra_tenant_id input"
  have epoch: "allocate_epoch db ?tenant t = tenant_epoch db ?tenant + 1"
    using assms(2) by (simp add: allocate_epoch_def tenant_epoch_def)
  have "ra_deletion_epoch b \<le> tenant_epoch db ?tenant"
    if "b \<in> set (removal_authority db)" "ra_tenant_id b = ?tenant" for b
    unfolding tenant_epoch_def by (rule fold_max_member) (use that in auto)
  then show ?thesis
    unfolding recordRemoval_fresh [OF assms(3,1)] epoch
    by (simp add: readTenantDeletionEpoch_def tenant_epoch_snoc new_authority_def zless_add1_eq order_le_less)
qed

theorem removal_epochs_grow_witness:
  "\<exists>db' a. recordRemoval ''removal_2'' (sample_removal ''msg_b'' ''acc_a'') 0 sample_removed = (db', Inr a)
     \<and> ra_deletion_epoch a = readTenantDeletionEpoch sample_removed ''tnt_a'' + 1"
proof -
  have "\<not> active_lease sample_removed (ra_tenant_id (sample_removal ''msg_b'' ''acc_a'')) ''1970-01-01T00:00:00.000Z''"
    by code_simp
  moreover have "\<not> list_ex (\<lambda>a. ra_id a = ''removal_2'' \<or> key_of a = key_of (sample_removal ''msg_b'' ''acc_a'')) (removal_authority sample_removed)"
    by code_simp
  ultimately have "\<exists>db' a. recordRemoval ''removal_2'' (sample_removal ''msg_b'' ''acc_a'') 0 sample_removed = (db', Inr a)
     \<and> ra_deletion_epoch a = readTenantDeletionEpoch sample_removed (ra_tenant_id (sample_removal ''msg_b'' ''acc_a'')) + 1"
    using removal_epochs_grow [OF timestampFor_zero] by blast
  then show ?thesis by (simp add: sample_removal_def)
qed

text \<open>
  C16: what an acquired lease means. When acquisition succeeds the tenant's deletion epoch is the one
  the caller expected, no other lease of the tenant was live, the authorities are as they were, the
  lease lasts between one second and fifteen minutes, and the tenant has an active lease at every
  instant before the expiry it reports.
\<close>

lemma exists_upd_where_same:
  "(\<And>r. Q r \<Longrightarrow> P (f r) = P r) \<Longrightarrow> exists_where P (upd_where Q f rs) = exists_where P rs"
  by (induction rs) (auto simp: exists_where_def upd_where_def)

lemma active_lease_expire [simp]:
  "active_lease (expire_leases tenant nowIso db) tenant nowIso = active_lease db tenant nowIso"
  unfolding active_lease_def expire_leases_def
  by (simp, rule exists_upd_where_same) (simp add: lease_live_def not_less)

lemma removal_authority_expire [simp]: "removal_authority (expire_leases tenant nowIso db) = removal_authority db"
  by (simp add: expire_leases_def)

lemma tenant_epoch_expire [simp]: "tenant_epoch (expire_leases tenant nowIso db) = tenant_epoch db"
  by (simp add: fun_eq_iff tenant_epoch_def expire_leases_def)

lemma withInput_Inr: "withInput db m f = (db', Inr y) \<longleftrightarrow> (\<exists>x. m = Inr x \<and> f x = (db', Inr y))"
  by (cases m) (simp_all add: withInput_def)

lemma try_acquire_Inr:
  assumes "try_acquire hash token tenant lid epoch ledgerHead nowIso expiresAtIso db = (db', Inr l)"
  shows "tenant_epoch db tenant = epoch" and "\<not> active_lease db tenant nowIso"
    and "removal_authority db' = removal_authority db"
    and "al_deletion_epoch l = epoch" "al_expires_at l = expiresAtIso"
    and "t < expiresAtIso \<Longrightarrow> active_lease db' tenant t"
  using assms
  by (auto simp: try_acquire_def Let_def insert_lease_def active_lease_def [of _ _ t] exists_where_def lease_live_def
      split: if_splits)

theorem acquired_lease_holds:
  assumes "acquireRestoreActivationLease tokenHash token tenant lid epoch ledgerHead now ttlMs db = (db', Inr l)"
  shows "\<exists>nowIso ttl. timestampFor now = Inr nowIso \<and> timestampFor (now + ttl) = Inr (al_expires_at l)
    \<and> 1000 \<le> ttl \<and> ttl \<le> RESTORE_ACTIVATION_LEASE_MAX_TTL_MS
    \<and> readTenantDeletionEpoch db tenant = epoch \<and> al_deletion_epoch l = epoch \<and> \<not> active_lease db tenant nowIso
    \<and> removal_authority db' = removal_authority db
    \<and> (\<forall>t. t < al_expires_at l \<longrightarrow> active_lease db' tenant t)"
proof -
  obtain nowIso ttl expiresAtIso where run: "timestampFor now = Inr nowIso" "boundedTtl ttlMs = Inr ttl"
    "timestampFor (now + ttl) = Inr expiresAtIso"
    and inner: "\<exists>h. try_acquire (tokenHash token) token tenant lid epoch h nowIso expiresAtIso db = (db', Inr l)"
    using assms unfolding acquireRestoreActivationLease_def withInput_Inr
    by (auto simp: CommunicatorIdSchema_parse_def positiveEpoch_def split: if_splits)
  obtain h where h: "try_acquire (tokenHash token) token tenant lid epoch h nowIso expiresAtIso db = (db', Inr l)"
    using inner by blast
  have "1000 \<le> ttl \<and> ttl \<le> RESTORE_ACTIVATION_LEASE_MAX_TTL_MS"
    using run(2) by (auto simp: boundedTtl_def Let_def split: if_splits)
  then show ?thesis
    using run try_acquire_Inr [OF h] by (auto simp: readTenantDeletionEpoch_def)
qed

theorem acquired_lease_holds_witness:
  "\<exists>l. acquireRestoreActivationLease (\<lambda>t. t) ''tok_a'' ''tnt_a'' ''lease_a'' 1 ''head'' 0 None sample_removed
       = (sample_leased, Inr l) \<and> readTenantDeletionEpoch sample_removed ''tnt_a'' = 1"
  using sample_leased_runs acquired_lease_holds by blast

text \<open>
  C17: only the holder of the token moves a lease. A caller whose token hashes differently from the
  stored hash of a lease can neither renew nor release it: all three handlers leave the database as it
  is and do not report success.
\<close>

lemma update_lease_none:
  assumes "\<And>l. l \<in> set (restore_activation_leases db) \<Longrightarrow> \<not> P l"
  shows "update_lease P f db = (db, False)"
proof -
  have "upd_where P f (restore_activation_leases db) = restore_activation_leases db"
    using assms by (simp add: upd_where_def map_idI)
  moreover have "filter P (restore_activation_leases db) = []"
    using assms by (simp add: filter_empty_conv)
  ultimately show ?thesis by (simp add: update_lease_def)
qed

lemma withInput_cases:
  assumes "\<And>x. m = Inr x \<Longrightarrow> fst (f x) = db \<and> snd (f x) \<noteq> Inr True"
  shows "fst (withInput db m f) = db \<and> snd (withInput db m f) \<noteq> Inr True"
  using assms by (cases m) (simp_all add: withInput_def)

lemma foreign_token_holds_nothing:
  assumes "ledger_ok db" and "l \<in> set (restore_activation_leases db)" and "rl_id l = lid" and "hash \<noteq> rl_token_hash l"
    and "k \<in> set (restore_activation_leases db)"
  shows "\<not> holds_lease tenant lid hash k"
proof
  assume k: "holds_lease tenant lid hash k"
  have "distinct (map rl_id (restore_activation_leases db))" using assms(1) by (simp add: ledger_ok_def)
  then have "k = l" using assms(2,3,5) k by (auto simp: holds_lease_def distinct_map dest: inj_onD)
  then show False using k assms(4) by (simp add: holds_lease_def)
qed

theorem foreign_token_moves_no_lease:
  assumes "ledger_ok db" and "l \<in> set (restore_activation_leases db)" and "rl_id l = lid"
    and "tokenHash token \<noteq> rl_token_hash l"
  shows "fst (renewRestoreActivationLease tokenHash tenantId lid token now ttl db) = db
    \<and> snd (renewRestoreActivationLease tokenHash tenantId lid token now ttl db) \<noteq> Inr True
    \<and> fst (renewRestoreActivationLeaseForCompletion tokenHash tenantId lid token epoch ledgerHead now db) = db
    \<and> snd (renewRestoreActivationLeaseForCompletion tokenHash tenantId lid token epoch ledgerHead now db) \<noteq> Inr True
    \<and> fst (releaseRestoreActivationLease tokenHash tenantId lid token now db) = db
    \<and> snd (releaseRestoreActivationLease tokenHash tenantId lid token now db) \<noteq> Inr True"
proof -
  note none = foreign_token_holds_nothing [OF assms]
  have ids: "CommunicatorIdSchema_parse x = Inr y \<Longrightarrow> y = x" for x y
    by (simp add: CommunicatorIdSchema_parse_def split: if_splits)
  note handlers = renewRestoreActivationLease_def renewRestoreActivationLeaseForCompletion_def releaseRestoreActivationLease_def
  have "fst (renewRestoreActivationLease tokenHash tenantId lid token now ttl db) = db
    \<and> snd (renewRestoreActivationLease tokenHash tenantId lid token now ttl db) \<noteq> Inr True"
    unfolding handlers by (intro withInput_cases, drule ids, drule ids) (simp add: update_lease_none none)
  moreover have "fst (renewRestoreActivationLeaseForCompletion tokenHash tenantId lid token epoch ledgerHead now db) = db
    \<and> snd (renewRestoreActivationLeaseForCompletion tokenHash tenantId lid token epoch ledgerHead now db) \<noteq> Inr True"
    unfolding handlers by (intro withInput_cases, drule ids, drule ids) (simp add: update_lease_none none)
  moreover have "fst (releaseRestoreActivationLease tokenHash tenantId lid token now db) = db
    \<and> snd (releaseRestoreActivationLease tokenHash tenantId lid token now db) \<noteq> Inr True"
    unfolding handlers by (intro withInput_cases, drule ids, drule ids) (simp add: update_lease_none none)
  ultimately show ?thesis by blast
qed

theorem foreign_token_moves_no_lease_witness:
  "(\<exists>l \<in> set (restore_activation_leases sample_leased). rl_id l = ''lease_a'' \<and> ''tok_b'' \<noteq> rl_token_hash l)
   \<and> fst (releaseRestoreActivationLease (\<lambda>t. t) ''tnt_a'' ''lease_a'' ''tok_b'' 0 sample_leased) = sample_leased"
proof -
  have "list_ex (\<lambda>l. rl_id l = ''lease_a'' \<and> ''tok_b'' \<noteq> rl_token_hash l) (restore_activation_leases sample_leased)"
    by code_simp
  then obtain l where l: "l \<in> set (restore_activation_leases sample_leased)" "rl_id l = ''lease_a''" "''tok_b'' \<noteq> rl_token_hash l"
    by (auto simp: list_ex_iff)
  then show ?thesis
    using foreign_token_moves_no_lease [OF sample_leased_ok l(1,2), of "\<lambda>t. t"] by auto
qed

text \<open>
  C18: the holder's release ends the exclusion. Releasing an active lease with its token succeeds, and
  afterwards the tenant has no active lease at any instant, so removals and another restore go on.
\<close>

theorem release_frees_the_tenant:
  assumes "ledger_ok db" and "l \<in> set (restore_activation_leases db)" and "rl_status l = Lease_active"
    and "communicator_id (rl_tenant_id l)" and "communicator_id (rl_id l)"
    and "timestampFor now = Inr nowIso" and "tokenHash token = rl_token_hash l"
  shows "\<exists>db'. releaseRestoreActivationLease tokenHash (rl_tenant_id l) (rl_id l) token now db = (db', Inr True)
    \<and> (\<forall>t. \<not> active_lease db' (rl_tenant_id l) t)"
proof -
  let ?P = "holds_lease (rl_tenant_id l) (rl_id l) (rl_token_hash l)"
  have d: "distinct (map rl_id (restore_activation_leases db))"
    and da: "distinct (map rl_tenant_id (filter (\<lambda>l. rl_status l = Lease_active) (restore_activation_leases db)))"
    using assms(1) by (simp_all add: ledger_ok_def)
  have "length (filter ?P (restore_activation_leases db)) \<le> 1"
  proof -
    have "length (filter (\<lambda>r. rl_id r = rl_id l \<and> ?P r) (restore_activation_leases db)) \<le> 1"
      by (rule distinct_filter_le_one) (rule distinct_map_filter [OF d])
    moreover have "(\<lambda>r. rl_id r = rl_id l \<and> ?P r) = ?P" by (auto simp: holds_lease_def)
    ultimately show ?thesis by simp
  qed
  moreover have "l \<in> set (filter ?P (restore_activation_leases db))"
    using assms(2,3) by (simp add: holds_lease_def)
  ultimately have one: "length (filter ?P (restore_activation_leases db)) = 1"
    by (cases "filter ?P (restore_activation_leases db)") auto
  have only: "k = l" if "k \<in> set (restore_activation_leases db)" "rl_tenant_id k = rl_tenant_id l" "rl_status k = Lease_active" for k
    using da that assms(2,3) by (auto simp: distinct_map dest: inj_onD)
  have "\<not> lease_live (rl_tenant_id l) t k"
    if "k \<in> set (upd_where ?P (\<lambda>l. l\<lparr>rl_status := Lease_released, rl_updated_at := nowIso\<rparr>) (restore_activation_leases db))" for k t
    using that only by (auto simp: set_upd_where lease_live_def holds_lease_def)
  then have "\<not> active_lease (fst (update_lease ?P (\<lambda>l. l\<lparr>rl_status := Lease_released, rl_updated_at := nowIso\<rparr>) db)) (rl_tenant_id l) t" for t
    by (simp add: active_lease_def exists_where_def update_lease_def list_ex_iff)
  then show ?thesis
    using one assms(4-7)
    by (simp add: releaseRestoreActivationLease_def withInput_def CommunicatorIdSchema_parse_def update_lease_def)
qed

theorem release_frees_the_tenant_witness:
  "\<exists>db'. releaseRestoreActivationLease (\<lambda>t. t) ''tnt_a'' ''lease_a'' ''tok_a'' 0 sample_leased = (db', Inr True)
     \<and> \<not> active_lease db' ''tnt_a'' ''1970-01-01T00:00:00.000Z''"
proof -
  have "list_ex (\<lambda>l. rl_id l = ''lease_a'' \<and> ''tok_a'' = rl_token_hash l \<and> rl_tenant_id l = ''tnt_a''
      \<and> rl_status l = Lease_active) (restore_activation_leases sample_leased)"
    by code_simp
  then obtain l where l: "l \<in> set (restore_activation_leases sample_leased)" "rl_id l = ''lease_a''"
    "''tok_a'' = rl_token_hash l" "rl_tenant_id l = ''tnt_a''" "rl_status l = Lease_active"
    by (auto simp: list_ex_iff)
  have "communicator_id ''tnt_a'' \<and> communicator_id ''lease_a''" by code_simp
  then show ?thesis
    using release_frees_the_tenant [OF sample_leased_ok l(1,5) _ _ timestampFor_zero, of "\<lambda>t. t" "''tok_a''"] l
    by auto
qed

section \<open>The expiry tick\<close>

text \<open>The rows of the schedule after one claimed candidate: its row is acknowledged, the others stay.\<close>

definition settled :: "schedule_row \<Rightarrow> bool" where
  "settled s = ((rs_status s = Exp_completed \<or> rs_status s = Exp_failed) \<and> rs_lease_token s = None)"

lemma recordRemoval_schedule [simp]:
  "removal_expiry_schedule (fst (recordRemoval rid input now db)) = removal_expiry_schedule db"
  by (cases "timestampFor now")
    (auto simp: recordRemoval_def withInput_def Let_def insert_authority_def split: option.splits)

lemma claim_schedule_due:
  assumes "distinct (map rs_id (removal_expiry_schedule db))" and "s \<in> set (removal_expiry_schedule db)"
    and "expiry_due nowIso s"
  shows "snd (claim_schedule (rs_id s) token leaseUntilIso nowIso db)"
    and "removal_expiry_schedule (fst (claim_schedule (rs_id s) token leaseUntilIso nowIso db))
      = upd_where (\<lambda>r. rs_id r = rs_id s) (\<lambda>s. s\<lparr>rs_status := Exp_processing, rs_lease_token := Some token,
          rs_lease_expires_at := Some leaseUntilIso, rs_last_error := None, rs_updated_at := nowIso\<rparr>)
          (removal_expiry_schedule db)"
proof -
  let ?rs = "removal_expiry_schedule db"
  have only: "r = s" if "r \<in> set ?rs" "rs_id r = rs_id s" for r
    using assms(1,2) that by (auto simp: distinct_map dest: inj_onD)
  have "length (filter (\<lambda>r. rs_id r = rs_id s \<and> expiry_due nowIso r) ?rs) \<le> 1"
    by (rule distinct_filter_le_one) (rule distinct_map_filter [OF assms(1)])
  moreover have "s \<in> set (filter (\<lambda>r. rs_id r = rs_id s \<and> expiry_due nowIso r) ?rs)" using assms by simp
  ultimately show "snd (claim_schedule (rs_id s) token leaseUntilIso nowIso db)"
    by (cases "filter (\<lambda>r. rs_id r = rs_id s \<and> expiry_due nowIso r) ?rs") (auto simp: claim_schedule_def)
  show "removal_expiry_schedule (fst (claim_schedule (rs_id s) token leaseUntilIso nowIso db))
      = upd_where (\<lambda>r. rs_id r = rs_id s) (\<lambda>s. s\<lparr>rs_status := Exp_processing, rs_lease_token := Some token,
          rs_lease_expires_at := Some leaseUntilIso, rs_last_error := None, rs_updated_at := nowIso\<rparr>) ?rs"
    using only assms(3) by (auto simp: claim_schedule_def upd_where_def)
qed

lemma finish_schedule_rows:
  assumes "\<And>r. r \<in> set (removal_expiry_schedule db) \<Longrightarrow> rs_id r = sid \<Longrightarrow> rs_lease_token r = Some token"
  shows "\<exists>g. (\<forall>r. settled (g r) \<and> rs_id (g r) = rs_id r)
    \<and> removal_expiry_schedule (finish_schedule sid token nowIso outcome message db)
      = upd_where (\<lambda>r. rs_id r = sid) g (removal_expiry_schedule db)"
proof -
  let ?g = "\<lambda>s. case outcome of
      Inr removalId \<Rightarrow> s\<lparr>rs_status := Exp_completed, rs_removal_id := Some removalId, rs_lease_token := None,
        rs_lease_expires_at := None, rs_last_error := None, rs_updated_at := nowIso\<rparr>
    | Inl e \<Rightarrow> s\<lparr>rs_status := Exp_failed, rs_lease_token := None, rs_lease_expires_at := None,
        rs_last_error := Some (message e), rs_updated_at := nowIso\<rparr>"
  have "settled (?g r) \<and> rs_id (?g r) = rs_id r" for r by (cases outcome) (simp_all add: settled_def)
  moreover have "removal_expiry_schedule (finish_schedule sid token nowIso outcome message db)
      = upd_where (\<lambda>r. rs_id r = sid) ?g (removal_expiry_schedule db)"
    using assms by (auto simp: finish_schedule_def upd_where_def)
  ultimately show ?thesis by (intro exI [of _ ?g]) simp
qed

lemma upd_where_twice:
  "(\<And>r. rs_id (f r) = rs_id r) \<Longrightarrow>
   upd_where (\<lambda>r. rs_id r = i) g (upd_where (\<lambda>r. rs_id r = i) f rs) = upd_where (\<lambda>r. rs_id r = i) (g \<circ> f) rs"
  by (simp add: upd_where_def)

lemma expire_candidate_rows:
  assumes "distinct (map rs_id (removal_expiry_schedule db))" and "s \<in> set (removal_expiry_schedule db)"
    and "expiry_due nowIso s"
  shows "\<exists>g. (\<forall>r. settled (g r) \<and> rs_id (g r) = rs_id r)
    \<and> removal_expiry_schedule (fst (expire_candidate tokens rids now nowIso leaseUntilIso s (db, r)))
      = upd_where (\<lambda>r. rs_id r = rs_id s) g (removal_expiry_schedule db)"
    and "tr_claimed (snd (expire_candidate tokens rids now nowIso leaseUntilIso s (db, r))) = tr_claimed r + 1"
    and "length (tr_completed (snd (expire_candidate tokens rids now nowIso leaseUntilIso s (db, r))))
         + length (tr_failed (snd (expire_candidate tokens rids now nowIso leaseUntilIso s (db, r))))
       = length (tr_completed r) + length (tr_failed r) + 1"
proof -
  let ?tok = "tokens (rs_id s)"
  let ?f = "\<lambda>s. s\<lparr>rs_status := Exp_processing, rs_lease_token := Some ?tok,
          rs_lease_expires_at := Some leaseUntilIso, rs_last_error := None, rs_updated_at := nowIso\<rparr>"
  define c where "c = claim_schedule (rs_id s) ?tok leaseUntilIso nowIso db"
  define rr where "rr = recordRemoval (rids (rs_id s)) (expiry_input s) now (fst c)"
  have claimed: "snd c" and rows: "removal_expiry_schedule (fst c)
      = upd_where (\<lambda>r. rs_id r = rs_id s) ?f (removal_expiry_schedule db)"
    unfolding c_def using claim_schedule_due [OF assms] by blast+
  have rows': "removal_expiry_schedule (fst rr) = upd_where (\<lambda>r. rs_id r = rs_id s) ?f (removal_expiry_schedule db)"
    unfolding rr_def recordRemoval_schedule rows ..
  have tok: "rs_lease_token r = Some ?tok" if "r \<in> set (removal_expiry_schedule (fst rr))" "rs_id r = rs_id s" for r
    using that by (auto simp: rows' set_upd_where)
  have run: "expire_candidate tokens rids now nowIso leaseUntilIso s (db, r) =
    (finish_schedule (rs_id s) ?tok nowIso (case snd rr of Inl e \<Rightarrow> Inl e | Inr a \<Rightarrow> Inr (ra_id a)) errorMessage (fst rr),
     case snd rr of
       Inr a \<Rightarrow> r\<lparr>tr_claimed := tr_claimed r + 1, tr_completed := tr_completed r @ [a]\<rparr>
     | Inl e \<Rightarrow> r\<lparr>tr_claimed := tr_claimed r + 1, tr_failed := tr_failed r @ [(rs_id s, errorMessage e)]\<rparr>)"
    using claimed by (simp add: expire_candidate_def Let_def case_prod_beta c_def rr_def)
  obtain g where g: "\<And>r. settled (g r) \<and> rs_id (g r) = rs_id r"
    and fin: "removal_expiry_schedule (finish_schedule (rs_id s) ?tok nowIso
        (case snd rr of Inl e \<Rightarrow> Inl e | Inr a \<Rightarrow> Inr (ra_id a)) errorMessage (fst rr))
      = upd_where (\<lambda>r. rs_id r = rs_id s) g (removal_expiry_schedule (fst rr))"
    using finish_schedule_rows [OF tok] by blast
  have "removal_expiry_schedule (fst (expire_candidate tokens rids now nowIso leaseUntilIso s (db, r)))
      = upd_where (\<lambda>r. rs_id r = rs_id s) (g \<circ> ?f) (removal_expiry_schedule db)"
    unfolding run fst_conv fin rows' by (rule upd_where_twice) simp
  moreover have "settled ((g \<circ> ?f) r) \<and> rs_id ((g \<circ> ?f) r) = rs_id r" for r using g by simp
  ultimately show "\<exists>g. (\<forall>r. settled (g r) \<and> rs_id (g r) = rs_id r)
    \<and> removal_expiry_schedule (fst (expire_candidate tokens rids now nowIso leaseUntilIso s (db, r)))
      = upd_where (\<lambda>r. rs_id r = rs_id s) g (removal_expiry_schedule db)" by blast
  show "tr_claimed (snd (expire_candidate tokens rids now nowIso leaseUntilIso s (db, r))) = tr_claimed r + 1"
    and "length (tr_completed (snd (expire_candidate tokens rids now nowIso leaseUntilIso s (db, r))))
         + length (tr_failed (snd (expire_candidate tokens rids now nowIso leaseUntilIso s (db, r))))
       = length (tr_completed r) + length (tr_failed r) + 1"
    unfolding run by (cases "snd rr"; simp)+
qed

lemma expire_loop_rows:
  assumes "distinct (map rs_id (removal_expiry_schedule db))" and "distinct (map rs_id cs)"
    and "\<And>s. s \<in> set cs \<Longrightarrow> s \<in> set (removal_expiry_schedule db) \<and> expiry_due nowIso s"
    and out: "out = fold (expire_candidate tokens rids now nowIso leaseUntilIso) cs (db, r)"
  shows "(\<forall>s \<in> set cs. \<exists>s' \<in> set (removal_expiry_schedule (fst out)). rs_id s' = rs_id s \<and> settled s')
    \<and> (\<forall>s \<in> set (removal_expiry_schedule db). rs_id s \<notin> rs_id ` set cs \<longrightarrow> s \<in> set (removal_expiry_schedule (fst out)))
    \<and> tr_claimed (snd out) = tr_claimed r + length cs
    \<and> length (tr_completed (snd out)) + length (tr_failed (snd out))
      = length (tr_completed r) + length (tr_failed r) + length cs"
  using assms(1-3) unfolding out
proof (induction cs arbitrary: db r)
  case (Cons s cs)
  define step where "step = expire_candidate tokens rids now nowIso leaseUntilIso s (db, r)"
  note due = Cons.prems(3) [of s]
  obtain g where g: "\<And>r. settled (g r) \<and> rs_id (g r) = rs_id r"
    and rows: "removal_expiry_schedule (fst step) = upd_where (\<lambda>r. rs_id r = rs_id s) g (removal_expiry_schedule db)"
    using expire_candidate_rows(1) [OF Cons.prems(1)] due unfolding step_def by (metis list.set_intros(1))
  have counts: "tr_claimed (snd step) = tr_claimed r + 1"
      "length (tr_completed (snd step)) + length (tr_failed (snd step)) = length (tr_completed r) + length (tr_failed r) + 1"
    unfolding step_def using expire_candidate_rows(2,3) [OF Cons.prems(1)] due by simp_all
  have d: "distinct (map rs_id (removal_expiry_schedule (fst step)))"
    using Cons.prems(1) g by (simp add: rows map_key_upd_where)
  have ne: "rs_id c \<noteq> rs_id s" if "c \<in> set cs" for c using Cons.prems(2) that by (metis distinct.simps(2) image_eqI list.set_map list.simps(9))
  have kept: "c \<in> set (removal_expiry_schedule (fst step))"
    if "c \<in> set (removal_expiry_schedule db)" "rs_id c \<noteq> rs_id s" for c
    using that by (auto simp: rows set_upd_where)
  have sub: "c \<in> set (removal_expiry_schedule (fst step)) \<and> expiry_due nowIso c" if "c \<in> set cs" for c
    using Cons.prems(3) [of c] that kept ne by simp
  have mine: "g s \<in> set (removal_expiry_schedule (fst step))"
    using due by (auto simp: rows set_upd_where)
  have "rs_id (g s) \<notin> rs_id ` set cs" using Cons.prems(2) g by auto
  then have "\<exists>s' \<in> set (removal_expiry_schedule
      (fst (fold (expire_candidate tokens rids now nowIso leaseUntilIso) cs (fst step, snd step)))). rs_id s' = rs_id s \<and> settled s'"
    using Cons.IH [OF d _ sub, of "snd step"] Cons.prems(2) mine g by (metis distinct.simps(2) list.simps(9))
  then show ?case
    using Cons.IH [OF d _ sub, of "snd step"] Cons.prems(2) counts kept
    by (auto simp: step_def [symmetric])
qed simp

text \<open>
  C19: a tick settles what it takes. A tick with a valid limit, on a well-formed database, claims the
  due schedules in order of expiry up to the limit; every one of them ends completed or failed with
  its lease dropped, none is left processing, the other schedules stay as they were, and the counts of
  its report add up.
\<close>

theorem expiry_tick_settles:
  assumes "ledger_ok db" and "1 \<le> limit" and "limit \<le> int MAX_REMOVAL_EXPIRY_BATCH"
    and "timestampFor now = Inr nowIso" and "timestampFor (now + REMOVAL_EXPIRY_LEASE_MS) = Inr leaseUntilIso"
  defines "due \<equiv> take (nat limit) (sort_key (\<lambda>s. (rs_expires_at s, rs_id s))
    (filter (expiry_due nowIso) (removal_expiry_schedule db)))"
  shows "\<exists>db' r. runRemovalExpiryTick tokens rids now limit db = (db', Inr r)
    \<and> (\<forall>s \<in> set due. \<exists>s' \<in> set (removal_expiry_schedule db'). rs_id s' = rs_id s
         \<and> (rs_status s' = Exp_completed \<or> rs_status s' = Exp_failed) \<and> rs_lease_token s' = None)
    \<and> (\<forall>s \<in> set (removal_expiry_schedule db). rs_id s \<notin> rs_id ` set due \<longrightarrow> s \<in> set (removal_expiry_schedule db'))
    \<and> tr_claimed r = min (nat limit) (length (filter (expiry_due nowIso) (removal_expiry_schedule db)))
    \<and> length (tr_completed r) + length (tr_failed r) = tr_claimed r"
proof -
  let ?init = "(db, \<lparr>tr_claimed = 0, tr_completed = [], tr_failed = []\<rparr>)"
  let ?out = "fold (expire_candidate tokens rids now nowIso leaseUntilIso) due ?init"
  have d: "distinct (map rs_id (removal_expiry_schedule db))" using assms(1) by (simp add: ledger_ok_def)
  have "distinct (map rs_id (sort_key (\<lambda>s. (rs_expires_at s, rs_id s)) (filter (expiry_due nowIso) (removal_expiry_schedule db))))"
    using distinct_map_filter [OF d, of "expiry_due nowIso"] by (simp add: distinct_map)
  then have dd: "distinct (map rs_id due)" unfolding due_def take_map [symmetric] by (rule distinct_take)
  have in_due: "s \<in> set (removal_expiry_schedule db) \<and> expiry_due nowIso s" if "s \<in> set due" for s
    using that by (auto simp: due_def dest!: in_set_takeD)
  have "limit \<le> MAX_SAFE_INTEGER"
    using assms(3) by (simp add: MAX_SAFE_INTEGER_def MAX_REMOVAL_EXPIRY_BATCH_def)
  then have "is_safe_integer limit" using assms(2) by (simp add: is_safe_integer_def)
  then have run: "runRemovalExpiryTick tokens rids now limit db = (fst ?out, Inr (snd ?out))"
    using assms(2-5) by (simp add: runRemovalExpiryTick_def withInput_def Let_def due_def case_prod_beta)
  have "length due = min (nat limit) (length (filter (expiry_due nowIso) (removal_expiry_schedule db)))"
    by (simp add: due_def min.commute)
  then show ?thesis
    using expire_loop_rows [OF d dd in_due refl, where r = "\<lparr>tr_claimed = 0, tr_completed = [], tr_failed = []\<rparr>"]
    unfolding run by (simp add: settled_def)
qed

definition sample_scope :: removal_scope where
  "sample_scope = \<lparr>ra_tenant_id = ''tnt_a'', ra_resource_type = ''message'', ra_resource_id = ''msg_c'',
     ra_content_generation = ''1'', ra_account_id = None, ra_conversation_id = None,
     ra_source_event_id = None, ra_source_object_key = None\<rparr>"

definition sample_scheduled :: control_db where
  "sample_scheduled = fst (scheduleRemovalExpiry ''exp_1'' sample_scope ''1969-01-01T00:00:00.000Z'' 0 empty_control)"

lemma sample_scheduled_ok: "ledger_ok sample_scheduled"
  using ledger_inv.rel_steps [OF removal_handler_steps(2)] unfolding sample_scheduled_def by simp

theorem expiry_tick_settles_witness:
  "ledger_ok sample_scheduled
   \<and> (\<exists>db' r. runRemovalExpiryTick (\<lambda>s. ''t'' @ s) (\<lambda>s. ''r'' @ s) 0 100 sample_scheduled = (db', Inr r) \<and> tr_claimed r = 1)"
proof -
  have late: "timestampFor (0 + REMOVAL_EXPIRY_LEASE_MS) = Inr ''1970-01-01T00:01:00.000Z''" by code_simp
  have "length (filter (expiry_due ''1970-01-01T00:00:00.000Z'') (removal_expiry_schedule sample_scheduled)) = 1"
    by code_simp
  then show ?thesis
    using expiry_tick_settles [OF sample_scheduled_ok _ _ timestampFor_zero late, of 100 "\<lambda>s. ''t'' @ s" "\<lambda>s. ''r'' @ s"]
      sample_scheduled_ok by (auto simp: MAX_REMOVAL_EXPIRY_BATCH_def)
qed

text \<open>
  C20: a deadline cannot move. Scheduling an expiry for a resource and generation that already has one
  changes nothing and returns the stored schedule, with the deadline it had, when the account and
  conversation agree; otherwise it throws the scope conflict.
\<close>

theorem scheduled_deadline_is_fixed:
  assumes "find (\<lambda>s. key_of s = key_of scope) (removal_expiry_schedule db) = Some s" and "timestampFor now = Inr t"
  shows "scheduleRemovalExpiry sid scope expiresAt now db
    = (db, if ra_account_id s = ra_account_id scope \<and> ra_conversation_id s = ra_conversation_id scope
           then Inr s else Inl Expiry_scope_conflict)"
proof -
  have "list_ex (\<lambda>s. rs_id s = sid \<or> key_of s = key_of scope) (removal_expiry_schedule db)"
    using assms(1) by (auto simp: list_ex_iff dest!: find_SomeD)
  then have "insert_schedule scope sid expiresAt t db = db" by (simp add: insert_schedule_def)
  then show ?thesis using assms by (auto simp: scheduleRemovalExpiry_def withInput_def Let_def)
qed

theorem scheduled_deadline_is_fixed_witness:
  "\<exists>s. scheduleRemovalExpiry ''exp_2'' sample_scope ''2099-01-01T00:00:00.000Z'' 0 sample_scheduled = (sample_scheduled, Inr s)
     \<and> rs_expires_at s = ''1969-01-01T00:00:00.000Z''"
proof -
  have "map_option (\<lambda>s. (rs_expires_at s, ra_account_id s, ra_conversation_id s))
      (find (\<lambda>s. key_of s = key_of sample_scope) (removal_expiry_schedule sample_scheduled))
      = Some (''1969-01-01T00:00:00.000Z'', None, None)"
    by code_simp
  then obtain s where s: "find (\<lambda>s. key_of s = key_of sample_scope) (removal_expiry_schedule sample_scheduled) = Some s"
    "rs_expires_at s = ''1969-01-01T00:00:00.000Z''" "ra_account_id s = None" "ra_conversation_id s = None" by auto
  have "ra_account_id sample_scope = None \<and> ra_conversation_id sample_scope = None" by (simp add: sample_scope_def)
  then show ?thesis using scheduled_deadline_is_fixed [OF s(1) timestampFor_zero] s by simp
qed

end
