(* ===== verification/Canonical_Json.thy ===== *)
theory Canonical_Json
  imports Prelude "HOL-Library.Multiset"
begin

text \<open>
  \<open>archive/canonical-json.ts\<close>: the canonical serialisation that event hashes, page digests, command ids
  and cursors are computed from. A value is the plain tree that \<open>snapshotJsonValue\<close> returns; numbers
  are integers, the only ones the modelled callers pass. Strings are UTF-8, so a lone surrogate, which
  \<open>JSON.stringify\<close> escapes, does not occur.
\<close>

section \<open>Values and bounds\<close>

datatype json = JNull | JBool bool | JNum int | JStr string | JArr "json list" | JObj "(string \<times> json) list"

datatype archive_error =
    archive_invalid | archive_tenant_mismatch | archive_too_large | archive_conflict | archive_not_found
  | archive_corrupt | archive_busy | archive_unavailable

definition MAX_CANONICAL_JSON_DEPTH :: nat where "MAX_CANONICAL_JSON_DEPTH = 32"
definition MAX_CANONICAL_JSON_NODES :: nat where "MAX_CANONICAL_JSON_NODES = 50000"
definition MAX_CANONICAL_JSON_COLLECTION_ENTRIES :: nat where "MAX_CANONICAL_JSON_COLLECTION_ENTRIES = 10000"
definition MAX_CANONICAL_JSON_KEY_CHARS :: nat where "MAX_CANONICAL_JSON_KEY_CHARS = 256"
definition MAX_CANONICAL_JSON_STRING_CHARS :: nat where "MAX_CANONICAL_JSON_STRING_CHARS = 1024 * 1024"

definition PROTOTYPE_SENSITIVE_KEYS :: "string list" where
  "PROTOTYPE_SENSITIVE_KEYS = [''__proto__'', ''prototype'', ''constructor'']"

text \<open>
  \<open>snapshotJsonValue\<close>: the number of nodes seen after a value, \<open>None\<close> when a bound is exceeded. The
  descriptor checks that reject proxies, accessors and cycles have no counterpart on a plain tree.
\<close>

fun snapshotJsonValue :: "nat \<Rightarrow> json \<Rightarrow> nat \<Rightarrow> nat option"
  and snapshot_elements :: "nat \<Rightarrow> json list \<Rightarrow> nat \<Rightarrow> nat option"
  and snapshot_members :: "nat \<Rightarrow> (string \<times> json) list \<Rightarrow> nat \<Rightarrow> nat option"
where
  "snapshotJsonValue depth value nodes =
     (if depth > MAX_CANONICAL_JSON_DEPTH \<or> nodes + 1 > MAX_CANONICAL_JSON_NODES then None
      else case value of
        JNull \<Rightarrow> Some (nodes + 1)
      | JBool _ \<Rightarrow> Some (nodes + 1)
      | JNum _ \<Rightarrow> Some (nodes + 1)
      | JStr s \<Rightarrow> if js_length s > MAX_CANONICAL_JSON_STRING_CHARS then None else Some (nodes + 1)
      | JArr vs \<Rightarrow>
          if length vs > MAX_CANONICAL_JSON_COLLECTION_ENTRIES then None
          else snapshot_elements (depth + 1) vs (nodes + 1)
      | JObj kvs \<Rightarrow>
          if list_ex (\<lambda>(k, _). k \<in> set PROTOTYPE_SENSITIVE_KEYS \<or> js_length k > MAX_CANONICAL_JSON_KEY_CHARS) kvs
             \<or> length kvs > MAX_CANONICAL_JSON_COLLECTION_ENTRIES then None
          else snapshot_members (depth + 1) kvs (nodes + 1))"
| "snapshot_elements depth [] nodes = Some nodes"
| "snapshot_elements depth (v # vs) nodes =
     (case snapshotJsonValue depth v nodes of None \<Rightarrow> None | Some n \<Rightarrow> snapshot_elements depth vs n)"
| "snapshot_members depth [] nodes = Some nodes"
| "snapshot_members depth ((k, v) # kvs) nodes =
     (case snapshotJsonValue depth v nodes of None \<Rightarrow> None | Some n \<Rightarrow> snapshot_members depth kvs n)"

section \<open>Printing\<close>

fun join :: "string \<Rightarrow> string list \<Rightarrow> string" where
  "join sep [] = []"
| "join sep [x] = x"
| "join sep (x # y # xs) = x @ sep @ join sep (y # xs)"

function show_nat :: "nat \<Rightarrow> string" where
  "show_nat n =
     (case n < 10 of True \<Rightarrow> [char_of (48 + n)] | False \<Rightarrow> show_nat (n div 10) @ [char_of (48 + n mod 10)])"
  by pat_completeness auto
termination
  by (relation "measure id") auto

declare show_nat.simps [simp del]

definition show_int :: "int \<Rightarrow> string" where
  "show_int n = (if n < 0 then CHR ''-'' # show_nat (nat (- n)) else show_nat (nat n))"

definition hex_digit :: "nat \<Rightarrow> char" where
  "hex_digit n = char_of (if n < 10 then 48 + n else 87 + n)"

text \<open>\<open>JSON.stringify\<close> of one character, and of a string.\<close>

definition escape_char :: "char \<Rightarrow> string" where
  "escape_char c =
     (if c = CHR 0x22 then [CHR 0x5C, CHR 0x22]
      else if c = CHR 0x5C then [CHR 0x5C, CHR 0x5C]
      else if c = CHR 0x08 then [CHR 0x5C, CHR ''b'']
      else if c = CHR 0x09 then [CHR 0x5C, CHR ''t'']
      else if c = CHR 0x0A then [CHR 0x5C, CHR ''n'']
      else if c = CHR 0x0C then [CHR 0x5C, CHR ''f'']
      else if c = CHR 0x0D then [CHR 0x5C, CHR ''r'']
      else if (of_char c :: nat) < 32
      then [CHR 0x5C, CHR ''u'', CHR ''0'', CHR ''0'', hex_digit (of_char c div 16), hex_digit (of_char c mod 16)]
      else [c])"

definition quote :: "string \<Rightarrow> string" where
  "quote s = CHR 0x22 # concat (map escape_char s) @ [CHR 0x22]"

text \<open>The UTF-16 code units of a UTF-8 string, the order of \<open>Array.prototype.sort\<close> on keys.\<close>

fun utf16_units :: "nat list \<Rightarrow> nat list" where
  "utf16_units (a # b # c # d # s) =
     (if a < 128 then a # utf16_units (b # c # d # s)
      else if a < 224 then ((a - 192) * 64 + (b - 128)) # utf16_units (c # d # s)
      else if a < 240 then ((a - 224) * 4096 + (b - 128) * 64 + (c - 128)) # utf16_units (d # s)
      else (let p = (a - 240) * 262144 + (b - 128) * 4096 + (c - 128) * 64 + (d - 128) - 65536
            in (55296 + p div 1024) # (56320 + p mod 1024) # utf16_units s))"
| "utf16_units [a, b, c] =
     (if a < 128 then a # utf16_units [b, c]
      else if a < 224 then ((a - 192) * 64 + (b - 128)) # utf16_units [c]
      else [(a - 224) * 4096 + (b - 128) * 64 + (c - 128)])"
| "utf16_units [a, b] = (if a < 128 then a # utf16_units [b] else [(a - 192) * 64 + (b - 128)])"
| "utf16_units [a] = [a]"
| "utf16_units [] = []"

definition key_units :: "string \<Rightarrow> nat list" where
  "key_units k = utf16_units (map of_char k)"

lemma size_member: "(k, v) \<in> set kvs \<Longrightarrow> size v < Suc (size_list (size_prod (\<lambda>_. 0) size) kvs)"
  by (induction kvs) auto

lemma size_element: "v \<in> set vs \<Longrightarrow> size v < Suc (size_list size vs)"
  by (induction vs) auto

function stringifyCanonical :: "json \<Rightarrow> string" where
  "stringifyCanonical JNull = ''null''"
| "stringifyCanonical (JBool b) = (if b then ''true'' else ''false'')"
| "stringifyCanonical (JNum n) = show_int n"
| "stringifyCanonical (JStr s) = quote s"
| "stringifyCanonical (JArr vs) = ''['' @ join '','' (map stringifyCanonical vs) @ '']''"
| "stringifyCanonical (JObj kvs) =
     ''{'' @ join '','' (map (\<lambda>(k, v). quote k @ '':'' @ stringifyCanonical v)
       (sort_key (\<lambda>(k, _). key_units k) kvs)) @ ''}''"
  by pat_completeness auto
termination
  by (relation "measure size") (auto dest: size_member size_element)

definition canonicalJsonStringify :: "json \<Rightarrow> archive_error + string" where
  "canonicalJsonStringify value =
     (case snapshotJsonValue 0 value 0 of None \<Rightarrow> Inl archive_invalid | Some _ \<Rightarrow> Inr (stringifyCanonical value))"

definition canonicalJsonLineBytes :: "json \<Rightarrow> archive_error + string" where
  "canonicalJsonLineBytes value = map_sum id (\<lambda>s. s @ [CHR 0x0A]) (canonicalJsonStringify value)"

declare snapshotJsonValue.simps [simp del]

section \<open>Two values print alike exactly when they agree up to the order of keys\<close>

text \<open>The value with the members of every object in key order, and the printer without the sorting.\<close>

fun canon :: "json \<Rightarrow> json" where
  "canon (JArr vs) = JArr (map canon vs)"
| "canon (JObj kvs) = JObj (sort_key (\<lambda>(k, _). key_units k) (map (map_prod id canon) kvs))"
| "canon v = v"

fun print_json :: "json \<Rightarrow> string" where
  "print_json JNull = ''null''"
| "print_json (JBool b) = (if b then ''true'' else ''false'')"
| "print_json (JNum n) = show_int n"
| "print_json (JStr s) = quote s"
| "print_json (JArr vs) = ''['' @ join '','' (map print_json vs) @ '']''"
| "print_json (JObj kvs) = ''{'' @ join '','' (map (\<lambda>(k, v). quote k @ '':'' @ print_json v) kvs) @ ''}''"

lemma insort_key_map: "insort_key f (g x) (map g xs) = map g (insort_key (\<lambda>x. f (g x)) x xs)"
  by (induction xs) auto

lemma sort_key_map: "sort_key f (map g xs) = map g (sort_key (\<lambda>x. f (g x)) xs)"
  by (induction xs) (simp_all add: insort_key_map)

lemma stringify_canon: "stringifyCanonical v = print_json (canon v)"
proof (induction v rule: stringifyCanonical.induct)
  case (6 kvs)
  have k: "(\<lambda>x. (\<lambda>(k, _). key_units k) (map_prod id canon x)) = (\<lambda>(k, _). key_units k)"
    by (auto simp: fun_eq_iff)
  have m: "map (\<lambda>(k, v). quote k @ '':'' @ stringifyCanonical v) (sort_key (\<lambda>(k, _). key_units k) kvs)
      = map (\<lambda>x. (\<lambda>(k, v). quote k @ '':'' @ print_json v) (map_prod id canon x)) (sort_key (\<lambda>(k, _). key_units k) kvs)"
    using 6 by (intro map_cong) auto
  show ?case
    unfolding stringifyCanonical.simps canon.simps print_json.simps sort_key_map k m by (simp add: o_def)
next
  case (5 vs)
  then have m: "map stringifyCanonical vs = map print_json (map canon vs)" by simp
  show ?case unfolding stringifyCanonical.simps canon.simps print_json.simps m ..
qed simp_all

text \<open>Reading back: a character, a string up to its closing quote, a number up to a delimiter.\<close>

definition hex_value :: "char \<Rightarrow> nat" where
  "hex_value c = (let n = of_char c in if n < 58 then n - 48 else n - 87)"

lemma hex_value_digit: "n < 16 \<Longrightarrow> hex_value (hex_digit n) = n"
  by (simp add: hex_value_def hex_digit_def Let_def)

fun read_escaped :: "string \<Rightarrow> (char \<times> string) option" where
  "read_escaped (b # c # s) =
     (if b \<noteq> CHR 0x5C then Some (b, c # s)
      else if c = CHR ''b'' then Some (CHR 0x08, s)
      else if c = CHR ''t'' then Some (CHR 0x09, s)
      else if c = CHR ''n'' then Some (CHR 0x0A, s)
      else if c = CHR ''f'' then Some (CHR 0x0C, s)
      else if c = CHR ''r'' then Some (CHR 0x0D, s)
      else if c = CHR ''u'' then
        (case s of _ # _ # x # y # t \<Rightarrow> Some (char_of (16 * hex_value x + hex_value y), t) | _ \<Rightarrow> None)
      else Some (c, s))"
| "read_escaped _ = None"

lemma read_escaped_escape: "s \<noteq> [] \<Longrightarrow> read_escaped (escape_char c @ s) = Some (c, s)"
proof -
  assume "s \<noteq> []"
  then obtain d t where s: "s = d # t" by (cases s) auto
  have div: "(of_char c :: nat) div 16 < 16" if "(of_char c :: nat) < 32" using that by simp
  have "16 * ((of_char c :: nat) div 16) + of_char c mod 16 = of_char c" by simp
  then show ?thesis
    using div by (simp add: escape_char_def s hex_value_digit)
qed

lemma escape_char_inj:
  assumes "escape_char c @ r = escape_char d @ s" and "r \<noteq> []" and "s \<noteq> []"
  shows "c = d \<and> r = s"
proof -
  have "read_escaped (escape_char c @ r) = read_escaped (escape_char d @ s)" by (simp only: assms(1))
  then show ?thesis
    by (simp only: read_escaped_escape [OF assms(2)] read_escaped_escape [OF assms(3)] option.inject prod.inject)
qed

lemma escape_char_head: "escape_char c \<noteq> [] \<and> hd (escape_char c) \<noteq> CHR 0x22"
  by (simp add: escape_char_def)

lemma escaped_inj:
  assumes "concat (map escape_char s) @ CHR 0x22 # r = concat (map escape_char t) @ CHR 0x22 # u"
  shows "s = t \<and> r = u"
  using assms
proof (induction s arbitrary: t)
  case Nil
  then show ?case
    using escape_char_head by (cases t) (auto simp: Cons_eq_append_conv, metis list.sel(1))
next
  case (Cons c s)
  show ?case
  proof (cases t)
    case Nil
    with Cons.prems show ?thesis using escape_char_head [of c] by (cases "escape_char c") auto
  next
    case (Cons d t')
    with Cons.prems have "escape_char c @ (concat (map escape_char s) @ CHR 0x22 # r)
        = escape_char d @ (concat (map escape_char t') @ CHR 0x22 # u)" by simp
    from escape_char_inj [OF this] Cons.IH [of t'] Cons show ?thesis by simp
  qed
qed

lemma quote_inj:
  assumes "quote s @ r = quote t @ u"
  shows "s = t \<and> r = u"
proof (rule escaped_inj)
  show "concat (map escape_char s) @ CHR 0x22 # r = concat (map escape_char t) @ CHR 0x22 # u"
    using assms by (simp add: quote_def)
qed

definition is_digit :: "char \<Rightarrow> bool" where
  "is_digit c = (48 \<le> (of_char c :: nat) \<and> (of_char c :: nat) < 58)"

definition digits_value :: "string \<Rightarrow> nat" where
  "digits_value s = foldl (\<lambda>n c. 10 * n + (of_char c - 48)) 0 s"

lemma show_nat_digits: "show_nat n \<noteq> [] \<and> list_all is_digit (show_nat n) \<and> digits_value (show_nat n) = n"
proof (induction n rule: show_nat.induct)
  case (1 n)
  show ?case
  proof (cases "n < 10")
    case True
    then show ?thesis by (subst (1 2 3) show_nat.simps) (simp add: is_digit_def digits_value_def)
  next
    case False
    then have "n < 10 = False" by simp
    with 1 have IH: "show_nat (n div 10) \<noteq> [] \<and> list_all is_digit (show_nat (n div 10)) \<and> digits_value (show_nat (n div 10)) = n div 10"
      by simp
    show ?thesis
      using False IH by (subst (1 2 3) show_nat.simps) (simp add: is_digit_def digits_value_def)
  qed
qed

definition delimited :: "string \<Rightarrow> bool" where
  "delimited r = (r = [] \<or> hd r \<in> {CHR '','', CHR '']'', CHR ''}''})"

lemma takeWhile_digits:
  assumes "list_all is_digit xs" and "delimited r"
  shows "takeWhile is_digit (xs @ r) = xs"
proof -
  have "takeWhile is_digit r = []" using assms(2) by (cases r) (auto simp: delimited_def is_digit_def)
  then show ?thesis using assms(1) by (simp add: takeWhile_append2 list_all_iff)
qed

lemma show_nat_inj:
  assumes "show_nat m @ r = show_nat n @ s" and "delimited r" and "delimited s"
  shows "m = n \<and> r = s"
proof -
  have "show_nat m = show_nat n"
    using takeWhile_digits [of "show_nat m" r] takeWhile_digits [of "show_nat n" s] assms show_nat_digits by metis
  then show ?thesis using assms(1) show_nat_digits by (metis same_append_eq)
qed

lemma show_nat_head: "hd (show_nat n @ r) \<noteq> CHR ''-''"
  using show_nat_digits [of n] by (cases "show_nat n") (auto simp: is_digit_def)

lemma show_int_inj:
  assumes "show_int m @ r = show_int n @ s" and "delimited r" and "delimited s"
  shows "m = n \<and> r = s"
proof -
  have sign: "(m < 0) = (hd (show_int m @ r) = CHR ''-'')" for m r
    using show_nat_head [of "nat m" r] by (simp add: show_int_def)
  then have "(m < 0) = (n < 0)" using assms(1) by metis
  then consider (neg) "m < 0" "n < 0" | (pos) "\<not> m < 0" "\<not> n < 0" by blast
  then show ?thesis
  proof cases
    case neg
    then have "show_nat (nat (- m)) @ r = show_nat (nat (- n)) @ s" using assms(1) by (simp add: show_int_def)
    from show_nat_inj [OF this assms(2,3)] neg show ?thesis by linarith
  next
    case pos
    then have "show_nat (nat m) @ r = show_nat (nat n) @ s" using assms(1) by (simp add: show_int_def)
    from show_nat_inj [OF this assms(2,3)] pos show ?thesis by linarith
  qed
qed

text \<open>Lists of printed parts between commas, up to the closing bracket.\<close>

lemma join_inj:
  assumes "join '','' (map pr xs) @ close # r = join '','' (map pr ys) @ close # s"
    and inj: "\<And>x y r s. x \<in> set xs \<Longrightarrow> pr x @ r = pr y @ s \<Longrightarrow> delimited r \<Longrightarrow> delimited s \<Longrightarrow> x = y \<and> r = s"
    and ne: "\<And>y. pr y \<noteq> [] \<and> hd (pr y) \<noteq> close"
    and close: "close = CHR '']'' \<or> close = CHR ''}''"
  shows "xs = ys \<and> r = s"
  using assms(1,2)
proof (induction xs arbitrary: ys)
  case Nil
  show ?case
  proof (cases ys)
    case (Cons y ys')
    then have "hd (join '','' (map pr ys) @ close # s) = hd (pr y)"
      using ne [of y] by (cases ys') auto
    with Nil.prems(1) ne [of y] show ?thesis by (metis append_Nil join.simps(1) list.sel(1) list.simps(8))
  qed (use Nil.prems(1) in simp)
next
  case (Cons x xs)
  let ?rest = "\<lambda>zs t. if zs = [] then close # t else '','' @ join '','' (map pr zs) @ close # t"
  have split: "join '','' (map pr (z # zs)) @ close # t = pr z @ ?rest zs t" for z zs t
    by (cases zs) auto
  have delim: "delimited (?rest zs t)" for zs t
    using close by (auto simp: delimited_def)
  show ?case
  proof (cases ys)
    case Nil
    have "hd (pr x @ ?rest xs r) = hd (pr x)" using ne [of x] by simp
    with Cons.prems(1) Nil ne [of x] show ?thesis unfolding split
      by (metis append_Nil join.simps(1) list.sel(1) list.simps(8))
  next
    case (Cons y ys')
    have eq: "pr x @ ?rest xs r = pr y @ ?rest ys' s"
      using Cons.prems(1) unfolding Cons split .
    have xy: "x = y" and rest: "?rest xs r = ?rest ys' s"
      using Cons.prems(2) [OF _ eq delim delim] by auto
    have comma: "close \<noteq> CHR '',''" using close by auto
    show ?thesis
    proof (cases "xs = []")
      case True
      with rest comma have "ys' = [] \<and> r = s" by (auto split: if_splits)
      with True xy Cons show ?thesis by simp
    next
      case False
      with rest comma have "ys' \<noteq> []" and "join '','' (map pr xs) @ close # r = join '','' (map pr ys') @ close # s"
        by (auto split: if_splits)
      with Cons.IH [of ys'] Cons.prems(2) xy Cons show ?thesis by auto
    qed
  qed
qed

lemma quote_head: "quote s \<noteq> [] \<and> hd (quote s @ r) = CHR 0x22"
  by (simp add: quote_def)

definition kind :: "json \<Rightarrow> nat" where
  "kind v = (case v of JNull \<Rightarrow> 0 | JBool True \<Rightarrow> 1 | JBool False \<Rightarrow> 2 | JNum _ \<Rightarrow> 3 | JStr _ \<Rightarrow> 4 | JArr _ \<Rightarrow> 5 | JObj _ \<Rightarrow> 6)"

text \<open>The first character of a printed value tells its kind.\<close>

definition head_kind :: "char \<Rightarrow> nat" where
  "head_kind c =
     (if c = CHR ''n'' then 0 else if c = CHR ''t'' then 1 else if c = CHR ''f'' then 2
      else if c = CHR 0x22 then 4 else if c = CHR ''['' then 5 else if c = CHR ''{'' then 6 else 3)"

lemma digit_kind: "is_digit c \<or> c = CHR ''-'' \<Longrightarrow> head_kind c = 3"
  by (auto simp: head_kind_def is_digit_def)

lemma show_int_head: "show_int n \<noteq> [] \<and> (is_digit (hd (show_int n @ r)) \<or> hd (show_int n @ r) = CHR ''-'')"
  using show_nat_digits [of "nat n"] by (cases "show_nat (nat n)") (auto simp: show_int_def)

lemma print_json_head: "print_json v \<noteq> [] \<and> head_kind (hd (print_json v @ r)) = kind v"
proof (cases v)
  case (JNum n)
  show ?thesis
    using show_int_head [of n r] digit_kind [of "hd (show_int n @ r)"] by (simp only: JNum print_json.simps kind_def json.case simp_thms)
next
  case (JStr s)
  show ?thesis using quote_head [of s r] by (simp add: JStr kind_def head_kind_def)
qed (auto simp: kind_def head_kind_def split: bool.split)

lemma print_json_close: "hd (print_json v) \<noteq> CHR '']''"
proof (cases "kind v = 3")
  case True
  then obtain n where n: "v = JNum n" by (cases v) (auto simp: kind_def split: bool.splits)
  have "is_digit (hd (show_int n @ [])) \<or> hd (show_int n @ []) = CHR ''-''" using show_int_head by blast
  then show ?thesis by (auto simp: n is_digit_def)
next
  case False
  then show ?thesis using print_json_head [of v "[]"] by (auto simp: head_kind_def split: if_splits)
qed

lemma same_kind: "print_json v @ r = print_json w @ s \<Longrightarrow> kind v = kind w"
  using print_json_head by metis

lemma print_json_inj:
  "print_json v @ r = print_json w @ s \<Longrightarrow> delimited r \<Longrightarrow> delimited s \<Longrightarrow> v = w \<and> r = s"
proof (induction v arbitrary: w r s)
  case (JArr vs)
  have "kind w = 5" using same_kind [OF JArr.prems(1)] by (simp add: kind_def)
  then obtain ws where w: "w = JArr ws" by (cases w) (auto simp: kind_def split: bool.splits)
  have "join '','' (map print_json vs) @ CHR '']'' # r = join '','' (map print_json ws) @ CHR '']'' # s"
    using JArr.prems(1) by (simp add: w)
  moreover have "print_json y \<noteq> [] \<and> hd (print_json y) \<noteq> CHR '']''" for y
    using print_json_close print_json_head by blast
  ultimately show ?case using join_inj [of print_json vs "CHR '']''" r ws s] JArr.IH w by blast
next
  case (JObj kvs)
  have "kind w = 6" using same_kind [OF JObj.prems(1)] by (simp add: kind_def)
  then obtain lws where w: "w = JObj lws" by (cases w) (auto simp: kind_def split: bool.splits)
  let ?pr = "\<lambda>(k, v). quote k @ '':'' @ print_json v"
  have eq: "join '','' (map ?pr kvs) @ CHR ''}'' # r = join '','' (map ?pr lws) @ CHR ''}'' # s"
    using JObj.prems(1) by (simp add: w)
  have inj: "x = y \<and> r = s" if "x \<in> set kvs" "?pr x @ r = ?pr y @ s" "delimited r" "delimited s" for x y r s
  proof -
    obtain k v l u where xy: "x = (k, v)" "y = (l, u)" by (cases x; cases y)
    have "quote k @ '':'' @ print_json v @ r = quote l @ '':'' @ print_json u @ s" using that(2) xy by simp
    from quote_inj [OF this] have kl: "k = l" and "print_json v @ r = print_json u @ s" by auto
    from JObj.IH [OF that(1), of v, OF _ this(2) that(3,4)] xy kl show ?thesis by (auto intro: snds.intros)
  qed
  have "?pr y \<noteq> [] \<and> hd (?pr y) \<noteq> CHR ''}''" for y
    using quote_head by (cases y) (auto simp: quote_def)
  from join_inj [OF eq inj this] w show ?case by blast
next
  case (JNum n)
  have "kind w = 3" using same_kind [OF JNum.prems(1)] by (simp add: kind_def)
  then obtain m where w: "w = JNum m" by (cases w) (auto simp: kind_def split: bool.splits)
  from show_int_inj [of n r m s] JNum.prems w show ?case by simp
next
  case (JStr t)
  have "kind w = 4" using same_kind [OF JStr.prems(1)] by (simp add: kind_def)
  then obtain u where w: "w = JStr u" by (cases w) (auto simp: kind_def split: bool.splits)
  from quote_inj [of t r u s] JStr.prems w show ?case by simp
next
  case JNull
  have "kind w = 0" using same_kind [OF JNull.prems(1)] by (simp add: kind_def)
  then show ?case using JNull.prems(1) by (cases w) (auto simp: kind_def split: bool.splits)
next
  case (JBool b)
  have "kind w = kind (JBool b)" using same_kind [OF JBool.prems(1)] by simp
  then show ?case using JBool.prems(1) by (cases w; cases b) (auto simp: kind_def split: bool.splits)
qed

section \<open>Properties\<close>

lemma stringify_eq_iff: "stringifyCanonical v = stringifyCanonical w \<longleftrightarrow> canon v = canon w"
  using print_json_inj [of "canon v" "[]" "canon w" "[]"] by (auto simp: stringify_canon delimited_def)

text \<open>
  C21: the canonical form identifies values. Two values have the same canonical JSON exactly when they
  are equal up to the order of the members of their objects, so the hash input of two events, pages or
  replies is the same text only if they carry the same data; and members whose keys differ in their
  UTF-16 spelling may come in any order without changing the text.
\<close>

theorem canonical_json_identifies_values:
  "(stringifyCanonical v = stringifyCanonical w \<longleftrightarrow> canon v = canon w)
   \<and> (mset kvs = mset lvs \<and> distinct (map (key_units \<circ> fst) kvs) \<longrightarrow> stringifyCanonical (JObj kvs) = stringifyCanonical (JObj lvs))"
proof (intro conjI impI)
  show "stringifyCanonical v = stringifyCanonical w \<longleftrightarrow> canon v = canon w" by (rule stringify_eq_iff)
  assume a: "mset kvs = mset lvs \<and> distinct (map (key_units \<circ> fst) kvs)"
  have f: "(\<lambda>(k, _). key_units k) = key_units \<circ> fst" by (simp add: fun_eq_iff split_beta)
  have "sort_key (key_units \<circ> fst) kvs = sort_key (key_units \<circ> fst) lvs"
    using a by (intro sort_key_inj_key_eq) (auto simp: distinct_map)
  then show "stringifyCanonical (JObj kvs) = stringifyCanonical (JObj lvs)"
    unfolding stringifyCanonical.simps f by (simp only:)
qed

theorem canonical_json_identifies_values_witness:
  "stringifyCanonical (JObj [(''b'', JNum 1), (''a'', JNull)]) = stringifyCanonical (JObj [(''a'', JNull), (''b'', JNum 1)])
   \<and> stringifyCanonical (JStr ''1'') \<noteq> stringifyCanonical (JNum 1)"
proof -
  have "distinct (map (key_units \<circ> fst) [(''b'', JNum 1), (''a'', JNull)])" by code_simp
  then show ?thesis
    using canonical_json_identifies_values [of "JStr ''1''" "JNum 1" "[(''b'', JNum 1), (''a'', JNull)]" "[(''a'', JNull), (''b'', JNum 1)]"]
    by simp
qed

end
