(* ===== verification/Base64url.thy ===== *)
theory Base64url
  imports Prelude
begin

text \<open>
  \<open>projection/cursor.ts\<close>: the base64url spelling of the opaque cursors. Bytes and digits are natural
  numbers; the shifts and masks of the code are the divisions and remainders by powers of two they
  compute, and \<open>|\<close> joins disjoint bit fields, so it is a sum. No intermediate value exceeds 14 bits.
\<close>

definition BASE64URL_ALPHABET :: string where
  "BASE64URL_ALPHABET = ''ABCDEFGHIJKLMNOPQRSTUVWXYZabcdefghijklmnopqrstuvwxyz0123456789-_''"

fun encodeBase64Url :: "nat list \<Rightarrow> string" where
  "encodeBase64Url (first # second # third # bytes) =
     BASE64URL_ALPHABET ! (first div 4) # BASE64URL_ALPHABET ! (first mod 4 * 16 + second div 16)
     # BASE64URL_ALPHABET ! (second mod 16 * 4 + third div 64) # BASE64URL_ALPHABET ! (third mod 64)
     # encodeBase64Url bytes"
| "encodeBase64Url [first, second] =
     [BASE64URL_ALPHABET ! (first div 4), BASE64URL_ALPHABET ! (first mod 4 * 16 + second div 16),
      BASE64URL_ALPHABET ! (second mod 16 * 4)]"
| "encodeBase64Url [first] = [BASE64URL_ALPHABET ! (first div 4), BASE64URL_ALPHABET ! (first mod 4 * 16)]"
| "encodeBase64Url [] = []"

text \<open>\<open>BASE64URL_ALPHABET.indexOf\<close>.\<close>

fun index_of :: "string \<Rightarrow> char \<Rightarrow> nat option" where
  "index_of [] c = None"
| "index_of (x # xs) c = (if x = c then Some 0 else map_option Suc (index_of xs c))"

text \<open>The loop of \<open>decodeBase64Url\<close>: the bits read and not yet written, their number, and the bytes written.\<close>

function drain :: "nat \<times> nat \<times> nat list \<Rightarrow> nat \<times> nat \<times> nat list" where
  "drain (buffer, bits, out) =
     (case 8 \<le> bits of
        True \<Rightarrow>
          drain (if bits - 8 = 0 then 0 else buffer mod 2 ^ (bits - 8), bits - 8,
                 out @ [buffer div 2 ^ (bits - 8) mod 256])
      | False \<Rightarrow> (buffer, bits, out))"
  by pat_completeness auto
termination
  by (relation "measure (\<lambda>(_, bits, _). bits)") auto

declare drain.simps [simp del]

definition decode_step :: "nat \<Rightarrow> nat \<times> nat \<times> nat list \<Rightarrow> nat \<times> nat \<times> nat list" where
  "decode_step digit state = (case state of (buffer, bits, out) \<Rightarrow> drain (buffer * 64 + digit, bits + 6, out))"

fun decode_loop :: "string \<Rightarrow> nat \<times> nat \<times> nat list \<Rightarrow> (nat \<times> nat \<times> nat list) result" where
  "decode_loop [] state = Inr state"
| "decode_loop (c # cs) state =
     (case index_of BASE64URL_ALPHABET c of
        None \<Rightarrow> projectionError projection_invalid
      | Some digit \<Rightarrow> decode_loop cs (decode_step digit state))"

definition decodeBase64Url :: "string \<Rightarrow> nat list result" where
  "decodeBase64Url value =
     (if value = [] \<or> length value mod 4 = 1 \<or> \<not> list_all (\<lambda>c. c \<in> set BASE64URL_ALPHABET) value
      then projectionError projection_invalid
      else andThen (decode_loop value (0, 0, [])) (\<lambda>(buffer, bits, out).
        if 0 < bits \<and> buffer \<noteq> 0 then projectionError projection_invalid else Inr out))"

section \<open>Digits\<close>

lemma alphabet_digits: "list_all (\<lambda>d. index_of BASE64URL_ALPHABET (BASE64URL_ALPHABET ! d) = Some d) [0..<64]"
  by code_simp

lemma index_of_alphabet [simp]: "d < 64 \<Longrightarrow> index_of BASE64URL_ALPHABET (BASE64URL_ALPHABET ! d) = Some d"
  using alphabet_digits by (simp add: list_all_iff)

lemma length_alphabet [simp]: "length BASE64URL_ALPHABET = 64"
  by code_simp

lemma index_of_Some: "index_of xs c = Some d \<Longrightarrow> d < length xs \<and> xs ! d = c"
  by (induction xs arbitrary: d) (auto split: if_splits)

lemma index_of_in: "c \<in> set xs \<Longrightarrow> \<exists>d. index_of xs c = Some d"
  by (induction xs) auto

lemma alphabet_member: "d < 64 \<Longrightarrow> BASE64URL_ALPHABET ! d \<in> set BASE64URL_ALPHABET"
  by simp

lemma word_digits:
  assumes "list_all (\<lambda>c. c \<in> set BASE64URL_ALPHABET) s"
  shows "\<exists>ds. s = map ((!) BASE64URL_ALPHABET) ds \<and> list_all (\<lambda>d. d < 64) ds"
  using assms
proof (induction s)
  case (Cons c s)
  then obtain ds where "s = map ((!) BASE64URL_ALPHABET) ds" "list_all (\<lambda>d. d < 64) ds" by auto
  moreover obtain d where "d < 64" "BASE64URL_ALPHABET ! d = c"
    using Cons.prems index_of_in index_of_Some by (metis length_alphabet list.pred_inject(2))
  ultimately show ?case by (intro exI [of _ "d # ds"]) simp
qed simp

text \<open>The loop on digits: four of them are three bytes and leave nothing over.\<close>

lemma decode_loop_digits:
  "list_all (\<lambda>d. d < 64) ds \<Longrightarrow> decode_loop (map ((!) BASE64URL_ALPHABET) ds) state = Inr (fold decode_step ds state)"
  by (induction ds arbitrary: state) auto

lemma fields:
  assumes "y < (n :: nat)"
  shows "(x * n + y) div n = x" and "(x * n + y) mod n = y"
  using assms by simp_all

lemma div_64: "(a * 64 + b) div 16 = a * 4 + b div (16 :: nat)" "(a * 64 + b) mod 16 = b mod (16 :: nat)"
    "(a * 64 + b) div 4 = a * 16 + b div (4 :: nat)" "(a * 64 + b) mod 4 = b mod (4 :: nat)"
proof -
  have 16: "a * 64 + b = b + a * 4 * 16" and 4: "a * 64 + b = b + a * 16 * 4" by simp_all
  show "(a * 64 + b) div 16 = a * 4 + b div 16" "(a * 64 + b) mod 16 = b mod 16"
    unfolding 16 by ((subst div_mult_self1, simp, simp only: add.commute), rule mod_mult_self1)
  show "(a * 64 + b) div 4 = a * 16 + b div 4" "(a * 64 + b) mod 4 = b mod 4"
    unfolding 4 by ((subst div_mult_self1, simp, simp only: add.commute), rule mod_mult_self1)
qed

lemma decode_two: "a < 64 \<Longrightarrow> b < 64 \<Longrightarrow>
  decode_step b (decode_step a (0, 0, out)) = (b mod 16, 4, out @ [a * 4 + b div 16])"
  by (simp add: decode_step_def drain.simps div_64)

lemma decode_three: "c < 64 \<Longrightarrow> b < 16 \<Longrightarrow>
  decode_step c (b, 4, out) = (c mod 4, 2, out @ [b * 16 + c div 4])"
  by (simp add: decode_step_def drain.simps div_64)

lemma decode_four: "d < 64 \<Longrightarrow> c < 4 \<Longrightarrow> decode_step d (c, 2, out) = (0, 0, out @ [c * 64 + d])"
  by (simp add: decode_step_def drain.simps)

lemmas decode_group = decode_two decode_three decode_four

section \<open>The two directions\<close>

fun digits :: "nat list \<Rightarrow> nat list" where
  "digits (a # b # c # bs) = (a div 4) # (a mod 4 * 16 + b div 16) # (b mod 16 * 4 + c div 64) # (c mod 64) # digits bs"
| "digits [a, b] = [a div 4, a mod 4 * 16 + b div 16, b mod 16 * 4]"
| "digits [a] = [a div 4, a mod 4 * 16]"
| "digits [] = []"

lemma encode_digits: "encodeBase64Url bs = map ((!) BASE64URL_ALPHABET) (digits bs)"
  by (induction bs rule: digits.induct) simp_all

lemma digits_small: "list_all (\<lambda>b. b < 256) bs \<Longrightarrow> list_all (\<lambda>d. d < 64) (digits bs)"
  by (induction bs rule: digits.induct) auto

lemma length_digits: "length (digits bs) mod 4 \<noteq> 1 \<and> (digits bs = [] \<longleftrightarrow> bs = [])"
  by (induction bs rule: digits.induct) auto

lemma byte_digits:
  assumes "a < 256" and "b < (256 :: nat)"
  shows "a div 4 * 4 + (a mod 4 * 16 + b div 16) div 16 = a" and "(a mod 4 * 16 + b div 16) mod 16 = b div 16"
    and "a div 4 < 64" and "a mod 4 * 16 + b div 16 < 64" and "b div 16 < 16"
proof -
  show 1: "b div 16 < 16" using assms by linarith
  show "a div 4 < 64" using assms by linarith
  have "a mod 4 < 4" by simp
  with 1 show "a mod 4 * 16 + b div 16 < 64" by linarith
  show "a div 4 * 4 + (a mod 4 * 16 + b div 16) div 16 = a" "(a mod 4 * 16 + b div 16) mod 16 = b div 16"
    unfolding fields [OF 1] by simp_all
qed

lemma second_digits:
  assumes "b < 256" and "c < (256 :: nat)"
  shows "b div 16 * 16 + (b mod 16 * 4 + c div 64) div 4 = b" and "(b mod 16 * 4 + c div 64) mod 4 = c div 64"
    and "b mod 16 * 4 + c div 64 < 64" and "c div 64 < 4"
proof -
  show 1: "c div 64 < 4" using assms by linarith
  have "b mod 16 < 16" by simp
  with 1 show "b mod 16 * 4 + c div 64 < 64" by linarith
  show "b div 16 * 16 + (b mod 16 * 4 + c div 64) div 4 = b" "(b mod 16 * 4 + c div 64) mod 4 = c div 64"
    unfolding fields [OF 1] by simp_all
qed

lemma group_bytes:
  assumes "a < 256" and "b < 256" and "c < (256 :: nat)"
  shows "fold decode_step [a div 4, a mod 4 * 16 + b div 16, b mod 16 * 4 + c div 64, c mod 64] (0, 0, out)
    = (0, 0, out @ [a, b, c])"
  using byte_digits [OF assms(1,2)] second_digits [OF assms(2,3)]
  by (simp add: decode_group)

lemma fold_digits:
  assumes "list_all (\<lambda>b. b < 256) bs"
  shows "\<exists>bits. fold decode_step (digits bs) (0, 0, out) = (0, bits, out @ bs)"
  using assms
proof (induction bs arbitrary: out rule: digits.induct)
  case (1 a b c bs)
  then have "fold decode_step (digits (a # b # c # bs)) (0, 0, out) = fold decode_step (digits bs) (0, 0, out @ [a, b, c])"
    using group_bytes [of a b c out] by simp
  with "1.IH" [of "out @ [a, b, c]"] "1.prems" show ?case by simp
next
  case (2 a b)
  then have "a < 256" "b < 256" by simp_all
  from byte_digits [OF this] second_digits [OF this(2), of 0] show ?case
    by (simp add: decode_group)
next
  case (3 a)
  then have "a < 256" by simp
  from byte_digits [OF this, of 0] show ?case by (simp add: decode_group)
qed simp

fun bytes_of :: "nat list \<Rightarrow> nat list" where
  "bytes_of (a # b # c # d # ds) = (a * 4 + b div 16) # (b mod 16 * 16 + c div 4) # (c mod 4 * 64 + d) # bytes_of ds"
| "bytes_of [a, b, c] = [a * 4 + b div 16, b mod 16 * 16 + c div 4]"
| "bytes_of [a, b] = [a * 4 + b div 16]"
| "bytes_of _ = []"

lemma digits_group:
  assumes "a < 64" and "b < 64" and "c < 64" and "d < (64 :: nat)"
  shows "(a * 4 + b div 16) div 4 = a" "(a * 4 + b div 16) mod 4 * 16 + (b mod 16 * 16 + c div 4) div 16 = b"
    "(b mod 16 * 16 + c div 4) mod 16 * 4 + (c mod 4 * 64 + d) div 64 = c" "(c mod 4 * 64 + d) mod 64 = d"
    "a * 4 + b div 16 < 256" "b mod 16 * 16 + c div 4 < 256" "c mod 4 * 64 + d < 256"
proof -
  have 1: "b div 16 < 4" and 2: "c div 4 < 16" using assms by linarith+
  have 3: "b mod 16 < 16" and 4: "c mod 4 < 4" by simp_all
  show "a * 4 + b div 16 < 256" "b mod 16 * 16 + c div 4 < 256" "c mod 4 * 64 + d < 256"
    using assms 1 2 3 4 by linarith+
  show "(a * 4 + b div 16) div 4 = a" "(a * 4 + b div 16) mod 4 * 16 + (b mod 16 * 16 + c div 4) div 16 = b"
    "(b mod 16 * 16 + c div 4) mod 16 * 4 + (c mod 4 * 64 + d) div 64 = c" "(c mod 4 * 64 + d) mod 64 = d"
    unfolding fields [OF 1] fields [OF 2] fields [OF assms(4)] by simp_all
qed

lemma fold_bytes:
  assumes "list_all (\<lambda>d. d < 64) ds" and "length ds mod 4 \<noteq> 1"
    and "fold decode_step ds (0, 0, out) = (buffer, bits, out')" and "\<not> (0 < bits \<and> buffer \<noteq> 0)"
  shows "out' = out @ bytes_of ds \<and> digits (bytes_of ds) = ds \<and> list_all (\<lambda>b. b < 256) (bytes_of ds)"
  using assms
proof (induction ds arbitrary: out rule: bytes_of.induct)
  case (1 a b c d ds)
  have small: "a < 64" "b < 64" "c < 64" "d < 64" using "1.prems"(1) by simp_all
  have "fold decode_step ds (0, 0, out @ [a * 4 + b div 16, b mod 16 * 16 + c div 4, c mod 4 * 64 + d]) = (buffer, bits, out')"
    using "1.prems"(3) small by (simp add: decode_group)
  from "1.IH" [OF _ _ this "1.prems"(4)] "1.prems"(1,2) digits_group [OF small] show ?case by simp
next
  case (2 a b c)
  have small: "a < 64" "b < 64" "c < 64" using "2.prems"(1) by simp_all
  then have "c mod 4 = 0" and "out' = out @ [a * 4 + b div 16, b mod 16 * 16 + c div 4]"
    using "2.prems"(3,4) by (auto simp: decode_group)
  moreover have "(b mod 16 * 16 + c div 4) mod 16 * 4 = c"
  proof -
    have "c div 4 < 16" using small(3) by linarith
    then show ?thesis unfolding fields(2) [OF \<open>c div 4 < 16\<close>] using \<open>c mod 4 = 0\<close> div_mult_mod_eq [of c 4] by simp
  qed
  ultimately show ?case
    using digits_group(1,2,5,6) [OF small, of 0]
    by (simp only: bytes_of.simps digits.simps list.pred_inject simp_thms)
next
  case (3 a b)
  have small: "a < 64" "b < 64" using "3.prems"(1) by simp_all
  then have "b mod 16 = 0" and "out' = out @ [a * 4 + b div 16]"
    using "3.prems"(3,4) by (auto simp: decode_group)
  moreover have "(a * 4 + b div 16) mod 4 * 16 = b"
  proof -
    have "b div 16 < 4" using small(2) by linarith
    then show ?thesis unfolding fields(2) [OF \<open>b div 16 < 4\<close>] using \<open>b mod 16 = 0\<close> div_mult_mod_eq [of b 16] by simp
  qed
  ultimately show ?case
    using digits_group(1,5) [OF small, of 0 0]
    by (simp only: bytes_of.simps digits.simps list.pred_inject simp_thms)
qed simp_all

text \<open>
  C22: base64url is a bijection between non-empty byte strings and the words it accepts. Decoding what
  was encoded gives the bytes back, and a word that decodes at all is the encoding of its bytes: no
  second spelling of a cursor and no empty one is accepted.
\<close>

theorem base64url_bijection:
  assumes "list_all (\<lambda>b. b < 256) bytes"
  shows "decodeBase64Url value = Inr bytes \<longleftrightarrow> bytes \<noteq> [] \<and> value = encodeBase64Url bytes"
proof
  assume enc: "bytes \<noteq> [] \<and> value = encodeBase64Url bytes"
  then have v: "value = map ((!) BASE64URL_ALPHABET) (digits bytes)" by (simp add: encode_digits)
  note small = digits_small [OF assms(1)]
  obtain bits where "fold decode_step (digits bytes) (0, 0, []) = (0, bits, bytes)"
    using fold_digits [OF assms(1), of "[]"] by auto
  moreover have "list_all (\<lambda>c. c \<in> set BASE64URL_ALPHABET) value"
    using small by (auto simp: v list_all_iff)
  ultimately show "decodeBase64Url value = Inr bytes"
    using length_digits [of bytes] conjunct1 [OF enc] by (simp add: decodeBase64Url_def v decode_loop_digits [OF small])
next
  assume dec: "decodeBase64Url value = Inr bytes"
  then have len: "length value mod 4 \<noteq> 1" and alpha: "list_all (\<lambda>c. c \<in> set BASE64URL_ALPHABET) value"
    and nonempty: "value \<noteq> []" and run: "andThen (decode_loop value (0, 0, [])) (\<lambda>(buffer, bits, out).
        if 0 < bits \<and> buffer \<noteq> 0 then projectionError projection_invalid else Inr out) = Inr bytes"
    by (simp_all add: decodeBase64Url_def projectionError_def split: if_splits)
  obtain ds where ds: "value = map ((!) BASE64URL_ALPHABET) ds" "list_all (\<lambda>d. d < 64) ds"
    using word_digits [OF alpha] by blast
  obtain buffer bits out where st: "fold decode_step ds (0, 0, []) = (buffer, bits, out)"
    by (cases "fold decode_step ds (0, 0, [])")
  have "\<not> (0 < bits \<and> buffer \<noteq> 0) \<and> out = bytes"
    using run by (auto simp: ds(1) decode_loop_digits [OF ds(2)] st projectionError_def split: if_splits)
  then have "value = encodeBase64Url bytes"
    using fold_bytes [OF ds(2) _ st] len ds(1) by (simp add: encode_digits)
  moreover have "encodeBase64Url [] = []" by code_simp
  ultimately show "bytes \<noteq> [] \<and> value = encodeBase64Url bytes" using nonempty by auto
qed

theorem base64url_bijection_witness: "decodeBase64Url ''aGk'' = Inr [104, 105] \<and> decodeBase64Url ''aGl'' \<noteq> Inr [104, 105]"
proof -
  have "encodeBase64Url [104, 105] = ''aGk''" by code_simp
  then show ?thesis
    using base64url_bijection [of "[104, 105]" "''aGk''"] base64url_bijection [of "[104, 105]" "''aGl''"] by simp
qed

end
