(* ===== verification/Outbound_Lifecycle.thy ===== *)
theory Outbound_Lifecycle
  imports Projection_Types Js_Date
begin

text \<open>
  \<open>outbound/lifecycle.ts\<close>: one deterministic step of an outbound command that waits for its connection
  or for a human decision. Errors are the plain \<open>Error\<close>s of the source, and the \<open>RangeError\<close> of
  \<open>toISOString\<close>.
\<close>

datatype dispatch_status =
    ODPending | ODWaiting_for_connection | ODConfirmation_required | ODDelivery_uncertain
  | ODWakeup_failed | ODDispatching | ODDispatched | ODCancelled

datatype confirmation_decision = Confirm | Cancel

record outbound_lifecycle_input =
  li_dispatchStatus :: dispatch_status
  li_commandStatus :: command_status
  li_confirmationDecision :: "confirmation_decision option"
  li_confirmationDueAt :: "string option"
  li_createdAt :: string
  li_now :: string
  li_connectionAvailable :: bool

record outbound_lifecycle_transition =
  lt_dispatchStatus :: dispatch_status
  lt_commandStatus :: command_status
  lt_confirmationDueAt :: "string option"

definition FOUR_HOURS_MS :: int where
  "FOUR_HOURS_MS = 4 * 60 * 60 * 1000"

definition parseMilliseconds :: "string \<Rightarrow> int result" where
  "parseMilliseconds timestamp =
     (case date_parse timestamp of
        None \<Rightarrow> Inl PlainError
      | Some ms \<Rightarrow> if is_safe_integer ms then Inr ms else Inl PlainError)"

definition iso_string :: "int \<Rightarrow> string result" where
  "iso_string ms = (case to_iso_string ms of None \<Rightarrow> Inl RangeError | Some s \<Rightarrow> Inr s)"

definition originalDueAt :: "outbound_lifecycle_input \<Rightarrow> string result" where
  "originalDueAt input =
     (case li_confirmationDueAt input of
        Some due \<Rightarrow> andThen (parseMilliseconds due) (\<lambda>_. Inr due)
      | None \<Rightarrow>
          andThen (parseMilliseconds (li_createdAt input)) (\<lambda>created.
          andThen (throwIf (\<not> is_safe_integer (created + FOUR_HOURS_MS)) PlainError) (\<lambda>_.
          iso_string (created + FOUR_HOURS_MS))))"

fun commandStatusForDispatch :: "command_status \<Rightarrow> dispatch_status \<Rightarrow> command_status" where
  "commandStatusForDispatch current ODPending = Accepted"
| "commandStatusForDispatch current ODWaiting_for_connection = Waiting_for_connection"
| "commandStatusForDispatch current ODConfirmation_required = Confirmation_required"
| "commandStatusForDispatch current ODCancelled = Cancelled"
| "commandStatusForDispatch current _ = current"

definition transitionable :: "dispatch_status \<Rightarrow> bool" where
  "transitionable status =
     (status = ODPending \<or> status = ODWaiting_for_connection \<or> status = ODConfirmation_required \<or> status = ODCancelled)"

definition transition_to :: "outbound_lifecycle_input \<Rightarrow> dispatch_status \<Rightarrow> string option \<Rightarrow> outbound_lifecycle_transition" where
  "transition_to input status due =
     \<lparr>lt_dispatchStatus = status, lt_commandStatus = commandStatusForDispatch (li_commandStatus input) status,
      lt_confirmationDueAt = due\<rparr>"

text \<open>\<open>dueAt ?? originalDueAt(input)\<close>, for the \<open>dueAt\<close> the function computed on entry.\<close>

definition due_or_original :: "outbound_lifecycle_input \<Rightarrow> string option \<Rightarrow> string result" where
  "due_or_original input dueAt = (case dueAt of Some d \<Rightarrow> Inr d | None \<Rightarrow> originalDueAt input)"

definition transitionOutboundLifecycle :: "outbound_lifecycle_input \<Rightarrow> outbound_lifecycle_transition result" where
  "transitionOutboundLifecycle input =
     (let current = li_dispatchStatus input;
          reconnected = (if li_connectionAvailable input then ODPending else ODWaiting_for_connection) in
      if \<not> transitionable current then
        Inr \<lparr>lt_dispatchStatus = current, lt_commandStatus = li_commandStatus input,
             lt_confirmationDueAt = li_confirmationDueAt input\<rparr>
      else
        andThen (parseMilliseconds (li_now input)) (\<lambda>now.
        andThen (case li_confirmationDueAt input of
                   None \<Rightarrow> Inr None | Some _ \<Rightarrow> andThen (originalDueAt input) (\<lambda>d. Inr (Some d))) (\<lambda>dueAt.
        if li_confirmationDecision input = Some Cancel \<and> current \<noteq> ODCancelled \<or> current = ODCancelled then
          Inr (transition_to input ODCancelled dueAt)
        else if li_confirmationDecision input = Some Confirm then
          (if reconnected = ODWaiting_for_connection
           then andThen (due_or_original input dueAt) (\<lambda>d. Inr (transition_to input reconnected (Some d)))
           else Inr (transition_to input reconnected dueAt))
        else if current = ODConfirmation_required then
          andThen (due_or_original input dueAt) (\<lambda>d. Inr (transition_to input current (Some d)))
        else if current = ODWaiting_for_connection then
          andThen (due_or_original input dueAt) (\<lambda>d.
          andThen (parseMilliseconds d) (\<lambda>dueMs.
          Inr (transition_to input (if dueMs \<le> now then ODConfirmation_required else reconnected) (Some d))))
        else if \<not> li_connectionAvailable input then
          andThen (due_or_original input dueAt) (\<lambda>d.
          andThen (parseMilliseconds d) (\<lambda>dueMs.
          Inr (transition_to input (if dueMs \<le> now then ODConfirmation_required else ODWaiting_for_connection) (Some d))))
        else Inr (transition_to input current dueAt))))"

section \<open>What a step may change\<close>

lemma originalDueAt_set: "li_confirmationDueAt input = Some d \<Longrightarrow> originalDueAt input = Inr d' \<Longrightarrow> d' = d"
  by (auto simp: originalDueAt_def andThen_eq_Inr)

lemma due_or_original_fixed:
  "due_or_original input dueAt = Inr d \<Longrightarrow> li_confirmationDueAt input = Some due \<Longrightarrow> dueAt = Some due \<Longrightarrow> d = due"
  by (simp add: due_or_original_def)

lemma transition_due:
  assumes "transitionOutboundLifecycle input = Inr t" and "li_confirmationDueAt input = Some due"
  shows "lt_confirmationDueAt t = Some due"
  using assms
  by (auto simp: transitionOutboundLifecycle_def Let_def andThen_eq_Inr transition_to_def due_or_original_def
      dest: originalDueAt_set split: if_splits)

lemma transition_new_due:
  assumes "transitionOutboundLifecycle input = Inr t" and "li_confirmationDueAt input = None"
    and "lt_confirmationDueAt t = Some due"
  shows "originalDueAt input = Inr due"
  using assms
  by (auto simp: transitionOutboundLifecycle_def Let_def andThen_eq_Inr transition_to_def due_or_original_def
      split: if_splits)

text \<open>\<open>Date.parse\<close> reads the deadline that \<open>toISOString\<close> printed, up to the end of the year 9999.\<close>

lemma iso_string_parse:
  assumes "iso_string ms = Inr s" and "0 \<le> ms" and "ms \<le> 253402300799999"
  shows "parseMilliseconds s = Inr ms"
proof -
  let ?d = "ms div ms_per_day"
  have d: "0 \<le> ?d" "?d \<le> 2932896"
  proof -
    show "0 \<le> ?d" using assms(2) by (simp add: ms_per_day_def pos_imp_zdiv_nonneg_iff)
    have "?d \<le> 253402300799999 div ms_per_day"
      using assms(3) by (intro zdiv_mono1) (simp_all add: ms_per_day_def)
    then show "?d \<le> 2932896" by (simp add: ms_per_day_def)
  qed
  have bounds: "day_from_year 0 \<le> 0" "day_from_year 10000 = 2932897" "day_from_year (- 1) \<le> 0" by code_simp+
  note spec = year_from_day_spec [of ?d]
  have "year_from_day ?d \<le> 9999"
  proof (rule ccontr)
    assume "\<not> year_from_day ?d \<le> 9999"
    then have "day_from_year 10000 \<le> day_from_year (year_from_day ?d)" by (intro day_from_year_mono) simp
    then show False using spec d bounds(2) by linarith
  qed
  moreover have "0 \<le> year_from_day ?d"
  proof (rule ccontr)
    assume "\<not> 0 \<le> year_from_day ?d"
    then have "day_from_year (year_from_day ?d + 1) \<le> day_from_year 0" by (intro day_from_year_mono) simp
    then show False using spec d bounds(1) by linarith
  qed
  ultimately have "date_parse s = Some ms"
    using assms(1) by (intro date_parse_to_iso_string) (auto simp: iso_string_def split: option.splits)
  then show ?thesis
    using assms(2,3) by (simp add: parseMilliseconds_def is_safe_integer_def MAX_SAFE_INTEGER_def)
qed

definition deadline_ok :: "string \<Rightarrow> string option \<Rightarrow> bool" where
  "deadline_ok createdAt due =
     (case due of
        Some _ \<Rightarrow> True
      | None \<Rightarrow> (case parseMilliseconds createdAt of
          Inl _ \<Rightarrow> False | Inr c \<Rightarrow> 0 \<le> c \<and> c + FOUR_HOURS_MS \<le> 253402300799999))"

lemma originalDueAt_parses:
  assumes "originalDueAt input = Inr d" and "deadline_ok (li_createdAt input) (li_confirmationDueAt input)"
  shows "\<exists>ms. parseMilliseconds d = Inr ms"
proof (cases "li_confirmationDueAt input")
  case None
  then obtain c where c: "parseMilliseconds (li_createdAt input) = Inr c" "0 \<le> c" "c + FOUR_HOURS_MS \<le> 253402300799999"
    using assms(2) by (auto simp: deadline_ok_def split: sum.splits)
  then have "iso_string (c + FOUR_HOURS_MS) = Inr d"
    using assms(1) None by (auto simp: originalDueAt_def andThen_eq_Inr)
  then show ?thesis using iso_string_parse c by (fastforce simp: FOUR_HOURS_MS_def)
qed (use assms(1) in \<open>auto simp: originalDueAt_def andThen_eq_Inr\<close>)

section \<open>Properties\<close>


definition sample_waiting :: outbound_lifecycle_input where
  "sample_waiting = \<lparr>li_dispatchStatus = ODWaiting_for_connection, li_commandStatus = Waiting_for_connection,
     li_confirmationDecision = None, li_confirmationDueAt = None, li_createdAt = ''2026-01-01T00:00:00.000Z'',
     li_now = ''2026-01-01T04:00:00.000Z'', li_connectionAvailable = True\<rparr>"

lemma sample_waiting_runs: "transitionOutboundLifecycle sample_waiting =
  Inr \<lparr>lt_dispatchStatus = ODConfirmation_required, lt_commandStatus = Confirmation_required,
       lt_confirmationDueAt = Some ''2026-01-01T04:00:00.000Z''\<rparr>"
  by code_simp


text \<open>
  C24: reconciling again changes nothing. Repeating a step at the same instant, with the same decision
  and connection, on the state the first step left gives that state again.
\<close>

theorem lifecycle_step_is_idempotent:
  assumes "transitionOutboundLifecycle input = Inr t" and "deadline_ok (li_createdAt input) (li_confirmationDueAt input)"
  shows "transitionOutboundLifecycle (input\<lparr>li_dispatchStatus := lt_dispatchStatus t, li_commandStatus := lt_commandStatus t,
     li_confirmationDueAt := lt_confirmationDueAt t\<rparr>) = Inr t"
proof (cases "transitionable (li_dispatchStatus input)")
  case False
  with assms(1) show ?thesis by (auto simp: transitionOutboundLifecycle_def Let_def)
next
  case True
  let ?again = "\<lambda>d. originalDueAt (input\<lparr>li_dispatchStatus := lt_dispatchStatus t, li_commandStatus := lt_commandStatus t,
     li_confirmationDueAt := Some d\<rparr>)"
  have parse: "\<exists>ms. parseMilliseconds d = Inr ms" if "lt_confirmationDueAt t = Some d" for d
  proof (cases "li_confirmationDueAt input")
    case None
    then show ?thesis using transition_new_due [OF assms(1) None that] originalDueAt_parses assms(2) by blast
  next
    case (Some due)
    with transition_due [OF assms(1) Some] that have "d = due" by simp
    with Some assms(1) True show ?thesis
      by (auto simp: transitionOutboundLifecycle_def Let_def andThen_eq_Inr originalDueAt_def)
  qed
  have again: "?again d = Inr d" if "lt_confirmationDueAt t = Some d" for d
    using parse [OF that] by (auto simp: originalDueAt_def)
  obtain now where now: "parseMilliseconds (li_now input) = Inr now"
    using assms(1) True by (auto simp: transitionOutboundLifecycle_def Let_def andThen_eq_Inr)
  show ?thesis
    using assms(1) True now parse again
    by (auto simp: transitionOutboundLifecycle_def transitionable_def Let_def andThen_eq_Inr transition_to_def
        due_or_original_def split: if_splits option.splits)
qed

theorem lifecycle_step_is_idempotent_witness:
  "deadline_ok (li_createdAt sample_waiting) (li_confirmationDueAt sample_waiting)
   \<and> transitionOutboundLifecycle (sample_waiting\<lparr>li_dispatchStatus := ODConfirmation_required,
       li_commandStatus := Confirmation_required, li_confirmationDueAt := Some ''2026-01-01T04:00:00.000Z''\<rparr>)
     = transitionOutboundLifecycle sample_waiting"
proof -
  have "deadline_ok (li_createdAt sample_waiting) (li_confirmationDueAt sample_waiting)" by code_simp
  then show ?thesis using lifecycle_step_is_idempotent [OF sample_waiting_runs] sample_waiting_runs by simp
qed

end
