(* ===== verification/Outbound_Ledger.thy ===== *)
theory Outbound_Ledger
  imports Tenant_Batch Outbound_Lifecycle Canonical_Json Restore_Lease
begin

text \<open>
  The outbound dispatch ledger of \<open>projection/tenant-projection.ts\<close>: one row per accepted reply, its
  delivery evidence, the human decisions on it, and the operations that accept, claim, release, fail,
  reconcile and decide. Every operation runs its writes in one \<open>transactionSync\<close>: when it throws, no
  write remains. What an operation reads before an \<open>await\<close> comes from an earlier state of the object,
  an argument of its own. Inputs have passed their schemas. Whether a response passes its schema, and
  SHA-256, are fields of the environment \<open>outbound_env\<close>.
\<close>

section \<open>Rows\<close>

datatype outbound_stage = Stage_unknown | Stage_confirmed | Stage_accepted | Stage_delivered

datatype evidence_source = From_matrix | From_bridge | From_provider | From_refresh

datatype evidence_status = Ev_confirmed | Ev_accepted | Ev_delivered | Ev_uncertain

datatype outbound_action = Act_cancel | Act_continue | Act_resend

datatype outbound_decision = Dec_confirm | Dec_cancel | Dec_continue | Dec_resend

datatype capability_kind = Kind_account_grant | Kind_owner_admin

text \<open>\<open>OutboundCapabilitySchema\<close>: the id and the epoch of a grant or of an owner authority.\<close>

datatype outbound_capability = Account_grant string int | Owner_admin string int

record authority_metadata =
  au_reservation_id :: string
  au_membership_id :: string
  au_identity_id :: string
  au_capability :: outbound_capability

record authority_columns =
  ac_reservation_id :: "string option"
  ac_membership_id :: "string option"
  ac_identity_id :: "string option"
  ac_capability_kind :: "capability_kind option"
  ac_capability_id :: "string option"
  ac_capability_epoch :: "int option"

text \<open>
  \<open>OutboundDispatchRow\<close> in two records: the columns that only an \<open>INSERT\<close> writes, and the row itself
  with the columns that \<open>UPDATE\<close>s write.
\<close>

record dispatch_request =
  rq_id :: string
  rq_command_id :: string
  rq_message_id :: string
  rq_event_id :: string
  rq_tenant_id :: string
  rq_actor_principal_id :: string
  rq_actor_identity_id :: string
  rq_resource_identity_id :: string
  rq_account_id :: string
  rq_connection_id :: string
  rq_conversation_id :: string
  rq_platform :: provider
  rq_idempotency_key :: string
  rq_body_digest :: string
  rq_body :: string
  rq_delivery_mode :: delivery_mode
  rq_transaction_id :: string
  rq_request_digest :: string
  rq_projection_generation :: int
  rq_duplicate_risk :: bool
  rq_resend_of_command_id :: "string option"
  rq_created_at :: string
  rq_authority :: authority_columns

record dispatch_row =
  od_request :: dispatch_request
  od_status :: dispatch_status
  od_confirmation_due_at :: "string option"
  od_confirmation_decision :: "confirmation_decision option"
  od_confirmation_actor_principal_id :: "string option"
  od_confirmation_actor_identity_id :: "string option"
  od_confirmation_decided_at :: "string option"
  od_dispatch_lease_id :: "string option"
  od_dispatch_lease_expires_at :: "string option"
  od_uncertainty_reason :: "string option"
  od_uncertain_at :: "string option"
  od_matrix_stage :: outbound_stage
  od_bridge_stage :: outbound_stage
  od_provider_stage :: outbound_stage
  od_last_evidence_at :: "string option"
  od_chat_paused :: bool
  od_last_action :: "outbound_action option"
  od_last_action_actor_principal_id :: "string option"
  od_last_action_at :: "string option"
  od_updated_at :: string

abbreviation od_id :: "dispatch_row \<Rightarrow> string" where "od_id r \<equiv> rq_id (od_request r)"
abbreviation od_command_id :: "dispatch_row \<Rightarrow> string" where "od_command_id r \<equiv> rq_command_id (od_request r)"

record outbound_decision_row =
  dc_id :: string
  dc_tenant_id :: string
  dc_command_id :: string
  dc_dispatch_id :: string
  dc_decision :: confirmation_decision
  dc_idempotency_key :: string
  dc_actor_principal_id :: string
  dc_actor_identity_id :: string
  dc_decided_at :: string

record outbound_evidence_input =
  oe_tenant_id :: string
  oe_command_id :: string
  oe_source :: evidence_source
  oe_evidence_id :: string
  oe_transaction_id :: string
  oe_request_digest :: string
  oe_account_id :: string
  oe_conversation_id :: string
  oe_generation :: int
  oe_status :: evidence_status
  oe_observed_at :: string
  oe_provider_operation_id :: "string option"
  oe_provider_message_id :: "string option"
  oe_remote_echo_id :: "string option"
  oe_reason :: "string option"

text \<open>An evidence row is the evidence with the ids of its row and dispatch and the time it was stored.\<close>

record outbound_evidence_row = outbound_evidence_input +
  oe_id :: string
  oe_dispatch_id :: string
  oe_created_at :: string

record outbound_action_row =
  oa_id :: string
  oa_tenant_id :: string
  oa_original_command_id :: string
  oa_new_command_id :: "string option"
  oa_action :: outbound_action
  oa_idempotency_key :: string
  oa_actor_principal_id :: string
  oa_actor_identity_id :: string
  oa_duplicate_risk_acknowledged :: bool
  oa_action_at :: string
  oa_created_at :: string

text \<open>The durable object: the receive-side store and the four tables of the outbound ledger.\<close>

record projection_object =
  po_store :: tenant_store
  outbound_dispatches :: "dispatch_row list"
  outbound_evidence :: "outbound_evidence_row list"
  outbound_actions :: "outbound_action_row list"
  outbound_command_decisions :: "outbound_decision_row list"

record outbound_response =
  or_command :: command_row
  or_dispatch :: dispatch_row
  or_message :: "message_row option"
  or_replayed :: bool
  or_action :: "outbound_action option"
  or_duplicate_risk :: "bool option"

record outbound_env =
  env_sha256Hex :: "string \<Rightarrow> string"
  env_parses_dispatch :: "dispatch_row \<Rightarrow> bool"
  env_parses_command :: "command_row \<Rightarrow> dispatch_row \<Rightarrow> bool"
  env_parses_message :: "message_row \<Rightarrow> bool"

section \<open>Reads and writes\<close>

definition readOutboundDispatchByKey :: "projection_object \<Rightarrow> string \<Rightarrow> dispatch_row option" where
  "readOutboundDispatchByKey st key = find (\<lambda>r. rq_idempotency_key (od_request r) = key) (outbound_dispatches st)"

definition readOutboundDispatchByCommand :: "projection_object \<Rightarrow> string \<Rightarrow> dispatch_row option" where
  "readOutboundDispatchByCommand st commandId = find (\<lambda>r. od_command_id r = commandId) (outbound_dispatches st)"

definition readOutboundDecisionByCommand :: "projection_object \<Rightarrow> string \<Rightarrow> outbound_decision_row option" where
  "readOutboundDecisionByCommand st commandId = find (\<lambda>r. dc_command_id r = commandId) (outbound_command_decisions st)"

definition readOutboundActionByKey :: "projection_object \<Rightarrow> string \<Rightarrow> outbound_action_row option" where
  "readOutboundActionByKey st key = find (\<lambda>r. oa_idempotency_key r = key) (outbound_actions st)"

definition readOutboundCommand :: "projection_object \<Rightarrow> string \<Rightarrow> command_row option" where
  "readOutboundCommand st commandId = find (\<lambda>r. k_id r = commandId) (commands (tables (po_store st)))"

definition readOutboundMessage :: "projection_object \<Rightarrow> string \<Rightarrow> message_row option" where
  "readOutboundMessage st messageId = find (\<lambda>r. m_id r = messageId) (messages (tables (po_store st)))"

text \<open>\<open>UPDATE outbound_dispatches SET \<dots> WHERE \<dots>\<close> and \<open>UPDATE commands SET \<dots> WHERE \<dots>\<close>.\<close>

definition upd_dispatch :: "(dispatch_row \<Rightarrow> bool) \<Rightarrow> (dispatch_row \<Rightarrow> dispatch_row) \<Rightarrow> projection_object \<Rightarrow> projection_object" where
  "upd_dispatch P f st = st\<lparr>outbound_dispatches := upd_where P f (outbound_dispatches st)\<rparr>"

definition upd_tables :: "(projection_db \<Rightarrow> projection_db) \<Rightarrow> projection_object \<Rightarrow> projection_object" where
  "upd_tables f st = st\<lparr>po_store := (po_store st)\<lparr>tables := f (tables (po_store st))\<rparr>\<rparr>"

definition upd_command :: "(command_row \<Rightarrow> bool) \<Rightarrow> (command_row \<Rightarrow> command_row) \<Rightarrow> projection_object \<Rightarrow> projection_object" where
  "upd_command P f = upd_tables (\<lambda>db. db\<lparr>commands := upd_where P f (commands db)\<rparr>)"

text \<open>The \<open>UNIQUE\<close> columns and the digest lengths of \<open>outbound_dispatches\<close>.\<close>

definition request_clash :: "dispatch_request \<Rightarrow> dispatch_request \<Rightarrow> bool" where
  "request_clash a b =
     (rq_id a = rq_id b \<or> rq_command_id a = rq_command_id b \<or> rq_message_id a = rq_message_id b
      \<or> rq_event_id a = rq_event_id b \<or> rq_idempotency_key a = rq_idempotency_key b
      \<or> rq_transaction_id a = rq_transaction_id b)"

definition insert_dispatch :: "dispatch_row \<Rightarrow> projection_object \<Rightarrow> projection_object result" where
  "insert_dispatch row st =
     (if list_ex (\<lambda>r. request_clash (od_request r) (od_request row)) (outbound_dispatches st)
         \<or> length (rq_body_digest (od_request row)) \<noteq> 64 \<or> length (rq_request_digest (od_request row)) \<noteq> 64
         \<or> rq_projection_generation (od_request row) < 1
      then Inl SqliteConstraint
      else Inr (st\<lparr>outbound_dispatches := outbound_dispatches st @ [row]\<rparr>))"

definition insert_message :: "message_row \<Rightarrow> projection_object \<Rightarrow> projection_object result" where
  "insert_message row st =
     andThen (ins_row m_id row (messages (tables (po_store st)))) (\<lambda>rows.
     Inr (upd_tables (\<lambda>db. db\<lparr>messages := rows\<rparr>) st))"

definition insert_command :: "command_row \<Rightarrow> projection_object \<Rightarrow> projection_object result" where
  "insert_command row st =
     andThen (ins_row k_id row (commands (tables (po_store st)))) (\<lambda>rows.
     Inr (upd_tables (\<lambda>db. db\<lparr>commands := rows\<rparr>) st))"

section \<open>Authority and responses\<close>

text \<open>
  A response copies columns of the rows it is built from, so it is represented by those rows: the body and
  the platform of a dispatch are columns its response leaves out. Parsing the response can throw; whether
  it does is a field of the environment.
\<close>

definition capability_ok :: "outbound_capability \<Rightarrow> bool" where
  "capability_ok c = (case c of Account_grant i e \<Rightarrow> communicator_id i \<and> 0 < e | Owner_admin i e \<Rightarrow> communicator_id i \<and> 0 < e)"

definition authorityMetadataFromRow :: "dispatch_row \<Rightarrow> authority_metadata option result" where
  "authorityMetadataFromRow row =
     (let c = rq_authority (od_request row) in
      case (ac_reservation_id c, ac_membership_id c, ac_identity_id c, ac_capability_kind c, ac_capability_id c,
            ac_capability_epoch c) of
        (Some reservation, Some membership, Some identity, Some capKind, Some i, Some e) \<Rightarrow>
          let capability = (case capKind of Kind_account_grant \<Rightarrow> Account_grant i e | Kind_owner_admin \<Rightarrow> Owner_admin i e)
          in andThen (throwIf (\<not> communicator_id reservation \<or> \<not> communicator_id membership
                               \<or> \<not> communicator_id identity \<or> \<not> capability_ok capability) ZodError) (\<lambda>_.
             Inr (Some \<lparr>au_reservation_id = reservation, au_membership_id = membership,
               au_identity_id = identity, au_capability = capability\<rparr>))
      | _ \<Rightarrow> Inr None)"

definition authority_columns_of :: "authority_metadata option \<Rightarrow> authority_columns" where
  "authority_columns_of authority =
     (case authority of
        None \<Rightarrow> \<lparr>ac_reservation_id = None, ac_membership_id = None, ac_identity_id = None,
                 ac_capability_kind = None, ac_capability_id = None, ac_capability_epoch = None\<rparr>
      | Some a \<Rightarrow>
          (case au_capability a of
             Account_grant i e \<Rightarrow> \<lparr>ac_reservation_id = Some (au_reservation_id a), ac_membership_id = Some (au_membership_id a),
               ac_identity_id = Some (au_identity_id a), ac_capability_kind = Some Kind_account_grant,
               ac_capability_id = Some i, ac_capability_epoch = Some e\<rparr>
           | Owner_admin i e \<Rightarrow> \<lparr>ac_reservation_id = Some (au_reservation_id a), ac_membership_id = Some (au_membership_id a),
               ac_identity_id = Some (au_identity_id a), ac_capability_kind = Some Kind_owner_admin,
               ac_capability_id = Some i, ac_capability_epoch = Some e\<rparr>))"

definition mapOutboundDispatch :: "outbound_env \<Rightarrow> dispatch_row \<Rightarrow> dispatch_row result" where
  "mapOutboundDispatch env row =
     andThen (authorityMetadataFromRow row) (\<lambda>_.
     andThen (throwIf (\<not> env_parses_dispatch env row) ZodError) (\<lambda>_. Inr row))"

definition mapOutboundCommand :: "outbound_env \<Rightarrow> command_row \<Rightarrow> dispatch_row \<Rightarrow> command_row result" where
  "mapOutboundCommand env command dispatch =
     andThen (authorityMetadataFromRow dispatch) (\<lambda>_.
     andThen (throwIf (\<not> env_parses_command env command dispatch) ZodError) (\<lambda>_. Inr command))"

definition mapOutboundMessage :: "outbound_env \<Rightarrow> message_row \<Rightarrow> message_row result" where
  "mapOutboundMessage env row =
     andThen (throwIf (\<not> env_parses_message env row) ZodError) (\<lambda>_.
     Inr (if m_deleted_at row = None then row
          else row\<lparr>m_sender_label := ''Deleted sender'', m_body := '''', m_attachment_count := 0\<rparr>))"

definition outbound_result ::
  "outbound_env \<Rightarrow> command_row \<Rightarrow> dispatch_row \<Rightarrow> bool \<Rightarrow> outbound_response result" where
  "outbound_result env command dispatch replayed =
     andThen (mapOutboundCommand env command dispatch) (\<lambda>c.
     andThen (mapOutboundDispatch env dispatch) (\<lambda>d.
     Inr \<lparr>or_command = c, or_dispatch = d, or_message = None, or_replayed = replayed, or_action = None,
          or_duplicate_risk = None\<rparr>))"

text \<open>The guards every operation starts with; the object is named by its tenant.\<close>

definition require_ready :: "projection_object \<Rightarrow> string \<Rightarrow> projection_meta_row result" where
  "require_ready st tenantId =
     andThen (readProjectionMeta (po_store st)) (\<lambda>meta.
     andThen (requireStoredTenant meta tenantId) (\<lambda>_.
     andThen (requireReadyState meta) (\<lambda>_. Inr meta)))"

end
