(* ===== verification/Outbound_Operations.thy ===== *)
theory Outbound_Operations
  imports Outbound_Ledger
begin

text \<open>
  The operations on the outbound ledger, in the order of \<open>projection/tenant-projection.ts\<close>: the alarm,
  \<open>acceptTextReply\<close>, \<open>claimOutboundDispatch\<close>, \<open>getOutboundDispatchPayload\<close>, \<open>failOutboundDispatch\<close>,
  \<open>reconcileOutbound\<close> and \<open>decideOutbound\<close>.
\<close>

section \<open>The alarm\<close>

definition parseStoredMilliseconds :: "string \<Rightarrow> int result" where
  "parseStoredMilliseconds timestamp =
     (case date_parse timestamp of
        None \<Rightarrow> Inl PlainError
      | Some ms \<Rightarrow> if is_safe_integer ms then Inr ms else Inl PlainError)"

text \<open>\<open>Date.parse(lease)\<close> of a nullable column, when it is a safe integer; \<open>NaN\<close> otherwise.\<close>

definition lease_expiry :: "dispatch_row \<Rightarrow> int option" where
  "lease_expiry row =
     (case od_dispatch_lease_expires_at row of
        None \<Rightarrow> None
      | Some t \<Rightarrow> (case date_parse t of None \<Rightarrow> None | Some ms \<Rightarrow> if is_safe_integer ms then Some ms else None))"

definition lifecycle_input :: "dispatch_row \<Rightarrow> command_row \<Rightarrow> confirmation_decision option \<Rightarrow> string \<Rightarrow> bool \<Rightarrow> outbound_lifecycle_input" where
  "lifecycle_input dispatch command decision now available =
     \<lparr>li_dispatchStatus = od_status dispatch, li_commandStatus = k_status command,
      li_confirmationDecision = decision, li_confirmationDueAt = od_confirmation_due_at dispatch,
      li_createdAt = rq_created_at (od_request dispatch), li_now = now, li_connectionAvailable = available\<rparr>"

text \<open>The writes of a lifecycle transition, guarded by the status that was read.\<close>

definition store_transition ::
  "dispatch_row \<Rightarrow> command_row \<Rightarrow> outbound_lifecycle_transition \<Rightarrow> string \<Rightarrow> projection_object \<Rightarrow> projection_object" where
  "store_transition dispatch command t updatedAt st =
     (if lt_dispatchStatus t = od_status dispatch \<and> lt_commandStatus t = k_status command
         \<and> lt_confirmationDueAt t = od_confirmation_due_at dispatch then st
      else
        let st1 = upd_dispatch (\<lambda>r. od_id r = od_id dispatch \<and> od_status r = od_status dispatch)
              (\<lambda>r. r\<lparr>od_status := lt_dispatchStatus t, od_confirmation_due_at := lt_confirmationDueAt t,
                     od_updated_at := updatedAt\<rparr>) st
        in if lt_commandStatus t \<noteq> k_status command
           then upd_command (\<lambda>k. k_id k = k_id command \<and> k_status k = k_status command)
                  (\<lambda>k. k\<lparr>k_status := lt_commandStatus t, k_updated_at := updatedAt\<rparr>) st1
           else st1)"

text \<open>\<open>UPDATE commands SET status = 'delivery_uncertain', \<dots> AND status NOT IN ('cancelled','delivered')\<close>.\<close>

definition doubt_command :: "command_row \<Rightarrow> string \<Rightarrow> projection_object \<Rightarrow> projection_object" where
  "doubt_command command now =
     upd_command (\<lambda>k. k_id k = k_id command \<and> k_status k \<noteq> Cancelled \<and> k_status k \<noteq> Delivered)
       (\<lambda>k. k\<lparr>k_status := Delivery_uncertain, k_updated_at := now\<rparr>)"

text \<open>The transaction of one row of \<open>#processOutboundAlarm\<close>.\<close>

definition alarm_row :: "int \<Rightarrow> bool \<Rightarrow> string \<Rightarrow> projection_object \<Rightarrow> projection_object result" where
  "alarm_row now available commandId st =
     (case readOutboundDispatchByCommand st commandId of
        None \<Rightarrow> Inr st
      | Some current \<Rightarrow>
          (case readOutboundCommand st (od_command_id current) of
             None \<Rightarrow> Inr st
           | Some command \<Rightarrow>
               if od_status current = ODDispatching then
                 (case lease_expiry current of
                    None \<Rightarrow> Inr st
                  | Some e \<Rightarrow>
                      if now < e then Inr st
                      else andThen (iso_string now) (\<lambda>updatedAt.
                        Inr (doubt_command command updatedAt
                          (upd_dispatch (\<lambda>r. od_id r = od_id current \<and> od_status r = ODDispatching)
                            (\<lambda>r. r\<lparr>od_status := ODDelivery_uncertain, od_chat_paused := True,
                               od_uncertainty_reason := Some (case od_uncertainty_reason r of None \<Rightarrow> ''expired_dispatch_lease'' | Some x \<Rightarrow> x),
                               od_uncertain_at := Some (case od_uncertain_at r of None \<Rightarrow> updatedAt | Some x \<Rightarrow> x),
                               od_dispatch_lease_id := None, od_dispatch_lease_expires_at := None,
                               od_updated_at := updatedAt\<rparr>) st))))
               else if od_status current = ODWaiting_for_connection then
                 andThen (iso_string now) (\<lambda>nowIso.
                 andThen (transitionOutboundLifecycle
                   (lifecycle_input current command (od_confirmation_decision current) nowIso available)) (\<lambda>t.
                 Inr (store_transition current command t nowIso st)))
               else Inr st))"

text \<open>
  The rows of one alarm, in the order of the query; \<open>avail\<close> is \<open>#connectionAvailable\<close> for each. An
  iteration that throws ends the loop, with the writes of the earlier iterations committed.
\<close>

fun alarm_rows :: "int \<Rightarrow> (string \<Rightarrow> string \<Rightarrow> bool) \<Rightarrow> dispatch_row list \<Rightarrow> projection_object
    \<Rightarrow> projection_object \<times> failure option" where
  "alarm_rows now avail [] st = (st, None)"
| "alarm_rows now avail (row # rows) st =
     (case alarm_row now (avail (rq_tenant_id (od_request row)) (rq_connection_id (od_request row))) (od_command_id row) st of
        Inl e \<Rightarrow> (st, Some e)
      | Inr st' \<Rightarrow> alarm_rows now avail rows st')"

text \<open>\<open>ORDER BY confirmation_due_at ASC, id ASC\<close>: a \<open>NULL\<close> deadline sorts first.\<close>

definition alarm_order :: "dispatch_row \<Rightarrow> bool \<times> string \<times> string" where
  "alarm_order r = (case od_confirmation_due_at r of None \<Rightarrow> (False, '''', od_id r) | Some d \<Rightarrow> (True, d, od_id r))"

definition processOutboundAlarm ::
  "int \<Rightarrow> (string \<Rightarrow> string \<Rightarrow> bool) \<Rightarrow> projection_object \<Rightarrow> projection_object \<times> failure option" where
  "processOutboundAlarm now avail st =
     alarm_rows now avail
       (sort_key alarm_order (filter (\<lambda>r. od_status r \<in> {ODWaiting_for_connection, ODPending, ODConfirmation_required,
          ODDispatching, ODDelivery_uncertain}) (outbound_dispatches st))) st"

definition nextOutboundAlarm :: "int \<Rightarrow> projection_object \<Rightarrow> int option" where
  "nextOutboundAlarm now st =
     (let deadline = (\<lambda>r. case od_dispatch_lease_expires_at r of Some t \<Rightarrow> Some t | None \<Rightarrow> od_confirmation_due_at r);
          rows = sort_key (\<lambda>r. case deadline r of None \<Rightarrow> '''' | Some t \<Rightarrow> t)
            (filter (\<lambda>r. od_status r \<in> {ODWaiting_for_connection, ODPending, ODDispatching}
               \<and> od_confirmation_decision r = None
               \<and> (od_confirmation_due_at r \<noteq> None \<or> od_dispatch_lease_expires_at r \<noteq> None)) (outbound_dispatches st));
          dueMs = (\<lambda>r. case deadline r of None \<Rightarrow> None | Some t \<Rightarrow>
            (case date_parse t of None \<Rightarrow> None | Some ms \<Rightarrow> if is_safe_integer ms \<and> now < ms then Some ms else None))
      in case find (\<lambda>r. dueMs r \<noteq> None) rows of None \<Rightarrow> None | Some r \<Rightarrow> dueMs r)"

section \<open>Accepting a reply\<close>

datatype initial_dispatch_status = Initial_pending | Initial_waiting_for_connection

record reply_input =
  tr_tenant_id :: string
  tr_actor_principal_id :: string
  tr_actor_identity_id :: string
  tr_conversation_id :: string
  tr_account_id :: "string option"
  tr_body :: string
  tr_delivery_mode :: delivery_mode
  tr_idempotency_key :: string
  tr_accepted_at :: string
  tr_initial_dispatch_status :: "initial_dispatch_status option"
  tr_confirmation_due_at :: "string option"
  tr_authority :: "authority_metadata option"

text \<open>
  The owner of the conversation and the binding of its account, read before hashing and again inside
  the transaction.
\<close>

definition reply_boundary :: "reply_input \<Rightarrow> projection_object \<Rightarrow> (projection_meta_row \<times> account_row) result" where
  "reply_boundary input st =
     (let db = tables (po_store st) in
      andThen (require_ready st (tr_tenant_id input)) (\<lambda>meta.
      case find (\<lambda>c. c_id c = tr_conversation_id input \<and> c_deleted_at c = None) (conversations db) of
        None \<Rightarrow> projectionError projection_forbidden
      | Some c \<Rightarrow>
          let owner = account_row.truncate c in
          andThen (throwIf (tr_account_id input \<noteq> None \<and> tr_account_id input \<noteq> Some (account_id owner))
                     (ProjectionError projection_conflict)) (\<lambda>_.
          case find (\<lambda>b. b_account_id b = account_id owner) (connection_bindings db) of
            None \<Rightarrow> projectionError projection_conflict
          | Some b \<Rightarrow>
              andThen (throwIf (b_connection_id b \<noteq> connection_id owner \<or> b_identity_id b \<noteq> identity_id owner
                                \<or> b_platform b \<noteq> platform owner) (ProjectionError projection_conflict)) (\<lambda>_.
              Inr (meta, owner)))))"

fun delivery_mode_text :: "delivery_mode \<Rightarrow> string" where
  "delivery_mode_text Direct = ''direct''"
| "delivery_mode_text Paced = ''paced''"

text \<open>\<open>sha256Hex(new TextEncoder().encode(canonicalJsonStringify(value)))\<close>.\<close>

definition digest_of :: "outbound_env \<Rightarrow> json \<Rightarrow> string result" where
  "digest_of env v = (case canonicalJsonStringify v of Inl _ \<Rightarrow> Inl PlainError | Inr s \<Rightarrow> Inr (env_sha256Hex env s))"

definition reply_body_json :: "reply_input \<Rightarrow> string \<Rightarrow> json" where
  "reply_body_json input ownerAccount =
     JObj [(''actor_principal_id'', JStr (tr_actor_principal_id input)),
           (''actor_identity_id'', JStr (tr_actor_identity_id input)),
           (''conversation_id'', JStr (tr_conversation_id input)), (''account_id'', JStr ownerAccount),
           (''body'', JStr (tr_body input)), (''delivery_mode'', JStr (delivery_mode_text (tr_delivery_mode input)))]"

definition reply_request_json :: "string \<Rightarrow> string \<Rightarrow> json" where
  "reply_request_json bodyDigest idempotencyKey =
     JObj [(''body_digest'', JStr bodyDigest), (''idempotency_key'', JStr idempotencyKey)]"

definition outbound_id :: "string \<Rightarrow> string \<Rightarrow> string" where
  "outbound_id noun requestDigest = noun @ ''_outbound_'' @ js_take 48 requestDigest"

text \<open>The message row of an accepted reply or of a resend.\<close>

definition outbound_message :: "account_row \<Rightarrow> string \<Rightarrow> string \<Rightarrow> string \<Rightarrow> string \<Rightarrow> int \<Rightarrow> string \<Rightarrow> message_row" where
  "outbound_message owner conversation mid body at ms eventId =
     \<lparr>identity_id = identity_id owner, account_id = account_id owner, connection_id = connection_id owner,
      platform = platform owner, conversation_id = conversation, m_id = mid, m_direction = Outbound,
      m_sender_participant_id = None, m_sender_label = ''Communicator'', m_body = body,
      m_reply_to_message_id = None, m_delivery_status = DAccepted, m_unread = 0, m_local_read_at = None,
      m_occurred_at = at, m_occurred_ms = ms, m_observed_at = at, m_current_observed_ms = ms,
      m_current_event_id = eventId, m_matrix_room_id = None, m_matrix_event_id = None,
      m_remote_message_id = None, m_edited_at = None, m_deleted_at = None, m_deletion_reason = None,
      m_attachment_count = 0, m_delivery_failure_code = None, m_delivery_observed_ms = None,
      m_delivery_event_id = None\<rparr>"

definition outbound_command ::
  "account_row \<Rightarrow> string \<Rightarrow> string \<Rightarrow> string \<Rightarrow> delivery_mode \<Rightarrow> command_status \<Rightarrow> string \<Rightarrow> int \<Rightarrow> string \<Rightarrow> command_row" where
  "outbound_command owner actor conversation kid mode status at ms eventId =
     \<lparr>identity_id = actor, account_id = account_id owner, connection_id = connection_id owner,
      platform = platform owner, conversation_id = conversation, k_id = kid, k_operation = ''message.send'',
      k_delivery_mode = mode, k_status = status, k_failure_code = None, k_created_at = at, k_updated_at = at,
      k_last_observed_ms = ms, k_last_event_id = eventId\<rparr>"

text \<open>A dispatch row as it is inserted.\<close>

definition new_dispatch :: "dispatch_request \<Rightarrow> dispatch_status \<Rightarrow> string option \<Rightarrow> dispatch_row" where
  "new_dispatch request status due =
     \<lparr>od_request = request, od_status = status, od_confirmation_due_at = due, od_confirmation_decision = None,
      od_confirmation_actor_principal_id = None, od_confirmation_actor_identity_id = None,
      od_confirmation_decided_at = None, od_dispatch_lease_id = None, od_dispatch_lease_expires_at = None,
      od_uncertainty_reason = None, od_uncertain_at = None, od_matrix_stage = Stage_unknown,
      od_bridge_stage = Stage_unknown, od_provider_stage = Stage_unknown, od_last_evidence_at = None,
      od_chat_paused = False, od_last_action = None, od_last_action_actor_principal_id = None,
      od_last_action_at = None, od_updated_at = rq_created_at request\<rparr>"

definition reply_request :: "reply_input \<Rightarrow> account_row \<Rightarrow> int \<Rightarrow> string \<Rightarrow> string \<Rightarrow> dispatch_request" where
  "reply_request input owner generation bodyDigest requestDigest =
     \<lparr>rq_id = outbound_id ''dispatch'' requestDigest, rq_command_id = outbound_id ''command'' requestDigest,
      rq_message_id = outbound_id ''message'' requestDigest, rq_event_id = outbound_id ''event'' requestDigest,
      rq_tenant_id = tr_tenant_id input, rq_actor_principal_id = tr_actor_principal_id input,
      rq_actor_identity_id = tr_actor_identity_id input, rq_resource_identity_id = identity_id owner,
      rq_account_id = account_id owner, rq_connection_id = connection_id owner,
      rq_conversation_id = tr_conversation_id input, rq_platform = platform owner,
      rq_idempotency_key = tr_idempotency_key input, rq_body_digest = bodyDigest, rq_body = tr_body input,
      rq_delivery_mode = tr_delivery_mode input, rq_transaction_id = outbound_id ''transaction'' requestDigest,
      rq_request_digest = requestDigest, rq_projection_generation = generation, rq_duplicate_risk = False,
      rq_resend_of_command_id = None, rq_created_at = tr_accepted_at input,
      rq_authority = authority_columns_of (tr_authority input)\<rparr>"

definition reply_result ::
  "outbound_env \<Rightarrow> command_row \<Rightarrow> message_row \<Rightarrow> dispatch_row \<Rightarrow> bool \<Rightarrow> outbound_response result" where
  "reply_result env command message dispatch replayed =
     andThen (outbound_result env command dispatch replayed) (\<lambda>r.
     andThen (mapOutboundMessage env message) (\<lambda>m. Inr (r\<lparr>or_message := Some m\<rparr>)))"

text \<open>A second request with the idempotency key of a stored dispatch.\<close>

definition replay_reply ::
  "outbound_env \<Rightarrow> reply_input \<Rightarrow> account_row \<Rightarrow> string \<Rightarrow> dispatch_row \<Rightarrow> projection_object \<Rightarrow> outbound_response result" where
  "replay_reply env input owner bodyDigest current st =
     (let rq = od_request current in
      andThen (throwIf (rq_body_digest rq \<noteq> bodyDigest \<or> rq_actor_principal_id rq \<noteq> tr_actor_principal_id input
                 \<or> rq_actor_identity_id rq \<noteq> tr_actor_identity_id input
                 \<or> rq_conversation_id rq \<noteq> tr_conversation_id input \<or> rq_account_id rq \<noteq> account_id owner
                 \<or> rq_delivery_mode rq \<noteq> tr_delivery_mode input) (ProjectionError projection_conflict)) (\<lambda>_.
      andThen (authorityMetadataFromRow current) (\<lambda>stored.
      andThen (throwIf (tr_authority input \<noteq> stored) (ProjectionError projection_conflict)) (\<lambda>_.
      case (readOutboundCommand st (rq_command_id rq), readOutboundMessage st (rq_message_id rq)) of
        (Some command, Some message) \<Rightarrow> reply_result env command message current True
      | _ \<Rightarrow> projectionError projection_conflict))))"

definition reply_reread ::
  "outbound_env \<Rightarrow> string \<Rightarrow> dispatch_request \<Rightarrow> projection_object \<Rightarrow> (projection_object \<times> outbound_response) result" where
  "reply_reread env key request st =
     (case (readOutboundDispatchByKey st key, readOutboundCommand st (rq_command_id request),
            readOutboundMessage st (rq_message_id request)) of
        (Some dispatch, Some command, Some message) \<Rightarrow>
          andThen (reply_result env command message dispatch False) (\<lambda>r. Inr (st, r))
      | _ \<Rightarrow> projectionError projection_conflict)"

definition accept_new_reply ::
  "outbound_env \<Rightarrow> reply_input \<Rightarrow> projection_meta_row \<Rightarrow> account_row \<Rightarrow> string \<Rightarrow> string \<Rightarrow> int
     \<Rightarrow> projection_object \<Rightarrow> (projection_object \<times> outbound_response) result" where
  "accept_new_reply env input meta owner bodyDigest requestDigest occurredMs st =
     (let request = reply_request input owner (pm_generation meta) bodyDigest requestDigest;
          status = (if tr_initial_dispatch_status input = Some Initial_waiting_for_connection
                    then ODWaiting_for_connection else ODPending);
          commandStatus = (if status = ODWaiting_for_connection then Waiting_for_connection else Accepted) in
      andThen (throwIf (list_ex (\<lambda>r. rq_account_id (od_request r) = account_id owner
                 \<and> rq_conversation_id (od_request r) = tr_conversation_id input \<and> od_chat_paused r)
                 (outbound_dispatches st)) (ProjectionError projection_chat_paused)) (\<lambda>_.
      andThen (insert_message (outbound_message owner (tr_conversation_id input) (rq_message_id request) (tr_body input)
                 (tr_accepted_at input) occurredMs (rq_event_id request)) st) (\<lambda>st1.
      andThen (insert_command (outbound_command owner (tr_actor_identity_id input) (tr_conversation_id input)
                 (rq_command_id request) (tr_delivery_mode input) commandStatus (tr_accepted_at input) occurredMs
                 (rq_event_id request)) st1) (\<lambda>st2.
      andThen (insert_dispatch (new_dispatch request status (tr_confirmation_due_at input)) st2) (\<lambda>st3.
      reply_reread env (tr_idempotency_key input) request
        (upd_tables (recomputeConversationSummaries [tr_conversation_id input]) st3))))))"

definition acceptTextReply ::
  "outbound_env \<Rightarrow> reply_input \<Rightarrow> projection_object \<Rightarrow> projection_object \<Rightarrow> (projection_object \<times> outbound_response) result" where
  "acceptTextReply env input before st = catching projection_unavailable
     (andThen (reply_boundary input before) (\<lambda>(_, owner).
      andThen (digest_of env (reply_body_json input (account_id owner))) (\<lambda>bodyDigest.
      andThen (digest_of env (reply_request_json bodyDigest (tr_idempotency_key input))) (\<lambda>requestDigest.
      andThen (throwIf (case tr_authority input of None \<Rightarrow> False | Some a \<Rightarrow> au_identity_id a \<noteq> tr_actor_identity_id input)
                 (ProjectionError projection_conflict)) (\<lambda>_.
      andThen (parseStoredMilliseconds (tr_accepted_at input)) (\<lambda>occurredMs.
      andThen (reply_boundary input st) (\<lambda>(meta, owner').
      andThen (throwIf (owner' \<noteq> owner) (ProjectionError projection_conflict)) (\<lambda>_.
      case readOutboundDispatchByKey st (tr_idempotency_key input) of
        Some current \<Rightarrow> andThen (replay_reply env input owner bodyDigest current st) (\<lambda>r. Inr (st, r))
      | None \<Rightarrow> accept_new_reply env input meta owner bodyDigest requestDigest occurredMs st))))))))"

section \<open>Claiming, releasing the body, failing\<close>

record claim_input =
  ci_tenant_id :: string
  ci_command_id :: string
  ci_lease_id :: string
  ci_lease_expires_at :: string
  ci_now :: string

text \<open>\<open>Number.isSafeInteger(expiry) && expiry > now\<close>; a \<open>now\<close> that is no date compares false.\<close>

definition lease_is_live :: "dispatch_row \<Rightarrow> string \<Rightarrow> bool" where
  "lease_is_live row now =
     (case (lease_expiry row, date_parse now) of (Some e, Some n) \<Rightarrow> n < e | _ \<Rightarrow> False)"

definition claimOutboundDispatch ::
  "outbound_env \<Rightarrow> claim_input \<Rightarrow> projection_object \<Rightarrow> (projection_object \<times> dispatch_row) result" where
  "claimOutboundDispatch env input st = catching projection_unavailable
     (andThen (require_ready st (ci_tenant_id input)) (\<lambda>_.
      case readOutboundDispatchByCommand st (ci_command_id input) of
        None \<Rightarrow> projectionError projection_not_found
      | Some current \<Rightarrow>
          if od_status current = ODDispatching then
            (if lease_is_live current (ci_now input) then
               andThen (mapOutboundDispatch env current) (\<lambda>d. Inr (st, d))
             else
               let st1 = upd_dispatch (\<lambda>r. od_id r = od_id current \<and> od_status r = ODDispatching)
                     (\<lambda>r. r\<lparr>od_status := ODDelivery_uncertain, od_chat_paused := True,
                        od_uncertainty_reason := Some ''expired_dispatch_lease'', od_uncertain_at := Some (ci_now input),
                        od_dispatch_lease_id := None, od_dispatch_lease_expires_at := None,
                        od_updated_at := ci_now input\<rparr>) st in
               case readOutboundDispatchByCommand st1 (ci_command_id input) of
                 None \<Rightarrow> projectionError projection_conflict
               | Some uncertain \<Rightarrow>
                   (case readOutboundCommand st1 (ci_command_id input) of
                      None \<Rightarrow> projectionError projection_conflict
                    | Some command \<Rightarrow>
                        andThen (mapOutboundDispatch env uncertain) (\<lambda>d.
                        Inr (upd_command (\<lambda>k. k_id k = k_id command)
                               (\<lambda>k. k\<lparr>k_status := Delivery_uncertain, k_updated_at := ci_now input\<rparr>) st1, d))))
          else if od_status current \<noteq> ODPending \<and> od_status current \<noteq> ODWakeup_failed then
            andThen (mapOutboundDispatch env current) (\<lambda>d. Inr (st, d))
          else
            let st1 = upd_dispatch (\<lambda>r. od_id r = od_id current \<and> (od_status r = ODPending \<or> od_status r = ODWakeup_failed))
                  (\<lambda>r. r\<lparr>od_status := ODDispatching, od_dispatch_lease_id := Some (ci_lease_id input),
                     od_dispatch_lease_expires_at := Some (ci_lease_expires_at input), od_updated_at := ci_now input\<rparr>) st in
            case readOutboundDispatchByCommand st1 (ci_command_id input) of
              None \<Rightarrow> projectionError projection_conflict
            | Some claimed \<Rightarrow> andThen (mapOutboundDispatch env claimed) (\<lambda>d. Inr (st1, d))))"

record payload_input =
  gp_tenant_id :: string
  gp_command_id :: string
  gp_lease_id :: string
  gp_now :: string

text \<open>What the payload adds to the dispatch it is built from: the body of the message.\<close>

record dispatch_payload =
  py_dispatch :: dispatch_row
  py_body :: string
  py_authority :: authority_metadata

definition getOutboundDispatchPayload ::
  "(dispatch_payload \<Rightarrow> bool) \<Rightarrow> payload_input \<Rightarrow> projection_object \<Rightarrow> dispatch_payload result" where
  "getOutboundDispatchPayload parses input st = catching projection_unavailable
     (andThen (require_ready st (gp_tenant_id input)) (\<lambda>_.
      case readOutboundDispatchByCommand st (gp_command_id input) of
        None \<Rightarrow> projectionError projection_conflict
      | Some dispatch \<Rightarrow>
          andThen (throwIf (rq_tenant_id (od_request dispatch) \<noteq> gp_tenant_id input \<or> od_status dispatch \<noteq> ODDispatching
                     \<or> od_dispatch_lease_id dispatch \<noteq> Some (gp_lease_id input) \<or> od_dispatch_lease_expires_at dispatch = None
                     \<or> (case (map_option date_parse (od_dispatch_lease_expires_at dispatch), date_parse (gp_now input)) of
                          (Some (Some e), Some n) \<Rightarrow> e \<le> n | _ \<Rightarrow> False)) (ProjectionError projection_conflict)) (\<lambda>_.
          case readOutboundMessage st (rq_message_id (od_request dispatch)) of
            None \<Rightarrow> projectionError projection_conflict
          | Some message \<Rightarrow>
              andThen (throwIf (m_deleted_at message \<noteq> None \<or> m_body message = '''') (ProjectionError projection_conflict)) (\<lambda>_.
              andThen (authorityMetadataFromRow dispatch) (\<lambda>authority.
              case authority of
                None \<Rightarrow> projectionError projection_conflict
              | Some a \<Rightarrow>
                  let payload = \<lparr>py_dispatch = dispatch, py_body = m_body message, py_authority = a\<rparr> in
                  andThen (throwIf (\<not> parses payload) ZodError) (\<lambda>_. Inr payload))))))"

record fail_input =
  fi_tenant_id :: string
  fi_command_id :: string
  fi_lease_id :: string
  fi_now :: string
  fi_failure_code :: string

text \<open>The end of most transactions: read the two rows back and build the response.\<close>

definition reread :: "outbound_env \<Rightarrow> string \<Rightarrow> projection_object \<Rightarrow> (projection_object \<times> outbound_response) result" where
  "reread env commandId st =
     (case (readOutboundDispatchByCommand st commandId, readOutboundCommand st commandId) of
        (Some dispatch, Some command) \<Rightarrow> andThen (outbound_result env command dispatch False) (\<lambda>r. Inr (st, r))
      | _ \<Rightarrow> projectionError projection_conflict)"

definition failOutboundDispatch ::
  "outbound_env \<Rightarrow> fail_input \<Rightarrow> projection_object \<Rightarrow> (projection_object \<times> outbound_response) result" where
  "failOutboundDispatch env input st = catching projection_unavailable
     (andThen (require_ready st (fi_tenant_id input)) (\<lambda>_.
      case readOutboundDispatchByCommand st (fi_command_id input) of
        None \<Rightarrow> projectionError projection_not_found
      | Some dispatch \<Rightarrow>
          (case readOutboundCommand st (fi_command_id input) of
             None \<Rightarrow> projectionError projection_not_found
           | Some command \<Rightarrow>
               andThen (throwIf (od_status dispatch \<noteq> ODDispatching \<or> od_dispatch_lease_id dispatch \<noteq> Some (fi_lease_id input))
                          (ProjectionError projection_conflict)) (\<lambda>_.
               reread env (fi_command_id input)
                 (upd_command (\<lambda>k. k_id k = k_id command \<and> k_status k \<noteq> Cancelled \<and> k_status k \<noteq> Delivered)
                    (\<lambda>k. k\<lparr>k_status := command_status.Failed, k_failure_code := Some (fi_failure_code input), k_updated_at := fi_now input\<rparr>)
                    (upd_dispatch (\<lambda>r. od_id r = od_id dispatch \<and> od_status r = ODDispatching
                                     \<and> od_dispatch_lease_id r = Some (fi_lease_id input))
                       (\<lambda>r. r\<lparr>od_status := ODCancelled, od_dispatch_lease_id := None, od_dispatch_lease_expires_at := None,
                          od_uncertainty_reason := Some (fi_failure_code input), od_updated_at := fi_now input\<rparr>) st))))))"

text \<open>\<open>listOutboundCommands\<close>: newest first; \<open>listOutboundEvidence\<close>: oldest first, at most a hundred.\<close>

definition listOutboundCommands :: "outbound_env \<Rightarrow> string \<Rightarrow> projection_object \<Rightarrow> command_row list result" where
  "listOutboundCommands env tenantId st = catching projection_unavailable
     (andThen (require_ready st tenantId) (\<lambda>_.
      forEach (rev (sort_key (\<lambda>r. (rq_created_at (od_request r), od_id r))
                 (filter (\<lambda>r. rq_tenant_id (od_request r) = tenantId) (outbound_dispatches st)))) []
        (\<lambda>dispatch acc. case readOutboundCommand st (od_command_id dispatch) of
             None \<Rightarrow> Inr acc
           | Some command \<Rightarrow> andThen (mapOutboundCommand env command dispatch) (\<lambda>c. Inr (acc @ [c])))))"

definition listOutboundEvidence ::
  "(outbound_evidence_row \<Rightarrow> bool) \<Rightarrow> string \<Rightarrow> string \<Rightarrow> projection_object \<Rightarrow> outbound_evidence_row list result" where
  "listOutboundEvidence parses tenantId commandId st = catching projection_unavailable
     (andThen (require_ready st tenantId) (\<lambda>_.
      if readOutboundDispatchByCommand st commandId = None then projectionError projection_not_found
      else
        let rows = take 100 (sort_key (\<lambda>e. (oe_observed_at e, oe_id e))
              (filter (\<lambda>e. oe_tenant_id e = tenantId \<and> oe_command_id e = commandId) (outbound_evidence st)))
        in andThen (throwIf (\<not> list_all parses rows) ZodError) (\<lambda>_. Inr rows)))"

section \<open>Reconciling with evidence\<close>

record reconcile_input =
  ri_tenant_id :: string
  ri_command_id :: string
  ri_now :: string
  ri_evidence :: "outbound_evidence_input option"

fun stage_of_evidence :: "evidence_status \<Rightarrow> outbound_stage" where
  "stage_of_evidence Ev_confirmed = Stage_confirmed"
| "stage_of_evidence Ev_accepted = Stage_accepted"
| "stage_of_evidence Ev_delivered = Stage_delivered"
| "stage_of_evidence Ev_uncertain = Stage_unknown"

fun stageRank :: "outbound_stage \<Rightarrow> nat" where
  "stageRank Stage_unknown = 0"
| "stageRank Stage_confirmed = 1"
| "stageRank Stage_accepted = 2"
| "stageRank Stage_delivered = 3"

definition strongestStage :: "outbound_stage \<Rightarrow> outbound_stage \<Rightarrow> outbound_stage" where
  "strongestStage stage currentStage = (if stageRank currentStage \<le> stageRank stage then stage else currentStage)"

text \<open>\<open>UPDATE outbound_dispatches SET $stageColumn = strongestStage, last_evidence_at = ?, updated_at = ?\<close>.\<close>

definition record_stage :: "dispatch_row \<Rightarrow> outbound_evidence_input \<Rightarrow> string \<Rightarrow> dispatch_row \<Rightarrow> dispatch_row" where
  "record_stage dispatch evidence now r =
     (let stage = stage_of_evidence (oe_status evidence);
          r' = r\<lparr>od_last_evidence_at := Some now, od_updated_at := now\<rparr> in
      case oe_source evidence of
        From_matrix \<Rightarrow> r'\<lparr>od_matrix_stage := strongestStage stage (od_matrix_stage dispatch)\<rparr>
      | From_bridge \<Rightarrow> r'\<lparr>od_bridge_stage := strongestStage stage (od_bridge_stage dispatch)\<rparr>
      | _ \<Rightarrow> r'\<lparr>od_provider_stage := strongestStage stage (od_provider_stage dispatch)\<rparr>)"

definition evidence_matches :: "string \<Rightarrow> dispatch_row \<Rightarrow> outbound_evidence_input \<Rightarrow> bool" where
  "evidence_matches tenantId dispatch evidence =
     (let rq = od_request dispatch in
      oe_tenant_id evidence = tenantId \<and> oe_command_id evidence = rq_command_id rq \<and> oe_account_id evidence = rq_account_id rq
      \<and> oe_conversation_id evidence = rq_conversation_id rq \<and> oe_transaction_id evidence = rq_transaction_id rq
      \<and> oe_request_digest evidence = rq_request_digest rq \<and> oe_generation evidence = rq_projection_generation rq)"

fun evidence_source_text :: "evidence_source \<Rightarrow> string" where
  "evidence_source_text From_matrix = ''matrix''"
| "evidence_source_text From_bridge = ''bridge''"
| "evidence_source_text From_provider = ''provider''"
| "evidence_source_text From_refresh = ''refresh''"

definition evidence_row :: "string \<Rightarrow> dispatch_row \<Rightarrow> outbound_evidence_input \<Rightarrow> string \<Rightarrow> outbound_evidence_row" where
  "evidence_row tenantId dispatch evidence now =
     outbound_evidence_input.extend (evidence\<lparr>oe_tenant_id := tenantId, oe_command_id := od_command_id dispatch\<rparr>)
       (outbound_evidence_row.fields
         (''evidence_'' @ od_command_id dispatch @ ''_'' @ evidence_source_text (oe_source evidence) @ ''_'' @ oe_evidence_id evidence)
         (od_id dispatch) now)"

text \<open>\<open>PRIMARY KEY (id)\<close>, \<open>UNIQUE(command_id, source, evidence_id)\<close>.\<close>

definition insert_evidence :: "outbound_evidence_row \<Rightarrow> projection_object \<Rightarrow> projection_object result" where
  "insert_evidence row st =
     (if list_ex (\<lambda>e. oe_id e = oe_id row \<or> oe_command_id e = oe_command_id row \<and> oe_source e = oe_source row
                     \<and> oe_evidence_id e = oe_evidence_id row) (outbound_evidence st)
         \<or> length (oe_request_digest row) \<noteq> 64 \<or> oe_generation row < 1
      then Inl SqliteConstraint
      else Inr (st\<lparr>outbound_evidence := outbound_evidence st @ [row]\<rparr>))"

text \<open>
  \<open>SET status = 'dispatched', chat_paused = 0, uncertainty_reason = NULL, dispatch_lease_id = NULL,
  dispatch_lease_expires_at = NULL WHERE id = ? AND status NOT IN ('cancelled')\<close>.
\<close>

definition settle_dispatch :: "dispatch_row \<Rightarrow> string \<Rightarrow> projection_object \<Rightarrow> projection_object" where
  "settle_dispatch dispatch now =
     upd_dispatch (\<lambda>r. od_id r = od_id dispatch \<and> od_status r \<noteq> ODCancelled)
       (\<lambda>r. r\<lparr>od_status := ODDispatched, od_chat_paused := False, od_uncertainty_reason := None,
          od_dispatch_lease_id := None, od_dispatch_lease_expires_at := None, od_updated_at := now\<rparr>)"

fun preservedCommandStatuses :: "evidence_source \<Rightarrow> command_status list" where
  "preservedCommandStatuses From_bridge = [Cancelled, Delivered, Bridged]"
| "preservedCommandStatuses _ = [Cancelled, Delivered, Matrix_confirmed, Bridged]"

definition acknowledgedCommandStatus :: "outbound_evidence_input \<Rightarrow> command_status" where
  "acknowledgedCommandStatus evidence =
     (if oe_source evidence = From_bridge then Bridged
      else if oe_status evidence = Ev_confirmed then Matrix_confirmed else Submitted_to_matrix)"

text \<open>The writes for evidence seen for the first time, after its row and its stage.\<close>

definition apply_evidence ::
  "dispatch_row \<Rightarrow> command_row \<Rightarrow> outbound_evidence_input \<Rightarrow> string \<Rightarrow> projection_object \<Rightarrow> projection_object" where
  "apply_evidence dispatch command evidence now st =
     (let continued = (od_last_action dispatch = Some Act_continue);
          fromMatrixOrBridge = (oe_source evidence = From_matrix \<or> oe_source evidence = From_bridge);
          acknowledgement = (fromMatrixOrBridge \<and> (oe_status evidence = Ev_confirmed \<or> oe_status evidence = Ev_accepted));
          providerDelivery = (oe_status evidence = Ev_delivered \<and> \<not> fromMatrixOrBridge) in
      if providerDelivery then
        upd_command (\<lambda>k. k_id k = k_id command \<and> k_status k \<noteq> Cancelled)
          (\<lambda>k. k\<lparr>k_status := Delivered, k_updated_at := now\<rparr>) (settle_dispatch dispatch now st)
      else if acknowledgement then
        upd_command (\<lambda>k. k_id k = k_id command)
          (\<lambda>k. k\<lparr>k_status := (if k_status k \<in> set (preservedCommandStatuses (oe_source evidence)) then k_status k
                                else acknowledgedCommandStatus evidence), k_updated_at := now\<rparr>)
          (settle_dispatch dispatch now st)
      else if oe_status evidence = Ev_uncertain \<and> \<not> continued then
        doubt_command command now
          (upd_dispatch (\<lambda>r. od_id r = od_id dispatch \<and> od_status r \<noteq> ODCancelled \<and> od_status r \<noteq> ODDispatched)
            (\<lambda>r. r\<lparr>od_status := ODDelivery_uncertain, od_chat_paused := True,
               od_uncertainty_reason := Some (case oe_reason evidence of None \<Rightarrow> ''ambiguous_adapter_result'' | Some x \<Rightarrow> x),
               od_uncertain_at := Some (case od_uncertain_at r of None \<Rightarrow> oe_observed_at evidence | Some x \<Rightarrow> x),
               od_dispatch_lease_id := None, od_dispatch_lease_expires_at := None, od_updated_at := now\<rparr>) st)
      else if \<not> continued \<and> od_status dispatch \<noteq> ODCancelled \<and> od_status dispatch \<noteq> ODDispatched then
        doubt_command command now
          (upd_dispatch (\<lambda>r. od_id r = od_id dispatch)
            (\<lambda>r. r\<lparr>od_status := ODDelivery_uncertain, od_chat_paused := True,
               od_uncertainty_reason := Some (case od_uncertainty_reason r of None \<Rightarrow> ''awaiting_provider_evidence'' | Some x \<Rightarrow> x),
               od_uncertain_at := Some (case od_uncertain_at r of None \<Rightarrow> oe_observed_at evidence | Some x \<Rightarrow> x),
               od_updated_at := now\<rparr>) st)
      else st)"

definition reconcile_evidence ::
  "reconcile_input \<Rightarrow> dispatch_row \<Rightarrow> command_row \<Rightarrow> outbound_evidence_input \<Rightarrow> projection_object \<Rightarrow> projection_object result" where
  "reconcile_evidence input dispatch command evidence st =
     andThen (throwIf (\<not> evidence_matches (ri_tenant_id input) dispatch evidence) (ProjectionError projection_conflict)) (\<lambda>_.
     andThen (throwIf ((oe_source evidence = From_matrix \<or> oe_source evidence = From_bridge) \<and> oe_status evidence = Ev_delivered)
                (ProjectionError projection_conflict)) (\<lambda>_.
     if list_ex (\<lambda>e. oe_command_id e = od_command_id dispatch \<and> oe_source e = oe_source evidence
                    \<and> oe_evidence_id e = oe_evidence_id evidence) (outbound_evidence st)
     then Inr st
     else
       andThen (insert_evidence (evidence_row (ri_tenant_id input) dispatch evidence (ri_now input)) st) (\<lambda>st1.
       Inr (apply_evidence dispatch command evidence (ri_now input)
              (upd_dispatch (\<lambda>r. od_id r = od_id dispatch) (record_stage dispatch evidence (ri_now input)) st1)))))"

text \<open>
  \<open>available\<close> is \<open>connection_available\<close> of the input or the answer of \<open>#connectionAvailable\<close>, which is
  awaited: the guards read the state \<open>before\<close> it, the transaction works on \<open>st\<close>. The
  lifecycle step uses the dispatch and the command as they were read before the evidence was applied.
\<close>

definition reconcileOutbound ::
  "outbound_env \<Rightarrow> bool \<Rightarrow> reconcile_input \<Rightarrow> projection_object \<Rightarrow> projection_object
     \<Rightarrow> (projection_object \<times> outbound_response) result" where
  "reconcileOutbound env available input before st = catching projection_unavailable
     (andThen (require_ready before (ri_tenant_id input)) (\<lambda>_.
      case readOutboundDispatchByCommand st (ri_command_id input) of
        None \<Rightarrow> projectionError projection_not_found
      | Some dispatch \<Rightarrow>
          (case readOutboundCommand st (od_command_id dispatch) of
             None \<Rightarrow> projectionError projection_not_found
           | Some command \<Rightarrow>
               andThen (case ri_evidence input of None \<Rightarrow> Inr st
                        | Some evidence \<Rightarrow> reconcile_evidence input dispatch command evidence st) (\<lambda>st1.
               andThen (transitionOutboundLifecycle (lifecycle_input dispatch command (od_confirmation_decision dispatch)
                          (ri_now input) available)) (\<lambda>t.
               reread env (ri_command_id input) (store_transition dispatch command t (ri_now input) st1))))))"

section \<open>Human decisions\<close>

record decide_input =
  di_tenant_id :: string
  di_command_id :: string
  di_decision :: outbound_decision
  di_idempotency_key :: string
  di_actor_principal_id :: string
  di_actor_identity_id :: string
  di_decided_at :: string
  di_duplicate_risk_acknowledged :: bool
  di_resend_authority :: "authority_metadata option"

fun action_of :: "outbound_decision \<Rightarrow> outbound_action option" where
  "action_of Dec_confirm = None"
| "action_of Dec_cancel = Some Act_cancel"
| "action_of Dec_continue = Some Act_continue"
| "action_of Dec_resend = Some Act_resend"

fun confirmation_of :: "outbound_decision \<Rightarrow> confirmation_decision option" where
  "confirmation_of Dec_confirm = Some Confirm"
| "confirmation_of Dec_cancel = Some Cancel"
| "confirmation_of _ = None"

definition resend_json :: "decide_input \<Rightarrow> projection_object \<Rightarrow> json" where
  "resend_json input before =
     JObj [(''original_command_id'', JStr (di_command_id input)),
           (''original_request_digest'', JStr (case readOutboundDispatchByCommand before (di_command_id input) of
              None \<Rightarrow> '''' | Some d \<Rightarrow> rq_request_digest (od_request d))),
           (''idempotency_key'', JStr (di_idempotency_key input))]"

definition decision_result ::
  "outbound_env \<Rightarrow> command_row \<Rightarrow> dispatch_row \<Rightarrow> bool \<Rightarrow> outbound_action \<Rightarrow> bool \<Rightarrow> outbound_response result" where
  "decision_result env command dispatch replayed action risk =
     andThen (outbound_result env command dispatch replayed) (\<lambda>r.
     Inr (r\<lparr>or_action := Some action, or_duplicate_risk := Some risk\<rparr>))"

definition replay_action ::
  "outbound_env \<Rightarrow> decide_input \<Rightarrow> dispatch_row \<Rightarrow> outbound_action_row \<Rightarrow> projection_object \<Rightarrow> outbound_response result" where
  "replay_action env input dispatch existing st =
     andThen (throwIf (oa_tenant_id existing \<noteq> di_tenant_id input \<or> oa_original_command_id existing \<noteq> di_command_id input
                \<or> Some (oa_action existing) \<noteq> action_of (di_decision input)
                \<or> oa_actor_principal_id existing \<noteq> di_actor_principal_id input
                \<or> oa_actor_identity_id existing \<noteq> di_actor_identity_id input) (ProjectionError projection_conflict)) (\<lambda>_.
     case (case oa_new_command_id existing of None \<Rightarrow> Some dispatch | Some c \<Rightarrow> readOutboundDispatchByCommand st c) of
       None \<Rightarrow> projectionError projection_conflict
     | Some target \<Rightarrow>
         (case readOutboundCommand st (od_command_id target) of
            None \<Rightarrow> projectionError projection_conflict
          | Some command \<Rightarrow>
              decision_result env command target True (oa_action existing) (oa_duplicate_risk_acknowledged existing)))"

text \<open>The rows a resend inserts; the request keeps the generation and the digest of the body.\<close>

definition resend_request :: "decide_input \<Rightarrow> dispatch_row \<Rightarrow> authority_metadata \<Rightarrow> string \<Rightarrow> string \<Rightarrow> dispatch_request" where
  "resend_request input dispatch authority body requestDigest =
     (let rq = od_request dispatch in
      rq\<lparr>rq_id := outbound_id ''dispatch'' requestDigest, rq_command_id := outbound_id ''command'' requestDigest,
         rq_message_id := outbound_id ''message'' requestDigest, rq_event_id := outbound_id ''event'' requestDigest,
         rq_tenant_id := di_tenant_id input, rq_actor_identity_id := di_actor_identity_id input,
         rq_idempotency_key := di_idempotency_key input, rq_body := body,
         rq_transaction_id := outbound_id ''transaction'' requestDigest, rq_request_digest := requestDigest,
         rq_duplicate_risk := True, rq_resend_of_command_id := Some (rq_command_id rq),
         rq_created_at := di_decided_at input, rq_authority := authority_columns_of (Some authority)\<rparr>)"

definition resend_owner :: "dispatch_request \<Rightarrow> account_row" where
  "resend_owner rq = \<lparr>identity_id = rq_resource_identity_id rq, account_id = rq_account_id rq,
     connection_id = rq_connection_id rq, platform = rq_platform rq\<rparr>"

definition resend_allowed :: "decide_input \<Rightarrow> dispatch_row \<Rightarrow> authority_metadata \<Rightarrow> bool" where
  "resend_allowed input dispatch a =
     ((au_identity_id a = rq_actor_identity_id (od_request dispatch)
       \<or> (case au_capability a of Owner_admin _ _ \<Rightarrow> au_identity_id a = di_actor_identity_id input | _ \<Rightarrow> False))
      \<and> js_trim (au_membership_id a) \<noteq> '''')"

definition resend_dispatch ::
  "decide_input \<Rightarrow> bool \<Rightarrow> string \<Rightarrow> dispatch_row \<Rightarrow> projection_object \<Rightarrow> (projection_object \<times> string) result" where
  "resend_dispatch input available requestDigest dispatch st =
     (case di_resend_authority input of
        None \<Rightarrow> projectionError projection_conflict
      | Some a \<Rightarrow>
          andThen (throwIf (\<not> resend_allowed input dispatch a) (ProjectionError projection_conflict)) (\<lambda>_.
          andThen (if available then Inr None
                   else andThen (parseStoredMilliseconds (di_decided_at input)) (\<lambda>ms.
                        andThen (iso_string (ms + 4 * 60 * 60 * 1000)) (\<lambda>s. Inr (Some s)))) (\<lambda>newDueAt.
          case readOutboundMessage st (rq_message_id (od_request dispatch)) of
            None \<Rightarrow> projectionError projection_conflict
          | Some original \<Rightarrow>
              andThen (throwIf (m_deleted_at original \<noteq> None \<or> m_body original = '''') (ProjectionError projection_conflict)) (\<lambda>_.
              andThen (parseStoredMilliseconds (di_decided_at input)) (\<lambda>ms.
              let request = resend_request input dispatch a (m_body original) requestDigest;
                  owner = resend_owner (od_request dispatch);
                  conversation = rq_conversation_id (od_request dispatch) in
              andThen (insert_message (outbound_message owner conversation (rq_message_id request) (m_body original)
                         (di_decided_at input) ms (rq_event_id request)) st) (\<lambda>st1.
              andThen (insert_command (outbound_command owner (di_actor_identity_id input) conversation (rq_command_id request)
                         (rq_delivery_mode request) (if available then Accepted else Waiting_for_connection)
                         (di_decided_at input) ms (rq_event_id request)) st1) (\<lambda>st2.
              andThen (insert_dispatch (new_dispatch request (if available then ODPending else ODWaiting_for_connection) newDueAt) st2) (\<lambda>st3.
              Inr (st3, rq_command_id request)))))))))"

text \<open>\<open>PRIMARY KEY (id)\<close>, \<open>UNIQUE(idempotency_key)\<close>.\<close>

definition insert_action :: "outbound_action_row \<Rightarrow> projection_object \<Rightarrow> projection_object result" where
  "insert_action row st =
     (if list_ex (\<lambda>a. oa_id a = oa_id row \<or> oa_idempotency_key a = oa_idempotency_key row) (outbound_actions st)
      then Inl SqliteConstraint else Inr (st\<lparr>outbound_actions := outbound_actions st @ [row]\<rparr>))"

text \<open>Cancel, continue or resend a dispatch whose delivery is uncertain: the writes after the action row.\<close>

definition act_finish ::
  "outbound_env \<Rightarrow> decide_input \<Rightarrow> outbound_action \<Rightarrow> dispatch_row \<Rightarrow> command_row \<Rightarrow> projection_object \<Rightarrow> string option
     \<Rightarrow> projection_object \<Rightarrow> (projection_object \<times> outbound_response) result" where
  "act_finish env input action dispatch command st1 newCommandId st2 =
     (let newDispatch = (case newCommandId of None \<Rightarrow> None | Some c \<Rightarrow> readOutboundDispatchByCommand st1 c);
         st3 = upd_dispatch (\<lambda>r. od_id r = od_id dispatch)
           (\<lambda>r. r\<lparr>od_status := (if action = Act_cancel then ODCancelled else od_status r), od_chat_paused := False,
              od_dispatch_lease_id := None, od_dispatch_lease_expires_at := None, od_last_action := Some action,
              od_last_action_actor_principal_id := Some (di_actor_principal_id input),
              od_last_action_at := Some (di_decided_at input), od_updated_at := di_decided_at input\<rparr>) st2;
         st4 = (if action = Act_cancel
                then upd_command (\<lambda>k. k_id k = k_id command)
                       (\<lambda>k. k\<lparr>k_status := Cancelled, k_updated_at := di_decided_at input\<rparr>) st3
                else st3) in
     case (readOutboundDispatchByCommand st4 (di_command_id input), readOutboundCommand st4 (di_command_id input)) of
       (Some originalDispatch, Some originalCommand) \<Rightarrow>
         let target = (case newDispatch of None \<Rightarrow> originalDispatch | Some d \<Rightarrow> d) in
         (case (case newDispatch of None \<Rightarrow> Some originalCommand | Some d \<Rightarrow> readOutboundCommand st4 (od_command_id d)) of
            None \<Rightarrow> projectionError projection_conflict
          | Some targetCommand \<Rightarrow>
              andThen (decision_result env targetCommand target False action (action = Act_resend)) (\<lambda>r. Inr (st4, r)))
     | _ \<Rightarrow> projectionError projection_conflict)"

definition act_on_uncertain ::
  "outbound_env \<Rightarrow> decide_input \<Rightarrow> bool \<Rightarrow> string \<Rightarrow> outbound_action \<Rightarrow> dispatch_row \<Rightarrow> command_row
     \<Rightarrow> projection_object \<Rightarrow> (projection_object \<times> outbound_response) result" where
  "act_on_uncertain env input available requestDigest action dispatch command st =
     andThen (throwIf (action = Act_resend \<and> \<not> di_duplicate_risk_acknowledged input) (ProjectionError projection_conflict)) (\<lambda>_.
     andThen (if action = Act_resend
              then andThen (resend_dispatch input available requestDigest dispatch st) (\<lambda>(st', c). Inr (st', Some c))
              else Inr (st, None)) (\<lambda>(st1, newCommandId).
     andThen (insert_action
       \<lparr>oa_id = ''action_outbound_'' @ di_command_id input @ ''_'' @ di_idempotency_key input, oa_tenant_id = di_tenant_id input,
        oa_original_command_id = di_command_id input, oa_new_command_id = newCommandId, oa_action = action,
        oa_idempotency_key = di_idempotency_key input, oa_actor_principal_id = di_actor_principal_id input,
        oa_actor_identity_id = di_actor_identity_id input,
        oa_duplicate_risk_acknowledged = di_duplicate_risk_acknowledged input, oa_action_at = di_decided_at input,
        oa_created_at = di_decided_at input\<rparr> st1) (act_finish env input action dispatch command st1 newCommandId)))"

text \<open>The primary key and the \<open>UNIQUE\<close> columns of \<open>outbound_command_decisions\<close>.\<close>

definition insert_decision :: "outbound_decision_row \<Rightarrow> projection_object \<Rightarrow> projection_object result" where
  "insert_decision row st =
     (if list_ex (\<lambda>d. dc_id d = dc_id row \<or> dc_command_id d = dc_command_id row
                    \<or> dc_dispatch_id d = dc_dispatch_id row \<or> dc_idempotency_key d = dc_idempotency_key row) (outbound_command_decisions st)
      then Inl SqliteConstraint
      else Inr (st\<lparr>outbound_command_decisions := outbound_command_decisions st @ [row]\<rparr>))"

definition decision_due :: "decide_input \<Rightarrow> confirmation_decision \<Rightarrow> dispatch_row \<Rightarrow> int \<Rightarrow> bool" where
  "decision_due input decision dispatch decidedMs =
     (case decision of
        Confirm \<Rightarrow> od_status dispatch = ODConfirmation_required
          \<or> od_status dispatch = ODWaiting_for_connection
            \<and> (case od_confirmation_due_at dispatch of None \<Rightarrow> False
               | Some due \<Rightarrow> (case date_parse due of None \<Rightarrow> False | Some ms \<Rightarrow> is_safe_integer ms \<and> ms \<le> decidedMs))
      | Cancel \<Rightarrow> od_status dispatch = ODWaiting_for_connection \<or> od_status dispatch = ODConfirmation_required
          \<or> od_status dispatch = ODPending)"

definition confirm_or_cancel ::
  "outbound_env \<Rightarrow> decide_input \<Rightarrow> bool \<Rightarrow> confirmation_decision \<Rightarrow> dispatch_row \<Rightarrow> command_row
     \<Rightarrow> projection_object \<Rightarrow> (projection_object \<times> outbound_response) result" where
  "confirm_or_cancel env input available decision dispatch command st =
     andThen (parseStoredMilliseconds (di_decided_at input)) (\<lambda>decidedMs.
     andThen (throwIf (\<not> decision_due input decision dispatch decidedMs) (ProjectionError projection_conflict)) (\<lambda>_.
     andThen (transitionOutboundLifecycle (lifecycle_input dispatch command (Some decision) (di_decided_at input) available)) (\<lambda>t.
     andThen (insert_decision
       \<lparr>dc_id = ''decision_outbound_'' @ di_command_id input, dc_tenant_id = di_tenant_id input,
        dc_command_id = od_command_id dispatch, dc_dispatch_id = od_id dispatch, dc_decision = decision,
        dc_idempotency_key = di_idempotency_key input, dc_actor_principal_id = di_actor_principal_id input,
        dc_actor_identity_id = di_actor_identity_id input, dc_decided_at = di_decided_at input\<rparr> st) (\<lambda>st1.
     reread env (di_command_id input)
       (upd_command (\<lambda>k. k_id k = k_id command)
          (\<lambda>k. k\<lparr>k_status := lt_commandStatus t, k_updated_at := di_decided_at input\<rparr>)
          (upd_dispatch (\<lambda>r. od_id r = od_id dispatch)
             (\<lambda>r. r\<lparr>od_status := lt_dispatchStatus t, od_confirmation_due_at := lt_confirmationDueAt t,
                od_confirmation_decision := Some decision,
                od_confirmation_actor_principal_id := Some (di_actor_principal_id input),
                od_confirmation_actor_identity_id := Some (di_actor_identity_id input),
                od_confirmation_decided_at := Some (di_decided_at input), od_updated_at := di_decided_at input\<rparr>) st1))))))"

definition decide_transaction ::
  "outbound_env \<Rightarrow> decide_input \<Rightarrow> bool \<Rightarrow> string \<Rightarrow> projection_object \<Rightarrow> (projection_object \<times> outbound_response) result" where
  "decide_transaction env input available requestDigest st =
     (case readOutboundDispatchByCommand st (di_command_id input) of
        None \<Rightarrow> projectionError projection_not_found
      | Some dispatch \<Rightarrow>
          (case readOutboundCommand st (od_command_id dispatch) of
             None \<Rightarrow> projectionError projection_not_found
           | Some command \<Rightarrow>
               (case readOutboundActionByKey st (di_idempotency_key input) of
                  Some existing \<Rightarrow> andThen (replay_action env input dispatch existing st) (\<lambda>r. Inr (st, r))
                | None \<Rightarrow>
                    (case if od_status dispatch = ODDelivery_uncertain then action_of (di_decision input) else None of
                       Some action \<Rightarrow> act_on_uncertain env input available requestDigest action dispatch command st
                     | None \<Rightarrow>
                         (case readOutboundDecisionByCommand st (di_command_id input) of
                            Some existing \<Rightarrow>
                              andThen (throwIf (dc_idempotency_key existing \<noteq> di_idempotency_key input
                                         \<or> Some (dc_decision existing) \<noteq> confirmation_of (di_decision input)
                                         \<or> dc_actor_principal_id existing \<noteq> di_actor_principal_id input
                                         \<or> dc_actor_identity_id existing \<noteq> di_actor_identity_id input)
                                         (ProjectionError projection_conflict)) (\<lambda>_.
                              andThen (outbound_result env command dispatch True) (\<lambda>r. Inr (st, r)))
                          | None \<Rightarrow>
                              (case confirmation_of (di_decision input) of
                                 None \<Rightarrow> projectionError projection_conflict
                               | Some decision \<Rightarrow> confirm_or_cancel env input available decision dispatch command st))))))"

text \<open>The digest of a resend is computed from the state before the transaction.\<close>

definition decideOutbound ::
  "outbound_env \<Rightarrow> bool \<Rightarrow> decide_input \<Rightarrow> projection_object \<Rightarrow> projection_object \<Rightarrow> (projection_object \<times> outbound_response) result" where
  "decideOutbound env available input before st = catching projection_unavailable
     (andThen (require_ready before (di_tenant_id input)) (\<lambda>_.
      andThen (if di_decision input = Dec_resend then digest_of env (resend_json input before) else Inr '''') (\<lambda>requestDigest.
      decide_transaction env input available requestDigest st)))"

end
