(* ===== verification/Restore_Gate.thy ===== *)
theory Restore_Gate
  imports Ledger_Properties
begin

text \<open>
  \<open>restore/gate.ts\<close>: \<open>loadRestoreAuthority\<close> reads the removal ledger before a restored projection is
  published and refuses a ledger whose deletion epochs are not a complete sequence.
\<close>

record restore_snapshot =
  sn_tenant_id :: string
  sn_deletion_epoch :: int
  sn_authorities :: "authority_row list"
  sn_authority_ids :: "string list"

datatype gate_error =
    Epoch_invalid | Tenant_mismatch | Id_duplicated | Lineage_duplicated | Epoch_outside | Epoch_order
  | Epoch_without_authority | Epoch_missing

text \<open>\<open>lineage\<close>: the three parts are joined with U+0000, which none of them contains.\<close>

definition lineage :: "authority_row \<Rightarrow> string \<times> string \<times> string" where
  "lineage a = (ra_resource_type a, ra_resource_id a, ra_content_generation a)"

text \<open>The loop over the authorities, with the ids and lineages seen and the previous epoch.\<close>

fun check_authorities ::
  "string \<Rightarrow> int \<Rightarrow> string set \<Rightarrow> (string \<times> string \<times> string) set \<Rightarrow> int option \<Rightarrow> authority_row list \<Rightarrow> gate_error + unit" where
  "check_authorities tenant deletionEpoch seenIds seenLineage previous [] = Inr ()"
| "check_authorities tenant deletionEpoch seenIds seenLineage previous (a # as) =
     andThen (throwIf (ra_tenant_id a \<noteq> tenant) Tenant_mismatch) (\<lambda>_.
     andThen (throwIf (ra_id a \<in> seenIds) Id_duplicated) (\<lambda>_.
     andThen (throwIf (lineage a \<in> seenLineage) Lineage_duplicated) (\<lambda>_.
     andThen (throwIf (ra_deletion_epoch a < 1 \<or> deletionEpoch < ra_deletion_epoch a) Epoch_outside) (\<lambda>_.
     andThen (throwIf (case previous of None \<Rightarrow> False | Some e \<Rightarrow> ra_deletion_epoch a < e) Epoch_order) (\<lambda>_.
     check_authorities tenant deletionEpoch (insert (ra_id a) seenIds) (insert (lineage a) seenLineage)
       (Some (ra_deletion_epoch a)) as)))))"

definition assertAuthoritySequence :: "string \<Rightarrow> int \<Rightarrow> authority_row list \<Rightarrow> gate_error + unit" where
  "assertAuthoritySequence tenant deletionEpoch authorities =
     andThen (throwIf (\<not> is_safe_integer deletionEpoch \<or> deletionEpoch < 0) Epoch_invalid) (\<lambda>_.
     andThen (check_authorities tenant deletionEpoch {} {} None authorities) (\<lambda>_.
     andThen (throwIf (deletionEpoch \<noteq> 0 \<and> authorities = []) Epoch_without_authority) (\<lambda>_.
     throwIf (\<not> list_all (\<lambda>e. e \<in> set (map ra_deletion_epoch authorities)) [1..deletionEpoch]) Epoch_missing)))"

definition loadRestoreAuthority :: "control_db \<Rightarrow> string \<Rightarrow> gate_error + restore_snapshot" where
  "loadRestoreAuthority db tenant =
     (let authorities = listRemovalAuthorities db tenant; deletionEpoch = readTenantDeletionEpoch db tenant in
      andThen (assertAuthoritySequence tenant deletionEpoch authorities) (\<lambda>_.
      Inr \<lparr>sn_tenant_id = tenant, sn_deletion_epoch = deletionEpoch, sn_authorities = authorities,
           sn_authority_ids = map ra_id authorities\<rparr>))"

section \<open>The ledger's epochs are complete\<close>

definition epoch_entries :: "control_db \<Rightarrow> (string \<times> int) list" where
  "epoch_entries db = map (\<lambda>a. (ra_tenant_id a, ra_deletion_epoch a)) (removal_authority db)"

definition epochs_complete :: "control_db \<Rightarrow> bool" where
  "epochs_complete db = (\<forall>tenant e. 1 \<le> e \<and> e \<le> tenant_epoch db tenant \<longrightarrow> (tenant, e) \<in> set (epoch_entries db))"

lemma tenant_epoch_entries: "tenant_epoch db tenant = fold max (map snd (filter (\<lambda>p. fst p = tenant) (epoch_entries db))) 0"
  by (simp add: tenant_epoch_def epoch_entries_def filter_map comp_def)

lemma insert_authority_entries:
  "epoch_entries (insert_authority input rid createdAt db) = epoch_entries db
   \<or> epoch_entries (insert_authority input rid createdAt db) = epoch_entries db @ [(ra_tenant_id input, 1)]
   \<or> epoch_entries (insert_authority input rid createdAt db)
       = epoch_entries db @ [(ra_tenant_id input, tenant_epoch db (ra_tenant_id input) + 1)]"
  by (cases "active_lease db (ra_tenant_id input) createdAt")
    (simp_all add: insert_authority_def Let_def epoch_entries_def new_authority_def allocate_epoch_def tenant_epoch_def)

lemma control_step_entries:
  assumes "control_step db db'"
  shows "epoch_entries db' = epoch_entries db \<or> (\<exists>tenant. epoch_entries db' = epoch_entries db @ [(tenant, 1)]
    \<or> epoch_entries db' = epoch_entries db @ [(tenant, tenant_epoch db tenant + 1)])"
  using assms
proof (cases rule: control_step.cases)
  case (step_insert_authority input rid createdAt)
  then show ?thesis using insert_authority_entries by blast
qed (auto simp: epoch_entries_def expire_leases_def insert_lease_def update_lease_def update_authority_def
    insert_schedule_def claim_schedule_def finish_schedule_def map_key_upd_where split: if_splits sum.splits)

lemma control_step_complete:
  assumes "control_step db db'" and complete: "epochs_complete db"
  shows "epochs_complete db'"
  using control_step_entries [OF assms(1)]
proof (elim disjE exE)
  assume "epoch_entries db' = epoch_entries db"
  then show ?thesis using complete by (simp add: epochs_complete_def tenant_epoch_entries)
next
  fix t assume one: "epoch_entries db' = epoch_entries db @ [(t, 1)]"
  have "tenant_epoch db' u = (if u = t then max 1 (tenant_epoch db u) else tenant_epoch db u)" for u
    by (simp add: tenant_epoch_entries one)
  then show ?thesis using complete one by (auto simp: epochs_complete_def max_def split: if_splits)
next
  fix t assume new: "epoch_entries db' = epoch_entries db @ [(t, tenant_epoch db t + 1)]"
  have "tenant_epoch db' u = (if u = t then tenant_epoch db u + 1 else tenant_epoch db u)" for u
    by (simp add: tenant_epoch_entries [of db'] new) (simp add: tenant_epoch_entries)
  then have "(u, e) \<in> set (epoch_entries db')" if "1 \<le> e" "e \<le> tenant_epoch db' u" for u e
    using complete new that by (cases "u = t \<and> e = tenant_epoch db t + 1") (auto simp: epochs_complete_def split: if_splits)
  then show ?thesis by (simp add: epochs_complete_def)
qed

interpretation complete_ledger: control_relation "\<lambda>db db'. epochs_complete db \<longrightarrow> epochs_complete db'"
  by unfold_locales (auto intro: control_step_complete)

lemma check_authorities_sorted:
  assumes "sorted (map ra_deletion_epoch as)" and "distinct (map ra_id as)" and "distinct (map lineage as)"
    and "\<And>a. a \<in> set as \<Longrightarrow> ra_tenant_id a = tenant \<and> 1 \<le> ra_deletion_epoch a \<and> ra_deletion_epoch a \<le> n"
    and "ra_id ` set as \<inter> ids = {}" and "lineage ` set as \<inter> lins = {}"
    and "\<And>a e. a \<in> set as \<Longrightarrow> previous = Some e \<Longrightarrow> e \<le> ra_deletion_epoch a"
  shows "check_authorities tenant n ids lins previous as = Inr ()"
  using assms
proof (induction as arbitrary: ids lins previous)
  case (Cons a as)
  then have "check_authorities tenant n (insert (ra_id a) ids) (insert (lineage a) lins) (Some (ra_deletion_epoch a)) as = Inr ()"
    by (intro Cons.IH) auto
  moreover have "\<not> (case previous of None \<Rightarrow> False | Some e \<Rightarrow> ra_deletion_epoch a < e)"
    using Cons.prems(7) [of a] by (cases previous) force+
  moreover have "ra_tenant_id a = tenant" "1 \<le> ra_deletion_epoch a" "ra_deletion_epoch a \<le> n" "ra_id a \<notin> ids" "lineage a \<notin> lins"
    using Cons.prems(4-6) by auto
  ultimately show ?case by (simp add: throwIf_def)
qed simp

lemma sorted_map_fst:
  "sorted (map (\<lambda>a. (f a :: int, g a :: string)) as) \<Longrightarrow> sorted (map f as)"
proof (induction as)
  case (Cons a as)
  then show ?case by (auto simp: less_eq_prod_def dest!: bspec)
qed simp

lemma gate_accepts:
  assumes "ledger_ok db" and "epochs_complete db" and "is_safe_integer (readTenantDeletionEpoch db tenant)"
  shows "\<exists>s. loadRestoreAuthority db tenant = Inr s \<and> sn_authorities s = listRemovalAuthorities db tenant"
proof -
  let ?as = "listRemovalAuthorities db tenant" and ?n = "readTenantDeletionEpoch db tenant"
  have set_as: "set ?as = {a \<in> set (removal_authority db). ra_tenant_id a = tenant}"
    by (auto simp: listRemovalAuthorities_def)
  have "sorted (map (\<lambda>a. (ra_deletion_epoch a, ra_id a)) ?as)"
    by (simp only: listRemovalAuthorities_def sorted_sort_key)
  then have sorted: "sorted (map ra_deletion_epoch ?as)" by (rule sorted_map_fst)
  have bounds: "ra_tenant_id a = tenant \<and> 1 \<le> ra_deletion_epoch a \<and> ra_deletion_epoch a \<le> ?n" if "a \<in> set ?as" for a
    using that assms(1) set_as
    by (auto simp: ledger_ok_def readTenantDeletionEpoch_def tenant_epoch_def intro!: fold_max_member)
  have keys: "distinct (map ra_id ?as)" "distinct (map lineage ?as)"
  proof -
    have d: "distinct (filter (\<lambda>a. ra_tenant_id a = tenant) (removal_authority db))"
      and i: "inj_on ra_id (set (removal_authority db))" and k: "inj_on key_of (set (removal_authority db))"
      using assms(1) by (auto simp: ledger_ok_def distinct_map)
    then have "distinct ?as" by (simp add: listRemovalAuthorities_def)
    moreover have "inj_on ra_id (set ?as)" using i by (rule inj_on_subset) (auto simp: set_as)
    moreover have "inj_on lineage (set ?as)"
      using k by (auto simp: set_as inj_on_def lineage_def)
    ultimately show "distinct (map ra_id ?as)" "distinct (map lineage ?as)" by (simp_all add: distinct_map)
  qed
  have "check_authorities tenant ?n {} {} None ?as = Inr ()"
    by (rule check_authorities_sorted [OF sorted keys bounds]) auto
  moreover have "(tenant, e) \<in> set (epoch_entries db)" if "e \<in> set [1..?n]" for e
    using that assms(2) by (simp add: epochs_complete_def readTenantDeletionEpoch_def)
  then have all: "\<forall>e \<in> set [1..?n]. e \<in> set (map ra_deletion_epoch ?as)"
    using set_as by (fastforce simp: epoch_entries_def)
  moreover have n0: "0 \<le> ?n" by (simp add: readTenantDeletionEpoch_def tenant_epoch_def fold_max_ge)
  moreover have "\<not> (?n \<noteq> 0 \<and> ?as = [])"
    using all n0 by (cases "1 \<le> ?n") (auto dest: bspec [of _ _ 1])
  ultimately show ?thesis
    using assms(3) by (simp add: loadRestoreAuthority_def assertAuthoritySequence_def list_all_iff throwIf_def Let_def)
qed

lemma epochs_complete_empty [simp]: "epochs_complete empty_control"
  by (auto simp: epochs_complete_def tenant_epoch_def empty_control_def)

text \<open>
  C25: the gate accepts every ledger that the system writes. Whatever sequence of statements filled the
  control database, concurrent leases and removals included, the deletion epochs of a tenant have no
  hole, no authority or lineage is repeated, and \<open>loadRestoreAuthority\<close> returns all authorities of the
  tenant in epoch order: a restore is refused only when the ledger it reads is not the one written.
\<close>

theorem restore_gate_accepts_ledger:
  assumes "control_step\<^sup>*\<^sup>* empty_control db" and "is_safe_integer (readTenantDeletionEpoch db tenant)"
  shows "\<exists>s. loadRestoreAuthority db tenant = Inr s \<and> sn_deletion_epoch s = readTenantDeletionEpoch db tenant
    \<and> set (sn_authorities s) = {a \<in> set (removal_authority db). ra_tenant_id a = tenant}
    \<and> sorted (map ra_deletion_epoch (sn_authorities s))
    \<and> set (map ra_deletion_epoch (sn_authorities s)) = {1..sn_deletion_epoch s}"
proof -
  have ok: "ledger_ok db" using ledger_inv.rel_steps [OF assms(1)] by simp
  have complete: "epochs_complete db"
    using complete_ledger.rel_steps [OF assms(1)] by simp
  obtain s where s: "loadRestoreAuthority db tenant = Inr s" "sn_authorities s = listRemovalAuthorities db tenant"
    using gate_accepts [OF ok complete assms(2)] by blast
  have epoch: "sn_deletion_epoch s = readTenantDeletionEpoch db tenant"
    using s(1) by (auto simp: loadRestoreAuthority_def Let_def andThen_eq_Inr)
  have members: "set (sn_authorities s) = {a \<in> set (removal_authority db). ra_tenant_id a = tenant}"
    by (auto simp: s(2) listRemovalAuthorities_def)
  have "sorted (map (\<lambda>a. (ra_deletion_epoch a, ra_id a)) (sn_authorities s))"
    by (simp only: s(2) listRemovalAuthorities_def sorted_sort_key)
  moreover have "ra_deletion_epoch a \<in> {1..sn_deletion_epoch s}" if "a \<in> set (sn_authorities s)" for a
    using that ok by (auto simp: members epoch ledger_ok_def readTenantDeletionEpoch_def tenant_epoch_def intro!: fold_max_member)
  moreover have "e \<in> ra_deletion_epoch ` set (sn_authorities s)" if "e \<in> {1..sn_deletion_epoch s}" for e
    using that complete by (fastforce simp: members epoch epochs_complete_def readTenantDeletionEpoch_def epoch_entries_def)
  ultimately show ?thesis using s(1) epoch members by (auto dest: sorted_map_fst)
qed

theorem restore_gate_accepts_ledger_witness:
  "\<exists>s. loadRestoreAuthority sample_leased ''tnt_a'' = Inr s \<and> sn_deletion_epoch s = 1
     \<and> set (map ra_deletion_epoch (sn_authorities s)) = {1..1}"
proof -
  have "is_safe_integer (readTenantDeletionEpoch sample_leased ''tnt_a'') \<and> readTenantDeletionEpoch sample_leased ''tnt_a'' = 1"
    by code_simp
  then show ?thesis
    using restore_gate_accepts_ledger [of sample_leased "''tnt_a''"] rtranclp_trans [OF sample_removed_steps sample_leased_steps]
    by auto
qed

end
