(* ===== verification/Projection_Rebuild.thy ===== *)
theory Projection_Rebuild
  imports Outbound_Operations Restore_Gate
begin

text \<open>
  The rebuild of a tenant's projection: \<open>restore/outbound.ts\<close>, and from
  \<open>projection/tenant-projection.ts\<close> the lifecycle \<open>initialize\<close>, \<open>beginRebuild\<close>, \<open>completeRebuild\<close>,
  \<open>abortRebuild\<close> and the restoration of the outbound rows. A lifecycle operation reads the metadata
  once before its transaction (state \<open>before\<close>) and again inside it (state \<open>st\<close>).
\<close>

section \<open>Fencing restored outbound work\<close>

record fence_result =
  fr_cancelled_dispatches :: nat
  fr_uncertain_dispatches :: nat
  fr_cancelled_commands :: nat
  fr_authority_ids :: "string list"

definition messagePredicate :: "authority_row \<Rightarrow> dispatch_row \<Rightarrow> bool" where
  "messagePredicate authority r =
     (if ra_resource_type authority = ''conversation'' then rq_conversation_id (od_request r) = ra_resource_id authority
      else if ra_resource_type authority = ''message'' then rq_message_id (od_request r) = ra_resource_id authority
      else False)"

definition dispatchCancellable :: "dispatch_status \<Rightarrow> bool" where
  "dispatchCancellable s = (s \<in> {ODPending, ODWaiting_for_connection, ODConfirmation_required, ODWakeup_failed})"

definition commandCancellable :: "command_status \<Rightarrow> bool" where
  "commandCancellable s =
     (s \<in> {Accepted, Waiting_for_connection, Confirmation_required, Scheduled, Reading, Typing, Submitted_to_matrix})"

definition fence_dispatch :: "string \<Rightarrow> string \<Rightarrow> dispatch_row \<Rightarrow> dispatch_row" where
  "fence_dispatch reason now r =
     (let s = od_status r; open_work = dispatchCancellable s \<or> s = ODDispatching \<or> s = ODDelivery_uncertain in
      r\<lparr>od_status := (if dispatchCancellable s then ODCancelled else if s = ODDispatching then ODDelivery_uncertain else s),
        od_chat_paused := (s = ODDispatching \<or> s = ODDelivery_uncertain \<or> od_chat_paused r),
        od_uncertainty_reason := (if s = ODDispatching
          then Some (case od_uncertainty_reason r of None \<Rightarrow> reason | Some x \<Rightarrow> x) else od_uncertainty_reason r),
        od_uncertain_at := (if s = ODDispatching
          then Some (case od_uncertain_at r of None \<Rightarrow> now | Some x \<Rightarrow> x) else od_uncertain_at r),
        od_dispatch_lease_id := (if open_work then None else od_dispatch_lease_id r),
        od_dispatch_lease_expires_at := (if open_work then None else od_dispatch_lease_expires_at r),
        od_updated_at := now\<rparr>)"

definition fence_command :: "string \<Rightarrow> string \<Rightarrow> command_row \<Rightarrow> command_row" where
  "fence_command reason now k =
     k\<lparr>k_status := (if commandCancellable (k_status k) then Cancelled else k_status k),
       k_failure_code := (if commandCancellable (k_status k)
         then Some (case k_failure_code k of None \<Rightarrow> reason | Some x \<Rightarrow> x) else k_failure_code k),
       k_updated_at := now\<rparr>"

text \<open>One authority of the loop that is neither a repetition nor of another resource type.\<close>

definition fence_authority :: "authority_row \<Rightarrow> string \<Rightarrow> projection_object \<times> fence_result \<Rightarrow> projection_object \<times> fence_result" where
  "fence_authority authority now acc =
     (let (st, result) = acc; P = messagePredicate authority; reason = ''removal_authority:'' @ ra_id authority;
          dispatches = filter P (outbound_dispatches st) in
      if dispatches = [] then acc
      else
        let st1 = upd_dispatch P (fence_dispatch reason now) st;
            selected = (\<lambda>k. list_ex (\<lambda>r. P r \<and> od_command_id r = k_id k) (outbound_dispatches st1));
            commandRows = filter selected (commands (tables (po_store st1)))
        in (upd_command selected (fence_command reason now) st1,
            \<lparr>fr_cancelled_dispatches = fr_cancelled_dispatches result
               + length (filter (\<lambda>r. dispatchCancellable (od_status r)) dispatches),
             fr_uncertain_dispatches = fr_uncertain_dispatches result
               + length (filter (\<lambda>r. od_status r = ODDispatching) dispatches),
             fr_cancelled_commands = fr_cancelled_commands result
               + length (filter (\<lambda>k. commandCancellable (k_status k)) commandRows),
             fr_authority_ids = fr_authority_ids result @ [ra_id authority]\<rparr>))"

fun fence_loop :: "authority_row list \<Rightarrow> string list \<Rightarrow> string \<Rightarrow> projection_object \<times> fence_result \<Rightarrow> projection_object \<times> fence_result" where
  "fence_loop [] seen now acc = acc"
| "fence_loop (a # as) seen now acc =
     (if ra_id a \<in> set seen then fence_loop as seen now acc
      else if ra_resource_type a \<noteq> ''message'' \<and> ra_resource_type a \<noteq> ''conversation''
      then fence_loop as (ra_id a # seen) now acc
      else fence_loop as (ra_id a # seen) now (fence_authority a now acc))"

definition fenceRestoredOutboundWork ::
  "authority_row list \<Rightarrow> string \<Rightarrow> projection_object \<Rightarrow> projection_object \<times> fence_result" where
  "fenceRestoredOutboundWork authorities now st =
     fence_loop authorities [] now
       (st, \<lparr>fr_cancelled_dispatches = 0, fr_uncertain_dispatches = 0, fr_cancelled_commands = 0, fr_authority_ids = []\<rparr>)"

section \<open>Restoring the views of the ledger\<close>

definition restoredOutboundCommandStatus :: "dispatch_row \<Rightarrow> command_status" where
  "restoredOutboundCommandStatus row =
     (case od_status row of
        ODWaiting_for_connection \<Rightarrow> Waiting_for_connection
      | ODConfirmation_required \<Rightarrow> Confirmation_required
      | ODCancelled \<Rightarrow> Cancelled
      | ODDelivery_uncertain \<Rightarrow> Delivery_uncertain
      | ODDispatched \<Rightarrow>
          if od_provider_stage row = Stage_delivered then Delivered
          else if od_bridge_stage row \<noteq> Stage_unknown then Bridged
          else if od_matrix_stage row = Stage_confirmed then Matrix_confirmed
          else if od_matrix_stage row = Stage_accepted then Submitted_to_matrix
          else Accepted
      | _ \<Rightarrow> Accepted)"

definition restore_tombstone :: "projection_db \<Rightarrow> dispatch_row \<Rightarrow> resource_tombstone_row option" where
  "restore_tombstone db row =
     best_row (\<lambda>a b. (rt_observed_ms b, rt_tombstone_event_id b) < (rt_observed_ms a, rt_tombstone_event_id a))
       (filter (\<lambda>t. rt_resource_type t = RMessage \<and> rt_resource_id t = rq_message_id (od_request row)
                  \<or> rt_resource_type t = RConversation \<and> rt_resource_id t = rq_conversation_id (od_request row))
          (resource_tombstones db))"

definition restored_message :: "dispatch_row \<Rightarrow> resource_tombstone_row option \<Rightarrow> message_row result" where
  "restored_message row tombstone =
     (let rq = od_request row; owner = resend_owner rq in
      andThen (parseStoredMilliseconds (rq_created_at rq)) (\<lambda>occurredMs.
      case tombstone of
        None \<Rightarrow> Inr (outbound_message owner (rq_conversation_id rq) (rq_message_id rq) (rq_body rq) (rq_created_at rq)
                      occurredMs (rq_event_id rq))
      | Some t \<Rightarrow>
          andThen (parseStoredMilliseconds (rt_occurred_at t)) (\<lambda>deletedMs.
          andThen (canonicalObservedAt (rt_observed_ms t)) (\<lambda>observedAt.
          Inr ((outbound_message owner (rq_conversation_id rq) (rq_message_id rq) '''' (rt_occurred_at t) deletedMs
                 (rt_tombstone_event_id t))
               \<lparr>m_sender_label := ''Deleted sender'', m_observed_at := observedAt,
                m_current_observed_ms := rt_observed_ms t, m_deleted_at := Some (rt_occurred_at t),
                m_deletion_reason := rt_reason_code t\<rparr>)))))"

definition restore_message :: "dispatch_row \<Rightarrow> projection_object \<Rightarrow> projection_object result" where
  "restore_message row st =
     (let rq = od_request row in
      case readOutboundMessage st (rq_message_id rq) of
        None \<Rightarrow> andThen (restored_message row (restore_tombstone (tables (po_store st)) row)) (\<lambda>m. insert_message m st)
      | Some m \<Rightarrow>
          andThen (throwIf (identity_id m \<noteq> rq_resource_identity_id rq \<or> account_id m \<noteq> rq_account_id rq
                     \<or> connection_id m \<noteq> rq_connection_id rq \<or> conversation_id m \<noteq> rq_conversation_id rq
                     \<or> m_direction m \<noteq> Outbound) (ProjectionError projection_conflict)) (\<lambda>_. Inr st))"

definition restore_command :: "dispatch_row \<Rightarrow> projection_object \<Rightarrow> projection_object result" where
  "restore_command row st =
     (let rq = od_request row in
      case readOutboundCommand st (rq_command_id rq) of
        None \<Rightarrow>
          andThen (parseStoredMilliseconds (rq_created_at rq)) (\<lambda>observedMs.
          insert_command ((outbound_command (resend_owner rq) (rq_actor_identity_id rq) (rq_conversation_id rq) (rq_command_id rq)
              (rq_delivery_mode rq) (restoredOutboundCommandStatus row) (rq_created_at rq) observedMs (rq_event_id rq))
              \<lparr>k_updated_at := od_updated_at row\<rparr>) st)
      | Some k \<Rightarrow>
          andThen (throwIf (identity_id k \<noteq> rq_actor_identity_id rq \<or> account_id k \<noteq> rq_account_id rq
                     \<or> connection_id k \<noteq> rq_connection_id rq \<or> conversation_id k \<noteq> rq_conversation_id rq
                     \<or> platform k \<noteq> rq_platform rq \<or> k_operation k \<noteq> ''message.send''
                     \<or> k_delivery_mode k \<noteq> rq_delivery_mode rq) (ProjectionError projection_conflict)) (\<lambda>_. Inr st))"

definition restore_row :: "dispatch_row \<Rightarrow> projection_object \<Rightarrow> projection_object result" where
  "restore_row row st =
     (let rq = od_request row in
      case find (\<lambda>c. c_id c = rq_conversation_id rq) (conversations (tables (po_store st))) of
        None \<Rightarrow> projectionError projection_conflict
      | Some c \<Rightarrow>
          andThen (throwIf (account_row.truncate c \<noteq> resend_owner rq) (ProjectionError projection_conflict)) (\<lambda>_.
          andThen (restore_message row st) (restore_command row)))"

definition restoreOutboundProjectionRows :: "string \<Rightarrow> projection_object \<Rightarrow> projection_object result" where
  "restoreOutboundProjectionRows tenantId st =
     (let rows = sort_key (\<lambda>r. (rq_created_at (od_request r), od_id r))
            (filter (\<lambda>r. rq_tenant_id (od_request r) = tenantId) (outbound_dispatches st)) in
      andThen (forEach rows st restore_row) (\<lambda>st1.
      Inr (upd_tables (recomputeConversationSummaries (map (\<lambda>r. rq_conversation_id (od_request r)) rows)) st1)))"

section \<open>The lifecycle of a rebuild\<close>

text \<open>The tables of \<open>DERIVED_PROJECTION_TABLES\<close> are emptied and the change sequence starts again.\<close>

definition clearDerivedProjectionData :: "tenant_store \<Rightarrow> tenant_store" where
  "clearDerivedProjectionData s =
     s\<lparr>tables := (tables s)\<lparr>resource_tombstones := [], event_tombstones := [], reactions := [], receipts := [],
         typing_states := [], attachments := [], message_delivery_updates := [], commands := [],
         message_versions := [], messages := [], participants := [], conversations := [], applied_events := []\<rparr>,
       projection_changes := [], change_floors := [], identity_sequences := [], checkpoints := [],
       change_autoincrement := 0\<rparr>"

record projection_status =
  ps_tenant_id :: string
  ps_schema_generation :: int
  ps_state :: projection_state
  ps_generation :: int
  ps_rebuild_id :: "string option"
  ps_last_completed_rebuild_id :: "string option"
  ps_last_failed_rebuild_id :: "string option"
  ps_last_rebuild_failure_code :: "rebuild_failure_code option"
  ps_applied_event_count :: nat
  ps_conversation_count :: nat
  ps_message_count :: nat
  ps_latest_change_sequence :: int
  ps_checkpoints :: "checkpoint_row list"

text \<open>\<open>schemaGeneration\<close> is the version of the last migration, \<open>None\<close> when no migration ran.\<close>

definition readStatusForMeta :: "int option \<Rightarrow> tenant_store \<Rightarrow> projection_meta_row \<Rightarrow> projection_status result" where
  "readStatusForMeta schemaGeneration s meta =
     (case schemaGeneration of
        None \<Rightarrow> Inl PlainError
      | Some g \<Rightarrow>
          Inr \<lparr>ps_tenant_id = pm_tenant_id meta, ps_schema_generation = g, ps_state = pm_state meta,
               ps_generation = pm_generation meta, ps_rebuild_id = pm_rebuild_id meta,
               ps_last_completed_rebuild_id = pm_last_completed_rebuild_id meta,
               ps_last_failed_rebuild_id = pm_last_failed_rebuild_id meta,
               ps_last_rebuild_failure_code = pm_last_rebuild_failure_code meta,
               ps_applied_event_count = length (applied_events (tables s)),
               ps_conversation_count = length (conversations (tables s)),
               ps_message_count = length (messages (tables s)),
               ps_latest_change_sequence = (case map snd (identity_sequences s) of [] \<Rightarrow> 0 | n # ns \<Rightarrow> fold max ns n),
               ps_checkpoints = sort_key cp_kind (checkpoints s)\<rparr>)"

datatype projection_scope = Scope_initialize | Scope_write | Scope_read | Scope_rebuild | Scope_status

record authorization_context =
  az_tenant_id :: string
  az_allowed_identity_ids :: "string list"
  az_scopes :: "projection_scope list"

definition requireAuthorization :: "string \<Rightarrow> authorization_context \<Rightarrow> projection_scope \<Rightarrow> unit result" where
  "requireAuthorization tenantId authorization scope =
     andThen (throwIf (az_tenant_id authorization \<noteq> tenantId) (ProjectionError projection_tenant_mismatch)) (\<lambda>_.
     throwIf (scope \<notin> set (az_scopes authorization)) (ProjectionError projection_forbidden))"

definition set_meta :: "projection_meta_row \<Rightarrow> projection_object \<Rightarrow> projection_object" where
  "set_meta meta st = st\<lparr>po_store := (po_store st)\<lparr>projection_meta := Some meta\<rparr>\<rparr>"

text \<open>The metadata read back after a transaction, and the status returned.\<close>

definition status_after ::
  "int option \<Rightarrow> projection_object \<Rightarrow> (projection_object \<times> projection_status) result" where
  "status_after schemaGeneration st =
     (case projection_meta (po_store st) of
        None \<Rightarrow> Inl PlainError
      | Some meta \<Rightarrow> andThen (readStatusForMeta schemaGeneration (po_store st) meta) (\<lambda>s. Inr (st, s)))"

definition initialize ::
  "int option \<Rightarrow> authorization_context \<Rightarrow> string \<Rightarrow> string \<Rightarrow> projection_object \<Rightarrow> (projection_object \<times> projection_status) result" where
  "initialize schemaGeneration authorization tenantId initializedAt st = catching projection_unavailable
     (andThen (requireAuthorization tenantId authorization Scope_initialize) (\<lambda>_.
      case projection_meta (po_store st) of
        Some existing \<Rightarrow>
          andThen (requireStoredTenant existing tenantId) (\<lambda>_.
          andThen (readStatusForMeta schemaGeneration (po_store st) existing) (\<lambda>s. Inr (st, s)))
      | None \<Rightarrow>
          status_after schemaGeneration (set_meta
            \<lparr>pm_tenant_id = tenantId, pm_state = Ready, pm_generation = 1, pm_rebuild_id = None,
             pm_rebuild_started_at = None, pm_last_completed_rebuild_id = None, pm_last_failed_rebuild_id = None,
             pm_last_rebuild_failure_code = None, pm_initialized_at = initializedAt, pm_updated_at = initializedAt\<rparr> st)))"

definition getStatus ::
  "int option \<Rightarrow> authorization_context \<Rightarrow> string \<Rightarrow> projection_object \<Rightarrow> projection_status result" where
  "getStatus schemaGeneration authorization tenantId st = catching projection_unavailable
     (andThen (requireAuthorization tenantId authorization Scope_status) (\<lambda>_.
      andThen (readProjectionMeta (po_store st)) (\<lambda>meta.
      andThen (requireStoredTenant meta tenantId) (\<lambda>_.
      readStatusForMeta schemaGeneration (po_store st) meta))))"

record begin_rebuild_input =
  br_tenant_id :: string
  br_rebuild_id :: string
  br_expected_generation :: int
  br_started_at :: string
  br_authorization :: authorization_context

definition same_begin :: "begin_rebuild_input \<Rightarrow> projection_meta_row \<Rightarrow> bool" where
  "same_begin input meta =
     (pm_rebuild_id meta = Some (br_rebuild_id input) \<and> pm_rebuild_started_at meta = Some (br_started_at input)
      \<and> br_expected_generation input = pm_generation meta - 1)"

definition begin_transaction ::
  "begin_rebuild_input \<Rightarrow> projection_meta_row \<Rightarrow> projection_object \<Rightarrow> projection_object result" where
  "begin_transaction input meta st =
     andThen (readProjectionMeta (po_store st)) (\<lambda>current.
     andThen (requireStoredTenant current (br_tenant_id input)) (\<lambda>_.
     if pm_state current = Rebuilding \<and> same_begin input current then Inr st
     else
       andThen (throwIf (pm_state current \<noteq> pm_state meta \<or> pm_generation current \<noteq> pm_generation meta)
                  (ProjectionError projection_rebuild_mismatch)) (\<lambda>_.
       Inr (set_meta (current\<lparr>pm_state := Rebuilding, pm_generation := pm_generation meta + 1,
              pm_rebuild_id := Some (br_rebuild_id input), pm_rebuild_started_at := Some (br_started_at input),
              pm_last_rebuild_failure_code := None, pm_updated_at := br_started_at input\<rparr>)
            (st\<lparr>po_store := clearDerivedProjectionData (po_store st)\<rparr>)))))"

definition beginRebuild ::
  "int option \<Rightarrow> begin_rebuild_input \<Rightarrow> projection_object \<Rightarrow> projection_object \<Rightarrow> (projection_object \<times> projection_status) result" where
  "beginRebuild schemaGeneration input before st = catching projection_unavailable
     (andThen (requireAuthorization (br_tenant_id input) (br_authorization input) Scope_rebuild) (\<lambda>_.
      andThen (readProjectionMeta (po_store before)) (\<lambda>meta.
      andThen (requireStoredTenant meta (br_tenant_id input)) (\<lambda>_.
      if pm_state meta = Rebuilding then
        andThen (throwIf (\<not> same_begin input meta) (ProjectionError projection_rebuild_mismatch)) (\<lambda>_.
        andThen (readStatusForMeta schemaGeneration (po_store before) meta) (\<lambda>s. Inr (st, s)))
      else
        andThen (throwIf (br_expected_generation input \<noteq> pm_generation meta) (ProjectionError projection_rebuild_mismatch)) (\<lambda>_.
        andThen (throwIf (list_ex (\<lambda>r. rb_rebuild_id r = br_rebuild_id input) (completed_rebuilds (po_store before))
                  \<or> list_ex (\<lambda>r. rb_rebuild_id r = br_rebuild_id input) (failed_rebuilds (po_store before)))
                  (ProjectionError projection_rebuild_mismatch)) (\<lambda>_.
        andThen (throwIf (\<not> is_safe_integer (pm_generation meta + 1)) (ProjectionError projection_unavailable)) (\<lambda>_.
        andThen (begin_transaction input meta st) (status_after schemaGeneration))))))))"

text \<open>The lease proof of a restore; without one the completion only fences the outbound work.\<close>

record lease_proof =
  lp_lease_id :: string
  lp_lease_token :: string
  lp_deletion_epoch :: int
  lp_ledger_head :: string

record complete_rebuild_input =
  cr_tenant_id :: string
  cr_rebuild_id :: string
  cr_completed_at :: string
  cr_authorization :: authorization_context
  cr_restore_activation_lease :: "lease_proof option"

text \<open>The keys and the \<open>CHECK\<close> of \<open>completed_rebuilds\<close> and \<open>failed_rebuilds\<close>.\<close>

definition rebuild_clash :: "string \<Rightarrow> int \<Rightarrow> 'a rebuild_row_scheme list \<Rightarrow> bool" where
  "rebuild_clash rebuildId generation rows =
     (list_ex (\<lambda>r. rb_rebuild_id r = rebuildId \<or> rb_generation r = generation) rows
      \<or> generation < 2 \<or> MAX_SAFE_INTEGER < generation)"

definition complete_transaction ::
  "complete_rebuild_input \<Rightarrow> authority_row list \<Rightarrow> projection_object \<Rightarrow> projection_object result" where
  "complete_transaction input authorities st =
     andThen (readProjectionMeta (po_store st)) (\<lambda>current.
     andThen (requireStoredTenant current (cr_tenant_id input)) (\<lambda>_.
     if pm_state current = Ready \<and> pm_last_completed_rebuild_id current = Some (cr_rebuild_id input) then Inr st
     else
       andThen (throwIf (pm_state current \<noteq> Rebuilding \<or> pm_rebuild_id current \<noteq> Some (cr_rebuild_id input))
                  (ProjectionError projection_rebuild_mismatch)) (\<lambda>_.
       case find (\<lambda>c. cp_kind c = REPLAY_CHECKPOINT_KIND) (checkpoints (po_store st)) of
         None \<Rightarrow> projectionError projection_rebuild_mismatch
       | Some terminal \<Rightarrow>
           andThen (throwIf (cp_generation terminal \<noteq> pm_generation current \<or> cp_value terminal \<noteq> ''terminal'')
                      (ProjectionError projection_rebuild_mismatch)) (\<lambda>_.
           andThen (restoreOutboundProjectionRows (cr_tenant_id input) st) (\<lambda>st1.
           let st2 = fst (fenceRestoredOutboundWork authorities (cr_completed_at input) st1) in
           andThen (throwIf (rebuild_clash (cr_rebuild_id input) (pm_generation current) (completed_rebuilds (po_store st2)))
                      SqliteConstraint) (\<lambda>_.
           Inr (set_meta (current\<lparr>pm_state := Ready, pm_rebuild_id := None, pm_rebuild_started_at := None,
                  pm_last_completed_rebuild_id := Some (cr_rebuild_id input), pm_last_rebuild_failure_code := None,
                  pm_updated_at := cr_completed_at input\<rparr>)
                (st2\<lparr>po_store := (po_store st2)\<lparr>completed_rebuilds := completed_rebuilds (po_store st2)
                   @ [\<lparr>rb_rebuild_id = cr_rebuild_id input, rb_generation = pm_generation current,
                       rb_at = cr_completed_at input\<rparr>]\<rparr>\<rparr>))))))))"

text \<open>
  \<open>completeRebuild\<close> renews the restore lease in the control database, loads the removal authorities from
  it, and then runs its transaction. \<open>controlNow\<close> is the clock of the renewal. The control database is
  always available here; without it the code throws \<open>projection_unavailable\<close>.
\<close>

definition completeRebuild ::
  "int option \<Rightarrow> (string \<Rightarrow> string) \<Rightarrow> int \<Rightarrow> complete_rebuild_input \<Rightarrow> projection_object \<Rightarrow> projection_object
     \<Rightarrow> control_db \<Rightarrow> control_db \<times> (projection_object \<times> projection_status) result" where
  "completeRebuild schemaGeneration tokenHash controlNow input before st db =
     (let fail = (\<lambda>e. (db, catching projection_unavailable (Inl e))) in
      case andThen (requireAuthorization (cr_tenant_id input) (cr_authorization input) Scope_rebuild) (\<lambda>_.
           andThen (readProjectionMeta (po_store before)) (\<lambda>meta.
           andThen (requireStoredTenant meta (cr_tenant_id input)) (\<lambda>_. Inr meta))) of
        Inl e \<Rightarrow> fail e
      | Inr meta \<Rightarrow>
          if pm_state meta = Ready then
            (db, catching projection_unavailable
              (andThen (throwIf (pm_last_completed_rebuild_id meta \<noteq> Some (cr_rebuild_id input))
                          (ProjectionError projection_rebuild_mismatch)) (\<lambda>_.
               andThen (readStatusForMeta schemaGeneration (po_store before) meta) (\<lambda>s. Inr (st, s)))))
          else if pm_state meta \<noteq> Rebuilding \<or> pm_rebuild_id meta \<noteq> Some (cr_rebuild_id input) then
            fail (ProjectionError projection_rebuild_mismatch)
          else
            let (db1, renewed) = (case cr_restore_activation_lease input of
                  None \<Rightarrow> (db, Inr True)
                | Some p \<Rightarrow> renewRestoreActivationLeaseForCompletion tokenHash (cr_tenant_id input) (lp_lease_id p)
                    (lp_lease_token p) (lp_deletion_epoch p) (lp_ledger_head p) controlNow db) in
            (db1, catching projection_unavailable
              (case renewed of
                 Inl _ \<Rightarrow> Inl PlainError
               | Inr held \<Rightarrow>
                   andThen (throwIf (\<not> held) (ProjectionError projection_rebuild_mismatch)) (\<lambda>_.
                   case loadRestoreAuthority db1 (cr_tenant_id input) of
                     Inl _ \<Rightarrow> Inl PlainError
                   | Inr snapshot \<Rightarrow>
                       andThen (complete_transaction input (sn_authorities snapshot) st) (status_after schemaGeneration)))))"

record abort_rebuild_input =
  ab_tenant_id :: string
  ab_rebuild_id :: string
  ab_failed_at :: string
  ab_failure_code :: rebuild_failure_code
  ab_authorization :: authorization_context

text \<open>The stored failure of an abort that is asked for again.\<close>

definition same_abort :: "abort_rebuild_input \<Rightarrow> projection_meta_row \<Rightarrow> tenant_store \<Rightarrow> unit result" where
  "same_abort input meta s =
     andThen (throwIf (pm_last_failed_rebuild_id meta \<noteq> Some (ab_rebuild_id input)) (ProjectionError projection_rebuild_mismatch)) (\<lambda>_.
     case find (\<lambda>r. rb_rebuild_id r = ab_rebuild_id input) (failed_rebuilds s) of
       None \<Rightarrow> projectionError projection_rebuild_mismatch
     | Some f \<Rightarrow> throwIf (rb_at f \<noteq> ab_failed_at input \<or> rb_failure_code f \<noteq> ab_failure_code input)
                   (ProjectionError projection_rebuild_mismatch))"

definition abort_transaction :: "abort_rebuild_input \<Rightarrow> projection_object \<Rightarrow> projection_object result" where
  "abort_transaction input st =
     andThen (readProjectionMeta (po_store st)) (\<lambda>current.
     andThen (requireStoredTenant current (ab_tenant_id input)) (\<lambda>_.
     if pm_state current = Rebuild_failed then andThen (same_abort input current (po_store st)) (\<lambda>_. Inr st)
     else
       andThen (throwIf (pm_state current \<noteq> Rebuilding \<or> pm_rebuild_id current \<noteq> Some (ab_rebuild_id input))
                  (ProjectionError projection_rebuild_mismatch)) (\<lambda>_.
       andThen (throwIf (rebuild_clash (ab_rebuild_id input) (pm_generation current) (failed_rebuilds (po_store st)))
                  SqliteConstraint) (\<lambda>_.
       Inr (set_meta (current\<lparr>pm_state := Rebuild_failed, pm_rebuild_id := None, pm_rebuild_started_at := None,
              pm_last_failed_rebuild_id := Some (ab_rebuild_id input),
              pm_last_rebuild_failure_code := Some (ab_failure_code input), pm_updated_at := ab_failed_at input\<rparr>)
            (st\<lparr>po_store := (clearDerivedProjectionData (po_store st))\<lparr>failed_rebuilds := failed_rebuilds (po_store st)
               @ [\<lparr>rb_rebuild_id = ab_rebuild_id input, rb_generation = pm_generation current,
                   rb_at = ab_failed_at input, rb_failure_code = ab_failure_code input\<rparr>]\<rparr>\<rparr>))))))"

definition abortRebuild ::
  "int option \<Rightarrow> abort_rebuild_input \<Rightarrow> projection_object \<Rightarrow> projection_object \<Rightarrow> (projection_object \<times> projection_status) result" where
  "abortRebuild schemaGeneration input before st = catching projection_unavailable
     (andThen (requireAuthorization (ab_tenant_id input) (ab_authorization input) Scope_rebuild) (\<lambda>_.
      andThen (readProjectionMeta (po_store before)) (\<lambda>meta.
      andThen (requireStoredTenant meta (ab_tenant_id input)) (\<lambda>_.
      if pm_state meta = Rebuild_failed then
        andThen (same_abort input meta (po_store before)) (\<lambda>_.
        andThen (readStatusForMeta schemaGeneration (po_store before) meta) (\<lambda>s. Inr (st, s)))
      else
        andThen (throwIf (pm_state meta \<noteq> Rebuilding \<or> pm_rebuild_id meta \<noteq> Some (ab_rebuild_id input))
                   (ProjectionError projection_rebuild_mismatch)) (\<lambda>_.
        andThen (abort_transaction input st) (status_after schemaGeneration))))))"

end
