(* ===== verification/Outbound_Steps.thy ===== *)
theory Outbound_Steps
  imports Projection_Rebuild
begin

text \<open>
  How the rows of the outbound ledger evolve: one step is one operation of the tenant's object,
  interleaved in any order. Every operation keeps the ledger's rows well formed, and every row moves
  forward through the phases open, dispatching, uncertain, settled.
\<close>

section \<open>Rows\<close>

fun phase :: "dispatch_status \<Rightarrow> nat" where
  "phase ODDispatching = 1"
| "phase ODDelivery_uncertain = 2"
| "phase ODDispatched = 3"
| "phase ODCancelled = 3"
| "phase _ = 0"

definition row_ok :: "dispatch_row \<Rightarrow> bool" where
  "row_ok r =
     ((od_chat_paused r \<longrightarrow> od_status r = ODDelivery_uncertain)
      \<and> (od_status r = ODDelivery_uncertain \<and> \<not> od_chat_paused r
           \<longrightarrow> od_last_action r = Some Act_continue \<or> od_last_action r = Some Act_resend)
      \<and> (od_status r = ODDispatching \<longrightarrow> od_dispatch_lease_id r \<noteq> None \<and> od_dispatch_lease_expires_at r \<noteq> None)
      \<and> (od_dispatch_lease_id r \<noteq> None \<longrightarrow> od_status r = ODDispatching \<or> od_status r = ODDelivery_uncertain)
      \<and> (od_last_action r = Some Act_cancel \<longrightarrow> od_status r = ODCancelled))"

definition evolves :: "dispatch_row \<Rightarrow> dispatch_row \<Rightarrow> bool" where
  "evolves r r' =
     (od_request r' = od_request r
      \<and> phase (od_status r) \<le> phase (od_status r')
      \<and> (phase (od_status r) = 3 \<longrightarrow> od_status r' = od_status r)
      \<and> (od_status r = ODDispatching \<and> od_status r' = ODDispatching
           \<longrightarrow> od_dispatch_lease_id r' = od_dispatch_lease_id r \<and> od_dispatch_lease_expires_at r' = od_dispatch_lease_expires_at r)
      \<and> (od_confirmation_due_at r \<noteq> None \<longrightarrow> od_confirmation_due_at r' = od_confirmation_due_at r)
      \<and> stageRank (od_matrix_stage r) \<le> stageRank (od_matrix_stage r')
      \<and> stageRank (od_bridge_stage r) \<le> stageRank (od_bridge_stage r')
      \<and> stageRank (od_provider_stage r) \<le> stageRank (od_provider_stage r'))"

definition row_step :: "dispatch_row \<Rightarrow> dispatch_row \<Rightarrow> bool" where
  "row_step r r' = (row_ok r \<longrightarrow> row_ok r' \<and> evolves r r')"

lemma phase_dispatching [simp]: "phase s = Suc 0 \<longleftrightarrow> s = ODDispatching"
  by (cases s) auto

lemma phase_uncertain: "phase s = 2 \<longleftrightarrow> s = ODDelivery_uncertain"
  by (cases s) auto

lemma phase_le_3 [simp]: "phase s \<le> 3"
  by (cases s) auto

lemma evolves_refl [simp]: "evolves r r"
  by (simp add: evolves_def)

lemma evolves_trans:
  assumes "evolves a b" and "evolves b c"
  shows "evolves a c"
proof -
  have mid: "od_status b = ODDispatching" if "od_status a = ODDispatching" "od_status c = ODDispatching"
  proof -
    have "phase (od_status b) = Suc 0" using assms that by (intro le_antisym) (simp_all add: evolves_def)
    then show ?thesis by simp
  qed
  have settled: "phase (od_status b) = 3" if "phase (od_status a) = 3"
    using assms(1) that by (auto simp: evolves_def)
  show ?thesis
    using assms mid settled unfolding evolves_def by (auto intro: order_trans)
qed

lemma row_step_refl [simp]: "row_step r r"
  by (simp add: row_step_def)

lemma row_step_trans: "row_step a b \<Longrightarrow> row_step b c \<Longrightarrow> row_step a c"
  by (auto simp: row_step_def intro: evolves_trans)

section \<open>Ledgers\<close>

definition rows_ok :: "dispatch_row list \<Rightarrow> bool" where
  "rows_ok ds = (distinct (map od_id ds) \<and> distinct (map od_command_id ds)
     \<and> distinct (map (\<lambda>r. rq_message_id (od_request r)) ds)
     \<and> distinct (map (\<lambda>r. rq_idempotency_key (od_request r)) ds) \<and> list_all row_ok ds)"

definition rows_evolve :: "dispatch_row list \<Rightarrow> dispatch_row list \<Rightarrow> bool" where
  "rows_evolve ds ds' = list_all2 evolves ds (take (length ds) ds')"

definition rows_step :: "dispatch_row list \<Rightarrow> dispatch_row list \<Rightarrow> bool" where
  "rows_step ds ds' = (rows_ok ds \<longrightarrow> rows_ok ds' \<and> rows_evolve ds ds')"

lemma rows_evolve_refl [simp]: "rows_evolve ds ds"
  by (simp add: rows_evolve_def list_all2_refl)

lemma rows_evolve_trans:
  assumes "rows_evolve a b" and "rows_evolve b c"
  shows "rows_evolve a c"
proof -
  have len: "length a \<le> length b" "length b \<le> length c"
    using assms by (auto simp: rows_evolve_def list_all2_conv_all_nth)
  have "evolves (a ! i) (c ! i)" if "i < length a" for i
    using assms len that evolves_trans [of "a ! i" "b ! i" "c ! i"]
    by (simp add: rows_evolve_def list_all2_conv_all_nth)
  then show ?thesis using len by (simp add: rows_evolve_def list_all2_conv_all_nth)
qed

lemma rows_step_refl [simp]: "rows_step ds ds"
  by (simp add: rows_step_def)

lemma rows_step_trans: "rows_step a b \<Longrightarrow> rows_step b c \<Longrightarrow> rows_step a c"
  by (auto simp: rows_step_def intro: rows_evolve_trans)

lemma rows_step_map:
  assumes "\<And>r. r \<in> set ds \<Longrightarrow> row_step r (f r)" and "\<And>r. od_request (f r) = od_request r"
  shows "rows_step ds (map f ds)"
  using assms
  by (auto simp: rows_step_def rows_ok_def rows_evolve_def comp_def list_all_iff list_all2_conv_all_nth row_step_def)

lemma rows_step_upd:
  assumes "\<And>r. r \<in> set ds \<Longrightarrow> P r \<Longrightarrow> row_step r (f r)" and "\<And>r. od_request (f r) = od_request r"
  shows "rows_step ds (upd_where P f ds)"
  unfolding upd_where_def using assms by (intro rows_step_map) auto

text \<open>Updates of the one row that was read.\<close>

lemma same_id_same_row:
  assumes "rows_ok ds" and "d \<in> set ds" and "r \<in> set ds" and "od_id r = od_id d"
  shows "r = d"
  using assms by (auto simp: rows_ok_def distinct_map inj_on_def)

lemma rows_step_at:
  assumes "d \<in> set ds" and "\<And>r. P r \<Longrightarrow> od_id r = od_id d" and "P d \<Longrightarrow> row_step d (f d)"
    and "\<And>r. od_request (f r) = od_request r"
  shows "rows_step ds (upd_where P f ds)"
proof (cases "rows_ok ds")
  case True
  then have "r = d" if "r \<in> set ds" "P r" for r using same_id_same_row assms(1,2) that by blast
  then show ?thesis using assms(3,4) by (intro rows_step_upd) auto
qed (simp add: rows_step_def)

lemma rows_step_insert:
  assumes "insert_dispatch (new_dispatch rq s due) st = Inr st'" and "phase s = 0"
  shows "rows_step (outbound_dispatches st) (outbound_dispatches st')"
proof -
  let ?ds = "outbound_dispatches st"
  have ok: "row_ok (new_dispatch rq s due)" using assms(2) by (auto simp: row_ok_def new_dispatch_def)
  have rq: "od_request (new_dispatch rq s due) = rq" by (simp add: new_dispatch_def)
  have st': "outbound_dispatches st' = ?ds @ [new_dispatch rq s due]"
    and fresh: "\<forall>r \<in> set ?ds. \<not> request_clash (od_request r) rq"
    using assms(1) by (auto simp: insert_dispatch_def list_ex_iff rq split: if_splits)
  have "rows_ok ?ds \<Longrightarrow> rows_ok (outbound_dispatches st')"
    using ok fresh unfolding st' rows_ok_def request_clash_def by (fastforce simp: rq)
  then show ?thesis by (simp add: rows_step_def rows_evolve_def st' list_all2_refl)
qed

section \<open>Operations\<close>

lemma outbound_dispatches_writes [simp]:
  "outbound_dispatches (upd_tables g st) = outbound_dispatches st"
  "outbound_dispatches (upd_command Q h st) = outbound_dispatches st"
  "outbound_dispatches (upd_dispatch P f st) = upd_where P f (outbound_dispatches st)"
  "outbound_dispatches (doubt_command k now st) = outbound_dispatches st"
  by (simp_all add: upd_tables_def upd_command_def upd_dispatch_def doubt_command_def)

lemma outbound_dispatches_inserts:
  "insert_message m st = Inr st' \<Longrightarrow> outbound_dispatches st' = outbound_dispatches st"
  "insert_command k st = Inr st' \<Longrightarrow> outbound_dispatches st' = outbound_dispatches st"
  "insert_evidence e st = Inr st' \<Longrightarrow> outbound_dispatches st' = outbound_dispatches st"
  "insert_action a st = Inr st' \<Longrightarrow> outbound_dispatches st' = outbound_dispatches st"
  "insert_decision d st = Inr st' \<Longrightarrow> outbound_dispatches st' = outbound_dispatches st"
  by (auto simp: insert_message_def insert_command_def insert_evidence_def insert_action_def insert_decision_def
      andThen_eq_Inr split: if_splits)

lemma read_dispatch_in: "readOutboundDispatchByCommand st c = Some d \<Longrightarrow> d \<in> set (outbound_dispatches st) \<and> od_command_id d = c"
  by (auto simp: readOutboundDispatchByCommand_def dest: find_SomeD)

lemma catching_Inr [simp]: "catching c m = Inr x \<longleftrightarrow> m = Inr x"
  by (cases m) (auto simp: catching_def)

lemma transition_status:
  assumes "transitionOutboundLifecycle input = Inr t"
  shows "if transitionable (li_dispatchStatus input)
         then transitionable (lt_dispatchStatus t) \<and> (li_dispatchStatus input = ODCancelled \<longrightarrow> lt_dispatchStatus t = ODCancelled)
         else lt_dispatchStatus t = li_dispatchStatus input \<and> lt_confirmationDueAt t = li_confirmationDueAt input"
  using assms
  by (auto simp: transitionOutboundLifecycle_def Let_def andThen_eq_Inr transition_to_def transitionable_def split: if_splits)

text \<open>A row with the status and the deadline the lifecycle step started from.\<close>

lemma row_step_transition:
  assumes "transitionOutboundLifecycle (lifecycle_input d k decision now available) = Inr t"
    and "od_status r = od_status d" and "od_confirmation_due_at r = od_confirmation_due_at d"
  shows "row_step r (r\<lparr>od_status := lt_dispatchStatus t, od_confirmation_due_at := lt_confirmationDueAt t, od_updated_at := u\<rparr>)"
proof -
  let ?i = "lifecycle_input d k decision now available"
  have due: "od_confirmation_due_at d \<noteq> None \<Longrightarrow> lt_confirmationDueAt t = od_confirmation_due_at d"
    using transition_due [OF assms(1)] by (auto simp: lifecycle_input_def)
  have status: "if transitionable (od_status d)
      then transitionable (lt_dispatchStatus t) \<and> (od_status d = ODCancelled \<longrightarrow> lt_dispatchStatus t = ODCancelled)
      else lt_dispatchStatus t = od_status d"
    using transition_status [OF assms(1)] by (auto simp: lifecycle_input_def split: if_splits)
  show ?thesis
  proof (cases "transitionable (od_status d)")
    case True
    then show ?thesis
      using status due assms(2,3)
      by (cases "od_status d"; cases "lt_dispatchStatus t") (auto simp: row_step_def row_ok_def evolves_def transitionable_def)
  next
    case False
    then show ?thesis
      using status due assms(2,3) by (auto simp: row_step_def row_ok_def evolves_def)
  qed
qed

lemma store_transition_step:
  assumes t: "transitionOutboundLifecycle (lifecycle_input d k decision now available) = Inr t"
    and "\<And>r. r \<in> set (outbound_dispatches st) \<Longrightarrow> od_id r = od_id d \<Longrightarrow> od_confirmation_due_at r = od_confirmation_due_at d"
  shows "rows_step (outbound_dispatches st) (outbound_dispatches (store_transition d k t u st))"
  unfolding store_transition_def Let_def
  by (auto intro!: rows_step_upd row_step_transition [OF t] assms(2))

lemma rows_okD: "rows_ok ds \<Longrightarrow> d \<in> set ds \<Longrightarrow> r \<in> set ds \<Longrightarrow> od_id r = od_id d \<Longrightarrow> r = d"
  by (rule same_id_same_row)

text \<open>Steps that start from well-formed rows may use that the row read is the only one with its id.\<close>

lemma rows_step_if_ok: "(rows_ok a \<Longrightarrow> rows_step a b) \<Longrightarrow> rows_step a b"
  by (auto simp: rows_step_def)

lemma row_step_doubt:
  assumes "phase (od_status r) < 3"
  shows "row_step r (r\<lparr>od_status := ODDelivery_uncertain, od_chat_paused := True, od_uncertainty_reason := reason,
    od_uncertain_at := at, od_dispatch_lease_id := None, od_dispatch_lease_expires_at := None, od_updated_at := u\<rparr>)"
  using assms by (cases "od_status r") (auto simp: row_step_def row_ok_def evolves_def)

lemma alarm_row_step:
  assumes "alarm_row now available c st = Inr st'"
  shows "rows_step (outbound_dispatches st) (outbound_dispatches st')"
proof (rule rows_step_if_ok)
  assume ok: "rows_ok (outbound_dispatches st)"
  show ?thesis
    using assms ok
    by (auto simp: alarm_row_def andThen_eq_Inr split: option.splits if_splits
        intro!: rows_step_upd row_step_doubt store_transition_step dest: read_dispatch_in rows_okD)
qed

lemma alarm_rows_step:
  "rows_step (outbound_dispatches st) (outbound_dispatches (fst (alarm_rows now avail rows st)))"
  by (induction rows arbitrary: st) (auto split: sum.splits intro: rows_step_trans alarm_row_step)

lemma row_step_claim:
  assumes "od_status r = ODPending \<or> od_status r = ODWakeup_failed"
  shows "row_step r (r\<lparr>od_status := ODDispatching, od_dispatch_lease_id := Some l, od_dispatch_lease_expires_at := Some e,
    od_updated_at := u\<rparr>)"
  using assms by (auto simp: row_step_def row_ok_def evolves_def)

lemma claim_step:
  assumes "claimOutboundDispatch env input st = Inr (st', d)"
  shows "rows_step (outbound_dispatches st) (outbound_dispatches st')"
  using assms
  by (auto simp: claimOutboundDispatch_def Let_def andThen_eq_Inr split: option.splits if_splits
      intro!: rows_step_upd row_step_doubt row_step_claim)

lemma reread_state: "reread env c st = Inr (st', r) \<Longrightarrow> st' = st"
  by (auto simp: reread_def andThen_eq_Inr split: option.splits)

lemma row_step_fail:
  assumes "od_status r = ODDispatching"
  shows "row_step r (r\<lparr>od_status := ODCancelled, od_dispatch_lease_id := None, od_dispatch_lease_expires_at := None,
    od_uncertainty_reason := reason, od_updated_at := u\<rparr>)"
  using assms by (auto simp: row_step_def row_ok_def evolves_def)

lemma fail_step:
  assumes "failOutboundDispatch env input st = Inr (st', r)"
  shows "rows_step (outbound_dispatches st) (outbound_dispatches st')"
  using assms
  by (auto simp: failOutboundDispatch_def andThen_eq_Inr split: option.splits dest!: reread_state
      intro!: rows_step_upd row_step_fail)

lemma outbound_resultE:
  assumes "outbound_result env command dispatch replayed = Inr r"
  obtains "or_command r = command" "or_dispatch r = dispatch" "or_replayed r = replayed" "or_message r = None"
  using assms by (auto simp: outbound_result_def mapOutboundCommand_def mapOutboundDispatch_def andThen_eq_Inr)

lemma reply_resultE:
  assumes "reply_result env command message dispatch replayed = Inr r"
  obtains "or_command r = command" "or_dispatch r = dispatch" "or_replayed r = replayed"
  using assms by (auto simp: reply_result_def andThen_eq_Inr elim: outbound_resultE)

lemma accept_new_replyE:
  assumes "accept_new_reply env input meta owner b q ms st = Inr (st', r)"
  obtains s st1 st2 st3 where
    "\<not> list_ex (\<lambda>x. rq_account_id (od_request x) = account_id owner
       \<and> rq_conversation_id (od_request x) = tr_conversation_id input \<and> od_chat_paused x) (outbound_dispatches st)"
    "phase s = 0" "outbound_dispatches st2 = outbound_dispatches st"
    "insert_dispatch (new_dispatch (reply_request input owner (pm_generation meta) b q) s (tr_confirmation_due_at input)) st2 = Inr st3"
    "st' = upd_tables (recomputeConversationSummaries [tr_conversation_id input]) st3"
    "readOutboundDispatchByKey st' (tr_idempotency_key input) = Some (or_dispatch r)" "\<not> or_replayed r"
proof -
  have last: "x = st' \<and> readOutboundDispatchByKey st' (tr_idempotency_key input) = Some (or_dispatch r) \<and> \<not> or_replayed r"
    if "reply_reread env (tr_idempotency_key input) rq x = Inr (st', r)" for rq x
    using that by (auto simp: reply_reread_def andThen_eq_Inr elim!: reply_resultE split: option.splits)
  let ?s = "if tr_initial_dispatch_status input = Some Initial_waiting_for_connection then ODWaiting_for_connection else ODPending"
  obtain m k st1 st2 st3 where 1: "\<not> list_ex (\<lambda>x. rq_account_id (od_request x) = account_id owner
        \<and> rq_conversation_id (od_request x) = tr_conversation_id input \<and> od_chat_paused x) (outbound_dispatches st)"
    and 2: "insert_message m st = Inr st1" "insert_command k st1 = Inr st2"
    and 3: "insert_dispatch (new_dispatch (reply_request input owner (pm_generation meta) b q) ?s (tr_confirmation_due_at input)) st2 = Inr st3"
    and 4: "reply_reread env (tr_idempotency_key input) (reply_request input owner (pm_generation meta) b q)
        (upd_tables (recomputeConversationSummaries [tr_conversation_id input]) st3) = Inr (st', r)"
    using assms unfolding accept_new_reply_def Let_def andThen_eq_Inr throwIf_eq_Inr by blast
  have "outbound_dispatches st2 = outbound_dispatches st" using 2 by (simp add: outbound_dispatches_inserts)
  then show ?thesis using that [OF 1 _ _ 3] last [OF 4] by auto
qed

lemma accept_step:
  assumes "acceptTextReply env input before st = Inr (st', r)"
  shows "rows_step (outbound_dispatches st) (outbound_dispatches st')"
proof -
  have "rows_step (outbound_dispatches st) (outbound_dispatches st')"
    if "accept_new_reply env input meta owner b q ms st = Inr (st', r)" for meta owner b q ms
    using that
  proof (rule accept_new_replyE)
    fix s st1 st2 st3
    assume "phase s = 0" and same: "outbound_dispatches st2 = outbound_dispatches st"
      and "insert_dispatch (new_dispatch (reply_request input owner (pm_generation meta) b q) s (tr_confirmation_due_at input)) st2 = Inr st3"
      and st': "st' = upd_tables (recomputeConversationSummaries [tr_conversation_id input]) st3"
    then have "rows_step (outbound_dispatches st2) (outbound_dispatches st3)" by (intro rows_step_insert)
    then show ?thesis by (simp add: same st')
  qed
  then show ?thesis
    using assms by (auto simp: acceptTextReply_def andThen_eq_Inr split: option.splits)
qed

subsection \<open>Reconciling\<close>

lemma row_step_record_stage: "row_step d (record_stage d evidence now d)"
  by (cases "oe_source evidence")
    (auto simp: record_stage_def Let_def row_step_def row_ok_def evolves_def strongestStage_def)

lemma record_stage_keeps [simp]:
  "od_request (record_stage d evidence now r) = od_request r"
  "od_status (record_stage d evidence now r) = od_status r"
  "od_confirmation_due_at (record_stage d evidence now r) = od_confirmation_due_at r"
  by (cases "oe_source evidence"; simp add: record_stage_def Let_def)+

lemma row_step_settle:
  assumes "od_status r \<noteq> ODCancelled"
  shows "row_step r (r\<lparr>od_status := ODDispatched, od_chat_paused := False, od_uncertainty_reason := None,
    od_dispatch_lease_id := None, od_dispatch_lease_expires_at := None, od_updated_at := u\<rparr>)"
  using assms by (cases "od_status r") (auto simp: row_step_def row_ok_def evolves_def)

lemma row_step_await:
  assumes "od_status r \<noteq> ODCancelled" and "od_status r \<noteq> ODDispatched"
  shows "row_step r (r\<lparr>od_status := ODDelivery_uncertain, od_chat_paused := True, od_uncertainty_reason := reason,
    od_uncertain_at := at, od_updated_at := u\<rparr>)"
  using assms by (cases "od_status r") (auto simp: row_step_def row_ok_def evolves_def)

lemma phase_settled_iff: "phase s < 3 \<longleftrightarrow> s \<noteq> ODCancelled \<and> s \<noteq> ODDispatched"
  by (cases s) auto

lemma apply_evidence_step:
  assumes "\<And>r. r \<in> set (outbound_dispatches st) \<Longrightarrow> od_id r = od_id d \<Longrightarrow> od_status r = od_status d"
  shows "rows_step (outbound_dispatches st) (outbound_dispatches (apply_evidence d k evidence now st))"
  unfolding apply_evidence_def Let_def settle_dispatch_def
  using assms
  by (auto intro!: rows_step_upd row_step_settle row_step_doubt row_step_await simp: phase_settled_iff)

lemma apply_evidence_due:
  assumes "r \<in> set (outbound_dispatches (apply_evidence d k evidence now st))"
  shows "\<exists>r0 \<in> set (outbound_dispatches st). od_request r = od_request r0 \<and> od_confirmation_due_at r = od_confirmation_due_at r0"
  using assms unfolding apply_evidence_def Let_def settle_dispatch_def
  by (auto simp: set_upd_where split: if_splits intro: bexI)

lemma reconcile_evidence_step:
  assumes "reconcile_evidence input d k e st = Inr st'" and ok: "rows_ok (outbound_dispatches st)"
    and d: "d \<in> set (outbound_dispatches st)"
  shows "rows_step (outbound_dispatches st) (outbound_dispatches st')"
    and "r \<in> set (outbound_dispatches st') \<Longrightarrow> od_id r = od_id d \<Longrightarrow> od_confirmation_due_at r = od_confirmation_due_at d"
proof -
  let ?ds = "outbound_dispatches st"
  have unique: "r = d" if "r \<in> set ?ds" "od_id r = od_id d" for r using rows_okD [OF ok d] that by blast
  consider "st' = st"
    | st1 where "outbound_dispatches st1 = ?ds"
        "st' = apply_evidence d k e (ri_now input) (upd_dispatch (\<lambda>r. od_id r = od_id d) (record_stage d e (ri_now input)) st1)"
  proof -
    have "st' = st \<or> (\<exists>st1. insert_evidence (evidence_row (ri_tenant_id input) d e (ri_now input)) st = Inr st1
      \<and> st' = apply_evidence d k e (ri_now input) (upd_dispatch (\<lambda>r. od_id r = od_id d) (record_stage d e (ri_now input)) st1))"
      using assms(1) unfolding reconcile_evidence_def andThen_eq_Inr throwIf_eq_Inr 
      by (simp only: split: if_splits) (auto simp: andThen_eq_Inr)
    then show thesis using that outbound_dispatches_inserts(3) by blast
  qed
  then have "rows_step ?ds (outbound_dispatches st')
    \<and> (\<forall>r \<in> set (outbound_dispatches st'). od_id r = od_id d \<longrightarrow> od_confirmation_due_at r = od_confirmation_due_at d)"
  proof cases
    case 1
    then show ?thesis using unique by auto
  next
    case (2 st1)
    let ?mid = "upd_dispatch (\<lambda>r. od_id r = od_id d) (record_stage d e (ri_now input)) st1"
    have mid: "od_status r = od_status d \<and> od_confirmation_due_at r = od_confirmation_due_at d"
      if "r \<in> set (outbound_dispatches ?mid)" "od_id r = od_id d" for r
    proof -
      obtain r0 where r0: "r0 \<in> set ?ds" "r = (if od_id r0 = od_id d then record_stage d e (ri_now input) r0 else r0)"
        using \<open>r \<in> _\<close> by (auto simp: 2(1) set_upd_where)
      then have "r0 = d" using unique that(2) by (simp split: if_splits)
      then show ?thesis using r0(2) by simp
    qed
    have "rows_step ?ds (outbound_dispatches ?mid)"
      unfolding outbound_dispatches_writes 2(1)
      by (rule rows_step_at [OF d]) (simp_all add: row_step_record_stage)
    moreover have "rows_step (outbound_dispatches ?mid) (outbound_dispatches st')"
      unfolding 2(2) using mid by (intro apply_evidence_step) blast
    moreover have "od_confirmation_due_at r = od_confirmation_due_at d" if "r \<in> set (outbound_dispatches st')" "od_id r = od_id d" for r
      using apply_evidence_due [of r d k e "ri_now input" ?mid] that mid unfolding 2(2) by metis
    ultimately show ?thesis by (blast intro: rows_step_trans)
  qed
  then show "rows_step ?ds (outbound_dispatches st')"
    and "r \<in> set (outbound_dispatches st') \<Longrightarrow> od_id r = od_id d \<Longrightarrow> od_confirmation_due_at r = od_confirmation_due_at d"
    by blast+
qed

lemma reconcile_step:
  assumes "reconcileOutbound env available input before st = Inr (st', r)"
  shows "rows_step (outbound_dispatches st) (outbound_dispatches st')"
proof (rule rows_step_if_ok)
  assume ok: "rows_ok (outbound_dispatches st)"
  obtain d k st1 t where d: "readOutboundDispatchByCommand st (ri_command_id input) = Some d"
    and e: "(case ri_evidence input of None \<Rightarrow> Inr st | Some evidence \<Rightarrow> reconcile_evidence input d k evidence st) = Inr st1"
    and t: "transitionOutboundLifecycle (lifecycle_input d k (od_confirmation_decision d) (ri_now input) available) = Inr t"
    and st': "st' = store_transition d k t (ri_now input) st1"
    using assms by (auto simp: reconcileOutbound_def andThen_eq_Inr split: option.splits dest!: reread_state)
  have mem: "d \<in> set (outbound_dispatches st)" using read_dispatch_in [OF d] by simp
  have "rows_step (outbound_dispatches st) (outbound_dispatches st1)
    \<and> (\<forall>r \<in> set (outbound_dispatches st1). od_id r = od_id d \<longrightarrow> od_confirmation_due_at r = od_confirmation_due_at d)"
  proof (cases "ri_evidence input")
    case None
    then show ?thesis using e rows_okD [OF ok mem] by auto
  next
    case (Some ev)
    then show ?thesis using e reconcile_evidence_step [OF _ ok mem] by auto
  qed
  then show ?thesis
    unfolding st' using store_transition_step [OF t, of st1] by (blast intro: rows_step_trans)
qed

subsection \<open>Decisions\<close>

lemma row_step_act:
  assumes "od_status d = ODDelivery_uncertain"
  shows "row_step d (d\<lparr>od_status := (if action = Act_cancel then ODCancelled else od_status d), od_chat_paused := False,
    od_dispatch_lease_id := None, od_dispatch_lease_expires_at := None, od_last_action := Some action,
    od_last_action_actor_principal_id := p, od_last_action_at := at, od_updated_at := u\<rparr>)"
  using assms by (cases action) (auto simp: row_step_def row_ok_def evolves_def)

lemma resend_dispatch_step:
  assumes "resend_dispatch input available q d st = Inr (st', c)"
  shows "rows_step (outbound_dispatches st) (outbound_dispatches st')"
    and "set (outbound_dispatches st) \<subseteq> set (outbound_dispatches st')"
proof -
  let ?s = "if available then ODPending else ODWaiting_for_connection"
  obtain m k rq due st1 st2 where ins: "insert_message m st = Inr st1" "insert_command k st1 = Inr st2"
    and new: "insert_dispatch (new_dispatch rq ?s due) st2 = Inr st'"
    using assms unfolding resend_dispatch_def Let_def andThen_eq_Inr
    by (cases "di_resend_authority input"; cases "readOutboundMessage st (rq_message_id (od_request d))")
      (auto simp: andThen_eq_Inr)
  have "outbound_dispatches st2 = outbound_dispatches st" using ins by (simp add: outbound_dispatches_inserts)
  then show "rows_step (outbound_dispatches st) (outbound_dispatches st')"
    using rows_step_insert [OF new] by simp
  show "set (outbound_dispatches st) \<subseteq> set (outbound_dispatches st')"
    using new \<open>outbound_dispatches st2 = _\<close> by (auto simp: insert_dispatch_def split: if_splits)
qed

lemma act_step:
  assumes "act_on_uncertain env input available q action d k st = Inr (st', r)"
    and "d \<in> set (outbound_dispatches st)" and "od_status d = ODDelivery_uncertain"
  shows "rows_step (outbound_dispatches st) (outbound_dispatches st')"
proof -
  let ?f = "\<lambda>r. r\<lparr>od_status := (if action = Act_cancel then ODCancelled else od_status r), od_chat_paused := False,
    od_dispatch_lease_id := None, od_dispatch_lease_expires_at := None, od_last_action := Some action,
    od_last_action_actor_principal_id := Some (di_actor_principal_id input),
    od_last_action_at := Some (di_decided_at input), od_updated_at := di_decided_at input\<rparr>"
  obtain st1 c a st2 where one: "(if action = Act_resend
      then andThen (resend_dispatch input available q d st) (\<lambda>(st', c). Inr (st', Some c)) else Inr (st, None)) = Inr (st1, c)"
    and two: "insert_action a st1 = Inr st2"
    and ds: "outbound_dispatches st' = upd_where (\<lambda>r. od_id r = od_id d) ?f (outbound_dispatches st2)"
  proof -
    from assms(1) obtain x where one: "(if action = Act_resend
      then andThen (resend_dispatch input available q d st) (\<lambda>(st', c). Inr (st', Some c)) else Inr (st, None)) = Inr x"
      and rest: "(case x of (st1, newCommandId) \<Rightarrow> andThen (insert_action
       \<lparr>oa_id = ''action_outbound_'' @ di_command_id input @ ''_'' @ di_idempotency_key input, oa_tenant_id = di_tenant_id input,
        oa_original_command_id = di_command_id input, oa_new_command_id = newCommandId, oa_action = action,
        oa_idempotency_key = di_idempotency_key input, oa_actor_principal_id = di_actor_principal_id input,
        oa_actor_identity_id = di_actor_identity_id input,
        oa_duplicate_risk_acknowledged = di_duplicate_risk_acknowledged input, oa_action_at = di_decided_at input,
        oa_created_at = di_decided_at input\<rparr> st1) (act_finish env input action d k st1 newCommandId)) = Inr (st', r)"
      unfolding act_on_uncertain_def andThen_eq_Inr throwIf_eq_Inr by blast
    obtain st1 c where x: "x = (st1, c)" by (cases x)
    from rest obtain st2 where "act_finish env input action d k st1 c st2 = Inr (st', r)" and two: "\<exists>a. insert_action a st1 = Inr st2"
      unfolding x by (auto simp: andThen_eq_Inr)
    then have "outbound_dispatches st' = upd_where (\<lambda>r. od_id r = od_id d) ?f (outbound_dispatches st2)"
      by (auto simp: act_finish_def Let_def andThen_eq_Inr split: option.splits)
    then show thesis using that one two unfolding x by blast
  qed
  have st1: "rows_step (outbound_dispatches st) (outbound_dispatches st1) \<and> d \<in> set (outbound_dispatches st1)"
    using one resend_dispatch_step assms(2) by (fastforce simp: andThen_eq_Inr split: if_splits)
  have "rows_step (outbound_dispatches st1) (outbound_dispatches st')"
    unfolding ds outbound_dispatches_inserts(4) [OF two]
    by (rule rows_step_at [OF conjunct2 [OF st1]]) (simp, rule row_step_act [OF assms(3)], simp)
  then show ?thesis using st1 by (blast intro: rows_step_trans)
qed

lemma row_step_decide:
  assumes "transitionOutboundLifecycle (lifecycle_input d k decision now available) = Inr t"
  shows "row_step d (d\<lparr>od_status := lt_dispatchStatus t, od_confirmation_due_at := lt_confirmationDueAt t,
    od_confirmation_decision := x1, od_confirmation_actor_principal_id := x2, od_confirmation_actor_identity_id := x3,
    od_confirmation_decided_at := x4, od_updated_at := u\<rparr>)"
proof (rule row_step_trans)
  show "row_step d (d\<lparr>od_status := lt_dispatchStatus t, od_confirmation_due_at := lt_confirmationDueAt t, od_updated_at := u\<rparr>)"
    by (rule row_step_transition [OF assms]) simp_all
qed (simp add: row_step_def row_ok_def evolves_def)

lemma confirm_step:
  assumes "confirm_or_cancel env input available decision d k st = Inr (st', r)"
    and "d \<in> set (outbound_dispatches st)"
  shows "rows_step (outbound_dispatches st) (outbound_dispatches st')"
proof -
  obtain t row st1 where t: "transitionOutboundLifecycle (lifecycle_input d k (Some decision) (di_decided_at input) available) = Inr t"
    and ins: "insert_decision row st = Inr st1"
    and st': "outbound_dispatches st' = upd_where (\<lambda>r. od_id r = od_id d)
       (\<lambda>r. r\<lparr>od_status := lt_dispatchStatus t, od_confirmation_due_at := lt_confirmationDueAt t,
          od_confirmation_decision := Some decision, od_confirmation_actor_principal_id := Some (di_actor_principal_id input),
          od_confirmation_actor_identity_id := Some (di_actor_identity_id input),
          od_confirmation_decided_at := Some (di_decided_at input), od_updated_at := di_decided_at input\<rparr>) (outbound_dispatches st1)"
    using assms(1) by (auto simp: confirm_or_cancel_def andThen_eq_Inr dest!: reread_state)
  show ?thesis
    unfolding st' outbound_dispatches_inserts(5) [OF ins]
    by (rule rows_step_at [OF assms(2)]) (simp, rule row_step_decide [OF t], simp)
qed

lemma decide_step:
  assumes "decideOutbound env available input before st = Inr (st', r)"
  shows "rows_step (outbound_dispatches st) (outbound_dispatches st')"
proof -
  obtain q where tx: "decide_transaction env input available q st = Inr (st', r)"
    using assms by (auto simp: decideOutbound_def andThen_eq_Inr)
  then obtain d where d: "readOutboundDispatchByCommand st (di_command_id input) = Some d"
    by (auto simp: decide_transaction_def split: option.splits)
  have mem: "d \<in> set (outbound_dispatches st)" using read_dispatch_in [OF d] by simp
  show ?thesis
    using tx mem unfolding decide_transaction_def d
    by (auto simp: andThen_eq_Inr split: option.splits if_splits intro: act_step confirm_step)
qed

subsection \<open>Fencing and rebuilding\<close>

lemma row_step_fence: "row_step r (fence_dispatch reason now r)"
  by (cases "od_status r")
    (auto simp: fence_dispatch_def Let_def dispatchCancellable_def row_step_def row_ok_def evolves_def)

lemma fence_dispatch_request [simp]: "od_request (fence_dispatch reason now r) = od_request r"
  by (simp add: fence_dispatch_def Let_def)

lemma fence_authority_step:
  "rows_step (outbound_dispatches (fst acc)) (outbound_dispatches (fst (fence_authority a now acc)))"
  by (auto simp: fence_authority_def Let_def split: prod.splits intro!: rows_step_upd row_step_fence)

lemma fence_loop_step:
  "rows_step (outbound_dispatches (fst acc)) (outbound_dispatches (fst (fence_loop as seen now acc)))"
proof (induction as arbitrary: seen acc)
  case (Cons a as)
  show ?case
    using Cons.IH [of acc] rows_step_trans [OF fence_authority_step Cons.IH] by simp
qed simp

lemma fence_step: "rows_step (outbound_dispatches st) (outbound_dispatches (fst (fenceRestoredOutboundWork as now st)))"
  unfolding fenceRestoredOutboundWork_def
  using fence_loop_step [of "(st, x)" as "[]" now for x] by simp

lemma restore_rows_dispatches:
  assumes "restoreOutboundProjectionRows tenant st = Inr st'"
  shows "outbound_dispatches st' = outbound_dispatches st"
proof -
  have row: "outbound_dispatches s' = outbound_dispatches s" if "restore_row row s = Inr s'" for row s s'
    using that
    by (auto simp: restore_row_def restore_message_def restore_command_def Let_def andThen_eq_Inr split: option.splits
        dest!: outbound_dispatches_inserts(1) outbound_dispatches_inserts(2))
  obtain rows st1 where "forEach rows st restore_row = Inr st1" "outbound_dispatches st' = outbound_dispatches st1"
    using assms by (auto simp: restoreOutboundProjectionRows_def Let_def andThen_eq_Inr)
  moreover have "outbound_dispatches st1 = outbound_dispatches st"
    by (rule forEach_invariant [OF calculation(1)]) (simp_all add: row)
  ultimately show ?thesis by simp
qed

section \<open>The operations of the object\<close>

inductive object_step :: "outbound_env \<Rightarrow> projection_object \<Rightarrow> projection_object \<Rightarrow> bool" for env where
  accept: "acceptTextReply env input before st = Inr (st', r) \<Longrightarrow> object_step env st st'"
| claim: "claimOutboundDispatch env claim st = Inr (st', d) \<Longrightarrow> object_step env st st'"
| fail: "failOutboundDispatch env failure st = Inr (st', r) \<Longrightarrow> object_step env st st'"
| alarm: "alarm_row now available c st = Inr st' \<Longrightarrow> object_step env st st'"
| reconcile: "reconcileOutbound env available evidence before st = Inr (st', r) \<Longrightarrow> object_step env st st'"
| decide: "decideOutbound env available decision before st = Inr (st', r) \<Longrightarrow> object_step env st st'"
| apply_batch: "applyPreparedBatch batch (po_store st) = Inr (s, result, changes) \<Longrightarrow> object_step env st (st\<lparr>po_store := s\<rparr>)"
| initialized: "initialize g authorization tenant at st = Inr (st', status) \<Longrightarrow> object_step env st st'"
| begun: "beginRebuild g start before st = Inr (st', status) \<Longrightarrow> object_step env st st'"
| completed: "completeRebuild g h now finish before st db = (db', Inr (st', status)) \<Longrightarrow> object_step env st st'"
| aborted: "abortRebuild g stop before st = Inr (st', status) \<Longrightarrow> object_step env st st'"

lemma status_after_state: "status_after g st = Inr (st', s) \<Longrightarrow> st' = st"
  by (auto simp: status_after_def andThen_eq_Inr split: option.splits)

lemma set_meta_dispatches [simp]: "outbound_dispatches (set_meta meta st) = outbound_dispatches st"
  by (simp add: set_meta_def)

lemma initialize_dispatches:
  assumes "initialize g a t at st = Inr (st', s)"
  shows "outbound_dispatches st' = outbound_dispatches st"
  using assms by (auto simp: initialize_def andThen_eq_Inr split: option.splits dest!: status_after_state)

lemma begin_transaction_dispatches: "begin_transaction input meta st = Inr st' \<Longrightarrow> outbound_dispatches st' = outbound_dispatches st"
  by (auto simp: begin_transaction_def andThen_eq_Inr split: if_splits)

lemma beginRebuild_state:
  assumes "beginRebuild g input before st = Inr (st', s)"
  shows "st' = st \<or> (\<exists>meta. projection_meta (po_store before) = Some meta \<and> pm_state meta \<noteq> Rebuilding
    \<and> begin_transaction input meta st = Inr st')"
  using assms
  by (auto simp: beginRebuild_def readProjectionMeta_def andThen_eq_Inr split: if_splits option.splits dest!: status_after_state)

lemma abort_transaction_dispatches: "abort_transaction input st = Inr st' \<Longrightarrow> outbound_dispatches st' = outbound_dispatches st"
  by (auto simp: abort_transaction_def andThen_eq_Inr split: if_splits)

lemma abortRebuild_state:
  assumes "abortRebuild g input before st = Inr (st', s)"
  shows "st' = st \<or> abort_transaction input st = Inr st'"
  using assms by (auto simp: abortRebuild_def andThen_eq_Inr split: if_splits dest!: status_after_state)

lemma completeRebuild_state:
  assumes "completeRebuild g h now input before st db = (db', Inr (st', s))"
  shows "st' = st \<or> (\<exists>snapshot. loadRestoreAuthority db' (cr_tenant_id input) = Inr snapshot
    \<and> complete_transaction input (sn_authorities snapshot) st = Inr st')"
  using assms
  by (auto simp: completeRebuild_def Let_def andThen_eq_Inr split: sum.splits if_splits prod.splits option.splits
      dest!: status_after_state)

lemma complete_transaction_state:
  assumes "complete_transaction input as st = Inr st'"
  shows "st' = st \<or> (\<exists>st1. restoreOutboundProjectionRows (cr_tenant_id input) st = Inr st1
    \<and> outbound_dispatches st' = outbound_dispatches (fst (fenceRestoredOutboundWork as (cr_completed_at input) st1))
    \<and> tables (po_store st') = tables (po_store (fst (fenceRestoredOutboundWork as (cr_completed_at input) st1))))"
  using assms
  by (auto simp: complete_transaction_def Let_def andThen_eq_Inr set_meta_def split: if_splits option.splits)

lemma complete_transaction_step:
  assumes "complete_transaction input as st = Inr st'"
  shows "rows_step (outbound_dispatches st) (outbound_dispatches st')"
  using complete_transaction_state [OF assms]
proof (elim disjE exE conjE)
  fix st1 assume "restoreOutboundProjectionRows (cr_tenant_id input) st = Inr st1"
    and "outbound_dispatches st' = outbound_dispatches (fst (fenceRestoredOutboundWork as (cr_completed_at input) st1))"
  then show ?thesis using fence_step [of st1 as "cr_completed_at input"] by (simp add: restore_rows_dispatches)
qed simp

lemma object_step_rows: "object_step env st st' \<Longrightarrow> rows_step (outbound_dispatches st) (outbound_dispatches st')"
proof (induction rule: object_step.induct)
  case (begun g start before st st' status)
  then show ?case using beginRebuild_state begin_transaction_dispatches by (metis rows_step_refl)
next
  case (completed g h now finish before st db db' st' status)
  then show ?case using completeRebuild_state complete_transaction_step by (metis rows_step_refl)
next
  case (aborted g stop before st st' status)
  then show ?case using abortRebuild_state abort_transaction_dispatches by (metis rows_step_refl)
qed (auto intro: accept_step claim_step fail_step alarm_row_step reconcile_step decide_step simp: initialize_dispatches)

interpretation outbound_rows: step_relation "object_step env" "\<lambda>st st'. rows_step (outbound_dispatches st) (outbound_dispatches st')"
  for env
  by unfold_locales (auto intro: rows_step_trans object_step_rows)

end
