(* ===== verification/Outbound_Properties.thy ===== *)
theory Outbound_Properties
  imports Outbound_Steps
begin

text \<open>
  What the outbound ledger promises along every run of the tenant's object.
\<close>

section \<open>Following one dispatch through a run\<close>

lemma rows_evolve_member:
  assumes "rows_evolve ds ds'" and "r \<in> set ds"
  shows "\<exists>r' \<in> set ds'. evolves r r'"
proof -
  obtain i where i: "i < length ds" "r = ds ! i" using assms(2) by (auto simp: in_set_conv_nth)
  then have "evolves r (ds' ! i)" "i < length ds'"
    using assms(1) by (auto simp: rows_evolve_def list_all2_conv_all_nth)
  then show ?thesis by auto
qed

lemma rows_ok_read:
  assumes "rows_ok (outbound_dispatches st)" and "r \<in> set (outbound_dispatches st)"
  shows "readOutboundDispatchByCommand st (od_command_id r) = Some r"
  unfolding readOutboundDispatchByCommand_def
  using assms find_key_unique [of od_command_id "outbound_dispatches st" r] by (simp add: rows_ok_def)

lemma run_dispatch:
  assumes "(object_step env)\<^sup>*\<^sup>* st st'" and "rows_ok (outbound_dispatches st)"
    and "readOutboundDispatchByCommand st c = Some d"
  shows "\<exists>d'. readOutboundDispatchByCommand st' c = Some d' \<and> evolves d d' \<and> row_ok d'"
proof -
  have ok: "rows_ok (outbound_dispatches st')" and ev: "rows_evolve (outbound_dispatches st) (outbound_dispatches st')"
    using outbound_rows.rel_steps [OF assms(1)] assms(2) by (simp_all add: rows_step_def)
  have d: "d \<in> set (outbound_dispatches st)" "od_command_id d = c" using read_dispatch_in [OF assms(3)] by auto
  obtain d' where d': "d' \<in> set (outbound_dispatches st')" "evolves d d'" using rows_evolve_member [OF ev d(1)] by blast
  then have "readOutboundDispatchByCommand st' (od_command_id d') = Some d'" using rows_ok_read [OF ok] by blast
  moreover have "od_command_id d' = c" using d'(2) d(2) by (simp add: evolves_def)
  moreover have "row_ok d'" using ok d'(1) by (simp add: rows_ok_def list_all_iff)
  ultimately show ?thesis using d'(2) by auto
qed

lemma payload_dispatching:
  assumes "getOutboundDispatchPayload parses input st = Inr p"
  shows "\<exists>d. readOutboundDispatchByCommand st (gp_command_id input) = Some d \<and> py_dispatch p = d
    \<and> od_status d = ODDispatching \<and> od_dispatch_lease_id d = Some (gp_lease_id input)
    \<and> (\<exists>m. readOutboundMessage st (rq_message_id (od_request d)) = Some m \<and> m_deleted_at m = None \<and> py_body p = m_body m)"
proof -
  obtain d m a where d: "readOutboundDispatchByCommand st (gp_command_id input) = Some d"
    and m: "readOutboundMessage st (rq_message_id (od_request d)) = Some m" and a: "authorityMetadataFromRow d = Inr (Some a)"
    using assms unfolding getOutboundDispatchPayload_def catching_Inr andThen_eq_Inr
    by (auto simp: andThen_eq_Inr split: option.split_asm simp del: case_prod_conv)
  then show ?thesis
    using assms by (auto simp: getOutboundDispatchPayload_def Let_def andThen_eq_Inr throwIf_eq_Inr)
qed

section \<open>A sample object\<close>

definition sample_env :: outbound_env where
  "sample_env = \<lparr>env_sha256Hex = (\<lambda>_. replicate 64 (CHR ''a'')), env_parses_dispatch = (\<lambda>_. True),
     env_parses_command = (\<lambda>_ _. True), env_parses_message = (\<lambda>_. True)\<rparr>"

definition sample_chat :: conversation_row where
  "sample_chat = \<lparr>identity_id = ''idn_a'', account_id = ''acc_a'', connection_id = ''con_a'', platform = Whatsapp,
     c_id = ''cnv_a'', c_title = '''', c_archived = 0, c_muted = 0, c_last_message_preview = '''',
     c_shell_activity_at = ''2026-01-01T00:00:00.000Z'', c_shell_activity_ms = 0, c_shell_activity_event_id = ''evt_a'',
     c_last_activity_at = ''2026-01-01T00:00:00.000Z'', c_last_activity_ms = 0, c_unread_count = 0, c_message_count = 0,
     c_attachment_count = 0, c_metadata_observed_ms = 0, c_metadata_event_id = ''evt_a'', c_deleted_at = None,
     c_last_event_id = ''evt_a'', c_updated_at = ''2026-01-01T00:00:00.000Z''\<rparr>"

definition sample_object_meta :: projection_meta_row where
  "sample_object_meta = \<lparr>pm_tenant_id = ''tnt_a'', pm_state = Ready, pm_generation = 1, pm_rebuild_id = None,
     pm_rebuild_started_at = None, pm_last_completed_rebuild_id = None, pm_last_failed_rebuild_id = None,
     pm_last_rebuild_failure_code = None, pm_initialized_at = ''2026-01-01T00:00:00.000Z'',
     pm_updated_at = ''2026-01-01T00:00:00.000Z''\<rparr>"

definition sample_object :: projection_object where
  "sample_object = \<lparr>po_store = empty_store\<lparr>projection_meta := Some sample_object_meta,
       tables := empty_db\<lparr>conversations := [sample_chat],
         connection_bindings := [\<lparr>b_account_id = ''acc_a'', b_connection_id = ''con_a'', b_identity_id = ''idn_a'', b_platform = Whatsapp\<rparr>]\<rparr>\<rparr>,
     outbound_dispatches = [], outbound_evidence = [], outbound_actions = [], outbound_command_decisions = []\<rparr>"

definition sample_authority :: authority_metadata where
  "sample_authority = \<lparr>au_reservation_id = ''res_a'', au_membership_id = ''mem_a'', au_identity_id = ''idn_b'',
     au_capability = Account_grant ''grant_a'' 1\<rparr>"

definition sample_reply :: "string \<Rightarrow> reply_input" where
  "sample_reply key = \<lparr>tr_tenant_id = ''tnt_a'', tr_actor_principal_id = ''prn_b'', tr_actor_identity_id = ''idn_b'',
     tr_conversation_id = ''cnv_a'', tr_account_id = None, tr_body = ''hello'', tr_delivery_mode = Direct,
     tr_idempotency_key = key, tr_accepted_at = ''2026-01-01T00:00:00.000Z'', tr_initial_dispatch_status = None,
     tr_confirmation_due_at = None, tr_authority = Some sample_authority\<rparr>"

definition state_of :: "(projection_object \<times> 'a) result \<Rightarrow> projection_object" where
  "state_of r = (case r of Inl _ \<Rightarrow> sample_object | Inr (st, _) \<Rightarrow> st)"

definition sample_command :: string where
  "sample_command = outbound_id ''command'' (replicate 64 (CHR ''a''))"

definition sample_accepted :: projection_object where
  "sample_accepted = state_of (acceptTextReply sample_env (sample_reply ''key_1'') sample_object sample_object)"

definition sample_claim :: "string \<Rightarrow> string \<Rightarrow> string \<Rightarrow> claim_input" where
  "sample_claim lease expires now = \<lparr>ci_tenant_id = ''tnt_a'', ci_command_id = sample_command, ci_lease_id = lease,
     ci_lease_expires_at = expires, ci_now = now\<rparr>"

definition sample_claimed :: projection_object where
  "sample_claimed = state_of (claimOutboundDispatch sample_env
     (sample_claim ''lse_a'' ''2026-01-01T00:05:00.000Z'' ''2026-01-01T00:01:00.000Z'') sample_accepted)"

definition sample_uncertain :: projection_object where
  "sample_uncertain = state_of (claimOutboundDispatch sample_env
     (sample_claim ''lse_b'' ''2026-01-01T00:30:00.000Z'' ''2026-01-01T00:10:00.000Z'') sample_claimed)"

lemma state_of_run: "\<not> isl r \<Longrightarrow> \<exists>x. r = Inr (state_of r, x)"
  by (cases r) (auto simp: state_of_def split: prod.splits)

lemma sample_accepted_run: "\<exists>r. acceptTextReply sample_env (sample_reply ''key_1'') sample_object sample_object = Inr (sample_accepted, r)"
  unfolding sample_accepted_def by (rule state_of_run) code_simp

lemma sample_claimed_run: "\<exists>d. claimOutboundDispatch sample_env
    (sample_claim ''lse_a'' ''2026-01-01T00:05:00.000Z'' ''2026-01-01T00:01:00.000Z'') sample_accepted = Inr (sample_claimed, d)"
  unfolding sample_claimed_def by (rule state_of_run) code_simp

lemma sample_uncertain_run: "\<exists>d. claimOutboundDispatch sample_env
    (sample_claim ''lse_b'' ''2026-01-01T00:30:00.000Z'' ''2026-01-01T00:10:00.000Z'') sample_claimed = Inr (sample_uncertain, d)"
  unfolding sample_uncertain_def by (rule state_of_run) code_simp

lemma sample_runs:
  "(object_step sample_env)\<^sup>*\<^sup>* sample_object sample_accepted"
  "(object_step sample_env)\<^sup>*\<^sup>* sample_accepted sample_claimed"
  "(object_step sample_env)\<^sup>*\<^sup>* sample_claimed sample_uncertain"
  using sample_accepted_run sample_claimed_run sample_uncertain_run
  by (blast intro: r_into_rtranclp object_step.accept object_step.claim)+

lemma sample_rows:
  "rows_ok (outbound_dispatches sample_object)" "rows_ok (outbound_dispatches sample_accepted)"
  "rows_ok (outbound_dispatches sample_claimed)" "rows_ok (outbound_dispatches sample_uncertain)"
proof -
  show a: "rows_ok (outbound_dispatches sample_object)" by (simp add: sample_object_def rows_ok_def)
  show b: "rows_ok (outbound_dispatches sample_accepted)" using outbound_rows.rel_steps [OF sample_runs(1)] a by (simp add: rows_step_def)
  show c: "rows_ok (outbound_dispatches sample_claimed)" using outbound_rows.rel_steps [OF sample_runs(2)] b by (simp add: rows_step_def)
  show "rows_ok (outbound_dispatches sample_uncertain)" using outbound_rows.rel_steps [OF sample_runs(3)] c by (simp add: rows_step_def)
qed

section \<open>The ledger only moves forward\<close>

text \<open>
  C26: the ledger's invariant, for every interleaving of replies, claims, failures, alarms, evidence,
  decisions, batches and rebuilds. No id, command, message or idempotency key is used twice; a chat is paused
  exactly by a delivery in doubt on which no person has said continue or resend; a dispatching row has
  a lease, and only a dispatching or uncertain row has one. No row disappears or changes what was
  accepted, its status only moves from open over dispatching and uncertain to settled, its deadline is
  fixed once set, and no stage of the evidence goes back.
\<close>

theorem outbound_ledger_invariant:
  assumes "(object_step env)\<^sup>*\<^sup>* st st'" and "rows_ok (outbound_dispatches st)"
  shows "rows_ok (outbound_dispatches st') \<and> rows_evolve (outbound_dispatches st) (outbound_dispatches st')"
  using outbound_rows.rel_steps [OF assms(1)] assms(2) by (simp add: rows_step_def)

theorem outbound_ledger_invariant_witness:
  "rows_ok (outbound_dispatches sample_object) \<and> rows_ok (outbound_dispatches sample_uncertain)
   \<and> map od_status (outbound_dispatches sample_uncertain) = [ODDelivery_uncertain]"
proof -
  have "map od_status (outbound_dispatches sample_uncertain) = [ODDelivery_uncertain]" by code_simp
  moreover have "(object_step sample_env)\<^sup>*\<^sup>* sample_object sample_uncertain"
    using sample_runs by (blast intro: rtranclp_trans)
  ultimately show ?thesis using outbound_ledger_invariant sample_rows(1) by blast
qed

text \<open>
  C27: a settled dispatch is final. Once a dispatch is cancelled or dispatched, no run of the object
  changes its status, and its body is never released for sending again.
\<close>

theorem settled_dispatch_is_final:
  assumes "(object_step env)\<^sup>*\<^sup>* st st'" and "rows_ok (outbound_dispatches st)"
    and "readOutboundDispatchByCommand st c = Some d" and "od_status d = ODCancelled \<or> od_status d = ODDispatched"
    and "gp_command_id input = c"
  shows "\<exists>d'. readOutboundDispatchByCommand st' c = Some d' \<and> od_request d' = od_request d \<and> od_status d' = od_status d
    \<and> (\<forall>p. getOutboundDispatchPayload parses input st' \<noteq> Inr p)"
proof -
  obtain d' where d': "readOutboundDispatchByCommand st' c = Some d'" "evolves d d'"
    using run_dispatch [OF assms(1-3)] by blast
  then have status: "od_status d' = od_status d" using assms(4) by (auto simp: evolves_def)
  then have "getOutboundDispatchPayload parses input st' \<noteq> Inr p" for p
    using payload_dispatching [of parses input st' p] d'(1) assms(4,5) by auto
  then show ?thesis using d' status by (auto simp: evolves_def)
qed

definition sample_failed :: projection_object where
  "sample_failed = state_of (failOutboundDispatch sample_env
     \<lparr>fi_tenant_id = ''tnt_a'', fi_command_id = sample_command, fi_lease_id = ''lse_a'', fi_now = ''2026-01-01T00:02:00.000Z'',
      fi_failure_code = ''rejected''\<rparr> sample_claimed)"

lemma sample_failed_run: "(object_step sample_env)\<^sup>*\<^sup>* sample_claimed sample_failed"
proof -
  have "\<exists>r. failOutboundDispatch sample_env
     \<lparr>fi_tenant_id = ''tnt_a'', fi_command_id = sample_command, fi_lease_id = ''lse_a'', fi_now = ''2026-01-01T00:02:00.000Z'',
      fi_failure_code = ''rejected''\<rparr> sample_claimed = Inr (sample_failed, r)"
    unfolding sample_failed_def by (rule state_of_run) code_simp
  then show ?thesis by (blast intro: r_into_rtranclp object_step.fail)
qed

definition sample_payload_input :: "string \<Rightarrow> payload_input" where
  "sample_payload_input lease = \<lparr>gp_tenant_id = ''tnt_a'', gp_command_id = sample_command, gp_lease_id = lease,
     gp_now = ''2026-01-01T00:03:00.000Z''\<rparr>"

theorem settled_dispatch_is_final_witness:
  "\<exists>d. readOutboundDispatchByCommand sample_failed sample_command = Some d \<and> od_status d = ODCancelled
     \<and> (\<forall>p. getOutboundDispatchPayload (\<lambda>_. True) (sample_payload_input ''lse_a'') sample_failed \<noteq> Inr p)"
proof -
  have ok: "rows_ok (outbound_dispatches sample_failed)"
    using outbound_rows.rel_steps [OF sample_failed_run] sample_rows(3) by (simp add: rows_step_def)
  have status: "map_option od_status (readOutboundDispatchByCommand sample_failed sample_command) = Some ODCancelled" by code_simp
  then obtain d where d: "readOutboundDispatchByCommand sample_failed sample_command = Some d" "od_status d = ODCancelled" by auto
  have "gp_command_id (sample_payload_input ''lse_a'') = sample_command" by (simp add: sample_payload_input_def)
  from settled_dispatch_is_final [OF rtranclp.rtrancl_refl ok d(1) _ this, of "\<lambda>_. True"] d show ?thesis by auto
qed

text \<open>
  C28: a message is leased for sending at most once. If the body of a dispatch was released to the
  holder of a lease, then whatever happens later, every later release for the same command is to the
  same lease: no second worker can send the message. The body released is the one of the stored message, and only
  while that message is not deleted.
\<close>

theorem one_sending_lease_per_dispatch:
  assumes "(object_step env)\<^sup>*\<^sup>* st st'" and "rows_ok (outbound_dispatches st)"
    and "getOutboundDispatchPayload parses input st = Inr p" and "getOutboundDispatchPayload parses' input' st' = Inr p'"
    and "gp_command_id input' = gp_command_id input"
  shows "gp_lease_id input' = gp_lease_id input \<and> od_request (py_dispatch p') = od_request (py_dispatch p)
    \<and> (\<exists>m. readOutboundMessage st' (rq_message_id (od_request (py_dispatch p'))) = Some m \<and> m_deleted_at m = None
           \<and> py_body p' = m_body m)"
proof -
  obtain d where d: "readOutboundDispatchByCommand st (gp_command_id input) = Some d" "py_dispatch p = d"
      "od_status d = ODDispatching" "od_dispatch_lease_id d = Some (gp_lease_id input)"
    using payload_dispatching [OF assms(3)] by blast
  obtain d' where d': "readOutboundDispatchByCommand st' (gp_command_id input') = Some d'" "py_dispatch p' = d'"
      "od_status d' = ODDispatching" "od_dispatch_lease_id d' = Some (gp_lease_id input')"
      "\<exists>m. readOutboundMessage st' (rq_message_id (od_request d')) = Some m \<and> m_deleted_at m = None \<and> py_body p' = m_body m"
    using payload_dispatching [OF assms(4)] by blast
  have "evolves d d'" using run_dispatch [OF assms(1,2) d(1)] d'(1) assms(5) by auto
  then show ?thesis using d d' by (simp add: evolves_def)
qed

theorem one_sending_lease_per_dispatch_witness:
  "\<exists>p. getOutboundDispatchPayload (\<lambda>_. True) (sample_payload_input ''lse_a'') sample_claimed = Inr p \<and> py_body p = ''hello''
     \<and> (\<exists>m. readOutboundMessage sample_claimed (rq_message_id (od_request (py_dispatch p))) = Some m \<and> m_body m = ''hello'')"
proof -
  have "\<not> isl (getOutboundDispatchPayload (\<lambda>_. True) (sample_payload_input ''lse_a'') sample_claimed)
      \<and> (case getOutboundDispatchPayload (\<lambda>_. True) (sample_payload_input ''lse_a'') sample_claimed of
           Inr p \<Rightarrow> py_body p = ''hello'' | Inl _ \<Rightarrow> False)" by code_simp
  then obtain p where p: "getOutboundDispatchPayload (\<lambda>_. True) (sample_payload_input ''lse_a'') sample_claimed = Inr p" "py_body p = ''hello''"
    by (cases "getOutboundDispatchPayload (\<lambda>_. True) (sample_payload_input ''lse_a'') sample_claimed") auto
  then show ?thesis
    using one_sending_lease_per_dispatch [OF rtranclp.rtrancl_refl sample_rows(3) p(1) p(1) refl] by metis
qed

section \<open>Accepting a reply\<close>

lemma read_key_in: "readOutboundDispatchByKey st key = Some d
    \<Longrightarrow> d \<in> set (outbound_dispatches st) \<and> rq_idempotency_key (od_request d) = key"
  by (auto simp: readOutboundDispatchByKey_def dest: find_SomeD)

lemma run_dispatch_key:
  assumes "(object_step env)\<^sup>*\<^sup>* st st'" and "rows_ok (outbound_dispatches st)" and "readOutboundDispatchByKey st key = Some d"
  shows "\<exists>d'. readOutboundDispatchByKey st' key = Some d' \<and> evolves d d'"
proof -
  have ok: "rows_ok (outbound_dispatches st')" and ev: "rows_evolve (outbound_dispatches st) (outbound_dispatches st')"
    using outbound_rows.rel_steps [OF assms(1)] assms(2) by (simp_all add: rows_step_def)
  have d: "d \<in> set (outbound_dispatches st)" "rq_idempotency_key (od_request d) = key" using read_key_in [OF assms(3)] by auto
  obtain d' where d': "d' \<in> set (outbound_dispatches st')" "evolves d d'" using rows_evolve_member [OF ev d(1)] by blast
  have "find (\<lambda>x. rq_idempotency_key (od_request x) = rq_idempotency_key (od_request d')) (outbound_dispatches st') = Some d'"
    using ok d'(1) by (intro find_key_unique [of "\<lambda>x. rq_idempotency_key (od_request x)"]) (simp_all add: rows_ok_def)
  moreover have "rq_idempotency_key (od_request d') = key" using d'(2) d(2) by (simp add: evolves_def)
  ultimately show ?thesis using d'(2) by (auto simp: readOutboundDispatchByKey_def)
qed

lemma accept_facts:
  assumes "acceptTextReply env input before st = Inr (st', r)"
  shows "digest_of env (reply_body_json input (rq_account_id (od_request (or_dispatch r)))) = Inr (rq_body_digest (od_request (or_dispatch r)))"
    and "readOutboundDispatchByKey st' (tr_idempotency_key input) = Some (or_dispatch r)"
    and "rq_conversation_id (od_request (or_dispatch r)) = tr_conversation_id input"
    and "if or_replayed r then st' = st \<and> readOutboundDispatchByKey st (tr_idempotency_key input) = Some (or_dispatch r)
         else readOutboundDispatchByKey st (tr_idempotency_key input) = None
           \<and> \<not> list_ex (\<lambda>x. rq_account_id (od_request x) = rq_account_id (od_request (or_dispatch r))
               \<and> rq_conversation_id (od_request x) = tr_conversation_id input \<and> od_chat_paused x) (outbound_dispatches st)"
proof -
  obtain owner meta b q ms where b: "digest_of env (reply_body_json input (account_id owner)) = Inr b"
    and tail: "(case readOutboundDispatchByKey st (tr_idempotency_key input) of
        Some current \<Rightarrow> andThen (replay_reply env input owner b current st) (\<lambda>r. Inr (st, r))
      | None \<Rightarrow> accept_new_reply env input meta owner b q ms st) = Inr (st', r)"
    using assms by (auto simp: acceptTextReply_def andThen_eq_Inr)
  have facts: "rq_account_id (od_request (or_dispatch r)) = account_id owner \<and> rq_body_digest (od_request (or_dispatch r)) = b
    \<and> readOutboundDispatchByKey st' (tr_idempotency_key input) = Some (or_dispatch r)
    \<and> rq_conversation_id (od_request (or_dispatch r)) = tr_conversation_id input
    \<and> (if or_replayed r then st' = st \<and> readOutboundDispatchByKey st (tr_idempotency_key input) = Some (or_dispatch r)
         else readOutboundDispatchByKey st (tr_idempotency_key input) = None
           \<and> \<not> list_ex (\<lambda>x. rq_account_id (od_request x) = account_id owner
               \<and> rq_conversation_id (od_request x) = tr_conversation_id input \<and> od_chat_paused x) (outbound_dispatches st))"
  proof (cases "readOutboundDispatchByKey st (tr_idempotency_key input)")
    case (Some current)
    then show ?thesis
      using tail by (auto simp: replay_reply_def Let_def andThen_eq_Inr throwIf_eq_Inr split: option.splits elim!: reply_resultE)
  next
    case None
    then have "accept_new_reply env input meta owner b q ms st = Inr (st', r)" using tail by simp
    then show ?thesis
    proof (rule accept_new_replyE)
      fix s st1 st2 st3
      let ?new = "new_dispatch (reply_request input owner (pm_generation meta) b q) s (tr_confirmation_due_at input)"
      assume free: "\<not> list_ex (\<lambda>x. rq_account_id (od_request x) = account_id owner
          \<and> rq_conversation_id (od_request x) = tr_conversation_id input \<and> od_chat_paused x) (outbound_dispatches st)"
        and st2: "outbound_dispatches st2 = outbound_dispatches st" and ins: "insert_dispatch ?new st2 = Inr st3"
        and st': "st' = upd_tables (recomputeConversationSummaries [tr_conversation_id input]) st3"
        and read: "readOutboundDispatchByKey st' (tr_idempotency_key input) = Some (or_dispatch r)" and "\<not> or_replayed r"
      have "outbound_dispatches st' = outbound_dispatches st @ [?new]"
        using ins st2 by (auto simp: st' insert_dispatch_def split: if_splits)
      then have "or_dispatch r = ?new"
        using read None by (auto simp: readOutboundDispatchByKey_def find_append split: if_splits option.splits)
      then show ?thesis
        using None free read \<open>\<not> or_replayed r\<close> by (simp add: new_dispatch_def reply_request_def)
    qed
  qed
  show "digest_of env (reply_body_json input (rq_account_id (od_request (or_dispatch r)))) = Inr (rq_body_digest (od_request (or_dispatch r)))"
    and "readOutboundDispatchByKey st' (tr_idempotency_key input) = Some (or_dispatch r)"
    and "rq_conversation_id (od_request (or_dispatch r)) = tr_conversation_id input"
    and "if or_replayed r then st' = st \<and> readOutboundDispatchByKey st (tr_idempotency_key input) = Some (or_dispatch r)
         else readOutboundDispatchByKey st (tr_idempotency_key input) = None
           \<and> \<not> list_ex (\<lambda>x. rq_account_id (od_request x) = rq_account_id (od_request (or_dispatch r))
               \<and> rq_conversation_id (od_request x) = tr_conversation_id input \<and> od_chat_paused x) (outbound_dispatches st)"
    using facts b by simp_all
qed

text \<open>Two replies with the same digest of their body are the same reply, or SHA-256 has a collision.\<close>

lemma canon_members: "canon (JObj kvs) = canon (JObj lvs) \<Longrightarrow> map_prod id canon ` set kvs = map_prod id canon ` set lvs"
  by simp (metis (no_types, lifting) set_map set_sort)

lemma same_digest:
  assumes "digest_of env v = Inr d" and "digest_of env w = Inr d"
  shows "canon v = canon w \<or> (\<exists>s t. canonicalJsonStringify v = Inr s \<and> canonicalJsonStringify w = Inr t
    \<and> s \<noteq> t \<and> env_sha256Hex env s = env_sha256Hex env t)"
  using assms by (auto simp: digest_of_def canonicalJsonStringify_def stringify_eq_iff [symmetric] split: sum.splits option.splits if_splits)

lemma reply_body_json_inj:
  assumes "canon (reply_body_json i a) = canon (reply_body_json j a)"
  shows "tr_body i = tr_body j \<and> tr_conversation_id i = tr_conversation_id j \<and> tr_actor_principal_id i = tr_actor_principal_id j
    \<and> tr_actor_identity_id i = tr_actor_identity_id j \<and> tr_delivery_mode i = tr_delivery_mode j"
proof -
  let ?L = "\<lambda>i. [(''actor_principal_id'', JStr (tr_actor_principal_id i)), (''actor_identity_id'', JStr (tr_actor_identity_id i)),
           (''conversation_id'', JStr (tr_conversation_id i)), (''account_id'', JStr a), (''body'', JStr (tr_body i)),
           (''delivery_mode'', JStr (delivery_mode_text (tr_delivery_mode i)))]"
  have eq: "map_prod id canon ` set (?L i) = map_prod id canon ` set (?L j)"
    using assms unfolding reply_body_json_def by (rule canon_members)
  have member: "x \<in> map_prod id canon ` set (?L j)" if "x \<in> map_prod id canon ` set (?L i)" for x using that unfolding eq .
  have "tr_body i = tr_body j" using member [of "(''body'', JStr (tr_body i))"] by simp
  moreover have "tr_conversation_id i = tr_conversation_id j" using member [of "(''conversation_id'', JStr (tr_conversation_id i))"] by simp
  moreover have "tr_actor_principal_id i = tr_actor_principal_id j"
    using member [of "(''actor_principal_id'', JStr (tr_actor_principal_id i))"] by simp
  moreover have "tr_actor_identity_id i = tr_actor_identity_id j"
    using member [of "(''actor_identity_id'', JStr (tr_actor_identity_id i))"] by simp
  moreover have "delivery_mode_text (tr_delivery_mode i) = delivery_mode_text (tr_delivery_mode j)"
    using member [of "(''delivery_mode'', JStr (delivery_mode_text (tr_delivery_mode i)))"] by simp
  then have "tr_delivery_mode i = tr_delivery_mode j" by (cases "tr_delivery_mode i"; cases "tr_delivery_mode j") simp_all
  ultimately show ?thesis by blast
qed

text \<open>
  C29: a delivery in doubt holds the chat. While a dispatch of a chat is uncertain and no person has
  acted on it, no reply to that chat is accepted: a request that succeeds is the replay of one
  accepted before, and changes nothing.
\<close>

theorem uncertain_delivery_holds_chat:
  assumes "rows_ok (outbound_dispatches st)" and "d \<in> set (outbound_dispatches st)"
    and "od_status d = ODDelivery_uncertain" and "od_last_action d = None"
    and "acceptTextReply env input before st = Inr (st', r)"
    and "rq_conversation_id (od_request d) = tr_conversation_id input"
    and "rq_account_id (od_request d) = rq_account_id (od_request (or_dispatch r))"
  shows "or_replayed r \<and> st' = st"
proof -
  have "od_chat_paused d" using assms(1-4) by (auto simp: rows_ok_def list_all_iff row_ok_def)
  then show ?thesis
    using accept_facts(4) [OF assms(5)] assms(2,6,7) by (auto simp: list_ex_iff split: if_splits)
qed

definition sample_held :: projection_object where
  "sample_held =
     (let owner = \<lparr>identity_id = ''idn_a'', account_id = ''acc_a'', connection_id = ''con_a'', platform = Whatsapp\<rparr>;
          request = reply_request (sample_reply ''key_1'') owner 1 (replicate 64 (CHR ''a'')) (replicate 64 (CHR ''a'')) in
      upd_tables (\<lambda>db. db\<lparr>messages := [outbound_message owner ''cnv_a'' (rq_message_id request) ''hello'' ''2026-01-01T00:00:00.000Z'' 0 ''evt_b''],
          commands := [outbound_command owner ''idn_b'' ''cnv_a'' (rq_command_id request) Direct Delivery_uncertain ''2026-01-01T00:00:00.000Z'' 0 ''evt_b'']\<rparr>)
        (sample_object\<lparr>outbound_dispatches :=
          [(new_dispatch request ODPending None)\<lparr>od_status := ODDelivery_uncertain, od_chat_paused := True\<rparr>]\<rparr>))"

lemma sample_held_rows: "outbound_dispatches sample_held = [d] \<Longrightarrow> row_ok d"
  by (auto simp: sample_held_def Let_def row_ok_def new_dispatch_def)

theorem uncertain_delivery_holds_chat_witness:
  "\<exists>r. acceptTextReply sample_env (sample_reply ''key_1'') sample_held sample_held = Inr (sample_held, r) \<and> or_replayed r"
proof -
  let ?r = "acceptTextReply sample_env (sample_reply ''key_1'') sample_held sample_held"
  have c: "map (\<lambda>d. (od_status d, od_last_action d, rq_conversation_id (od_request d), rq_account_id (od_request d)))
        (outbound_dispatches sample_held) = [(ODDelivery_uncertain, None, ''cnv_a'', ''acc_a'')]" by code_simp
  then obtain d where d: "outbound_dispatches sample_held = [d]" "od_status d = ODDelivery_uncertain" "od_last_action d = None"
      "rq_conversation_id (od_request d) = ''cnv_a''" "rq_account_id (od_request d) = ''acc_a''" by auto
  have ok: "rows_ok (outbound_dispatches sample_held)" using d(1) sample_held_rows by (simp add: rows_ok_def)
  have acct: "case ?r of Inl _ \<Rightarrow> False | Inr x \<Rightarrow> rq_account_id (od_request (or_dispatch (snd x))) = ''acc_a''" by code_simp
  then obtain st' r where run: "?r = Inr (st', r)" and "rq_account_id (od_request (or_dispatch r)) = ''acc_a''"
    by (cases ?r) (auto split: sum.splits)
  then have "or_replayed r \<and> st' = sample_held"
    using uncertain_delivery_holds_chat [OF ok _ _ _ run, of d] d by (simp add: sample_reply_def)
  then show ?thesis using run by simp
qed

text \<open>
  C30: a reply is accepted once. After a reply was accepted under an idempotency key, and whatever
  happened since, a further request with that key either fails or returns the stored dispatch, marked
  as a replay, and changes nothing; and it is a request for the same reply (actor, chat, text and
  mode), or the canonical texts of the two requests are a collision of SHA-256.
\<close>

theorem reply_is_accepted_once:
  assumes "acceptTextReply env input before st = Inr (st1, r1)" and "rows_ok (outbound_dispatches st)"
    and "(object_step env)\<^sup>*\<^sup>* st1 st2" and "acceptTextReply env input' before' st2 = Inr (st3, r2)"
    and "tr_idempotency_key input' = tr_idempotency_key input"
  shows "st3 = st2 \<and> or_replayed r2 \<and> od_request (or_dispatch r2) = od_request (or_dispatch r1)
    \<and> ((tr_body input', tr_conversation_id input', tr_actor_principal_id input', tr_actor_identity_id input', tr_delivery_mode input')
         = (tr_body input, tr_conversation_id input, tr_actor_principal_id input, tr_actor_identity_id input, tr_delivery_mode input)
       \<or> (\<exists>s t. canonicalJsonStringify (reply_body_json input' (rq_account_id (od_request (or_dispatch r1)))) = Inr s
             \<and> canonicalJsonStringify (reply_body_json input (rq_account_id (od_request (or_dispatch r1)))) = Inr t
             \<and> s \<noteq> t \<and> env_sha256Hex env s = env_sha256Hex env t))"
proof -
  have ok: "rows_ok (outbound_dispatches st1)" using accept_step [OF assms(1)] assms(2) by (simp add: rows_step_def)
  obtain d' where d': "readOutboundDispatchByKey st2 (tr_idempotency_key input) = Some d'" "evolves (or_dispatch r1) d'"
    using run_dispatch_key [OF assms(3) ok accept_facts(2) [OF assms(1)]] by blast
  have replay: "or_replayed r2" "st3 = st2" "or_dispatch r2 = d'"
    using accept_facts(4) [OF assms(4)] d'(1) assms(5) by (auto split: if_splits)
  have request: "od_request (or_dispatch r2) = od_request (or_dispatch r1)" using d'(2) replay(3) by (simp add: evolves_def)
  let ?j = "\<lambda>i. reply_body_json i (rq_account_id (od_request (or_dispatch r1)))"
  let ?collision = "\<exists>s t. canonicalJsonStringify (?j input') = Inr s \<and> canonicalJsonStringify (?j input) = Inr t
    \<and> s \<noteq> t \<and> env_sha256Hex env s = env_sha256Hex env t"
  consider "canon (?j input') = canon (?j input)" | ?collision
    using same_digest [of env "?j input'" _ "?j input"] accept_facts(1) [OF assms(1)] accept_facts(1) [OF assms(4)]
    unfolding request by auto
  then have "(tr_body input', tr_conversation_id input', tr_actor_principal_id input', tr_actor_identity_id input', tr_delivery_mode input')
         = (tr_body input, tr_conversation_id input, tr_actor_principal_id input, tr_actor_identity_id input, tr_delivery_mode input)
       \<or> ?collision"
  proof cases
    case 1
    then show ?thesis using reply_body_json_inj [OF 1] by simp
  qed blast
  with replay request show ?thesis by blast
qed

theorem reply_is_accepted_once_witness:
  "\<exists>r. acceptTextReply sample_env (sample_reply ''key_1'') sample_held sample_held = Inr (sample_held, r) \<and> or_replayed r
     \<and> map od_request (outbound_dispatches sample_held) = [od_request (or_dispatch r)]"
proof -
  let ?r = "acceptTextReply sample_env (sample_reply ''key_1'') sample_held sample_held"
  have "case ?r of Inl _ \<Rightarrow> False | Inr x \<Rightarrow> map od_request (outbound_dispatches sample_held) = [od_request (or_dispatch (snd x))]"
    by code_simp
  then obtain st1 r where run: "?r = Inr (st1, r)" and only: "map od_request (outbound_dispatches sample_held) = [od_request (or_dispatch r)]"
    by (cases ?r) (auto split: sum.splits)
  have ok: "rows_ok (outbound_dispatches sample_held)"
    using only sample_held_rows by (cases "outbound_dispatches sample_held") (auto simp: rows_ok_def)
  have "\<not> Option.is_none (readOutboundDispatchByKey sample_held ''key_1'')" by code_simp
  then have st1: "st1 = sample_held" using accept_facts(4) [OF run] by (auto simp: sample_reply_def Option.is_none_def split: if_splits)
  from reply_is_accepted_once [OF run ok _ run [folded st1] refl] run only st1 show ?thesis by auto
qed

end
