(* ===== verification/Outbound_Alarm.thy ===== *)
theory Outbound_Alarm
  imports Outbound_Properties
begin

text \<open>
  The alarm of the tenant's object: what \<open>#processOutboundAlarm\<close> leaves behind, and which deadlines
  \<open>#nextOutboundAlarm\<close> sees.
\<close>

section \<open>One row\<close>

definition stamps_ok :: "dispatch_row \<Rightarrow> bool" where
  "stamps_ok r = (case od_confirmation_due_at r of
       Some d \<Rightarrow> \<not> isl (parseMilliseconds d)
     | None \<Rightarrow> deadline_ok (rq_created_at (od_request r)) None)"

text \<open>No work of the row is due at \<open>now\<close>: its lease is live, and it waits for a connection in vain.\<close>

definition resolved :: "int \<Rightarrow> (string \<Rightarrow> string \<Rightarrow> bool) \<Rightarrow> dispatch_row \<Rightarrow> bool" where
  "resolved now avail r =
     ((od_status r = ODDispatching \<longrightarrow> (case lease_expiry r of None \<Rightarrow> True | Some e \<Rightarrow> now < e))
      \<and> (od_status r = ODWaiting_for_connection \<longrightarrow>
           \<not> avail (rq_tenant_id (od_request r)) (rq_connection_id (od_request r))
           \<and> (od_confirmation_decision r = None \<longrightarrow>
                (case od_confirmation_due_at r of None \<Rightarrow> False
                 | Some d \<Rightarrow> (case parseMilliseconds d of Inl _ \<Rightarrow> False | Inr ms \<Rightarrow> now < ms)))))"

lemma iso_string_total: "\<bar>ms\<bar> \<le> MAX_TIME \<Longrightarrow> \<exists>s. iso_string ms = Inr s"
  by (simp add: iso_string_def to_iso_string_def Let_def)

lemma stamps_due:
  assumes "stamps_ok r"
  obtains d ms where "originalDueAt (lifecycle_input r k decision now av) = Inr d" and "parseMilliseconds d = Inr ms"
proof (cases "od_confirmation_due_at r")
  case (Some d)
  then obtain ms where "parseMilliseconds d = Inr ms" using assms by (cases "parseMilliseconds d") (auto simp: stamps_ok_def)
  then show thesis using Some that by (simp add: originalDueAt_def lifecycle_input_def)
next
  case None
  then obtain c where c: "parseMilliseconds (rq_created_at (od_request r)) = Inr c" "0 \<le> c" "c + FOUR_HOURS_MS \<le> 253402300799999"
    using assms by (auto simp: stamps_ok_def deadline_ok_def split: sum.splits)
  then obtain d where "originalDueAt (lifecycle_input r k decision now av) = Inr d"
    using None iso_string_total [of "c + FOUR_HOURS_MS"]
    by (auto simp: originalDueAt_def lifecycle_input_def FOUR_HOURS_MS_def is_safe_integer_def MAX_SAFE_INTEGER_def MAX_TIME_def)
  then show thesis
    using that originalDueAt_parses [of "lifecycle_input r k decision now av" d] assms None
    by (auto simp: stamps_ok_def lifecycle_input_def)
qed

lemma waiting_transition:
  fixes k :: command_row and av :: bool
  assumes "od_status r = ODWaiting_for_connection" and "stamps_ok r" and "iso_string now = Inr nowIso" and "0 \<le> now" and "now \<le> 253402300799999"
  defines "input \<equiv> lifecycle_input r k (od_confirmation_decision r) nowIso av"
  shows "\<exists>t. transitionOutboundLifecycle input = Inr t \<and> lt_dispatchStatus t \<noteq> ODDispatching
    \<and> (lt_dispatchStatus t = ODWaiting_for_connection \<longrightarrow> \<not> av
        \<and> (od_confirmation_decision r = None \<longrightarrow> (\<exists>d ms. lt_confirmationDueAt t = Some d \<and> parseMilliseconds d = Inr ms \<and> now < ms)))"
proof -
  have now: "parseMilliseconds nowIso = Inr now" by (rule iso_string_parse [OF assms(3-5)])
  obtain d ms where d: "originalDueAt input = Inr d" "parseMilliseconds d = Inr ms"
    unfolding input_def by (rule stamps_due [OF assms(2)])
  have sel: "li_dispatchStatus input = ODWaiting_for_connection" "li_now input = nowIso" "li_connectionAvailable input = av"
      "li_confirmationDecision input = od_confirmation_decision r" "li_confirmationDueAt input = od_confirmation_due_at r"
    using assms(1) by (simp_all add: input_def lifecycle_input_def)
  show ?thesis
    using now d sel
    by (cases "od_confirmation_due_at r"; cases "od_confirmation_decision r" rule: option.exhaust [case_names None Some])
      (auto simp: transitionOutboundLifecycle_def Let_def transitionable_def due_or_original_def transition_to_def
        dest: confirmation_decision.exhaust split: if_splits)
qed

text \<open>A change of the one row with the id of \<open>row\<close>.\<close>

lemma upd_unique:
  assumes "rows_ok ds" and "row \<in> set ds" and "\<And>r. P r \<Longrightarrow> od_id r = od_id row"
  shows "upd_where P f ds = upd_where (\<lambda>r. od_id r = od_id row) (\<lambda>_. if P row then f row else row) ds"
  unfolding upd_where_def
proof (rule map_cong [OF refl])
  fix r assume "r \<in> set ds"
  then have "od_id r = od_id row \<Longrightarrow> r = row" by (rule same_id_same_row [OF assms(1,2)])
  then show "(if P r then f r else r) = (if od_id r = od_id row then (if P row then f row else row) else r)"
    using assms(3) by (cases "od_id r = od_id row") auto
qed

lemma upd_same: "rows_ok ds \<Longrightarrow> row \<in> set ds \<Longrightarrow> upd_where (\<lambda>r. od_id r = od_id row) (\<lambda>_. row) ds = ds"
  unfolding upd_where_def using same_id_same_row by (intro map_idI) auto

lemma read_upd_command:
  assumes "\<And>k. k_id (f k) = k_id k"
  shows "readOutboundCommand (upd_command Q f st) i = map_option (\<lambda>k. if Q k then f k else k) (readOutboundCommand st i)"
  using find_upd_where [of "\<lambda>k. k_id k = i" Q f] assms by (simp add: readOutboundCommand_def upd_command_def upd_tables_def)

lemma read_upd_dispatch [simp]: "readOutboundCommand (upd_dispatch P f st) i = readOutboundCommand st i"
  by (simp add: readOutboundCommand_def upd_dispatch_def)

lemma command_stays:
  "readOutboundCommand (doubt_command k now st) i = None \<longleftrightarrow> readOutboundCommand st i = None"
  "readOutboundCommand (store_transition d k t u st) i = None \<longleftrightarrow> readOutboundCommand st i = None"
  by (simp_all add: doubt_command_def store_transition_def Let_def read_upd_command)

lemma alarm_row_resolves:
  assumes "rows_ok (outbound_dispatches st)" and "row \<in> set (outbound_dispatches st)" and "stamps_ok row"
    and "readOutboundCommand st (od_command_id row) \<noteq> None" and "0 \<le> now" and "now \<le> 253402300799999"
  shows "\<exists>st' row'. alarm_row now (avail (rq_tenant_id (od_request row)) (rq_connection_id (od_request row))) (od_command_id row) st = Inr st'
    \<and> outbound_dispatches st' = upd_where (\<lambda>r. od_id r = od_id row) (\<lambda>_. row') (outbound_dispatches st)
    \<and> od_request row' = od_request row \<and> resolved now avail row'
    \<and> (\<forall>i. readOutboundCommand st i \<noteq> None \<longrightarrow> readOutboundCommand st' i \<noteq> None)"
proof -
  let ?av = "avail (rq_tenant_id (od_request row)) (rq_connection_id (od_request row))"
  have read: "readOutboundDispatchByCommand st (od_command_id row) = Some row" by (rule rows_ok_read [OF assms(1,2)])
  obtain k where k: "readOutboundCommand st (od_command_id row) = Some k" using assms(4) by auto
  obtain nowIso where iso: "iso_string now = Inr nowIso"
    using assms(5,6) iso_string_total [of now] by (auto simp: MAX_TIME_def)
  note same = upd_same [OF assms(1,2)] and one = upd_unique [OF assms(1,2)]
  consider (expired) e where "od_status row = ODDispatching" "lease_expiry row = Some e" "e \<le> now"
    | (waiting) "od_status row = ODWaiting_for_connection"
    | (quiet) "resolved now avail row" "alarm_row now ?av (od_command_id row) st = Inr st"
    by (cases "od_status row = ODDispatching"; cases "lease_expiry row"; cases "od_status row = ODWaiting_for_connection")
      (auto simp: alarm_row_def read k resolved_def not_less [symmetric])
  then show ?thesis
  proof cases
    case expired
    let ?f = "\<lambda>r. r\<lparr>od_status := ODDelivery_uncertain, od_chat_paused := True,
      od_uncertainty_reason := Some (case od_uncertainty_reason r of None \<Rightarrow> ''expired_dispatch_lease'' | Some x \<Rightarrow> x),
      od_uncertain_at := Some (case od_uncertain_at r of None \<Rightarrow> nowIso | Some x \<Rightarrow> x),
      od_dispatch_lease_id := None, od_dispatch_lease_expires_at := None, od_updated_at := nowIso\<rparr>"
    let ?st = "doubt_command k nowIso (upd_dispatch (\<lambda>r. od_id r = od_id row \<and> od_status r = ODDispatching) ?f st)"
    have a: "alarm_row now ?av (od_command_id row) st = Inr ?st"
      using expired by (simp add: alarm_row_def read k iso)
    have b: "outbound_dispatches ?st = upd_where (\<lambda>r. od_id r = od_id row) (\<lambda>_. ?f row) (outbound_dispatches st)"
      using one [of "\<lambda>r. od_id r = od_id row \<and> od_status r = ODDispatching" ?f] expired(1) by simp
    have c: "resolved now avail (?f row)" "od_request (?f row) = od_request row" by (simp_all add: resolved_def)
    show ?thesis
      by (rule exI [of _ ?st], rule exI [of _ "?f row"]) (simp only: a b c command_stays(1) read_upd_dispatch simp_thms)
  next
    case waiting
    obtain t where t: "transitionOutboundLifecycle (lifecycle_input row k (od_confirmation_decision row) nowIso ?av) = Inr t"
        "lt_dispatchStatus t \<noteq> ODDispatching"
        "lt_dispatchStatus t = ODWaiting_for_connection \<Longrightarrow> \<not> ?av
        \<and> (od_confirmation_decision row = None \<longrightarrow> (\<exists>d ms. lt_confirmationDueAt t = Some d \<and> parseMilliseconds d = Inr ms \<and> now < ms))"
      using waiting_transition [OF waiting assms(3) iso assms(5,6)] by blast
    have alarm: "alarm_row now ?av (od_command_id row) st = Inr (store_transition row k t nowIso st)"
      using waiting by (simp add: alarm_row_def read k iso t(1))
    have row': "resolved now avail r" if "od_status r = lt_dispatchStatus t" "od_confirmation_due_at r = lt_confirmationDueAt t"
        "od_confirmation_decision r = od_confirmation_decision row" "od_request r = od_request row" for r
      using that t(2,3) by (auto simp: resolved_def)
    let ?new = "row\<lparr>od_status := lt_dispatchStatus t, od_confirmation_due_at := lt_confirmationDueAt t, od_updated_at := nowIso\<rparr>"
    show ?thesis
    proof (cases "lt_dispatchStatus t = od_status row \<and> lt_commandStatus t = k_status k \<and> lt_confirmationDueAt t = od_confirmation_due_at row")
      case True
      then have "store_transition row k t nowIso st = st" by (simp add: store_transition_def)
      moreover have "resolved now avail row" using True row' by simp
      ultimately show ?thesis using alarm same by metis
    next
      case False
      then have b: "outbound_dispatches (store_transition row k t nowIso st)
        = upd_where (\<lambda>r. od_id r = od_id row) (\<lambda>_. ?new) (outbound_dispatches st)"
        using one [of "\<lambda>r. od_id r = od_id row \<and> od_status r = od_status row"] by (auto simp: store_transition_def Let_def)
      have c: "resolved now avail ?new" "od_request ?new = od_request row" using row' by simp_all
      show ?thesis
        by (rule exI [of _ "store_transition row k t nowIso st"], rule exI [of _ ?new]) (simp only: alarm b c command_stays(2) simp_thms)
    qed
  next
    case quiet
    then show ?thesis using same by metis
  qed
qed

section \<open>The loop\<close>

text \<open>Rows still to come are as the query read them; every other row is resolved.\<close>

definition alarm_inv :: "int \<Rightarrow> (string \<Rightarrow> string \<Rightarrow> bool) \<Rightarrow> dispatch_row list \<Rightarrow> projection_object \<Rightarrow> bool" where
  "alarm_inv now avail rows st =
     (rows_ok (outbound_dispatches st) \<and> distinct (map od_id rows)
      \<and> (\<forall>r \<in> set rows. r \<in> set (outbound_dispatches st) \<and> stamps_ok r \<and> readOutboundCommand st (od_command_id r) \<noteq> None)
      \<and> (\<forall>r \<in> set (outbound_dispatches st). r \<notin> set rows \<longrightarrow> resolved now avail r))"

lemma alarm_inv_step:
  assumes "alarm_inv now avail (row # rows) st" and "0 \<le> now" and "now \<le> 253402300799999"
  shows "\<exists>st'. alarm_row now (avail (rq_tenant_id (od_request row)) (rq_connection_id (od_request row))) (od_command_id row) st = Inr st'
    \<and> alarm_inv now avail rows st'"
proof -
  let ?ds = "outbound_dispatches st"
  have inv: "rows_ok ?ds" "row \<in> set ?ds" "stamps_ok row" "readOutboundCommand st (od_command_id row) \<noteq> None"
      "distinct (map od_id (row # rows))" "\<And>r. r \<in> set ?ds \<Longrightarrow> r \<noteq> row \<Longrightarrow> r \<notin> set rows \<Longrightarrow> resolved now avail r"
      "\<And>r. r \<in> set rows \<Longrightarrow> r \<in> set ?ds \<and> stamps_ok r \<and> readOutboundCommand st (od_command_id r) \<noteq> None"
    using assms(1) by (auto simp: alarm_inv_def)
  obtain st' row' where st': "alarm_row now (avail (rq_tenant_id (od_request row)) (rq_connection_id (od_request row))) (od_command_id row) st = Inr st'"
      "outbound_dispatches st' = upd_where (\<lambda>r. od_id r = od_id row) (\<lambda>_. row') ?ds" "od_request row' = od_request row"
      "resolved now avail row'" "\<forall>i. readOutboundCommand st i \<noteq> None \<longrightarrow> readOutboundCommand st' i \<noteq> None"
    using alarm_row_resolves [OF inv(1-4) assms(2,3)] by blast
  have ok: "rows_ok (outbound_dispatches st')" using alarm_row_step [OF st'(1)] inv(1) by (simp add: rows_step_def)
  have other: "r \<in> set (outbound_dispatches st')" if "r \<in> set rows" for r
  proof -
    have "od_id r \<noteq> od_id row" using inv(5) that by (auto simp: image_iff)
    moreover have "r \<in> set ?ds" using inv(7) [OF that] by simp
    ultimately have "r \<in> (\<lambda>x. if od_id x = od_id row then row' else x) ` set ?ds" by (intro image_eqI [of _ _ r]) auto
    then show ?thesis by (simp add: st'(2) upd_where_def)
  qed
  have settled: "resolved now avail r" if "r \<in> set (outbound_dispatches st')" "r \<notin> set rows" for r
    using that st'(2,4) inv(6) by (auto simp: set_upd_where)
  show ?thesis
    using st'(1,5) ok other settled inv(5,7) by (auto simp: alarm_inv_def)
qed

lemma alarm_rows_resolve:
  assumes "alarm_inv now avail rows st" and "0 \<le> now" and "now \<le> 253402300799999"
  shows "\<exists>st'. alarm_rows now avail rows st = (st', None) \<and> list_all (resolved now avail) (outbound_dispatches st')"
  using assms(1)
proof (induction rows arbitrary: st)
  case Nil
  then show ?case by (simp add: alarm_inv_def list_all_iff)
next
  case (Cons row rows)
  then show ?case using alarm_inv_step [OF Cons.prems assms(2,3)] by auto
qed

text \<open>
  C34: the alarm finishes and leaves nothing overdue. For a clock up to the year 9999, and rows whose
  timestamps parse and whose commands exist, \<open>#processOutboundAlarm\<close> runs over all rows without
  throwing; afterwards no dispatch is being sent under an expired lease, and a dispatch still waiting
  for its connection really has none and, unless a person decided, has not reached its deadline.
\<close>

theorem alarm_leaves_nothing_overdue:
  assumes "0 \<le> now" and "now \<le> 253402300799999" and "rows_ok (outbound_dispatches st)"
    and "list_all (\<lambda>r. stamps_ok r \<and> readOutboundCommand st (od_command_id r) \<noteq> None) (outbound_dispatches st)"
  shows "\<exists>st'. processOutboundAlarm now avail st = (st', None) \<and> list_all (resolved now avail) (outbound_dispatches st')"
proof -
  define rows where "rows = sort_key alarm_order (filter (\<lambda>r. od_status r \<in> {ODWaiting_for_connection, ODPending, ODConfirmation_required,
    ODDispatching, ODDelivery_uncertain}) (outbound_dispatches st))"
  have "alarm_inv now avail rows st"
    using assms(3,4) by (auto simp: alarm_inv_def rows_def rows_ok_def list_all_iff distinct_map inj_on_def resolved_def)
  from alarm_rows_resolve [OF this assms(1,2)] show ?thesis by (simp add: processOutboundAlarm_def rows_def)
qed

theorem alarm_leaves_nothing_overdue_witness:
  "\<exists>st'. processOutboundAlarm 1767226200000 (\<lambda>_ _. True) sample_claimed = (st', None)
     \<and> map od_status (outbound_dispatches st') = [ODDelivery_uncertain]
     \<and> list_all (resolved 1767226200000 (\<lambda>_ _. True)) (outbound_dispatches st')"
proof -
  have stamps: "list_all (\<lambda>r. stamps_ok r \<and> readOutboundCommand sample_claimed (od_command_id r) \<noteq> None) (outbound_dispatches sample_claimed)"
    by code_simp
  have "map od_status (outbound_dispatches (fst (processOutboundAlarm 1767226200000 (\<lambda>_ _. True) sample_claimed))) = [ODDelivery_uncertain]"
    by code_simp
  then show ?thesis
    using alarm_leaves_nothing_overdue [of 1767226200000 sample_claimed "\<lambda>_ _. True"] sample_rows(3) stamps by auto
qed

section \<open>Deadlines the alarm does not see\<close>

text \<open>
  \<open>#nextOutboundAlarm\<close> reads only rows without a human decision. When every dispatch was confirmed by
  a person no alarm is scheduled, although a confirmed dispatch is sent under a lease that expires.
\<close>

lemma confirmed_lease_schedules_no_alarm:
  assumes "list_all (\<lambda>r. od_confirmation_decision r \<noteq> None) (outbound_dispatches st)"
  shows "nextOutboundAlarm now st = None"
proof -
  have "filter (\<lambda>r. od_status r \<in> {ODWaiting_for_connection, ODPending, ODDispatching} \<and> od_confirmation_decision r = None
      \<and> (od_confirmation_due_at r \<noteq> None \<or> od_dispatch_lease_expires_at r \<noteq> None)) (outbound_dispatches st) = []"
    using assms by (auto simp: filter_empty_conv list_all_iff)
  then show ?thesis unfolding nextOutboundAlarm_def Let_def by (simp only: sort_key_simps find.simps option.case)
qed

end
