(* ===== verification/Rebuild_Fence.thy ===== *)
theory Rebuild_Fence
  imports Outbound_Properties
begin

text \<open>
  The fence of a rebuild: work on removed messages and conversations is settled or in doubt before the
  new generation is published, and stays so.
\<close>

section \<open>The fence\<close>

definition fenced :: "dispatch_row \<Rightarrow> bool" where
  "fenced r = (2 \<le> phase (od_status r) \<and> od_dispatch_lease_id r = None)"

lemma messagePredicate_request: "od_request r' = od_request r \<Longrightarrow> messagePredicate a r' = messagePredicate a r"
  by (simp add: messagePredicate_def)

lemma fence_dispatch_fenced: "row_ok r \<Longrightarrow> fenced (fence_dispatch reason now r)"
  by (cases "od_status r") (auto simp: fenced_def fence_dispatch_def Let_def dispatchCancellable_def row_ok_def)

lemma fence_dispatch_keeps: "fenced r \<Longrightarrow> fenced (fence_dispatch reason now r)"
  by (cases "od_status r") (auto simp: fenced_def fence_dispatch_def Let_def dispatchCancellable_def)

lemma fence_authority_rows:
  assumes "r' \<in> set (outbound_dispatches (fst (fence_authority a now acc)))"
  shows "\<exists>r \<in> set (outbound_dispatches (fst acc)). od_request r' = od_request r
    \<and> (if messagePredicate a r then \<exists>reason. r' = fence_dispatch reason now r else r' = r)"
proof (cases "filter (messagePredicate a) (outbound_dispatches (fst acc)) = []")
  case True
  then have "fst (fence_authority a now acc) = fst acc" by (cases acc) (simp add: fence_authority_def Let_def)
  with True assms show ?thesis by (auto simp: filter_empty_conv)
next
  case False
  then have "outbound_dispatches (fst (fence_authority a now acc))
    = upd_where (messagePredicate a) (fence_dispatch (''removal_authority:'' @ ra_id a) now) (outbound_dispatches (fst acc))"
    by (cases acc) (simp add: fence_authority_def Let_def)
  with assms show ?thesis by (auto simp: set_upd_where)
qed

definition all_fenced :: "authority_row \<Rightarrow> projection_object \<Rightarrow> bool" where
  "all_fenced b st = (\<forall>r \<in> set (outbound_dispatches st). messagePredicate b r \<longrightarrow> fenced r)"

lemma fence_authority_fences:
  assumes "rows_ok (outbound_dispatches (fst acc))"
  shows "all_fenced a (fst (fence_authority a now acc))"
  unfolding all_fenced_def
proof (intro ballI impI)
  fix r' assume r': "r' \<in> set (outbound_dispatches (fst (fence_authority a now acc)))" "messagePredicate a r'"
  obtain r where r: "r \<in> set (outbound_dispatches (fst acc))" "od_request r' = od_request r"
      "if messagePredicate a r then \<exists>reason. r' = fence_dispatch reason now r else r' = r"
    using fence_authority_rows [OF r'(1)] by blast
  then show "fenced r'"
    using assms r'(2) messagePredicate_request [OF r(2)] by (auto simp: rows_ok_def list_all_iff intro: fence_dispatch_fenced)
qed

lemma fence_authority_keeps:
  assumes "all_fenced b (fst acc)"
  shows "all_fenced b (fst (fence_authority a now acc))"
  unfolding all_fenced_def
proof (intro ballI impI)
  fix r' assume r': "r' \<in> set (outbound_dispatches (fst (fence_authority a now acc)))" "messagePredicate b r'"
  obtain r where r: "r \<in> set (outbound_dispatches (fst acc))" "od_request r' = od_request r"
      "if messagePredicate a r then \<exists>reason. r' = fence_dispatch reason now r else r' = r"
    using fence_authority_rows [OF r'(1)] by blast
  then have "fenced r" using assms r'(2) messagePredicate_request [OF r(2)] by (auto simp: all_fenced_def)
  then show "fenced r'" using r(3) by (auto split: if_splits intro: fence_dispatch_keeps)
qed

lemma fence_loop_keeps: "all_fenced b (fst acc) \<Longrightarrow> all_fenced b (fst (fence_loop as seen now acc))"
  by (induction as arbitrary: seen acc) (simp_all add: fence_authority_keeps)

lemma fence_loop_fences:
  assumes "rows_ok (outbound_dispatches (fst acc))" and "a \<in> set as" and "distinct (map ra_id as)"
    and "ra_id ` set as \<inter> set seen = {}" and "ra_resource_type a = ''message'' \<or> ra_resource_type a = ''conversation''"
  shows "all_fenced a (fst (fence_loop as seen now acc))"
  using assms
proof (induction as arbitrary: seen acc)
  case (Cons x as)
  have fresh: "ra_id x \<notin> set seen" using Cons.prems(4) by auto
  let ?skip = "ra_resource_type x \<noteq> ''message'' \<and> ra_resource_type x \<noteq> ''conversation''"
  let ?acc = "if ?skip then acc else fence_authority x now acc"
  have loop: "fence_loop (x # as) seen now acc = fence_loop as (ra_id x # seen) now ?acc" using fresh by simp
  have ok: "rows_ok (outbound_dispatches (fst ?acc))"
    using Cons.prems(1) fence_authority_step [of acc x now] by (auto simp: rows_step_def)
  show ?case
  proof (cases "a = x")
    case True
    then have "all_fenced a (fst ?acc)" using Cons.prems(1,5) fence_authority_fences by auto
    then show ?thesis unfolding loop by (rule fence_loop_keeps)
  next
    case False
    then have "a \<in> set as" using Cons.prems(2) by simp
    moreover have "ra_id ` set as \<inter> set (ra_id x # seen) = {}" "distinct (map ra_id as)" using Cons.prems(3,4) by auto
    ultimately show ?thesis using Cons.IH [OF ok] Cons.prems(5) unfolding loop by blast
  qed
qed simp

section \<open>What a completed rebuild publishes\<close>

lemma check_authorities_distinct:
  assumes "check_authorities tenant n ids lins previous as = Inr ()"
  shows "distinct (map ra_id as) \<and> ra_id ` set as \<inter> ids = {}"
  using assms by (induction as arbitrary: ids lins previous) (fastforce simp: andThen_eq_Inr throwIf_eq_Inr)+

lemma loaded_authorities:
  assumes "loadRestoreAuthority db tenant = Inr snapshot"
  shows "distinct (map ra_id (sn_authorities snapshot))"
    and "set (sn_authorities snapshot) = {a \<in> set (removal_authority db). ra_tenant_id a = tenant}"
proof -
  have snapshot: "sn_authorities snapshot = listRemovalAuthorities db tenant"
    and "assertAuthoritySequence tenant (readTenantDeletionEpoch db tenant) (listRemovalAuthorities db tenant) = Inr ()"
    using assms by (auto simp: loadRestoreAuthority_def Let_def andThen_eq_Inr)
  then show "distinct (map ra_id (sn_authorities snapshot))"
    using check_authorities_distinct by (auto simp: assertAuthoritySequence_def andThen_eq_Inr)
  show "set (sn_authorities snapshot) = {a \<in> set (removal_authority db). ra_tenant_id a = tenant}"
    unfolding snapshot by (auto simp: listRemovalAuthorities_def)
qed

text \<open>The call that publishes: it finds the object rebuilding and leaves it ready.\<close>

definition publishes :: "projection_object \<Rightarrow> projection_object \<Rightarrow> bool" where
  "publishes st st' = (\<exists>meta meta'. projection_meta (po_store st) = Some meta \<and> pm_state meta = Rebuilding
     \<and> projection_meta (po_store st') = Some meta' \<and> pm_state meta' = Ready)"

lemma published_by_transaction:
  assumes "completeRebuild g h now input before st db = (db', Inr (st', s))" and "publishes st st'"
  obtains snapshot st1 where "loadRestoreAuthority db' (cr_tenant_id input) = Inr snapshot"
    and "restoreOutboundProjectionRows (cr_tenant_id input) st = Inr st1"
    and "outbound_dispatches st'
      = outbound_dispatches (fst (fenceRestoredOutboundWork (sn_authorities snapshot) (cr_completed_at input) st1))"
    and "tables (po_store st')
      = tables (po_store (fst (fenceRestoredOutboundWork (sn_authorities snapshot) (cr_completed_at input) st1)))"
proof -
  have "st' \<noteq> st" using assms(2) by (auto simp: publishes_def)
  then obtain snapshot where "loadRestoreAuthority db' (cr_tenant_id input) = Inr snapshot"
      "complete_transaction input (sn_authorities snapshot) st = Inr st'"
    using completeRebuild_state [OF assms(1)] by blast
  then show thesis using complete_transaction_state \<open>st' \<noteq> st\<close> that by blast
qed

lemma completion_fences:
  assumes "completeRebuild g h now input before st db = (db', Inr (st', s))" and "publishes st st'"
    and "rows_ok (outbound_dispatches st)" and "a \<in> set (removal_authority db')" and "ra_tenant_id a = cr_tenant_id input"
    and "ra_resource_type a = ''message'' \<or> ra_resource_type a = ''conversation''"
  shows "all_fenced a st'"
proof -
  obtain snapshot st1 where s: "loadRestoreAuthority db' (cr_tenant_id input) = Inr snapshot"
      "restoreOutboundProjectionRows (cr_tenant_id input) st = Inr st1"
      "outbound_dispatches st' = outbound_dispatches (fst (fenceRestoredOutboundWork (sn_authorities snapshot) (cr_completed_at input) st1))"
    using published_by_transaction [OF assms(1,2)] by blast
  have "rows_ok (outbound_dispatches st1)" using assms(3) restore_rows_dispatches [OF s(2)] by simp
  then have "all_fenced a (fst (fenceRestoredOutboundWork (sn_authorities snapshot) (cr_completed_at input) st1))"
    unfolding fenceRestoredOutboundWork_def
    using loaded_authorities [OF s(1)] assms(4-6) by (intro fence_loop_fences) auto
  then show ?thesis using s(3) by (simp add: all_fenced_def)
qed

text \<open>
  C31: a rebuild never revives removed work. When \<open>completeRebuild\<close> publishes a generation, every
  dispatch of a message or conversation that the removal ledger of the tenant names is settled or in
  doubt and holds no sending lease; and from then on, whatever happens to the object, its body is
  never released for sending.
\<close>

theorem rebuild_fences_removed_work:
  assumes "completeRebuild g h now input before st db = (db', Inr (st', s))" and "publishes st st'"
    and "rows_ok (outbound_dispatches st)" and "a \<in> set (removal_authority db')" and "ra_tenant_id a = cr_tenant_id input"
    and "ra_resource_type a = ''message'' \<or> ra_resource_type a = ''conversation''"
    and "d \<in> set (outbound_dispatches st')" and "messagePredicate a d"
    and "(object_step env)\<^sup>*\<^sup>* st' st''" and "gp_command_id request = od_command_id d"
  shows "od_status d \<in> {ODCancelled, ODDispatched, ODDelivery_uncertain} \<and> od_dispatch_lease_id d = None
    \<and> (\<forall>p. getOutboundDispatchPayload parses request st'' \<noteq> Inr p)"
proof -
  have fenced: "fenced d" using completion_fences [OF assms(1-6)] assms(7,8) by (simp add: all_fenced_def)
  then have "od_status d \<in> {ODCancelled, ODDispatched, ODDelivery_uncertain}"
    by (cases "od_status d") (auto simp: fenced_def)
  moreover have "rows_ok (outbound_dispatches st')"
    using object_step_rows [OF object_step.completed [OF assms(1)]] assms(3) by (simp add: rows_step_def)
  then obtain d' where "readOutboundDispatchByCommand st'' (od_command_id d) = Some d'" "evolves d d'"
    using run_dispatch [OF assms(9)] rows_ok_read assms(7) by blast
  then have "getOutboundDispatchPayload parses request st'' \<noteq> Inr p" for p
    using payload_dispatching [of parses request st'' p] fenced assms(10) by (auto simp: fenced_def evolves_def)
  ultimately show ?thesis using fenced by (simp add: fenced_def)
qed

definition sample_rebuilding :: projection_object where
  "sample_rebuilding =
     (let owner = \<lparr>identity_id = ''idn_a'', account_id = ''acc_a'', connection_id = ''con_a'', platform = Whatsapp\<rparr>;
          request = reply_request (sample_reply ''key_1'') owner 1 (replicate 64 (CHR ''a'')) (replicate 64 (CHR ''a'')) in
      sample_object\<lparr>po_store := (po_store sample_object)\<lparr>
          projection_meta := Some (sample_object_meta\<lparr>pm_state := Rebuilding, pm_generation := 2,
            pm_rebuild_id := Some ''rbd_a'', pm_rebuild_started_at := Some ''2026-01-01T01:00:00.000Z''\<rparr>),
          checkpoints := [\<lparr>cp_kind = REPLAY_CHECKPOINT_KIND, cp_value = ''terminal'', cp_source_cursor = None,
            cp_page_digest = None, cp_last_observed_at = None, cp_last_observed_ms = None, cp_last_event_id = None,
            cp_generation = 2, cp_updated_at = ''2026-01-01T01:00:00.000Z'', cp_last_applied_count = None,
            cp_last_duplicate_count = None, cp_last_sequence = None\<rparr>]\<rparr>,
        outbound_dispatches := [(new_dispatch request ODPending None)\<lparr>od_status := ODDispatching,
          od_dispatch_lease_id := Some ''lse_a'', od_dispatch_lease_expires_at := Some ''2026-01-01T02:00:00.000Z''\<rparr>]\<rparr>)"

definition sample_outbound_removed :: control_db where
  "sample_outbound_removed = fst (recordRemoval ''removal_1''
     (sample_removal (outbound_id ''message'' (replicate 64 (CHR ''a''))) ''acc_a'') 0 empty_control)"

definition sample_complete :: complete_rebuild_input where
  "sample_complete = \<lparr>cr_tenant_id = ''tnt_a'', cr_rebuild_id = ''rbd_a'', cr_completed_at = ''2026-01-01T01:30:00.000Z'',
     cr_authorization = \<lparr>az_tenant_id = ''tnt_a'', az_allowed_identity_ids = [''idn_a''], az_scopes = [Scope_rebuild]\<rparr>,
     cr_restore_activation_lease = None\<rparr>"

definition sample_payload_request :: payload_input where
  "sample_payload_request = \<lparr>gp_tenant_id = ''tnt_a'', gp_command_id = sample_command, gp_lease_id = ''lse_a'',
     gp_now = ''2026-01-01T01:31:00.000Z''\<rparr>"

definition sample_completion :: "control_db \<times> (projection_object \<times> projection_status) result" where
  "sample_completion = completeRebuild (Some 8) (\<lambda>t. t) 0 sample_complete sample_rebuilding sample_rebuilding sample_outbound_removed"

definition sample_published :: projection_object where
  "sample_published = state_of (snd sample_completion)"

lemma sample_published_run: "\<exists>s. sample_completion = (fst sample_completion, Inr (sample_published, s))"
proof -
  have "\<not> isl (snd sample_completion)" by code_simp
  from state_of_run [OF this] show ?thesis by (metis prod.collapse sample_published_def)
qed

lemma sample_published_facts:
  "map (\<lambda>d. (od_status d, od_command_id d, od_dispatch_lease_id d)) (outbound_dispatches sample_published) = [(ODDelivery_uncertain, sample_command, None)]"
  "map_option pm_state (projection_meta (po_store sample_published)) = Some Ready"
  "map (\<lambda>a. (ra_tenant_id a, ra_resource_type a, ra_resource_id a)) (removal_authority (fst sample_completion))
     = [(''tnt_a'', ''message'', outbound_id ''message'' (replicate 64 (CHR ''a'')))]"
  by code_simp+

theorem rebuild_fences_removed_work_witness:
  "\<not> isl (snd sample_completion)
   \<and> map od_status (outbound_dispatches sample_published) = [ODDelivery_uncertain]
   \<and> (\<forall>p. getOutboundDispatchPayload (\<lambda>_. True) sample_payload_request sample_published \<noteq> Inr p)"
proof -
  obtain s where run: "sample_completion = (fst sample_completion, Inr (sample_published, s))"
    using sample_published_run by blast
  have status: "map od_status (outbound_dispatches sample_published) = [ODDelivery_uncertain]"
    using sample_published_facts(1) by auto
  obtain d where d: "outbound_dispatches sample_published = [d]" "od_command_id d = sample_command"
    using sample_published_facts(1) by auto
  obtain a where a: "a \<in> set (removal_authority (fst sample_completion))" "ra_tenant_id a = ''tnt_a''"
      "ra_resource_type a = ''message''" "ra_resource_id a = outbound_id ''message'' (replicate 64 (CHR ''a''))"
    using sample_published_facts(3) by (auto simp: map_eq_Cons_conv)
  have message: "map (\<lambda>d. rq_message_id (od_request d)) (outbound_dispatches sample_published) = [outbound_id ''message'' (replicate 64 (CHR ''a''))]"
    by code_simp
  have "publishes sample_rebuilding sample_published"
    using sample_published_facts(2) by (auto simp: publishes_def sample_rebuilding_def Let_def)
  moreover have "rows_ok (outbound_dispatches sample_rebuilding)"
    by (simp add: sample_rebuilding_def Let_def rows_ok_def row_ok_def new_dispatch_def)
  moreover have "messagePredicate a d" using a message d(1) by (simp add: messagePredicate_def)
  moreover have "gp_command_id sample_payload_request = od_command_id d" using d(2) by (simp add: sample_payload_request_def)
  ultimately have "\<forall>p. getOutboundDispatchPayload (\<lambda>_. True) sample_payload_request sample_published \<noteq> Inr p"
    using rebuild_fences_removed_work [OF run [unfolded sample_completion_def], of a d sample_env sample_published sample_payload_request "\<lambda>_. True"]
      a d(1) by (simp add: sample_complete_def sample_completion_def)
  then show ?thesis using run status by (metis sum.disc(2) snd_conv)
qed

end
