(* ===== verification/Rebuild_Properties.thy ===== *)
theory Rebuild_Properties
  imports Rebuild_Fence
begin

text \<open>
  What a rebuild of the projection promises beside the fence: the views of the outbound ledger are
  restored, and the lifecycle only moves forward.
\<close>

section \<open>The views of the ledger\<close>

text \<open>A message up to the attachment count, which the summaries maintain.\<close>

definition message_view :: "projection_object \<Rightarrow> string \<Rightarrow> message_row option" where
  "message_view st i = map_option (\<lambda>m. m\<lparr>m_attachment_count := 0\<rparr>) (readOutboundMessage st i)"

lemma find_map_view:
  assumes "map f xs = map f ys" and "\<And>x. Q (f x) = Q x"
  shows "map_option f (find Q xs) = map_option f (find Q ys)"
  using assms(1)
proof (induction xs arbitrary: ys)
  case (Cons x xs)
  then obtain y zs where ys: "ys = y # zs" "f x = f y" "map f xs = map f zs" by (auto simp: map_eq_Cons_conv)
  moreover have "Q x = Q y" using assms(2) ys(2) by metis
  ultimately show ?case using Cons.IH by simp
qed simp

lemma recompute_conversation_views:
  "map (\<lambda>m. m\<lparr>m_attachment_count := 0\<rparr>) (messages (recompute_conversation cid db)) = map (\<lambda>m. m\<lparr>m_attachment_count := 0\<rparr>) (messages db)"
  "commands (recompute_conversation cid db) = commands db"
  "resource_tombstones (recompute_conversation cid db) = resource_tombstones db"
  by (auto simp: recompute_conversation_def recount_attachments_def Let_def upd_where_def split: option.splits)

lemma recompute_views:
  "map (\<lambda>m. m\<lparr>m_attachment_count := 0\<rparr>) (messages (recomputeConversationSummaries touched db)) = map (\<lambda>m. m\<lparr>m_attachment_count := 0\<rparr>) (messages db)"
  "commands (recomputeConversationSummaries touched db) = commands db"
proof -
  have "map (\<lambda>m. m\<lparr>m_attachment_count := 0\<rparr>) (messages (fold recompute_conversation cs d)) = map (\<lambda>m. m\<lparr>m_attachment_count := 0\<rparr>) (messages d)
    \<and> commands (fold recompute_conversation cs d) = commands d" for cs d
    by (induction cs arbitrary: d) (simp_all add: recompute_conversation_views)
  then show "map (\<lambda>m. m\<lparr>m_attachment_count := 0\<rparr>) (messages (recomputeConversationSummaries touched db)) = map (\<lambda>m. m\<lparr>m_attachment_count := 0\<rparr>) (messages db)"
    and "commands (recomputeConversationSummaries touched db) = commands db"
    by (simp_all add: recomputeConversationSummaries_def)
qed

lemma find_snoc_key:
  assumes "key r \<notin> key ` set rs"
  shows "find (\<lambda>x. key x = i) (rs @ [r]) = (if key r = i then Some r else find (\<lambda>x. key x = i) rs)"
  using assms by (induction rs) auto

lemma insert_message_read:
  assumes "insert_message m st = Inr st'"
  shows "readOutboundMessage st' i = (if m_id m = i then Some m else readOutboundMessage st i)"
    and "readOutboundCommand st' i = readOutboundCommand st i"
    and "resource_tombstones (tables (po_store st')) = resource_tombstones (tables (po_store st))"
  using assms
  by (auto simp: insert_message_def andThen_eq_Inr ins_row_eq_Inr upd_tables_def readOutboundMessage_def readOutboundCommand_def
      find_snoc_key)

lemma insert_command_read:
  assumes "insert_command k st = Inr st'"
  shows "readOutboundCommand st' i = (if k_id k = i then Some k else readOutboundCommand st i)"
    and "readOutboundMessage st' i = readOutboundMessage st i"
    and "resource_tombstones (tables (po_store st')) = resource_tombstones (tables (po_store st))"
  using assms
  by (auto simp: insert_command_def andThen_eq_Inr ins_row_eq_Inr upd_tables_def readOutboundMessage_def readOutboundCommand_def
      find_snoc_key)

definition message_matches :: "dispatch_request \<Rightarrow> message_row \<Rightarrow> bool" where
  "message_matches rq m = (identity_id m = rq_resource_identity_id rq \<and> account_id m = rq_account_id rq
     \<and> connection_id m = rq_connection_id rq \<and> conversation_id m = rq_conversation_id rq \<and> m_direction m = Outbound)"

definition command_matches :: "dispatch_request \<Rightarrow> command_row \<Rightarrow> bool" where
  "command_matches rq k = (identity_id k = rq_actor_identity_id rq \<and> account_id k = rq_account_id rq
     \<and> connection_id k = rq_connection_id rq \<and> conversation_id k = rq_conversation_id rq \<and> platform k = rq_platform rq
     \<and> k_operation k = ''message.send'' \<and> k_delivery_mode k = rq_delivery_mode rq)"

lemma restored_message_facts:
  assumes "restored_message row t = Inr m"
  shows "m_id m = rq_message_id (od_request row)" and "message_matches (od_request row) m"
    and "case t of None \<Rightarrow> m_body m = rq_body (od_request row) \<and> m_deleted_at m = None
         | Some x \<Rightarrow> m_body m = '''' \<and> m_sender_label m = ''Deleted sender'' \<and> m_deleted_at m = Some (rt_occurred_at x)"
  using assms
  by (auto simp: restored_message_def Let_def andThen_eq_Inr message_matches_def outbound_message_def resend_owner_def split: option.splits)

lemma restore_message_facts:
  assumes "restore_message row st = Inr st'"
  defines "i \<equiv> rq_message_id (od_request row)"
  shows "j \<noteq> i \<Longrightarrow> readOutboundMessage st' j = readOutboundMessage st j"
    and "readOutboundCommand st' k = readOutboundCommand st k"
    and "resource_tombstones (tables (po_store st')) = resource_tombstones (tables (po_store st))"
    and "\<exists>m. readOutboundMessage st' i = Some m \<and> message_matches (od_request row) m
      \<and> (case readOutboundMessage st i of Some m0 \<Rightarrow> m = m0
         | None \<Rightarrow> restored_message row (restore_tombstone (tables (po_store st)) row) = Inr m)"
  using assms
  by (auto simp: restore_message_def Let_def andThen_eq_Inr throwIf_eq_Inr insert_message_read restored_message_facts(1)
      message_matches_def [of _ m for m] split: option.splits
      dest: restored_message_facts(2) [unfolded message_matches_def])

lemma restore_command_facts:
  assumes "restore_command row st = Inr st'"
  shows "readOutboundMessage st' j = readOutboundMessage st j"
    and "j \<noteq> rq_command_id (od_request row) \<Longrightarrow> readOutboundCommand st' j = readOutboundCommand st j"
    and "resource_tombstones (tables (po_store st')) = resource_tombstones (tables (po_store st))"
    and "\<exists>k. readOutboundCommand st' (rq_command_id (od_request row)) = Some k \<and> command_matches (od_request row) k
      \<and> (case readOutboundCommand st (rq_command_id (od_request row)) of Some k0 \<Rightarrow> k = k0
         | None \<Rightarrow> k_status k = restoredOutboundCommandStatus row)"
  using assms
  by (auto simp: restore_command_def Let_def andThen_eq_Inr throwIf_eq_Inr insert_command_read outbound_command_def resend_owner_def
      command_matches_def split: option.splits)

text \<open>The views of a row after the loop: those that were there, or those built from the row.\<close>

definition restored :: "dispatch_row \<Rightarrow> projection_object \<Rightarrow> projection_object \<Rightarrow> bool" where
  "restored row st st' =
     (\<exists>m k. readOutboundMessage st' (rq_message_id (od_request row)) = Some m \<and> message_matches (od_request row) m
        \<and> readOutboundCommand st' (od_command_id row) = Some k \<and> command_matches (od_request row) k
        \<and> (case readOutboundMessage st (rq_message_id (od_request row)) of Some m0 \<Rightarrow> m = m0
           | None \<Rightarrow> restored_message row (restore_tombstone (tables (po_store st)) row) = Inr m)
        \<and> (case readOutboundCommand st (od_command_id row) of Some k0 \<Rightarrow> k = k0
           | None \<Rightarrow> k_status k = restoredOutboundCommandStatus row))"

lemma restored_cong:
  assumes "readOutboundMessage st1 (rq_message_id (od_request row)) = readOutboundMessage st (rq_message_id (od_request row))"
    and "readOutboundCommand st1 (od_command_id row) = readOutboundCommand st (od_command_id row)"
    and "resource_tombstones (tables (po_store st1)) = resource_tombstones (tables (po_store st))"
  shows "restored row st1 st' = restored row st st'"
proof -
  have t: "restore_tombstone (tables (po_store st1)) row = restore_tombstone (tables (po_store st)) row"
    using assms(3) by (simp add: restore_tombstone_def)
  show ?thesis unfolding restored_def assms(1,2) t ..
qed

lemma restore_row_facts:
  assumes "restore_row row st = Inr st'"
  shows "restored row st st'"
    and "j \<noteq> rq_message_id (od_request row) \<Longrightarrow> readOutboundMessage st' j = readOutboundMessage st j"
    and "j \<noteq> od_command_id row \<Longrightarrow> readOutboundCommand st' j = readOutboundCommand st j"
    and "resource_tombstones (tables (po_store st')) = resource_tombstones (tables (po_store st))"
    and "readOutboundMessage st j = Some m \<Longrightarrow> readOutboundMessage st' j = Some m"
    and "readOutboundCommand st j = Some k \<Longrightarrow> readOutboundCommand st' j = Some k"
proof -
  obtain st1 where s: "restore_message row st = Inr st1" "restore_command row st1 = Inr st'"
    using assms by (auto simp: restore_row_def Let_def andThen_eq_Inr split: option.splits)
  note m = restore_message_facts [OF s(1)] and k = restore_command_facts [OF s(2)]
  show "restored row st st'" using m(4) k(4) by (simp add: restored_def k(1) m(2)) blast
  show "readOutboundMessage st' j = readOutboundMessage st j" if "j \<noteq> rq_message_id (od_request row)" using that m(1) k(1) by simp
  show "readOutboundCommand st' j = readOutboundCommand st j" if "j \<noteq> od_command_id row" using that m(2) k(2) by simp
  show "resource_tombstones (tables (po_store st')) = resource_tombstones (tables (po_store st))" using m(3) k(3) by simp
  show "readOutboundMessage st' j = Some m" if "readOutboundMessage st j = Some m"
    using that m(1,4) k(1) by (cases "j = rq_message_id (od_request row)") auto
  show "readOutboundCommand st' j = Some k" if "readOutboundCommand st j = Some k"
    using that m(2) k(2,4) by (cases "j = od_command_id row") auto
qed

lemma restore_loop_keeps:
  assumes "forEach rows st restore_row = Inr st'"
  shows "readOutboundMessage st j = Some m \<Longrightarrow> readOutboundMessage st' j = Some m"
    and "readOutboundCommand st j = Some k \<Longrightarrow> readOutboundCommand st' j = Some k"
  using assms by (induction rows arbitrary: st) (auto simp: andThen_eq_Inr dest: restore_row_facts(5,6))

lemma restore_loop_restores:
  assumes "forEach rows st restore_row = Inr st'" and "row \<in> set rows"
    and "distinct (map (\<lambda>r. rq_message_id (od_request r)) rows)" and "distinct (map od_command_id rows)"
  shows "restored row st st'"
  using assms
proof (induction rows arbitrary: st)
  case (Cons x rows)
  obtain s where s: "restore_row x st = Inr s" "forEach rows s restore_row = Inr st'"
    using Cons.prems(1) by (auto simp: andThen_eq_Inr)
  show ?case
  proof (cases "row = x")
    case True
    then show ?thesis
      using restore_row_facts(1) [OF s(1)] restore_loop_keeps [OF s(2)] unfolding restored_def by blast
  next
    case False
    then have row: "row \<in> set rows" using Cons.prems(2) by simp
    then have "rq_message_id (od_request row) \<noteq> rq_message_id (od_request x)" "od_command_id row \<noteq> od_command_id x"
      using Cons.prems(3,4) by (auto simp: image_iff)
    then show ?thesis
      using Cons.IH [OF s(2) row] Cons.prems(3,4) restored_cong [of s row st st'] restore_row_facts(2-4) [OF s(1)] by simp
  qed
qed simp

text \<open>The summaries and the fence keep the views.\<close>

definition command_kept :: "command_row \<Rightarrow> command_row \<Rightarrow> bool" where
  "command_kept k k' = ((\<forall>rq. command_matches rq k' = command_matches rq k) \<and> (k_status k' = k_status k \<or> k_status k' = Cancelled))"

lemma fence_command_kept: "command_kept k (fence_command reason now k)"
  by (simp add: command_kept_def fence_command_def command_matches_def)

lemma fence_authority_views:
  shows "readOutboundMessage (fst (fence_authority a now acc)) i = readOutboundMessage (fst acc) i"
    and "readOutboundCommand (fst acc) i = Some k \<Longrightarrow> \<exists>k'. readOutboundCommand (fst (fence_authority a now acc)) i = Some k' \<and> command_kept k k'"
proof -
  have same: "k_id (if Q x then fence_command reason now x else x) = k_id x" for Q reason x by (simp add: fence_command_def)
  have "\<exists>Q reason. tables (po_store (fst (fence_authority a now acc)))
      = (tables (po_store (fst acc)))\<lparr>commands := upd_where Q (fence_command reason now) (commands (tables (po_store (fst acc))))\<rparr>"
  proof (cases "filter (messagePredicate a) (outbound_dispatches (fst acc)) = []")
    case True
    then have "tables (po_store (fst (fence_authority a now acc)))
      = (tables (po_store (fst acc)))\<lparr>commands := upd_where (\<lambda>_. False) (fence_command '''' now) (commands (tables (po_store (fst acc))))\<rparr>"
      by (cases acc) (simp add: fence_authority_def Let_def upd_where_def)
    then show ?thesis by blast
  next
    case False
    then show ?thesis by (cases acc) (auto simp: fence_authority_def Let_def upd_command_def upd_tables_def upd_dispatch_def)
  qed
  then obtain Q reason where tables: "tables (po_store (fst (fence_authority a now acc)))
      = (tables (po_store (fst acc)))\<lparr>commands := upd_where Q (fence_command reason now) (commands (tables (po_store (fst acc))))\<rparr>" by blast
  show "readOutboundMessage (fst (fence_authority a now acc)) i = readOutboundMessage (fst acc) i"
    by (simp add: readOutboundMessage_def tables)
  show "\<exists>k'. readOutboundCommand (fst (fence_authority a now acc)) i = Some k' \<and> command_kept k k'"
    if "readOutboundCommand (fst acc) i = Some k"
    using that by (auto simp: readOutboundCommand_def tables find_upd_where same fence_command_kept) (simp add: command_kept_def)
qed

lemma command_kept_trans: "command_kept a b \<Longrightarrow> command_kept b c \<Longrightarrow> command_kept a c"
  by (auto simp: command_kept_def)

lemma command_kept_refl [simp]: "command_kept k k"
  by (simp add: command_kept_def)

lemma fence_loop_views:
  shows "readOutboundMessage (fst (fence_loop as seen now acc)) i = readOutboundMessage (fst acc) i"
    and "readOutboundCommand (fst acc) i = Some k \<Longrightarrow> \<exists>k'. readOutboundCommand (fst (fence_loop as seen now acc)) i = Some k' \<and> command_kept k k'"
proof (induction as arbitrary: seen acc k)
  case (Cons a as)
  { case 1 then show ?case by (simp add: Cons.IH(1) fence_authority_views(1)) }
  { case 2
    then obtain k1 where "readOutboundCommand (fst (fence_authority a now acc)) i = Some k1" "command_kept k k1"
      using fence_authority_views(2) by blast
    moreover obtain k2 where "readOutboundCommand (fst (fence_loop as (ra_id a # seen) now (fence_authority a now acc))) i = Some k2"
        "command_kept k1 k2"
      using Cons.IH(2) [OF calculation(1)] by blast
    ultimately show ?case using 2 Cons.IH(2) [OF 2] command_kept_trans by auto }
qed simp_all

lemma view_columns:
  assumes "m'\<lparr>m_attachment_count := 0\<rparr> = m\<lparr>m_attachment_count := 0\<rparr>"
  shows "message_matches rq m' = message_matches rq m" and "m_body m' = m_body m" and "m_deleted_at m' = m_deleted_at m"
proof -
  have drop: "message_matches rq (x\<lparr>m_attachment_count := 0\<rparr>) = message_matches rq x"
      "m_body (x\<lparr>m_attachment_count := 0\<rparr>) = m_body x" "m_deleted_at (x\<lparr>m_attachment_count := 0\<rparr>) = m_deleted_at x" for x
    by (simp_all add: message_matches_def)
  show "message_matches rq m' = message_matches rq m" and "m_body m' = m_body m" and "m_deleted_at m' = m_deleted_at m"
    by (metis drop assms)+
qed

lemma fence_views:
  shows "readOutboundMessage (fst (fenceRestoredOutboundWork as now st)) i = readOutboundMessage st i"
    and "readOutboundCommand st i = Some k \<Longrightarrow> \<exists>k'. readOutboundCommand (fst (fenceRestoredOutboundWork as now st)) i = Some k' \<and> command_kept k k'"
  unfolding fenceRestoredOutboundWork_def
  using fence_loop_views [where as = as and seen = "[]" and now = now and i = i and acc = "(st, r)" for r] by simp_all

lemma summaries_views:
  "message_view (upd_tables (recomputeConversationSummaries touched) st) i = message_view st i"
  "readOutboundCommand (upd_tables (recomputeConversationSummaries touched) st) i = readOutboundCommand st i"
  by (auto simp: message_view_def readOutboundMessage_def readOutboundCommand_def upd_tables_def recompute_views
      intro: find_map_view)

text \<open>The message or its conversation has a tombstone.\<close>

definition buried :: "projection_db \<Rightarrow> dispatch_request \<Rightarrow> bool" where
  "buried db rq = list_ex (\<lambda>t. rt_resource_type t = RMessage \<and> rt_resource_id t = rq_message_id rq
     \<or> rt_resource_type t = RConversation \<and> rt_resource_id t = rq_conversation_id rq) (resource_tombstones db)"

lemma restore_tombstone_buried: "restore_tombstone db row = None \<longleftrightarrow> \<not> buried db (od_request row)"
  by (auto simp: restore_tombstone_def buried_def filter_empty_conv list_ex_iff)

lemma restore_rows_restored:
  assumes "restoreOutboundProjectionRows tenant st = Inr st'" and "rows_ok (outbound_dispatches st)"
    and "row \<in> set (outbound_dispatches st)" and "rq_tenant_id (od_request row) = tenant"
  obtains st1 touched where "restored row st st1" and "st' = upd_tables (recomputeConversationSummaries touched) st1"
proof -
  define rows where "rows = sort_key (\<lambda>r. (rq_created_at (od_request r), od_id r))
    (filter (\<lambda>r. rq_tenant_id (od_request r) = tenant) (outbound_dispatches st))"
  obtain st1 where st1: "forEach rows st restore_row = Inr st1"
      "st' = upd_tables (recomputeConversationSummaries (map (\<lambda>r. rq_conversation_id (od_request r)) rows)) st1"
    using assms(1) by (auto simp: restoreOutboundProjectionRows_def Let_def andThen_eq_Inr rows_def)
  have "row \<in> set rows" using assms(3,4) by (simp add: rows_def)
  moreover have "distinct (map (\<lambda>r. rq_message_id (od_request r)) rows)" "distinct (map od_command_id rows)"
    using assms(2) by (auto simp: rows_def rows_ok_def distinct_map inj_on_def)
  ultimately show thesis using restore_loop_restores [OF st1(1)] that st1(2) by blast
qed

text \<open>
  C32: a rebuild restores the views of accepted work. The receive-side tables are emptied when a
  rebuild begins; when \<open>completeRebuild\<close> publishes, every dispatch of the tenant has its message and
  its command again, under the owner of the dispatch. A message that the replay did not bring back
  has the accepted body, unless the message or its conversation has a tombstone: then it is restored
  deleted, with no body. A command that the replay did not bring back has the status of its dispatch,
  or is cancelled by the fence.
\<close>

theorem rebuild_restores_outbound_views:
  assumes "completeRebuild g h now input before st db = (db', Inr (st', s))" and "publishes st st'"
    and "rows_ok (outbound_dispatches st)" and "row \<in> set (outbound_dispatches st)"
    and "rq_tenant_id (od_request row) = cr_tenant_id input"
  shows "\<exists>m k. readOutboundMessage st' (rq_message_id (od_request row)) = Some m \<and> message_matches (od_request row) m
    \<and> readOutboundCommand st' (od_command_id row) = Some k \<and> command_matches (od_request row) k
    \<and> (readOutboundMessage st (rq_message_id (od_request row)) = None
         \<longrightarrow> (if buried (tables (po_store st)) (od_request row) then m_body m = '''' \<and> m_deleted_at m \<noteq> None
              else m_body m = rq_body (od_request row) \<and> m_deleted_at m = None))
    \<and> (readOutboundCommand st (od_command_id row) = None
         \<longrightarrow> k_status k = restoredOutboundCommandStatus row \<or> k_status k = Cancelled)"
proof -
  let ?i = "rq_message_id (od_request row)"
  obtain as st1 where st1: "restoreOutboundProjectionRows (cr_tenant_id input) st = Inr st1"
      "tables (po_store st') = tables (po_store (fst (fenceRestoredOutboundWork as (cr_completed_at input) st1)))"
    using published_by_transaction [OF assms(1,2)] by metis
  have reads: "readOutboundMessage st' i = readOutboundMessage st1 i"
      "readOutboundCommand st' i = readOutboundCommand (fst (fenceRestoredOutboundWork as (cr_completed_at input) st1)) i" for i
    using st1(2) fence_views(1) by (simp_all add: readOutboundMessage_def readOutboundCommand_def)
  obtain st0 touched where st0: "restored row st st0" "st1 = upd_tables (recomputeConversationSummaries touched) st0"
    by (rule restore_rows_restored [OF st1(1) assms(3-5)])
  obtain m k where mk: "readOutboundMessage st0 ?i = Some m" "message_matches (od_request row) m"
      "readOutboundCommand st0 (od_command_id row) = Some k" "command_matches (od_request row) k"
      "case readOutboundMessage st ?i of Some m0 \<Rightarrow> m = m0 | None \<Rightarrow> restored_message row (restore_tombstone (tables (po_store st)) row) = Inr m"
      "case readOutboundCommand st (od_command_id row) of Some k0 \<Rightarrow> k = k0 | None \<Rightarrow> k_status k = restoredOutboundCommandStatus row"
    using st0(1) unfolding restored_def by blast
  obtain m' where m': "readOutboundMessage st' ?i = Some m'" "m'\<lparr>m_attachment_count := 0\<rparr> = m\<lparr>m_attachment_count := 0\<rparr>"
    using summaries_views(1) [of touched st0 ?i] mk(1) unfolding st0(2) [symmetric] message_view_def reads(1) by auto
  then have same: "message_matches (od_request row) m'" "m_body m' = m_body m" "m_deleted_at m' = m_deleted_at m"
    using mk(2) view_columns [OF m'(2)] by simp_all
  obtain k' where k': "readOutboundCommand st' (od_command_id row) = Some k'" "command_kept k k'"
    using fence_views(2) [of st1 "od_command_id row" k as "cr_completed_at input"] mk(3)
    unfolding reads(2) st0(2) summaries_views(2) by blast
  have body: "if buried (tables (po_store st)) (od_request row) then m_body m' = '''' \<and> m_deleted_at m' \<noteq> None
      else m_body m' = rq_body (od_request row) \<and> m_deleted_at m' = None" if "readOutboundMessage st ?i = None"
    using that mk(5) restored_message_facts(3) [of row _ m] restore_tombstone_buried [of "tables (po_store st)" row] same
    by (cases "restore_tombstone (tables (po_store st)) row") (fastforce split: option.splits)+
  show ?thesis
    using m'(1) same(1) k' mk(4,6) body by (intro exI [of _ m'] exI [of _ k']) (auto simp: command_kept_def)
qed

theorem rebuild_restores_outbound_views_witness:
  "\<exists>m k. readOutboundMessage sample_published (outbound_id ''message'' (replicate 64 (CHR ''a''))) = Some m \<and> m_body m = ''hello''
     \<and> readOutboundCommand sample_published sample_command = Some k \<and> k_status k \<noteq> Delivered"
proof -
  obtain s where run: "sample_completion = (fst sample_completion, Inr (sample_published, s))"
    using sample_published_run by blast
  obtain row where row: "outbound_dispatches sample_rebuilding = [row]" "od_request row
      = reply_request (sample_reply ''key_1'') \<lparr>identity_id = ''idn_a'', account_id = ''acc_a'', connection_id = ''con_a'', platform = Whatsapp\<rparr>
          1 (replicate 64 (CHR ''a'')) (replicate 64 (CHR ''a''))" "od_status row = ODDispatching"
    by (simp add: sample_rebuilding_def Let_def new_dispatch_def)
  have request: "rq_message_id (od_request row) = outbound_id ''message'' (replicate 64 (CHR ''a''))" "rq_body (od_request row) = ''hello''"
      "od_command_id row = sample_command" "rq_tenant_id (od_request row) = ''tnt_a''"
    unfolding row(2) by (simp_all add: reply_request_def sample_reply_def sample_command_def)
  have empty: "readOutboundMessage sample_rebuilding i = None" "readOutboundCommand sample_rebuilding i = None"
      "\<not> buried (tables (po_store sample_rebuilding)) rq" for i rq
    by (simp_all add: readOutboundMessage_def readOutboundCommand_def buried_def sample_rebuilding_def sample_object_def Let_def empty_db_def)
  have publishes: "publishes sample_rebuilding sample_published"
    using sample_published_facts(2) by (auto simp: publishes_def sample_rebuilding_def Let_def)
  have "rows_ok (outbound_dispatches sample_rebuilding)"
    by (simp add: sample_rebuilding_def Let_def rows_ok_def row_ok_def new_dispatch_def)
  then show ?thesis
    using rebuild_restores_outbound_views [OF run [unfolded sample_completion_def] publishes, of row] row(1,3) request empty
    by (auto simp: sample_complete_def restoredOutboundCommandStatus_def)
qed

end
