(* ===== verification/Rebuild_Lifecycle.thy ===== *)
theory Rebuild_Lifecycle
  imports Rebuild_Fence
begin

text \<open>
  The lifecycle of the projection's generations: the metadata row and the histories of completed and
  failed rebuilds, along every run of the tenant's object.
\<close>

section \<open>Operations that leave the lifecycle alone\<close>

definition lifecycle :: "tenant_store \<Rightarrow> projection_meta_row option \<times> rebuild_row list \<times> failed_rebuild_row list" where
  "lifecycle s = (projection_meta s, completed_rebuilds s, failed_rebuilds s)"

lemma lifecycle_updates [simp]:
  "lifecycle (s\<lparr>tables := db\<rparr>) = lifecycle s"
  "lifecycle (store_checkpoint row s) = lifecycle s"
  "lifecycle (trimProjectionChanges s) = lifecycle s"
  "lifecycle (clearDerivedProjectionData s) = lifecycle s"
  by (simp_all add: lifecycle_def store_checkpoint_def trimProjectionChanges_def trim_changes_at_def Let_def
      clearDerivedProjectionData_def split: option.split)

lemma lifecycle_log_change: "log_change g p s = Inr (s', c) \<Longrightarrow> lifecycle s' = lifecycle s"
  by (auto simp: log_change_def Let_def andThen_eq_Inr lifecycle_def)

lemma lifecycle_project_prepared: "project_prepared stored g p ls = Inr ls' \<Longrightarrow> lifecycle (ls_store ls') = lifecycle (ls_store ls)"
  by (auto simp: project_prepared_def andThen_eq_Inr split: option.splits dest!: lifecycle_log_change)

lemma lifecycle_projectPreparedEvents:
  assumes "projectPreparedEvents events n meta s = Inr (s', r)"
  shows "lifecycle s' = lifecycle s"
proof -
  obtain ls where loop: "forEach events \<lparr>ls_store = s, ls_appliedCount = 0, ls_changes = [], ls_touched = []\<rparr>
      (project_prepared (readAppliedEvents (tables s) events) (pm_generation meta)) = Inr ls"
    and s': "s' = trimProjectionChanges ((ls_store ls)\<lparr>tables := recomputeConversationSummaries (ls_touched ls) (tables (ls_store ls))\<rparr>)"
    using assms by (auto simp: projectPreparedEvents_def Let_def andThen_eq_Inr)
  have "lifecycle (ls_store ls) = lifecycle s"
    by (rule forEach_invariant [OF loop]) (simp_all add: lifecycle_project_prepared)
  then show ?thesis by (simp add: s')
qed

lemma lifecycle_checkpoints:
  "applyLiveCheckpoint c meta n s = Inr s' \<Longrightarrow> lifecycle s' = lifecycle s"
  "writeReplayCheckpoint p e m k n meta s = Inr s' \<Longrightarrow> lifecycle s' = lifecycle s"
  by (auto simp: applyLiveCheckpoint_def writeReplayCheckpoint_def Let_def andThen_eq_Inr split: option.split_asm if_split_asm)

lemma lifecycle_modes:
  "apply_replay input c meta s = Inr (s', x) \<Longrightarrow> lifecycle s' = lifecycle s"
  "apply_live input d meta s = Inr (s', x) \<Longrightarrow> lifecycle s' = lifecycle s"
  by (auto simp: apply_replay_def apply_live_def Let_def andThen_eq_Inr split: option.split_asm
      dest!: lifecycle_checkpoints lifecycle_projectPreparedEvents)

lemma lifecycle_batch:
  assumes "applyPreparedBatch input s = Inr (s', x)"
  shows "lifecycle s' = lifecycle s"
proof -
  obtain meta db where "(case ai_mode input of Replay None \<Rightarrow> projectionError projection_invalid
      | Replay (Some c) \<Rightarrow> apply_replay input c meta (s\<lparr>tables := db\<rparr>)
      | Live checkpoint \<Rightarrow> apply_live input checkpoint meta (s\<lparr>tables := db\<rparr>)) = Inr (s', x)"
    using assms unfolding applyPreparedBatch_def catching_Inr Let_def andThen_eq_Inr by blast
  then show ?thesis by (auto split: batch_mode.split_asm option.split_asm dest!: lifecycle_modes)
qed

lemma lifecycle_writes [simp]:
  "lifecycle (po_store (upd_tables f st)) = lifecycle (po_store st)"
  "lifecycle (po_store (upd_dispatch P f' st)) = lifecycle (po_store st)"
  "lifecycle (po_store (upd_command Q g st)) = lifecycle (po_store st)"
  "lifecycle (po_store (doubt_command k now st)) = lifecycle (po_store st)"
  "lifecycle (po_store (store_transition d k t u st)) = lifecycle (po_store st)"
  by (simp_all add: upd_tables_def upd_dispatch_def upd_command_def doubt_command_def store_transition_def Let_def)

lemma lifecycle_inserts:
  "insert_message m st = Inr st' \<Longrightarrow> lifecycle (po_store st') = lifecycle (po_store st)"
  "insert_command k st = Inr st' \<Longrightarrow> lifecycle (po_store st') = lifecycle (po_store st)"
  "insert_dispatch d st = Inr st' \<Longrightarrow> lifecycle (po_store st') = lifecycle (po_store st)"
  "insert_evidence e st = Inr st' \<Longrightarrow> lifecycle (po_store st') = lifecycle (po_store st)"
  "insert_action a st = Inr st' \<Longrightarrow> lifecycle (po_store st') = lifecycle (po_store st)"
  "insert_decision c st = Inr st' \<Longrightarrow> lifecycle (po_store st') = lifecycle (po_store st)"
  by (auto simp: insert_message_def insert_command_def insert_dispatch_def insert_evidence_def insert_action_def insert_decision_def
      andThen_eq_Inr upd_tables_def split: if_splits)

lemma lifecycle_alarm: "alarm_row now available c st = Inr st' \<Longrightarrow> lifecycle (po_store st') = lifecycle (po_store st)"
  by (auto simp: alarm_row_def andThen_eq_Inr split: option.splits if_splits)

lemma lifecycle_claim: "claimOutboundDispatch env input st = Inr (st', d) \<Longrightarrow> lifecycle (po_store st') = lifecycle (po_store st)"
  by (auto simp: claimOutboundDispatch_def Let_def andThen_eq_Inr split: option.splits if_splits)

lemma lifecycle_fail: "failOutboundDispatch env input st = Inr (st', r) \<Longrightarrow> lifecycle (po_store st') = lifecycle (po_store st)"
  by (auto simp: failOutboundDispatch_def andThen_eq_Inr split: option.splits dest!: reread_state)

lemma lifecycle_accept:
  assumes "acceptTextReply env input before st = Inr (st', r)"
  shows "lifecycle (po_store st') = lifecycle (po_store st)"
proof -
  have reread: "x = st'" if "reply_reread env key rq x = Inr (st', r)" for key rq x
    using that by (auto simp: reply_reread_def andThen_eq_Inr split: option.splits)
  have "lifecycle (po_store st') = lifecycle (po_store st)" if "accept_new_reply env input meta owner b q ms st = Inr (st', r)" for meta owner b q ms
    using that by (auto simp: accept_new_reply_def Let_def andThen_eq_Inr dest!: reread lifecycle_inserts(1-3))
  then show ?thesis using assms by (auto simp: acceptTextReply_def andThen_eq_Inr split: option.splits)
qed

lemma lifecycle_evidence: "reconcile_evidence input d k e st = Inr st' \<Longrightarrow> lifecycle (po_store st') = lifecycle (po_store st)"
  by (auto simp: reconcile_evidence_def andThen_eq_Inr apply_evidence_def settle_dispatch_def Let_def split: if_splits
      dest!: lifecycle_inserts(4))

lemma lifecycle_reconcile: "reconcileOutbound env available input before st = Inr (st', r) \<Longrightarrow> lifecycle (po_store st') = lifecycle (po_store st)"
  by (auto simp: reconcileOutbound_def andThen_eq_Inr split: option.splits dest!: reread_state lifecycle_evidence)

lemma lifecycle_resend: "resend_dispatch input available q d st = Inr (st', c) \<Longrightarrow> lifecycle (po_store st') = lifecycle (po_store st)"
  by (cases "di_resend_authority input"; cases "readOutboundMessage st (rq_message_id (od_request d))")
    (auto simp: resend_dispatch_def Let_def andThen_eq_Inr dest!: lifecycle_inserts(1-3))

lemma lifecycle_finish: "act_finish env input action d k st1 c st2 = Inr (st', r) \<Longrightarrow> lifecycle (po_store st') = lifecycle (po_store st2)"
  by (auto simp: act_finish_def Let_def andThen_eq_Inr split: option.splits)

lemma lifecycle_act:
  assumes "act_on_uncertain env input available q action d k st = Inr (st', r)"
  shows "lifecycle (po_store st') = lifecycle (po_store st)"
  using assms
  by (auto simp: act_on_uncertain_def andThen_eq_Inr split: if_splits dest!: lifecycle_resend lifecycle_inserts(5) lifecycle_finish)

lemma lifecycle_decide:
  assumes "decideOutbound env available input before st = Inr (st', r)"
  shows "lifecycle (po_store st') = lifecycle (po_store st)"
proof -
  have confirm: "lifecycle (po_store st') = lifecycle (po_store st)" if "confirm_or_cancel env input available decision d k st = Inr (st', r)" for decision d k
    using that by (auto simp: confirm_or_cancel_def andThen_eq_Inr dest!: reread_state lifecycle_inserts(6))
  obtain q where tx: "decide_transaction env input available q st = Inr (st', r)"
    using assms by (auto simp: decideOutbound_def andThen_eq_Inr)
  then show ?thesis
    by (auto simp: decide_transaction_def andThen_eq_Inr split: option.splits if_splits dest: lifecycle_act confirm)
qed

section \<open>Generations\<close>

definition generation_row :: "projection_meta_row \<Rightarrow> ('a) rebuild_row_scheme \<Rightarrow> bool" where
  "generation_row meta r = (2 \<le> rb_generation r \<and> rb_generation r \<le> pm_generation meta
     \<and> (pm_state meta = Rebuilding \<longrightarrow> rb_generation r < pm_generation meta))"

text \<open>
  A rebuild is open exactly in the state \<open>Rebuilding\<close>; a generation is completed or failed at most once,
  and never both; the current generation is published only when it is the first one or was completed.
\<close>

definition generations_ok :: "tenant_store \<Rightarrow> bool" where
  "generations_ok s =
     (case projection_meta s of
        None \<Rightarrow> completed_rebuilds s = [] \<and> failed_rebuilds s = []
      | Some meta \<Rightarrow>
          1 \<le> pm_generation meta
          \<and> (pm_state meta = Rebuilding \<longleftrightarrow> pm_rebuild_id meta \<noteq> None)
          \<and> (pm_state meta = Rebuilding \<longleftrightarrow> pm_rebuild_started_at meta \<noteq> None)
          \<and> list_all (generation_row meta) (completed_rebuilds s) \<and> list_all (generation_row meta) (failed_rebuilds s)
          \<and> distinct (map rb_generation (completed_rebuilds s) @ map rb_generation (failed_rebuilds s))
          \<and> distinct (map rb_rebuild_id (completed_rebuilds s)) \<and> distinct (map rb_rebuild_id (failed_rebuilds s))
          \<and> (pm_state meta = Ready \<and> pm_generation meta \<noteq> 1
               \<longrightarrow> (\<exists>r \<in> set (completed_rebuilds s). rb_generation r = pm_generation meta
                      \<and> pm_last_completed_rebuild_id meta = Some (rb_rebuild_id r)))
          \<and> (pm_state meta = Rebuild_failed
               \<longrightarrow> (\<exists>r \<in> set (failed_rebuilds s). rb_generation r = pm_generation meta
                      \<and> pm_last_failed_rebuild_id meta = Some (rb_rebuild_id r)
                      \<and> pm_last_rebuild_failure_code meta = Some (rb_failure_code r))))"

text \<open>The lifecycle only moves forward: within a generation from rebuilding to its one outcome.\<close>

definition generations_step :: "tenant_store \<Rightarrow> tenant_store \<Rightarrow> bool" where
  "generations_step s s' =
     ((\<exists>cs. completed_rebuilds s' = completed_rebuilds s @ cs) \<and> (\<exists>fs. failed_rebuilds s' = failed_rebuilds s @ fs)
      \<and> (\<forall>meta. projection_meta s = Some meta \<longrightarrow>
           (\<exists>meta'. projection_meta s' = Some meta' \<and> pm_tenant_id meta' = pm_tenant_id meta
              \<and> pm_initialized_at meta' = pm_initialized_at meta \<and> pm_generation meta \<le> pm_generation meta'
              \<and> (pm_generation meta' = pm_generation meta \<and> pm_state meta \<noteq> Rebuilding \<longrightarrow> meta' = meta)
              \<and> (pm_generation meta' = pm_generation meta \<and> pm_state meta' = Rebuilding \<longrightarrow> meta' = meta))))"

lemma lifecycle_eq: "lifecycle s' = lifecycle s \<longleftrightarrow> projection_meta s' = projection_meta s
    \<and> completed_rebuilds s' = completed_rebuilds s \<and> failed_rebuilds s' = failed_rebuilds s"
  by (auto simp: lifecycle_def)

lemma generations_same:
  assumes "lifecycle s' = lifecycle s"
  shows "(generations_ok s \<longrightarrow> generations_ok s') \<and> generations_step s s'"
proof -
  have eq: "projection_meta s' = projection_meta s" "completed_rebuilds s' = completed_rebuilds s" "failed_rebuilds s' = failed_rebuilds s"
    using assms by (simp_all add: lifecycle_eq)
  show ?thesis unfolding generations_ok_def generations_step_def eq by simp
qed

lemma generations_step_trans: "generations_step a b \<Longrightarrow> generations_step b c \<Longrightarrow> generations_step a c"
  unfolding generations_step_def by (fastforce dest: order_antisym)

lemma lifecycle_fence: "lifecycle (po_store (fst (fenceRestoredOutboundWork as now st))) = lifecycle (po_store st)"
proof -
  have one: "lifecycle (po_store (fst (fence_authority a now acc))) = lifecycle (po_store (fst acc))" for a acc
    by (cases acc) (simp add: fence_authority_def Let_def)
  have "lifecycle (po_store (fst (fence_loop as seen now acc))) = lifecycle (po_store (fst acc))" for seen acc
    by (induction as arbitrary: seen acc) (simp_all add: one)
  then show ?thesis by (simp add: fenceRestoredOutboundWork_def)
qed

lemma lifecycle_restore:
  assumes "restoreOutboundProjectionRows tenant st = Inr st'"
  shows "lifecycle (po_store st') = lifecycle (po_store st)"
proof -
  have row: "lifecycle (po_store s') = lifecycle (po_store s)" if "restore_row row s = Inr s'" for row s s'
    using that
    by (auto simp: restore_row_def restore_message_def restore_command_def Let_def andThen_eq_Inr split: option.splits
        dest!: lifecycle_inserts(1,2))
  obtain rows st1 where loop: "forEach rows st restore_row = Inr st1" and "lifecycle (po_store st') = lifecycle (po_store st1)"
    using assms by (auto simp: restoreOutboundProjectionRows_def Let_def andThen_eq_Inr)
  moreover have "lifecycle (po_store st1) = lifecycle (po_store st)"
    by (rule forEach_invariant [OF loop]) (simp_all add: row)
  ultimately show ?thesis by simp
qed

definition generations_rel :: "tenant_store \<Rightarrow> tenant_store \<Rightarrow> bool" where
  "generations_rel s s' = (generations_ok s \<longrightarrow> generations_ok s' \<and> generations_step s s')"

lemma generations_initialize:
  assumes "initialize g a t at st = Inr (st', status)"
  shows "generations_rel (po_store st) (po_store st')"
proof (cases "projection_meta (po_store st)")
  case None
  then show ?thesis
    using assms by (auto simp: initialize_def andThen_eq_Inr generations_rel_def generations_ok_def generations_step_def set_meta_def
        dest!: status_after_state)
next
  case (Some meta)
  then have "st' = st" using assms by (auto simp: initialize_def andThen_eq_Inr)
  then show ?thesis using generations_same by (simp add: generations_rel_def)
qed

lemma generations_begin:
  assumes "begin_transaction input meta st = Inr st'" and "pm_state meta \<noteq> Rebuilding"
  shows "generations_rel (po_store st) (po_store st')"
proof -
  obtain current where current: "projection_meta (po_store st) = Some current"
    using assms(1) by (auto simp: begin_transaction_def readProjectionMeta_def andThen_eq_Inr split: option.splits)
  show ?thesis
  proof (cases "st' = st")
    case True then show ?thesis using generations_same by (simp add: generations_rel_def)
  next
    case False
    then have st': "projection_meta (po_store st') = Some (current\<lparr>pm_state := Rebuilding, pm_generation := pm_generation current + 1,
              pm_rebuild_id := Some (br_rebuild_id input), pm_rebuild_started_at := Some (br_started_at input),
              pm_last_rebuild_failure_code := None, pm_updated_at := br_started_at input\<rparr>)"
        "completed_rebuilds (po_store st') = completed_rebuilds (po_store st)" "failed_rebuilds (po_store st') = failed_rebuilds (po_store st)"
      using assms(1) current
      by (auto simp: begin_transaction_def readProjectionMeta_def andThen_eq_Inr throwIf_eq_Inr set_meta_def clearDerivedProjectionData_def split: if_splits)
    show ?thesis
      unfolding generations_rel_def generations_ok_def generations_step_def st' current
      by (auto simp: list_all_iff generation_row_def)
  qed
qed

text \<open>An open rebuild is settled: its generation joins one of the two histories.\<close>

lemma generations_settle:
  assumes "generations_ok s" and "projection_meta s = Some current" and "pm_state current = Rebuilding"
    and "projection_meta s' = Some meta'" and "pm_generation meta' = pm_generation current" and "pm_state meta' \<noteq> Rebuilding"
    and "pm_rebuild_id meta' = None" and "pm_rebuild_started_at meta' = None" and "pm_tenant_id meta' = pm_tenant_id current"
    and "pm_initialized_at meta' = pm_initialized_at current"
    and "completed_rebuilds s' = completed_rebuilds s @ cs" and "failed_rebuilds s' = failed_rebuilds s @ fs"
    and "if pm_state meta' = Ready
         then \<exists>r. cs = [r] \<and> fs = [] \<and> rb_generation r = pm_generation current \<and> pm_last_completed_rebuild_id meta' = Some (rb_rebuild_id r)
              \<and> \<not> rebuild_clash (rb_rebuild_id r) (rb_generation r) (completed_rebuilds s)
         else \<exists>r. fs = [r] \<and> cs = [] \<and> rb_generation r = pm_generation current \<and> pm_last_failed_rebuild_id meta' = Some (rb_rebuild_id r)
              \<and> pm_last_rebuild_failure_code meta' = Some (rb_failure_code r)
              \<and> \<not> rebuild_clash (rb_rebuild_id r) (rb_generation r) (failed_rebuilds s)"
  shows "generations_ok s' \<and> generations_step s s'"
proof -
  have old: "1 \<le> pm_generation current" "\<forall>r \<in> set (completed_rebuilds s). 2 \<le> rb_generation r \<and> rb_generation r < pm_generation current"
      "\<forall>r \<in> set (failed_rebuilds s). 2 \<le> rb_generation r \<and> rb_generation r < pm_generation current"
      "distinct (map rb_generation (completed_rebuilds s) @ map rb_generation (failed_rebuilds s))"
      "distinct (map rb_rebuild_id (completed_rebuilds s))" "distinct (map rb_rebuild_id (failed_rebuilds s))"
    using assms(1-3) by (auto simp: generations_ok_def list_all_iff generation_row_def)
  have "generations_step s s'"
    using assms(2-6,9-12) by (auto simp: generations_step_def)
  moreover have "generations_ok s'"
  proof (cases "pm_state meta' = Ready")
    case True
    then obtain r where r: "cs = [r]" "fs = []" "rb_generation r = pm_generation current" "pm_last_completed_rebuild_id meta' = Some (rb_rebuild_id r)"
        "\<not> rebuild_clash (rb_rebuild_id r) (rb_generation r) (completed_rebuilds s)"
      using assms(13) by auto
    show ?thesis
      unfolding generations_ok_def assms(4,11,12) r(1,2)
      using old r(3-5) True assms(5-8) by (fastforce simp: list_all_iff generation_row_def rebuild_clash_def list_ex_iff)
  next
    case False
    then obtain r where r: "fs = [r]" "cs = []" "rb_generation r = pm_generation current" "pm_last_failed_rebuild_id meta' = Some (rb_rebuild_id r)"
        "pm_last_rebuild_failure_code meta' = Some (rb_failure_code r)"
        "\<not> rebuild_clash (rb_rebuild_id r) (rb_generation r) (failed_rebuilds s)"
      using assms(13) by auto
    show ?thesis
      unfolding generations_ok_def assms(4,11,12) r(1,2)
      using old r(3-6) False assms(5-8) by (fastforce simp: list_all_iff generation_row_def rebuild_clash_def list_ex_iff)
  qed
  ultimately show ?thesis by simp
qed

lemma generations_complete:
  assumes "complete_transaction input as st = Inr st'"
  shows "generations_rel (po_store st) (po_store st')"
proof (cases "st' = st")
  case True then show ?thesis using generations_same by (simp add: generations_rel_def)
next
  case False
  obtain current where current: "projection_meta (po_store st) = Some current"
    using assms by (auto simp: complete_transaction_def readProjectionMeta_def andThen_eq_Inr split: option.splits)
  obtain st1 where st1: "restoreOutboundProjectionRows (cr_tenant_id input) st = Inr st1"
      "pm_state current = Rebuilding"
    and clash: "\<not> rebuild_clash (cr_rebuild_id input) (pm_generation current)
      (completed_rebuilds (po_store (fst (fenceRestoredOutboundWork as (cr_completed_at input) st1))))"
    and st': "projection_meta (po_store st') = Some (current\<lparr>pm_state := Ready, pm_rebuild_id := None, pm_rebuild_started_at := None,
         pm_last_completed_rebuild_id := Some (cr_rebuild_id input), pm_last_rebuild_failure_code := None,
         pm_updated_at := cr_completed_at input\<rparr>)"
      "completed_rebuilds (po_store st') = completed_rebuilds (po_store (fst (fenceRestoredOutboundWork as (cr_completed_at input) st1)))
         @ [\<lparr>rb_rebuild_id = cr_rebuild_id input, rb_generation = pm_generation current, rb_at = cr_completed_at input\<rparr>]"
      "failed_rebuilds (po_store st') = failed_rebuilds (po_store (fst (fenceRestoredOutboundWork as (cr_completed_at input) st1)))"
    using assms False current
    by (auto simp: complete_transaction_def readProjectionMeta_def Let_def andThen_eq_Inr throwIf_eq_Inr set_meta_def
        split: if_splits option.splits)
  have keep: "lifecycle (po_store (fst (fenceRestoredOutboundWork as (cr_completed_at input) st1))) = lifecycle (po_store st)"
    using lifecycle_fence lifecycle_restore [OF st1(1)] by simp
  show ?thesis
    unfolding generations_rel_def
  proof
    assume "generations_ok (po_store st)"
    from generations_settle [OF this current st1(2) st'(1)] st' clash keep
    show "generations_ok (po_store st') \<and> generations_step (po_store st) (po_store st')"
      by (simp add: lifecycle_eq)
  qed
qed

lemma generations_abort:
  assumes "abort_transaction input st = Inr st'"
  shows "generations_rel (po_store st) (po_store st')"
proof (cases "st' = st")
  case True then show ?thesis using generations_same by (simp add: generations_rel_def)
next
  case False
  obtain current where current: "projection_meta (po_store st) = Some current"
    using assms by (auto simp: abort_transaction_def readProjectionMeta_def andThen_eq_Inr split: option.splits)
  have st': "pm_state current = Rebuilding" "projection_meta (po_store st') = Some (current\<lparr>pm_state := Rebuild_failed, pm_rebuild_id := None, pm_rebuild_started_at := None,
         pm_last_failed_rebuild_id := Some (ab_rebuild_id input),
         pm_last_rebuild_failure_code := Some (ab_failure_code input), pm_updated_at := ab_failed_at input\<rparr>)"
      "completed_rebuilds (po_store st') = completed_rebuilds (po_store st)"
      "failed_rebuilds (po_store st') = failed_rebuilds (po_store st) @ [\<lparr>rb_rebuild_id = ab_rebuild_id input, rb_generation = pm_generation current,
                   rb_at = ab_failed_at input, rb_failure_code = ab_failure_code input\<rparr>]"
      "\<not> rebuild_clash (ab_rebuild_id input) (pm_generation current) (failed_rebuilds (po_store st))"
    using assms False current
    by (auto simp: abort_transaction_def readProjectionMeta_def andThen_eq_Inr throwIf_eq_Inr set_meta_def clearDerivedProjectionData_def
        split: if_splits)
  show ?thesis
    unfolding generations_rel_def
  proof
    assume "generations_ok (po_store st)"
    from generations_settle [OF this current st'(1,2)] st'
    show "generations_ok (po_store st') \<and> generations_step (po_store st) (po_store st')" by simp
  qed
qed

lemma object_step_generations: "object_step env st st' \<Longrightarrow> generations_rel (po_store st) (po_store st')"
proof (induction rule: object_step.induct)
  case (begun g start before st st' status)
  then show ?case using beginRebuild_state generations_begin generations_same unfolding generations_rel_def by metis
next
  case (completed g h now finish before st db db' st' status)
  then show ?case using completeRebuild_state generations_complete generations_same unfolding generations_rel_def by metis
next
  case (aborted g stop before st st' status)
  then show ?case using abortRebuild_state generations_abort generations_same unfolding generations_rel_def by metis
next
  case (initialized g authorization tenant at st st' status)
  then show ?case by (rule generations_initialize)
qed (auto simp: generations_rel_def dest!: lifecycle_accept lifecycle_claim lifecycle_fail lifecycle_alarm lifecycle_reconcile
      lifecycle_decide lifecycle_batch dest: generations_same)

interpretation generations: step_relation "object_step env" "\<lambda>st st'. generations_rel (po_store st) (po_store st')"
  for env
proof
  show "generations_rel (po_store st) (po_store st)" for st using generations_same by (simp add: generations_rel_def)
  show "generations_rel (po_store a) (po_store c)" if "generations_rel (po_store a) (po_store b)" "generations_rel (po_store b) (po_store c)" for a b c
    using that generations_step_trans unfolding generations_rel_def by blast
qed (rule object_step_generations)

text \<open>
  C33: generations only move forward. Along every run of the object, whatever replies, batches, alarms
  and rebuild calls are interleaved: a rebuild is open exactly while the state says so; every
  generation is completed or failed at most once, and never both; a generation above the first is
  ready only after its rebuild was completed, and failed only with its recorded failure. The tenant
  never changes, no entry of the histories disappears, the generation never decreases, and once a
  generation is ready or failed its metadata stays as it is until the next generation begins.
\<close>

theorem generations_move_forward:
  assumes "(object_step env)\<^sup>*\<^sup>* st st'" and "generations_ok (po_store st)"
  shows "generations_ok (po_store st') \<and> generations_step (po_store st) (po_store st')"
  using generations.rel_steps [OF assms(1)] assms(2) by (simp add: generations_rel_def)

theorem generations_move_forward_witness:
  "generations_ok (po_store sample_rebuilding) \<and> generations_ok (po_store sample_published)
   \<and> map rb_generation (completed_rebuilds (po_store sample_published)) = [2]"
proof -
  obtain s where run: "sample_completion = (fst sample_completion, Inr (sample_published, s))"
    using sample_published_run by blast
  have step: "(object_step sample_env)\<^sup>*\<^sup>* sample_rebuilding sample_published"
    using object_step.completed [OF run [unfolded sample_completion_def]] by (rule r_into_rtranclp)
  have ok: "generations_ok (po_store sample_rebuilding)"
    by (simp add: generations_ok_def sample_rebuilding_def sample_object_def sample_object_meta_def empty_store_def Let_def)
  have "map rb_generation (completed_rebuilds (po_store sample_published)) = [2]" by code_simp
  then show ?thesis using generations_move_forward [OF step ok] ok by simp
qed

end
