(* ===== verification/Ledger_Guarantees.thy ===== *)
theory Ledger_Guarantees
  imports Ledger_Properties
begin

text \<open>
  Two guarantees of the control database across runs: a restore lease that has lapsed never revives,
  and a removal that was recorded is found by every later lookup in its scope.
\<close>

section \<open>Actions on the leases\<close>

text \<open>
  What any worker whose clock is not behind \<open>t\<close> may do: the two statements of an acquisition, which
  others may separate, the three handlers of one statement, and whatever leaves the leases alone.
\<close>

inductive lease_action :: "(string \<Rightarrow> string) \<Rightarrow> string \<Rightarrow> control_db \<Rightarrow> control_db \<Rightarrow> bool" for tokenHash t where
  la_expire: "lease_action tokenHash t db (expire_leases tenant nowIso db)"
| la_insert: "insert_lease leaseId tenant hash epoch ledgerHead expiresAtIso nowIso db = Some (db', inserted)
    \<Longrightarrow> lease_action tokenHash t db db'"
| la_renew: "timestampFor now = Inr nowIso \<Longrightarrow> t \<le> nowIso
    \<Longrightarrow> lease_action tokenHash t db (fst (renewRestoreActivationLease tokenHash tenantId leaseId token now ttl db))"
| la_complete: "timestampFor now = Inr nowIso \<Longrightarrow> t \<le> nowIso
    \<Longrightarrow> lease_action tokenHash t db
      (fst (renewRestoreActivationLeaseForCompletion tokenHash tenantId leaseId token epoch ledgerHead now db))"
| la_release: "lease_action tokenHash t db (fst (releaseRestoreActivationLease tokenHash tenantId leaseId token now db))"
| la_elsewhere: "restore_activation_leases db' = restore_activation_leases db \<Longrightarrow> lease_action tokenHash t db db'"

definition lapsed_row :: "string \<Rightarrow> lease_row \<Rightarrow> bool" where
  "lapsed_row t l = (rl_status l \<noteq> Lease_active \<or> rl_expires_at l \<le> t)"

definition lapsed :: "string \<Rightarrow> string \<Rightarrow> control_db \<Rightarrow> bool" where
  "lapsed t leaseId db =
     (leaseId \<in> set (map rl_id (restore_activation_leases db))
      \<and> list_all (\<lambda>l. rl_id l = leaseId \<longrightarrow> lapsed_row t l) (restore_activation_leases db))"

lemma lapsed_upd_where:
  assumes "lapsed t leaseId db" and "\<And>l. rl_id (f l) = rl_id l"
    and "\<And>l. lapsed_row t l \<Longrightarrow> P l \<Longrightarrow> lapsed_row t (f l)"
  shows "lapsed t leaseId (db\<lparr>restore_activation_leases := upd_where P f (restore_activation_leases db)\<rparr>)"
  using assms by (auto simp: lapsed_def map_key_upd_where list_all_iff set_upd_where simp del: set_map)

lemma lapsed_update:
  assumes "lapsed t leaseId db" and "\<And>l. rl_id (f l) = rl_id l"
    and "\<And>l. lapsed_row t l \<Longrightarrow> P l \<Longrightarrow> lapsed_row t (f l)"
  shows "lapsed t leaseId (fst (update_lease P f db))"
  using lapsed_upd_where [OF assms] by (simp add: update_lease_def)

lemma live_not_lapsed: "t \<le> nowIso \<Longrightarrow> holds_lease tenant leaseId hash l \<Longrightarrow> nowIso < rl_expires_at l \<Longrightarrow> \<not> lapsed_row t l"
  by (auto simp: lapsed_row_def holds_lease_def)

text \<open>A handler on bad input changes nothing; otherwise it runs its statement.\<close>

lemma lapsed_withInput:
  assumes "lapsed t leaseId db" and "\<And>x. m = Inr x \<Longrightarrow> lapsed t leaseId (fst (f x))"
  shows "lapsed t leaseId (fst (withInput db m f))"
  using assms by (cases m) (simp_all add: withInput_def)

lemma lapsed_extend:
  assumes "lapsed t leaseId db" and "t \<le> nowIso"
    and "\<And>l. P l \<Longrightarrow> holds_lease tenant lid hash l \<and> nowIso < rl_expires_at l"
  shows "lapsed t leaseId (fst (update_lease P (extend_lease expiresAtIso nowIso) db))"
proof (rule lapsed_update [OF assms(1)])
  fix l assume "lapsed_row t l" and "P l"
  then show "lapsed_row t (extend_lease expiresAtIso nowIso l)"
    using live_not_lapsed [OF assms(2)] assms(3) by blast
qed (simp add: extend_lease_def)

lemma lease_action_lapsed:
  assumes "lease_action tokenHash t db db'" and "lapsed t leaseId db"
  shows "lapsed t leaseId db'"
  using assms
proof (induction rule: lease_action.induct)
  case (la_expire db tenant nowIso)
  then show ?case
    unfolding expire_leases_def by (rule lapsed_upd_where) (simp_all add: lapsed_row_def)
next
  case (la_insert lid tenant hash epoch ledgerHead expiresAtIso nowIso db db' inserted)
  then show ?case
    by (fastforce simp: lapsed_def insert_lease_def list_ex_iff list_all_iff split: if_splits)
next
  case (la_renew now nowIso db tenantId lid token ttl)
  then show ?case
    unfolding renewRestoreActivationLease_def
    by (auto intro!: lapsed_withInput lapsed_extend simp: CommunicatorIdSchema_parse_def split: if_splits)
next
  case (la_complete now nowIso db tenantId lid token epoch ledgerHead)
  then show ?case
    unfolding renewRestoreActivationLeaseForCompletion_def
    by (auto intro!: lapsed_withInput lapsed_extend simp: CommunicatorIdSchema_parse_def split: if_splits)
next
  case (la_release db tenantId lid token now)
  then show ?case
    unfolding releaseRestoreActivationLease_def
    by (auto intro!: lapsed_withInput lapsed_update simp: lapsed_row_def)
next
  case (la_elsewhere db' db)
  then show ?case by (simp add: lapsed_def)
qed

interpretation lapsed_leases: step_relation "lease_action tokenHash t" "\<lambda>db db'. lapsed t leaseId db \<longrightarrow> lapsed t leaseId db'"
  for tokenHash t leaseId
  by unfold_locales (auto intro: lease_action_lapsed)

lemma lapsed_dead:
  assumes "lapsed t leaseId db" and "t \<le> nowIso" and "l \<in> set (restore_activation_leases db)"
  shows "\<not> (holds_lease tenant leaseId hash l \<and> nowIso < rl_expires_at l)"
    and "rl_id l = leaseId \<Longrightarrow> \<not> lease_live tenant nowIso l"
  using assms by (auto simp: lapsed_def list_all_iff lapsed_row_def holds_lease_def lease_live_def)

lemma renew_lapsed:
  assumes "lapsed t leaseId db" and "timestampFor now = Inr nowIso" and "t \<le> nowIso"
  shows "fst (renewRestoreActivationLease tokenHash tenantId leaseId token now ttl db) = db
      \<and> snd (renewRestoreActivationLease tokenHash tenantId leaseId token now ttl db) \<noteq> Inr True"
    and "fst (renewRestoreActivationLeaseForCompletion tokenHash tenantId leaseId token epoch ledgerHead now db) = db
      \<and> snd (renewRestoreActivationLeaseForCompletion tokenHash tenantId leaseId token epoch ledgerHead now db) \<noteq> Inr True"
proof -
  have none: "update_lease (\<lambda>l. holds_lease tenant leaseId hash l \<and> nowIso < rl_expires_at l \<and> Q l) f db = (db, False)"
    for tenant hash Q f
    using lapsed_dead(1) [OF assms(1,3)] by (intro update_lease_none) blast
  show "fst (renewRestoreActivationLease tokenHash tenantId leaseId token now ttl db) = db
      \<and> snd (renewRestoreActivationLease tokenHash tenantId leaseId token now ttl db) \<noteq> Inr True"
    unfolding renewRestoreActivationLease_def assms(2)
    using none [where Q = "\<lambda>_. True"]
    by (auto simp: withInput_def CommunicatorIdSchema_parse_def split: sum.split)
  show "fst (renewRestoreActivationLeaseForCompletion tokenHash tenantId leaseId token epoch ledgerHead now db) = db
      \<and> snd (renewRestoreActivationLeaseForCompletion tokenHash tenantId leaseId token epoch ledgerHead now db) \<noteq> Inr True"
    unfolding renewRestoreActivationLeaseForCompletion_def assms(2)
    using none
    by (auto simp: withInput_def CommunicatorIdSchema_parse_def split: sum.split)
qed

text \<open>The acquisition handler is made of these actions.\<close>

lemma acquire_actions:
  "(lease_action tokenHash t)\<^sup>*\<^sup>* db
     (fst (acquireRestoreActivationLease tokenHash token tenantId leaseId epoch ledgerHead now ttl db))"
proof -
  have acquire: "(lease_action tokenHash t)\<^sup>*\<^sup>* db (fst (try_acquire hash token tenant lid e h nowIso expiresAtIso db))"
    for hash tenant lid e h nowIso expiresAtIso
  proof -
    have "lease_action tokenHash t db (expire_leases tenant nowIso db)" by (rule la_expire)
    then show ?thesis
      by (auto simp: try_acquire_def Let_def split: option.splits
          intro: converse_rtranclp_into_rtranclp la_insert)
  qed
  show ?thesis
    unfolding acquireRestoreActivationLease_def
    by (cases "CommunicatorIdSchema_parse tenantId"; cases "CommunicatorIdSchema_parse leaseId";
        cases "positiveEpoch epoch"; cases "requiredText ledgerHead"; cases "timestampFor now"; cases "boundedTtl ttl")
      (auto simp: withInput_def acquire split: sum.split)
qed

section \<open>Properties\<close>

text \<open>
  C10: a lapsed lease never revives. Once a lease is no longer active, or its expiry is not after \<open>t\<close>,
  then whatever workers with a clock of at least \<open>t\<close> do, in any order (acquire, renew, release, with
  other workers between the two statements of an acquisition), the lease is not live at any such
  instant, and neither of the two renewals succeeds or changes anything, with its own token too.
\<close>

theorem lapsed_lease_never_revives:
  assumes "(lease_action tokenHash t)\<^sup>*\<^sup>* db db'" and "lapsed t leaseId db"
    and "timestampFor now = Inr nowIso" and "t \<le> nowIso"
  shows "\<not> list_ex (\<lambda>l. rl_id l = leaseId \<and> lease_live tenant nowIso l) (restore_activation_leases db')
    \<and> fst (renewRestoreActivationLease tokenHash tenantId leaseId token now ttl db') = db'
    \<and> snd (renewRestoreActivationLease tokenHash tenantId leaseId token now ttl db') \<noteq> Inr True
    \<and> fst (renewRestoreActivationLeaseForCompletion tokenHash tenantId leaseId token epoch ledgerHead now db') = db'
    \<and> snd (renewRestoreActivationLeaseForCompletion tokenHash tenantId leaseId token epoch ledgerHead now db') \<noteq> Inr True"
proof -
  have dead: "lapsed t leaseId db'" using lapsed_leases.rel_steps [OF assms(1)] assms(2) by blast
  show ?thesis
    using renew_lapsed [OF dead assms(3,4)] lapsed_dead(2) [OF dead assms(4)] by (auto simp: list_ex_iff)
qed

definition sample_taken_over :: control_db where
  "sample_taken_over =
     fst (acquireRestoreActivationLease (\<lambda>t. t) ''tok_b'' ''tnt_a'' ''lease_b'' 1 ''head'' 600000 None sample_leased)"

theorem lapsed_lease_never_revives_witness:
  "lapsed ''1970-01-01T00:10:00.000Z'' ''lease_a'' sample_leased
   \<and> list_ex (\<lambda>l. rl_id l = ''lease_b'' \<and> lease_live ''tnt_a'' ''1970-01-01T00:10:00.000Z'' l)
       (restore_activation_leases sample_taken_over)
   \<and> snd (renewRestoreActivationLease (\<lambda>t. t) ''tnt_a'' ''lease_a'' ''tok_a'' 600000 None sample_taken_over) \<noteq> Inr True"
proof -
  have run: "(lease_action (\<lambda>t. t) ''1970-01-01T00:10:00.000Z'')\<^sup>*\<^sup>* sample_leased sample_taken_over"
    unfolding sample_taken_over_def by (rule acquire_actions)
  have lapsed: "lapsed ''1970-01-01T00:10:00.000Z'' ''lease_a'' sample_leased" by code_simp
  have now: "timestampFor 600000 = Inr ''1970-01-01T00:10:00.000Z''" by code_simp
  have "list_ex (\<lambda>l. rl_id l = ''lease_b'' \<and> lease_live ''tnt_a'' ''1970-01-01T00:10:00.000Z'' l)
       (restore_activation_leases sample_taken_over)" by code_simp
  with lapsed lapsed_lease_never_revives [OF run lapsed now order_refl] show ?thesis by blast
qed

section \<open>Lookups of a removed resource\<close>

definition in_scope :: "string \<Rightarrow> string \<Rightarrow> authority_row \<Rightarrow> bool" where
  "in_scope account conversation a =
     ((ra_account_id a = None \<or> ra_account_id a = Some account)
      \<and> (ra_conversation_id a = None \<or> ra_conversation_id a = Some conversation))"

lemma authority_beats_order:
  "authority_beats x y \<Longrightarrow> \<not> authority_beats y x"
  "\<not> authority_beats x y \<Longrightarrow> \<not> authority_beats y z \<Longrightarrow> \<not> authority_beats x z"
  unfolding authority_beats_def by (auto simp: not_less intro: order_trans)

lemma unbeaten_epoch: "\<not> authority_beats a b \<Longrightarrow> ra_deletion_epoch a \<le> ra_deletion_epoch b"
  by (auto simp: authority_beats_def)

lemma recorded_authority:
  assumes "recordRemoval rid input now db = (db1, Inr a)" and "control_step\<^sup>*\<^sup>* db1 db2"
  shows "\<exists>a' \<in> set (removal_authority db2). key_of a' = key_of input \<and> ra_deletion_epoch a' = ra_deletion_epoch a"
proof -
  have a: "a \<in> set (removal_authority db1)" "key_of a = key_of input"
    using recordRemoval_stored [OF assms(1)] by (auto simp: readAuthorityForInput_def dest: find_SomeD)
  obtain new where "map authority_facts (removal_authority db2) = map authority_facts (removal_authority db1) @ new"
    using ledger.rel_steps [OF assms(2)] by (auto simp: authorities_kept_def)
  then have "authority_facts a \<in> authority_facts ` set (removal_authority db2)"
    using a(1) by (metis UnI1 image_eqI set_append set_map)
  with a(2) show ?thesis by (auto simp: authority_facts_def)
qed

text \<open>
  C15: a recorded removal stays visible. Once a removal was recorded, then after any statements of any
  workers every reader in the scope of the resource's authorities finds an authority for it, of at
  least the recorded epoch; a removed message is found by the message lookup, and so is every message
  of a removed conversation.
\<close>

theorem recorded_removal_stays_visible:
  assumes "recordRemoval rid input now db = (db1, Inr a)" and "control_step\<^sup>*\<^sup>* db1 db2"
    and "list_all (\<lambda>b. ra_tenant_id b = ra_tenant_id input \<and> ra_resource_type b = ra_resource_type input
      \<and> ra_resource_id b = ra_resource_id input \<longrightarrow> in_scope account conversation b) (removal_authority db2)"
  shows "(\<exists>b. readAuthorizedResourceRemoval db2 (ra_tenant_id input) (ra_resource_type input) (ra_resource_id input)
         account conversation = Some b \<and> ra_deletion_epoch a \<le> ra_deletion_epoch b)
    \<and> (ra_resource_type input = ''message'' \<longrightarrow>
         readAuthorizedMessageRemoval db2 (ra_tenant_id input) (ra_resource_id input) account conversation \<noteq> None)
    \<and> (ra_resource_type input = ''conversation'' \<and> ra_resource_id input = conversation \<longrightarrow>
         (\<forall>m. readAuthorizedMessageRemoval db2 (ra_tenant_id input) m account conversation \<noteq> None))"
proof -
  let ?l = "\<lparr>lk_tenantId = ra_tenant_id input, lk_resourceType = ra_resource_type input,
      lk_resourceId = ra_resource_id input, lk_contentGeneration = None, lk_accountId = None, lk_conversationId = None\<rparr>"
  let ?rows = "filter (lookup_matches ?l) (removal_authority db2)"
  obtain a' where a': "a' \<in> set (removal_authority db2)" "key_of a' = key_of input" "ra_deletion_epoch a' = ra_deletion_epoch a"
    using recorded_authority [OF assms(1,2)] by blast
  then have row: "a' \<in> set ?rows" by (simp add: lookup_matches_def)
  then obtain b where b: "best_row authority_beats ?rows = Some b"
    by (metis best_row_None empty_iff list.set(1) not_Some_eq)
  have "\<not> authority_beats a' b"
    by (rule best_row_unbeaten [OF b _ _ row]) (meson authority_beats_order)+
  then have epoch: "ra_deletion_epoch a \<le> ra_deletion_epoch b"
    using unbeaten_epoch a'(3) by metis
  have "b \<in> set ?rows" using b by (rule best_row_in)
  then have "in_scope account conversation b"
    using assms(3) by (auto simp: list_all_iff lookup_matches_def)
  then have found: "readAuthorizedResourceRemoval db2 (ra_tenant_id input) (ra_resource_type input) (ra_resource_id input)
      account conversation = Some b"
    using b by (auto simp: readAuthorizedResourceRemoval_def readRemovalAuthority_def in_scope_def)
  with epoch show ?thesis
    by (auto simp: readAuthorizedMessageRemoval_def split: option.split)
qed

theorem recorded_removal_stays_visible_witness:
  "readAuthorizedMessageRemoval sample_leased ''tnt_a'' ''msg_a'' ''acc_a'' ''cnv_a'' \<noteq> None"
proof -
  obtain a where run: "recordRemoval ''removal_1'' (sample_removal ''msg_a'' ''acc_a'') 0 empty_control = (sample_removed, Inr a)"
    using sample_removed_runs by blast
  have "list_all (\<lambda>b. ra_tenant_id b = ra_tenant_id (sample_removal ''msg_a'' ''acc_a'')
      \<and> ra_resource_type b = ra_resource_type (sample_removal ''msg_a'' ''acc_a'')
      \<and> ra_resource_id b = ra_resource_id (sample_removal ''msg_a'' ''acc_a'') \<longrightarrow> in_scope ''acc_a'' ''cnv_a'' b)
    (removal_authority sample_leased)" by code_simp
  from recorded_removal_stays_visible [OF run sample_leased_steps this] show ?thesis
    by (simp add: sample_removal_def)
qed

end
