(* ===== verification/Webhook_Ledger.thy ===== *)
theory Webhook_Ledger
  imports Ledger_Properties Projection_Types
begin

text \<open>
  The delivery ledger of \<open>webhooks/delivery.ts\<close>: its rows, the subscriptions and directory tables it
  reads, and one definition per SQL statement that a delivery worker, the retry sweep, a removal or
  an owner runs on it. Statements of different workers interleave, so each is a function on the whole
  database; the handlers that compose them are in \<open>Webhook_Worker\<close>. The text columns
  \<open>payload_json\<close> and \<open>event_filter_json\<close> are held as the values they serialise.
\<close>

section \<open>Rows\<close>

datatype webhook_event_type = Wh_message_created | Wh_message_edited | Wh_message_deleted | Wh_deletion_tombstone

fun webhook_event_text :: "webhook_event_type \<Rightarrow> string" where
  "webhook_event_text Wh_message_created = ''message.created''"
| "webhook_event_text Wh_message_edited = ''message.edited''"
| "webhook_event_text Wh_message_deleted = ''message.deleted''"
| "webhook_event_text Wh_deletion_tombstone = ''deletion.tombstone''"

datatype wh_status = Wh_pending | Wh_leased | Wh_delivered | Wh_failed | Wh_uncertain | Wh_cancelled

record removal_attachment_reference =
  ar_attachment_id :: string
  ar_message_id :: string
  ar_file_name :: "string option"
  ar_mime_type :: "string option"
  ar_size_bytes :: "int option"
  ar_sha256 :: "string option"
  ar_revision :: string

record attachment_reference = removal_attachment_reference +
  ar_download_path :: string
  ar_download_grant :: "string option"
  ar_download_grant_expires_at :: "string option"

record payload_head =
  wp_delivery_id :: string
  wp_source_event_id :: string
  wp_source_message_id :: string
  wp_tenant_id :: string
  wp_identity_id :: string
  wp_account_id :: string
  wp_chat_id :: string
  wp_revision :: string
  wp_timestamp :: string
  wp_remote_message_id :: "string option"
  wp_matrix_room_id :: "string option"
  wp_matrix_event_id :: "string option"
  wp_text :: string

record content_payload = payload_head +
  wp_sender_participant_id :: "string option"
  wp_sender_label :: string
  wp_attachments :: "attachment_reference list"

record removal_payload = payload_head +
  wp_removed_at :: string
  wp_removal_reason :: removal_reason
  wp_content_generation :: string
  wp_removal_attachments :: "removal_attachment_reference list"

datatype webhook_payload =
    Created_payload content_payload | Edited_payload content_payload | Removed_payload removal_payload

record wh_delivery =
  wd_id :: string
  wd_tenant_id :: string
  wd_subscription_id :: string
  wd_source_event_id :: string
  wd_event_type :: webhook_event_type
  wd_source_message_id :: "string option"
  wd_source_identity_id :: "string option"
  wd_source_account_id :: "string option"
  wd_source_conversation_id :: "string option"
  wd_source_revision :: "string option"
  wd_destination_version :: int
  wd_status :: wh_status
  wd_first_pending_at :: string
  wd_retry_deadline :: string
  wd_attempt_count :: int
  wd_next_attempt_at :: "string option"
  wd_cancelled_at :: "string option"
  wd_cancellation_reason :: "string option"
  wd_lease_id :: "string option"
  wd_lease_expires_at :: "string option"
  wd_removal_epoch :: int
  wd_provider_request_started_at :: "string option"
  wd_last_attempt_at :: "string option"
  wd_delivered_at :: "string option"
  wd_http_status :: "int option"
  wd_error_code :: "string option"
  wd_payload_json :: "webhook_payload option"
  wd_last_response_body :: "string option"
  wd_manual_retry_at :: "string option"
  wd_uncertain_at :: "string option"
  wd_uncertainty_reason :: "string option"

record webhook_destination =
  ds_url :: string
  ds_credential_ref :: "string option"

record account_rule =
  ru_account_id :: string
  ru_enabled :: bool

record chat_rule = account_rule +
  ru_chat_id :: string

record webhook_subscription =
  ws_id :: string
  ws_tenant_id :: string
  ws_owner_installation_id :: "string option"
  ws_owner_principal_id :: string
  ws_creator_principal_id :: string
  ws_creator_membership_id :: string
  ws_creator_identity_id :: "string option"
  ws_logical_agent_id :: "string option"
  ws_destination :: webhook_destination
  ws_destination_version :: int
  ws_event_types :: "string list"
  ws_global_enabled :: bool
  ws_account_rules :: "account_rule list"
  ws_chat_rules :: "chat_rule list"
  ws_active :: bool

section \<open>Directory tables\<close>

record connection_row =
  cn_tenant_id :: string
  cn_id :: string

record connection_account_row =
  ca_connection_id :: string
  ca_account_id :: string
  ca_active :: bool

record identity_row =
  id_tenant_id :: string
  id_id :: string
  id_active :: bool

datatype member_role = Role_owner | Role_admin | Role_member

record membership_row =
  mb_tenant_id :: string
  mb_id :: string
  mb_principal_id :: string
  mb_role :: member_role
  mb_active :: bool

record principal_row =
  pr_id :: string
  pr_active :: bool
  pr_revoked_at :: "string option"

record account_grant_row =
  ag_id :: string
  ag_tenant_id :: string
  ag_membership_id :: string
  ag_identity_id :: string
  ag_account_id :: string
  ag_operation_scope :: string
  ag_all_chats :: bool
  ag_active :: bool

record account_grant_chat_row =
  gc_tenant_id :: string
  gc_grant_id :: string
  gc_chat_id :: string

record installation_row =
  oi_id :: string
  oi_tenant_id :: string
  oi_identity_id :: string
  oi_principal_id :: string
  oi_active :: bool
  oi_revoked_at :: "string option"

record attachment_grant_row =
  dg_id :: string
  dg_tenant_id :: string
  dg_grant_hash :: string
  dg_attachment_id :: string
  dg_message_id :: string
  dg_actor_identity_id :: string
  dg_identity_id :: string
  dg_account_id :: string
  dg_connection_id :: string
  dg_conversation_id :: string
  dg_revision :: string
  dg_expires_at :: string
  dg_created_at :: string
  dg_revoked_at :: "string option"

record webhook_db =
  ledger :: control_db
  webhook_deliveries :: "wh_delivery list"
  webhook_subscriptions :: "webhook_subscription list"
  connections :: "connection_row list"
  connection_accounts :: "connection_account_row list"
  identities :: "identity_row list"
  memberships :: "membership_row list"
  principals :: "principal_row list"
  account_grants :: "account_grant_row list"
  account_grant_chats :: "account_grant_chat_row list"
  oauth_client_installations :: "installation_row list"
  attachment_download_grants :: "attachment_grant_row list"

section \<open>Source events (\<open>webhooks/revisions.ts\<close>)\<close>

definition sourceMessageIdForWebhookEvent :: "projection_event \<Rightarrow> string option" where
  "sourceMessageIdForWebhookEvent event =
     (case ev_payload event of
        MessageCreated p \<Rightarrow> if mc_direction p = Inbound then Some (mc_message_id p) else None
      | MessageEdited p \<Rightarrow> Some (me_message_id p)
      | MessageDeleted p \<Rightarrow> Some (md_message_id p)
      | DeletionTombstone p \<Rightarrow> if dt_resource_type p = DMessage then Some (dt_resource_id p) else None
      | _ \<Rightarrow> None)"

definition webhookDeliveryEventTypeFor :: "projection_event \<Rightarrow> webhook_event_type option" where
  "webhookDeliveryEventTypeFor event =
     (if sourceMessageIdForWebhookEvent event = None then None
      else case ev_payload event of
        MessageCreated _ \<Rightarrow> Some Wh_message_created
      | MessageEdited _ \<Rightarrow> Some Wh_message_edited
      | MessageDeleted _ \<Rightarrow> Some Wh_message_deleted
      | DeletionTombstone _ \<Rightarrow> Some Wh_deletion_tombstone
      | _ \<Rightarrow> None)"

definition isWebhookRemovalDelivery :: "webhook_event_type \<Rightarrow> bool" where
  "isWebhookRemovalDelivery eventType = (eventType = Wh_message_deleted \<or> eventType = Wh_deletion_tombstone)"

definition isEligibleWebhookSource :: "projection_event \<Rightarrow> bool" where
  "isEligibleWebhookSource event =
     (case webhookDeliveryEventTypeFor event of
        None \<Rightarrow> False
      | Some eventType \<Rightarrow>
          if eventType = Wh_message_created
          then (case ev_payload event of
                  MessageCreated p \<Rightarrow> ev_event_source event = Live \<and> mc_direction p = Inbound
                | _ \<Rightarrow> False)
          else ev_event_source event = Live \<or> ev_event_source event = Deletion)"

section \<open>Constants, deadlines and backoff\<close>

definition DELIVERY_LEASE_MS :: int where
  "DELIVERY_LEASE_MS = 60000"

definition MAX_DELIVERY_BATCH :: nat where
  "MAX_DELIVERY_BATCH = 100"

definition MAX_RETRY_BATCH :: nat where
  "MAX_RETRY_BATCH = 100"

definition RETRY_WINDOW_MS :: int where
  "RETRY_WINDOW_MS = 24 * 60 * 60 * 1000"

definition RETRY_BACKOFF_MS :: "int list" where
  "RETRY_BACKOFF_MS = [1000, 5000, 30000, 5 * 60000, 15 * 60000, 60 * 60000, 6 * 60 * 60000]"

definition MAX_RESPONSE_BODY_BYTES :: nat where
  "MAX_RESPONSE_BODY_BYTES = 8192"

text \<open>\<open>None\<close> is the thrown error: an unreadable timestamp, or a date \<open>toISOString\<close> cannot spell.\<close>

definition retryDeadlineFor :: "string \<Rightarrow> string option" where
  "retryDeadlineFor firstPendingAt =
     (case date_parse firstPendingAt of
        None \<Rightarrow> None
      | Some parsed \<Rightarrow> to_iso_string (parsed + RETRY_WINDOW_MS))"

definition retryDelayFor :: "int \<Rightarrow> int" where
  "retryDelayFor attemptCount =
     (let index = max 0 (min (attemptCount - 1) (int (length RETRY_BACKOFF_MS) - 1))
      in RETRY_BACKOFF_MS ! nat index)"

text \<open>
  The loop of \<open>readBody\<close> over the chunks a response delivers before it ends: it stops as soon as the
  limit is reached and cuts the chunk that crosses it.
\<close>

fun readBody :: "nat list list \<Rightarrow> nat list \<Rightarrow> nat list" where
  "readBody chunks taken =
     (if length taken < MAX_RESPONSE_BODY_BYTES then
        (case chunks of
           [] \<Rightarrow> taken
         | chunk # rest \<Rightarrow>
             let remaining = MAX_RESPONSE_BODY_BYTES - length taken;
                 part = (if length chunk \<le> remaining then chunk else take remaining chunk)
             in readBody rest (taken @ part))
      else taken)"

declare readBody.simps [simp del]

section \<open>Filters\<close>

definition rule_allows :: "webhook_subscription \<Rightarrow> string \<Rightarrow> string \<Rightarrow> bool" where
  "rule_allows subscription account chat =
     (case find (\<lambda>r. ru_account_id r = account \<and> ru_chat_id r = chat) (ws_chat_rules subscription) of
        Some rule \<Rightarrow> ru_enabled rule
      | None \<Rightarrow>
          (case find (\<lambda>r. ru_account_id r = account) (ws_account_rules subscription) of
             Some rule \<Rightarrow> ru_enabled rule
           | None \<Rightarrow> ws_global_enabled subscription))"

definition subscriptionAllowsEvent :: "webhook_subscription \<Rightarrow> projection_event \<Rightarrow> bool" where
  "subscriptionAllowsEvent subscription event =
     (case webhookDeliveryEventTypeFor event of
        None \<Rightarrow> False
      | Some deliveryEventType \<Rightarrow>
          if \<not> ws_active subscription \<or> webhook_event_text deliveryEventType \<notin> set (ws_event_types subscription) then False
          else rule_allows subscription (ev_account_id event) (ev_conversation_id event))"

definition subscriptionAllowsStoredDelivery ::
  "webhook_subscription \<Rightarrow> webhook_event_type \<Rightarrow> string option \<Rightarrow> string option \<Rightarrow> bool" where
  "subscriptionAllowsStoredDelivery subscription eventType account conversation =
     (if \<not> ws_active subscription \<or> webhook_event_text eventType \<notin> set (ws_event_types subscription) then False
      else case (account, conversation) of
        (Some a, Some c) \<Rightarrow> rule_allows subscription a c
      | _ \<Rightarrow> False)"

section \<open>Directory queries\<close>

definition activeAccount :: "string \<Rightarrow> string \<Rightarrow> webhook_db \<Rightarrow> bool" where
  "activeAccount tenant account db =
     list_ex (\<lambda>ca. ca_account_id ca = account \<and> ca_active ca
       \<and> list_ex (\<lambda>c. cn_tenant_id c = tenant \<and> cn_id c = ca_connection_id ca) (connections db))
       (connection_accounts db)"

text \<open>
  The row \<open>installationAuthority\<close> returns has the selected columns \<open>identity_id\<close> and \<open>principal_id\<close>; its
  caller reads the properties \<open>identityId\<close> and \<open>principalId\<close> of it, which such a row does not have.
  A property that is not there is \<open>None\<close>.
\<close>

record installation_authority =
  ia_identityId :: "string option"
  ia_principalId :: "string option"

definition installationAuthority :: "string \<Rightarrow> string \<Rightarrow> webhook_db \<Rightarrow> installation_authority option" where
  "installationAuthority tenant installationId db =
     (case find (\<lambda>i. oi_tenant_id i = tenant \<and> oi_id i = installationId \<and> oi_active i \<and> oi_revoked_at i = None)
             (oauth_client_installations db) of
        None \<Rightarrow> None
      | Some i \<Rightarrow> Some \<lparr>ia_identityId = None, ia_principalId = None\<rparr>)"

definition identityIsActive :: "string \<Rightarrow> string \<Rightarrow> webhook_db \<Rightarrow> bool" where
  "identityIsActive tenant identity db =
     list_ex (\<lambda>i. id_tenant_id i = tenant \<and> id_id i = identity \<and> id_active i) (identities db)"

definition active_principal :: "string \<Rightarrow> webhook_db \<Rightarrow> bool" where
  "active_principal principalId db =
     list_ex (\<lambda>p. pr_id p = principalId \<and> pr_active p \<and> pr_revoked_at p = None) (principals db)"

definition creator_membership :: "webhook_subscription \<Rightarrow> membership_row \<Rightarrow> bool" where
  "creator_membership subscription m =
     (mb_tenant_id m = ws_tenant_id subscription \<and> mb_id m = ws_creator_membership_id subscription
      \<and> mb_principal_id m = ws_creator_principal_id subscription \<and> mb_active m)"

definition administratorCreatorIsActive :: "webhook_subscription \<Rightarrow> webhook_db \<Rightarrow> bool" where
  "administratorCreatorIsActive subscription db =
     list_ex (\<lambda>m. creator_membership subscription m \<and> active_principal (mb_principal_id m) db
       \<and> (mb_role m = Role_owner \<or> mb_role m = Role_admin)) (memberships db)"

definition creatorMembershipIsActive :: "webhook_subscription \<Rightarrow> webhook_db \<Rightarrow> bool" where
  "creatorMembershipIsActive subscription db =
     list_ex (\<lambda>m. creator_membership subscription m \<and> active_principal (mb_principal_id m) db) (memberships db)"

definition hasAccountOperationGrant ::
  "string \<Rightarrow> string \<Rightarrow> string \<Rightarrow> string \<Rightarrow> string \<Rightarrow> string \<Rightarrow> webhook_db \<Rightarrow> bool" where
  "hasAccountOperationGrant tenant membership identity account conversation operation db =
     list_ex (\<lambda>g. ag_tenant_id g = tenant \<and> ag_membership_id g = membership \<and> ag_identity_id g = identity
       \<and> ag_account_id g = account \<and> ag_operation_scope g = operation \<and> ag_active g
       \<and> activeAccount tenant account db
       \<and> (ag_all_chats g
          \<or> list_ex (\<lambda>gc. gc_tenant_id gc = tenant \<and> gc_grant_id gc = ag_id g \<and> gc_chat_id gc = conversation)
              (account_grant_chats db)))
       (account_grants db)"

section \<open>Reads of the ledger\<close>

definition wh_delivery_key :: "string \<Rightarrow> string \<Rightarrow> wh_delivery \<Rightarrow> bool" where
  "wh_delivery_key tenant deliveryId d = (wd_tenant_id d = tenant \<and> wd_id d = deliveryId)"

definition readWebhookDelivery :: "string \<Rightarrow> string \<Rightarrow> webhook_db \<Rightarrow> wh_delivery option" where
  "readWebhookDelivery tenant deliveryId db = find (wh_delivery_key tenant deliveryId) (webhook_deliveries db)"

definition find_subscription :: "string \<Rightarrow> string \<Rightarrow> webhook_db \<Rightarrow> webhook_subscription option" where
  "find_subscription tenant subscriptionId db =
     find (\<lambda>s. ws_tenant_id s = tenant \<and> ws_id s = subscriptionId) (webhook_subscriptions db)"

definition readActiveSubscriptions :: "string \<Rightarrow> webhook_db \<Rightarrow> webhook_subscription list" where
  "readActiveSubscriptions tenant db =
     sort_key ws_id (filter (\<lambda>s. ws_tenant_id s = tenant \<and> ws_active s) (webhook_subscriptions db))"

text \<open>\<open>ORDER BY delivered_at DESC, id DESC LIMIT 1\<close>, where SQLite orders \<open>NULL\<close> below every text.\<close>

definition delivered_later :: "wh_delivery \<Rightarrow> wh_delivery \<Rightarrow> bool" where
  "delivered_later a b =
     (case (wd_delivered_at a, wd_delivered_at b) of
        (Some s, Some t) \<Rightarrow> (t, wd_id b) < (s, wd_id a)
      | (Some _, None) \<Rightarrow> True
      | (None, Some _) \<Rightarrow> False
      | (None, None) \<Rightarrow> wd_id b < wd_id a)"

definition previouslyDeliveredDestinationVersion ::
  "string \<Rightarrow> string \<Rightarrow> string \<Rightarrow> string \<Rightarrow> string \<Rightarrow> webhook_db \<Rightarrow> int option" where
  "previouslyDeliveredDestinationVersion tenant subscriptionId sourceMessageId account conversation db =
     map_option wd_destination_version (best_row delivered_later
       (filter (\<lambda>d. wd_tenant_id d = tenant \<and> wd_subscription_id d = subscriptionId
          \<and> wd_source_message_id d = Some sourceMessageId \<and> wd_source_account_id d = Some account
          \<and> wd_source_conversation_id d = Some conversation \<and> wd_event_type d = Wh_message_created
          \<and> wd_status d = Wh_delivered) (webhook_deliveries db)))"

fun payload_attachment_ids :: "webhook_payload \<Rightarrow> string list" where
  "payload_attachment_ids (Created_payload p) = map ar_attachment_id (wp_attachments p)"
| "payload_attachment_ids (Edited_payload p) = map ar_attachment_id (wp_attachments p)"
| "payload_attachment_ids (Removed_payload p) = map ar_attachment_id (wp_removal_attachments p)"

definition attachmentIdsForPayload :: "webhook_payload option \<Rightarrow> string list" where
  "attachmentIdsForPayload payloadJson = (case payloadJson of None \<Rightarrow> [] | Some p \<Rightarrow> payload_attachment_ids p)"

definition due_order :: "wh_delivery \<Rightarrow> string \<times> string" where
  "due_order d =
     ((case wd_next_attempt_at d of
         Some t \<Rightarrow> t
       | None \<Rightarrow> (case wd_lease_expires_at d of Some t \<Rightarrow> t | None \<Rightarrow> wd_first_pending_at d)), wd_id d)"

definition delivery_due :: "string \<Rightarrow> wh_delivery \<Rightarrow> bool" where
  "delivery_due now d =
     (wd_status d = Wh_pending
        \<and> ((case wd_next_attempt_at d of None \<Rightarrow> True | Some t \<Rightarrow> t \<le> now) \<or> wd_retry_deadline d \<le> now)
      \<or> wd_status d = Wh_leased \<and> (case wd_lease_expires_at d of None \<Rightarrow> False | Some t \<Rightarrow> t \<le> now))"

definition dueDeliveryIds :: "string \<Rightarrow> webhook_db \<Rightarrow> (string \<times> string) list" where
  "dueDeliveryIds now db =
     map (\<lambda>d. (wd_tenant_id d, wd_id d))
       (take MAX_RETRY_BATCH (sort_key due_order (filter (delivery_due now) (webhook_deliveries db))))"

section \<open>Statements\<close>

text \<open>Every \<open>UPDATE webhook_deliveries\<close>; the flag is \<open>meta.changes = 1\<close>.\<close>

definition upd_deliveries ::
  "(wh_delivery \<Rightarrow> bool) \<Rightarrow> (wh_delivery \<Rightarrow> wh_delivery) \<Rightarrow> webhook_db \<Rightarrow> webhook_db" where
  "upd_deliveries P f db = db\<lparr>webhook_deliveries := upd_where P f (webhook_deliveries db)\<rparr>"

definition one_change :: "(wh_delivery \<Rightarrow> bool) \<Rightarrow> webhook_db \<Rightarrow> bool" where
  "one_change P db = (length (filter P (webhook_deliveries db)) = 1)"

definition cancel_row :: "string \<Rightarrow> string \<Rightarrow> wh_delivery \<Rightarrow> wh_delivery" where
  "cancel_row now reason d =
     d\<lparr>wd_status := Wh_cancelled, wd_cancelled_at := Some now, wd_cancellation_reason := Some reason,
       wd_lease_id := None, wd_lease_expires_at := None, wd_next_attempt_at := None, wd_payload_json := None,
       wd_manual_retry_at := None, wd_uncertain_at := None, wd_uncertainty_reason := None,
       wd_provider_request_started_at := None\<rparr>"

definition cancelWebhookDeliveriesForRemoval :: "authority_row \<Rightarrow> string \<Rightarrow> webhook_db \<Rightarrow> webhook_db" where
  "cancelWebhookDeliveriesForRemoval authority now db =
     (if ra_resource_type authority \<noteq> ''message'' \<and> ra_resource_type authority \<noteq> ''conversation'' then db
      else
        let source = (if ra_resource_type authority = ''message'' then wd_source_message_id else wd_source_conversation_id)
        in upd_deliveries
             (\<lambda>d. wd_tenant_id d = ra_tenant_id authority \<and> source d = Some (ra_resource_id authority)
                \<and> (wd_status d = Wh_pending
                   \<or> wd_status d = Wh_leased \<and> wd_provider_request_started_at d = None)
                \<and> (ra_account_id authority = None \<or> wd_source_account_id d = ra_account_id authority)
                \<and> (ra_conversation_id authority = None
                   \<or> wd_source_conversation_id d = ra_conversation_id authority))
             (cancel_row now ''source_removed'') db)"

definition new_delivery ::
  "string \<Rightarrow> string \<Rightarrow> webhook_subscription \<Rightarrow> string \<Rightarrow> webhook_event_type \<Rightarrow> string \<Rightarrow> string option \<Rightarrow> string option
     \<Rightarrow> string option \<Rightarrow> string \<Rightarrow> int \<Rightarrow> string \<Rightarrow> string \<Rightarrow> wh_delivery" where
  "new_delivery deliveryId tenant subscription sourceEventId eventType sourceMessageId identity account
       conversation revision removalEpoch now retryDeadline =
     \<lparr>wd_id = deliveryId, wd_tenant_id = tenant, wd_subscription_id = ws_id subscription,
      wd_source_event_id = sourceEventId, wd_event_type = eventType, wd_source_message_id = Some sourceMessageId,
      wd_source_identity_id = identity, wd_source_account_id = account, wd_source_conversation_id = conversation,
      wd_source_revision = Some revision, wd_destination_version = ws_destination_version subscription,
      wd_status = Wh_pending, wd_first_pending_at = now, wd_retry_deadline = retryDeadline, wd_attempt_count = 0,
      wd_next_attempt_at = Some now, wd_cancelled_at = None, wd_cancellation_reason = None, wd_lease_id = None,
      wd_lease_expires_at = None, wd_removal_epoch = removalEpoch, wd_provider_request_started_at = None,
      wd_last_attempt_at = None, wd_delivered_at = None, wd_http_status = None, wd_error_code = None,
      wd_payload_json = None, wd_last_response_body = None, wd_manual_retry_at = None, wd_uncertain_at = None,
      wd_uncertainty_reason = None\<rparr>"

text \<open>
  \<open>INSERT OR IGNORE\<close>: a row whose primary key or \<open>(subscription_id, source_event_id)\<close> is taken, or whose
  destination version fails the \<open>CHECK\<close>, is skipped.
\<close>

definition insert_delivery :: "wh_delivery \<Rightarrow> wh_delivery list \<Rightarrow> wh_delivery list" where
  "insert_delivery d ds =
     (if wd_destination_version d < 1
        \<or> list_ex (\<lambda>x. wd_id x = wd_id d
            \<or> wd_subscription_id x = wd_subscription_id d \<and> wd_source_event_id x = wd_source_event_id d) ds
      then ds else ds @ [d])"

text \<open>
  A \<open>batch\<close> of such inserts is one transaction. A row whose subscription does not exist violates the
  foreign key, which rolls the batch back: \<open>None\<close>.
\<close>

definition insert_batch :: "wh_delivery list \<Rightarrow> webhook_db \<Rightarrow> webhook_db option" where
  "insert_batch rows db =
     (if list_all (\<lambda>d. find_subscription (wd_tenant_id d) (wd_subscription_id d) db \<noteq> None) rows
      then Some (db\<lparr>webhook_deliveries := fold insert_delivery rows (webhook_deliveries db)\<rparr>)
      else None)"

text \<open>The three \<open>UPDATE\<close>s of \<open>claimDelivery\<close>.\<close>

definition lease_expired :: "string \<Rightarrow> wh_delivery \<Rightarrow> bool" where
  "lease_expired now d =
     (wd_status d = Wh_leased \<and> (case wd_lease_expires_at d of None \<Rightarrow> False | Some t \<Rightarrow> t \<le> now))"

definition doubt_expired :: "string \<Rightarrow> string \<Rightarrow> string \<Rightarrow> webhook_db \<Rightarrow> webhook_db" where
  "doubt_expired tenant deliveryId now =
     upd_deliveries (\<lambda>d. wh_delivery_key tenant deliveryId d \<and> lease_expired now d
         \<and> wd_provider_request_started_at d \<noteq> None)
       (\<lambda>d. d\<lparr>wd_status := Wh_uncertain, wd_uncertain_at := Some now,
          wd_uncertainty_reason := Some ''delivery_lease_expired_in_flight'', wd_delivered_at := None,
          wd_next_attempt_at := None, wd_error_code := Some ''delivery_uncertain'', wd_lease_id := None,
          wd_lease_expires_at := None, wd_manual_retry_at := None\<rparr>)"

definition fail_overdue :: "string \<Rightarrow> string \<Rightarrow> string \<Rightarrow> webhook_db \<Rightarrow> webhook_db" where
  "fail_overdue tenant deliveryId now =
     upd_deliveries (\<lambda>d. wh_delivery_key tenant deliveryId d \<and> wd_retry_deadline d \<le> now
         \<and> wd_manual_retry_at d = None
         \<and> (wd_status d = Wh_pending \<or> lease_expired now d \<and> wd_provider_request_started_at d = None))
       (\<lambda>d. d\<lparr>wd_status := Wh_failed, wd_error_code := Some ''retry_deadline_exceeded'',
          wd_next_attempt_at := None, wd_lease_id := None, wd_lease_expires_at := None,
          wd_manual_retry_at := None, wd_provider_request_started_at := None\<rparr>)"

definition claimable :: "string \<Rightarrow> wh_delivery \<Rightarrow> bool" where
  "claimable now d =
     (wd_status d = Wh_pending
        \<and> (case wd_next_attempt_at d of None \<Rightarrow> True | Some t \<Rightarrow> t \<le> now)
        \<and> (wd_manual_retry_at d \<noteq> None \<or> now < wd_retry_deadline d)
      \<or> lease_expired now d \<and> now < wd_retry_deadline d \<and> wd_provider_request_started_at d = None)"

definition lease_row_to :: "webhook_db \<Rightarrow> string \<Rightarrow> string \<Rightarrow> string \<Rightarrow> wh_delivery \<Rightarrow> wh_delivery" where
  "lease_row_to db leaseId leasedUntil now d =
     d\<lparr>wd_status := Wh_leased, wd_lease_id := Some leaseId, wd_lease_expires_at := Some leasedUntil,
       wd_last_attempt_at := Some now, wd_attempt_count := wd_attempt_count d + 1, wd_next_attempt_at := None,
       wd_manual_retry_at := None, wd_provider_request_started_at := None,
       wd_removal_epoch := tenant_epoch (ledger db) (wd_tenant_id d)\<rparr>"

definition lease_delivery :: "string \<Rightarrow> string \<Rightarrow> string \<Rightarrow> string \<Rightarrow> string \<Rightarrow> webhook_db \<Rightarrow> webhook_db" where
  "lease_delivery tenant deliveryId leaseId leasedUntil now db =
     upd_deliveries (\<lambda>d. wh_delivery_key tenant deliveryId d \<and> claimable now d)
       (lease_row_to db leaseId leasedUntil now) db"

definition held_by :: "string \<Rightarrow> string \<Rightarrow> string \<Rightarrow> wh_delivery \<Rightarrow> bool" where
  "held_by tenant deliveryId leaseId d =
     (wh_delivery_key tenant deliveryId d \<and> wd_status d = Wh_leased \<and> wd_lease_id d = Some leaseId)"

definition cancelDelivery :: "string \<Rightarrow> string \<Rightarrow> string \<Rightarrow> string \<Rightarrow> string \<Rightarrow> webhook_db \<Rightarrow> webhook_db" where
  "cancelDelivery tenant deliveryId leaseId reason now =
     upd_deliveries (held_by tenant deliveryId leaseId) (cancel_row now reason)"

definition epoch_holds :: "webhook_db \<Rightarrow> int \<Rightarrow> wh_delivery \<Rightarrow> bool" where
  "epoch_holds db epoch d = (wd_removal_epoch d = epoch \<and> epoch = tenant_epoch (ledger db) (wd_tenant_id d))"

definition may_finish_successful :: "string \<Rightarrow> string \<Rightarrow> string \<Rightarrow> int \<Rightarrow> webhook_db \<Rightarrow> wh_delivery \<Rightarrow> bool" where
  "may_finish_successful tenant deliveryId leaseId removalEpoch db d =
     (held_by tenant deliveryId leaseId d \<and> wd_provider_request_started_at d \<noteq> None
      \<and> epoch_holds db removalEpoch d)"

definition finishSuccessfulDelivery ::
  "string \<Rightarrow> string \<Rightarrow> string \<Rightarrow> string \<Rightarrow> int \<Rightarrow> webhook_payload option \<Rightarrow> string option \<Rightarrow> int
     \<Rightarrow> webhook_db \<Rightarrow> webhook_db" where
  "finishSuccessfulDelivery tenant deliveryId leaseId now httpStatus payloadJson responseBody removalEpoch db =
     upd_deliveries (may_finish_successful tenant deliveryId leaseId removalEpoch db)
       (\<lambda>d. d\<lparr>wd_status := Wh_delivered, wd_delivered_at := Some now, wd_http_status := Some httpStatus,
          wd_error_code := None, wd_payload_json := payloadJson, wd_last_response_body := responseBody,
          wd_lease_id := None, wd_lease_expires_at := None, wd_next_attempt_at := None,
          wd_manual_retry_at := None, wd_uncertain_at := None, wd_uncertainty_reason := None,
          wd_provider_request_started_at := None\<rparr>) db"

text \<open>
  \<open>finishFailedDelivery\<close>: the row is pending again at the backoff, capped by the deadline, or failed once
  the deadline has passed. The outer option is the date \<open>toISOString\<close> refuses.
\<close>

definition next_attempt_for :: "int \<Rightarrow> string \<Rightarrow> int \<Rightarrow> string option option" where
  "next_attempt_for now retryDeadline attemptCount =
     (case date_parse retryDeadline of
        None \<Rightarrow> Some None
      | Some deadlineMs \<Rightarrow>
          if now < deadlineMs
          then map_option Some (to_iso_string (min (now + retryDelayFor attemptCount) deadlineMs))
          else Some None)"

definition may_finish_failed :: "string \<Rightarrow> string \<Rightarrow> string \<Rightarrow> bool \<Rightarrow> int \<Rightarrow> webhook_db \<Rightarrow> wh_delivery \<Rightarrow> bool" where
  "may_finish_failed tenant deliveryId leaseId providerRequestStarted removalEpoch db d =
     (held_by tenant deliveryId leaseId d
      \<and> (\<not> providerRequestStarted \<or> wd_provider_request_started_at d \<noteq> None)
      \<and> epoch_holds db removalEpoch d)"

definition finish_failed_row ::
  "string \<Rightarrow> string \<Rightarrow> string \<Rightarrow> string option \<Rightarrow> int option \<Rightarrow> string \<Rightarrow> webhook_payload option \<Rightarrow> string option
     \<Rightarrow> bool \<Rightarrow> int \<Rightarrow> webhook_db \<Rightarrow> webhook_db" where
  "finish_failed_row tenant deliveryId leaseId nextAttemptAt httpStatus errorCode payloadJson responseBody
       providerRequestStarted removalEpoch db =
     (let retryable = nextAttemptAt \<noteq> None in
      upd_deliveries (may_finish_failed tenant deliveryId leaseId providerRequestStarted removalEpoch db)
       (\<lambda>d. d\<lparr>wd_status := (if retryable then Wh_pending else Wh_failed), wd_next_attempt_at := nextAttemptAt,
          wd_delivered_at := None, wd_http_status := httpStatus,
          wd_error_code := Some (if retryable then errorCode else ''retry_deadline_exceeded''),
          wd_payload_json := payloadJson, wd_last_response_body := responseBody, wd_lease_id := None,
          wd_lease_expires_at := None, wd_manual_retry_at := None, wd_uncertain_at := None,
          wd_uncertainty_reason := None, wd_provider_request_started_at := None\<rparr>) db)"

definition clear_next_attempt :: "string \<Rightarrow> string \<Rightarrow> webhook_db \<Rightarrow> webhook_db" where
  "clear_next_attempt tenant deliveryId =
     upd_deliveries (\<lambda>d. wh_delivery_key tenant deliveryId d \<and> wd_status d = Wh_failed)
       (\<lambda>d. d\<lparr>wd_next_attempt_at := None\<rparr>)"

definition finishUncertainDelivery ::
  "string \<Rightarrow> string \<Rightarrow> string \<Rightarrow> string \<Rightarrow> int option \<Rightarrow> string \<Rightarrow> webhook_payload option \<Rightarrow> string option
     \<Rightarrow> webhook_db \<Rightarrow> webhook_db" where
  "finishUncertainDelivery tenant deliveryId leaseId now httpStatus reason payloadJson responseBody =
     upd_deliveries (held_by tenant deliveryId leaseId)
       (\<lambda>d. d\<lparr>wd_status := Wh_uncertain, wd_uncertain_at := Some now, wd_uncertainty_reason := Some reason,
          wd_delivered_at := None, wd_next_attempt_at := None, wd_http_status := httpStatus,
          wd_error_code := Some ''delivery_uncertain'', wd_payload_json := payloadJson,
          wd_last_response_body := responseBody, wd_lease_id := None, wd_lease_expires_at := None,
          wd_manual_retry_at := None\<rparr>)"

definition may_start_request :: "string \<Rightarrow> string \<Rightarrow> string \<Rightarrow> string \<Rightarrow> int \<Rightarrow> webhook_db \<Rightarrow> wh_delivery \<Rightarrow> bool" where
  "may_start_request tenant deliveryId leaseId now expectedRemovalEpoch db d =
     (held_by tenant deliveryId leaseId d \<and> wd_provider_request_started_at d = None
      \<and> (case wd_lease_expires_at d of None \<Rightarrow> False | Some t \<Rightarrow> now < t)
      \<and> expectedRemovalEpoch = tenant_epoch (ledger db) (wd_tenant_id d))"

definition claimProviderRequest :: "string \<Rightarrow> string \<Rightarrow> string \<Rightarrow> string \<Rightarrow> int \<Rightarrow> webhook_db \<Rightarrow> webhook_db" where
  "claimProviderRequest tenant deliveryId leaseId now expectedRemovalEpoch db =
     upd_deliveries (may_start_request tenant deliveryId leaseId now expectedRemovalEpoch db)
       (\<lambda>d. d\<lparr>wd_provider_request_started_at := Some now, wd_removal_epoch := expectedRemovalEpoch\<rparr>) db"

section \<open>Statements of the owner (\<open>control-directory/webhooks.ts\<close>)\<close>

definition retry_delivery :: "string \<Rightarrow> string \<Rightarrow> string \<Rightarrow> webhook_db \<Rightarrow> webhook_db" where
  "retry_delivery tenant deliveryId occurredAt =
     upd_deliveries (\<lambda>d. wh_delivery_key tenant deliveryId d \<and> (wd_status d = Wh_failed \<or> wd_status d = Wh_uncertain))
       (\<lambda>d. d\<lparr>wd_status := Wh_pending, wd_next_attempt_at := Some occurredAt, wd_cancelled_at := None,
          wd_cancellation_reason := None, wd_manual_retry_at := Some occurredAt, wd_uncertain_at := None,
          wd_uncertainty_reason := None, wd_error_code := Some ''manual_retry_requested''\<rparr>)"

definition cancel_backlog :: "string \<Rightarrow> string \<Rightarrow> string \<Rightarrow> (wh_delivery \<Rightarrow> bool) \<Rightarrow> string \<Rightarrow> webhook_db \<Rightarrow> webhook_db" where
  "cancel_backlog tenant subscriptionId reason P occurredAt =
     upd_deliveries (\<lambda>d. wd_tenant_id d = tenant \<and> wd_subscription_id d = subscriptionId \<and> P d \<and> wd_status d = Wh_pending)
       (\<lambda>d. d\<lparr>wd_status := Wh_cancelled, wd_cancelled_at := Some occurredAt, wd_cancellation_reason := Some reason,
          wd_next_attempt_at := None, wd_manual_retry_at := None\<rparr>)"

text \<open>
  The batches of \<open>cutoverWebhookSubscription\<close> and \<open>revokeWebhookSubscription\<close> on the two webhook
  tables; the idempotency and audit rows of the same transactions are not part of the model.
\<close>

definition cutover_destination :: "string \<Rightarrow> string \<Rightarrow> webhook_destination \<Rightarrow> string \<Rightarrow> webhook_db \<Rightarrow> webhook_db" where
  "cutover_destination tenant subscriptionId destination occurredAt db =
     (let db1 = db\<lparr>webhook_subscriptions :=
            upd_where (\<lambda>s. ws_tenant_id s = tenant \<and> ws_id s = subscriptionId \<and> ws_active s)
              (\<lambda>s. s\<lparr>ws_destination := destination, ws_destination_version := ws_destination_version s + 1\<rparr>)
              (webhook_subscriptions db)\<rparr>
      in cancel_backlog tenant subscriptionId ''destination_cutover''
           (\<lambda>d. case find_subscription tenant subscriptionId db1 of
                  None \<Rightarrow> False | Some s \<Rightarrow> wd_destination_version d < ws_destination_version s)
           occurredAt db1)"

definition revoke_subscription :: "string \<Rightarrow> string \<Rightarrow> string \<Rightarrow> webhook_db \<Rightarrow> webhook_db" where
  "revoke_subscription tenant subscriptionId occurredAt db =
     (let db1 = db\<lparr>webhook_subscriptions :=
            upd_where (\<lambda>s. ws_tenant_id s = tenant \<and> ws_id s = subscriptionId \<and> ws_active s)
              (\<lambda>s. s\<lparr>ws_active := False\<rparr>) (webhook_subscriptions db)\<rparr>
      in cancel_backlog tenant subscriptionId ''subscription_revoked'' (\<lambda>_. True) occurredAt db1)"

end
