(* ===== verification/Webhook_Worker.thy ===== *)
theory Webhook_Worker
  imports Webhook_Ledger Canonical_Json
begin

text \<open>
  The asynchronous handlers of \<open>webhooks/delivery.ts\<close>. A worker is a tree of interactions: each \<open>await\<close>
  is a node, either one SQL statement, which runs atomically on the shared database and may fail, or a
  question to the outside (clock, randomness, credential store, projection object, HTTP). Between two
  nodes of one worker any number of statements of other workers may run. A handler is a task: a
  function of what to do with its result and what to do when it throws, so \<open>try\<close>/\<open>catch\<close> is the choice
  of the second continuation.
\<close>

section \<open>Workers and tasks\<close>

record webhook_message_attachment =
  wa_attachment_id :: string
  wa_message_id :: string
  wa_identity_id :: string
  wa_account_id :: string
  wa_connection_id :: string
  wa_conversation_id :: string
  wa_file_name :: "string option"
  wa_mime_type :: "string option"
  wa_size_bytes :: "int option"
  wa_sha256 :: "string option"
  wa_revision :: string

record webhook_message =
  wm_message_id :: string
  wm_tenant_id :: string
  wm_identity_id :: string
  wm_account_id :: string
  wm_conversation_id :: string
  wm_direction :: message_direction
  wm_sender_participant_id :: "string option"
  wm_sender_label :: string
  wm_body :: string
  wm_occurred_at :: string
  wm_revision :: string
  wm_remote_message_id :: "string option"
  wm_matrix_room_id :: "string option"
  wm_matrix_event_id :: "string option"
  wm_deleted_at :: "string option"
  wm_attachments :: "webhook_message_attachment list"

record message_request =
  mq_tenant_id :: string
  mq_identity_id :: string
  mq_account_id :: string
  mq_conversation_id :: string
  mq_message_id :: string
  mq_principal_id :: string

record credential_request =
  cq_tenantId :: string
  cq_subscriptionId :: string
  cq_ownerPrincipalId :: string
  cq_ownerInstallationId :: "string option"
  cq_credentialRef :: string

record webhook_request =
  rq_url :: string
  rq_idempotency_key :: string
  rq_authorization :: "string option"
  rq_body :: webhook_payload

record webhook_response =
  rs_http_status :: int
  rs_chunks :: "nat list list option"

datatype worker =
    Finished
  | Rejected
  | Statement "webhook_db \<Rightarrow> webhook_db" "webhook_db \<Rightarrow> worker" worker
  | Clock "int \<Rightarrow> worker"
  | Random "string \<Rightarrow> worker"
  | Credential credential_request "string option option \<Rightarrow> worker"
  | Project message_request "webhook_message option option \<Rightarrow> worker"
  | Fetch webhook_request "webhook_response option \<Rightarrow> worker"

type_synonym 'a task = "('a \<Rightarrow> worker) \<Rightarrow> worker \<Rightarrow> worker"

definition return_task :: "'a \<Rightarrow> 'a task" where
  "return_task x k exn = k x"

definition throw_task :: "'a task" where
  "throw_task k exn = exn"

definition await :: "'a task \<Rightarrow> ('a \<Rightarrow> 'b task) \<Rightarrow> 'b task" where
  "await m f k exn = m (\<lambda>x. f x k exn) exn"

definition catch_task :: "'a task \<Rightarrow> 'a task \<Rightarrow> 'a task" where
  "catch_task m h k exn = m k (h k exn)"

text \<open>A statement that changes nothing and returns a value, and one that returns what it changed.\<close>

definition query :: "(webhook_db \<Rightarrow> 'a) \<Rightarrow> 'a task" where
  "query q k exn = Statement (\<lambda>db. db) (\<lambda>db. k (q db)) exn"

definition execute :: "(webhook_db \<Rightarrow> webhook_db) \<Rightarrow> (webhook_db \<Rightarrow> 'a) \<Rightarrow> 'a task" where
  "execute update result k exn = Statement update (\<lambda>db. k (result db)) exn"

definition the_or_throw :: "'a option \<Rightarrow> 'a task" where
  "the_or_throw v = (case v of None \<Rightarrow> throw_task | Some x \<Rightarrow> return_task x)"

definition nowFor :: "int task" where
  "nowFor k exn = Clock k"

definition random_text :: "string task" where
  "random_text k exn = Random k"

definition get_webhook_message :: "message_request \<Rightarrow> webhook_message option task" where
  "get_webhook_message request k exn = Project request (\<lambda>answer. case answer of None \<Rightarrow> exn | Some m \<Rightarrow> k m)"

definition resolve_credential :: "credential_request \<Rightarrow> string option task" where
  "resolve_credential request k exn = Credential request (\<lambda>answer. case answer of None \<Rightarrow> exn | Some c \<Rightarrow> k c)"

definition fetchWithTimeout :: "webhook_request \<Rightarrow> webhook_response task" where
  "fetchWithTimeout request k exn = Fetch request (\<lambda>answer. case answer of None \<Rightarrow> exn | Some r \<Rightarrow> k r)"

text \<open>A loop over a list whose body may end the handler: \<open>None\<close> goes on, \<open>Some\<close> leaves the loop.\<close>

fun for_each :: "'a list \<Rightarrow> ('a \<Rightarrow> unit task) \<Rightarrow> unit task" where
  "for_each [] body = return_task ()"
| "for_each (x # xs) body = await (body x) (\<lambda>_. for_each xs body)"

section \<open>Authority\<close>

definition currentAuthority :: "webhook_subscription \<Rightarrow> string \<Rightarrow> string \<Rightarrow> bool task" where
  "currentAuthority subscription account conversation =
     (let tenant = ws_tenant_id subscription;
          check = (\<lambda>identity :: string option.
            await (query (administratorCreatorIsActive subscription)) (\<lambda>administrator.
            if administrator then return_task True
            else case identity of
              None \<Rightarrow> return_task False
            | Some i \<Rightarrow>
                await (query (creatorMembershipIsActive subscription)) (\<lambda>member.
                if \<not> member then return_task False
                else await (query (identityIsActive tenant i)) (\<lambda>active.
                  if \<not> active then return_task False
                  else query (hasAccountOperationGrant tenant (ws_creator_membership_id subscription) i
                    account conversation ''webhook.manage'')))))
      in await (query (activeAccount tenant account)) (\<lambda>active.
         if \<not> active then return_task False
         else case ws_owner_installation_id subscription of
           None \<Rightarrow> check (case ws_logical_agent_id subscription of
                            None \<Rightarrow> ws_creator_identity_id subscription | Some i \<Rightarrow> Some i)
         | Some installationId \<Rightarrow>
             await (query (installationAuthority tenant installationId)) (\<lambda>installation.
             case installation of
               None \<Rightarrow> return_task False
             | Some i \<Rightarrow>
                 if ia_principalId i \<noteq> Some (ws_owner_principal_id subscription) then return_task False
                 else check (ia_identityId i))))"

definition currentSubscription :: "string \<Rightarrow> string \<Rightarrow> webhook_subscription option task" where
  "currentSubscription tenant subscriptionId =
     await (query (find_subscription tenant subscriptionId)) (\<lambda>row.
     if row = None then return_task None
     else catch_task (query (find_subscription tenant subscriptionId)) (return_task None))"

text \<open>An insert that a constraint may refuse, which throws and changes nothing.\<close>

definition insert_or_throw :: "(webhook_db \<Rightarrow> webhook_db option) \<Rightarrow> unit task" where
  "insert_or_throw update k exn =
     Statement (\<lambda>db. case update db of None \<Rightarrow> db | Some db' \<Rightarrow> db')
       (\<lambda>db. case update db of None \<Rightarrow> exn | Some _ \<Rightarrow> k ()) exn"

fun first_some :: "'a list \<Rightarrow> ('a \<Rightarrow> 'b option task) \<Rightarrow> 'b option task" where
  "first_some [] body = return_task None"
| "first_some (x # xs) body =
     await (body x) (\<lambda>found. case found of Some y \<Rightarrow> return_task (Some y) | None \<Rightarrow> first_some xs body)"

fun map_task :: "('a \<Rightarrow> 'b task) \<Rightarrow> 'a list \<Rightarrow> 'b list task" where
  "map_task f [] = return_task []"
| "map_task f (x # xs) = await (f x) (\<lambda>y. await (map_task f xs) (\<lambda>ys. return_task (y # ys)))"

text \<open>
  The platform functions: the SHA-256 digest in hexadecimal, the UTF-8 decoder of response bodies and
  the schema library's verdict on an outgoing payload.
\<close>

record webhook_env =
  we_sha256Hex :: "string \<Rightarrow> string"
  we_textDecode :: "nat list \<Rightarrow> string"
  we_payload_accepted :: "webhook_payload \<Rightarrow> bool"

section \<open>Payloads\<close>

definition ATTACHMENT_DOWNLOAD_GRANT_TTL_MS :: int where
  "ATTACHMENT_DOWNLOAD_GRANT_TTL_MS = 5 * 60 * 1000"

definition insert_attachment_grant :: "attachment_grant_row \<Rightarrow> webhook_db \<Rightarrow> webhook_db option" where
  "insert_attachment_grant row db =
     (if list_ex (\<lambda>g. dg_id g = dg_id row \<or> dg_grant_hash g = dg_grant_hash row) (attachment_download_grants db)
      then None
      else Some (db\<lparr>attachment_download_grants := attachment_download_grants db @ [row]\<rparr>))"

definition issueAttachmentGrant ::
  "webhook_env \<Rightarrow> string \<Rightarrow> string \<Rightarrow> webhook_message_attachment \<Rightarrow> int \<Rightarrow> (string \<times> string) task" where
  "issueAttachmentGrant env tenant actorIdentityId attachment now =
     await random_text (\<lambda>bytes.
     let token = ''adg_'' @ bytes in
     await (the_or_throw (to_iso_string (now + ATTACHMENT_DOWNLOAD_GRANT_TTL_MS))) (\<lambda>expiresAt.
     await random_text (\<lambda>grantId.
     await (the_or_throw (to_iso_string now)) (\<lambda>createdAt.
     await (insert_or_throw (insert_attachment_grant
       \<lparr>dg_id = ''attachment_grant_'' @ grantId, dg_tenant_id = tenant, dg_grant_hash = we_sha256Hex env token,
        dg_attachment_id = wa_attachment_id attachment, dg_message_id = wa_message_id attachment,
        dg_actor_identity_id = actorIdentityId, dg_identity_id = wa_identity_id attachment,
        dg_account_id = wa_account_id attachment, dg_connection_id = wa_connection_id attachment,
        dg_conversation_id = wa_conversation_id attachment, dg_revision = wa_revision attachment,
        dg_expires_at = expiresAt, dg_created_at = createdAt, dg_revoked_at = None\<rparr>)) (\<lambda>_.
     return_task (token, expiresAt))))))"

definition attachment_metadata :: "webhook_message_attachment \<Rightarrow> removal_attachment_reference" where
  "attachment_metadata a =
     \<lparr>ar_attachment_id = wa_attachment_id a, ar_message_id = wa_message_id a, ar_file_name = wa_file_name a,
      ar_mime_type = wa_mime_type a, ar_size_bytes = wa_size_bytes a, ar_sha256 = wa_sha256 a,
      ar_revision = wa_revision a\<rparr>"

definition granted_reference :: "webhook_message_attachment \<Rightarrow> string \<times> string \<Rightarrow> attachment_reference" where
  "granted_reference a grant =
     removal_attachment_reference.extend (attachment_metadata a)
       \<lparr>ar_download_path = ''/api/v1/attachments/'' @ wa_attachment_id a @ ''/download'',
        ar_download_grant = Some (fst grant), ar_download_grant_expires_at = Some (snd grant)\<rparr>"

definition checked_payload :: "webhook_env \<Rightarrow> webhook_payload \<Rightarrow> webhook_payload task" where
  "checked_payload env payload = (if we_payload_accepted env payload then return_task payload else throw_task)"

definition payloadFor ::
  "webhook_env \<Rightarrow> webhook_subscription \<Rightarrow> string \<Rightarrow> string \<Rightarrow> webhook_message \<Rightarrow> int \<Rightarrow> bool \<Rightarrow> string option
     \<Rightarrow> webhook_payload task" where
  "payloadFor env subscription deliveryId sourceEventId message now edited revisionOverride =
     (if wm_deleted_at message \<noteq> None \<or> wm_direction message \<noteq> Inbound then throw_task
      else
        let actorIdentityId = (case ws_creator_identity_id subscription of None \<Rightarrow> wm_identity_id message | Some i \<Rightarrow> i)
        in await (map_task (\<lambda>attachment.
             await (issueAttachmentGrant env (wm_tenant_id message) actorIdentityId attachment now)
               (\<lambda>grant. return_task (granted_reference attachment grant))) (wm_attachments message))
           (\<lambda>attachments.
             checked_payload env ((if edited then Edited_payload else Created_payload)
               \<lparr>wp_delivery_id = deliveryId, wp_source_event_id = sourceEventId,
                wp_source_message_id = wm_message_id message, wp_tenant_id = wm_tenant_id message,
                wp_identity_id = wm_identity_id message, wp_account_id = wm_account_id message,
                wp_chat_id = wm_conversation_id message,
                wp_revision = (case revisionOverride of None \<Rightarrow> wm_revision message | Some r \<Rightarrow> r),
                wp_timestamp = wm_occurred_at message, wp_remote_message_id = wm_remote_message_id message,
                wp_matrix_room_id = wm_matrix_room_id message, wp_matrix_event_id = wm_matrix_event_id message,
                wp_text = wm_body message, wp_sender_participant_id = wm_sender_participant_id message,
                wp_sender_label = wm_sender_label message, wp_attachments = attachments\<rparr>)))"

definition message_request_for :: "wh_delivery \<Rightarrow> webhook_subscription \<Rightarrow> message_request option" where
  "message_request_for delivery subscription =
     (case (wd_source_message_id delivery, wd_source_identity_id delivery, wd_source_account_id delivery,
            wd_source_conversation_id delivery) of
        (Some m, Some i, Some a, Some c) \<Rightarrow>
          Some \<lparr>mq_tenant_id = wd_tenant_id delivery, mq_identity_id = i, mq_account_id = a,
                mq_conversation_id = c, mq_message_id = m, mq_principal_id = ws_owner_principal_id subscription\<rparr>
      | _ \<Rightarrow> None)"

definition currentMessageFor :: "wh_delivery \<Rightarrow> webhook_subscription \<Rightarrow> webhook_message option task" where
  "currentMessageFor delivery subscription =
     (case message_request_for delivery subscription of
        None \<Rightarrow> return_task None
      | Some request \<Rightarrow>
          if isWebhookRemovalDelivery (wd_event_type delivery) then return_task None
          else await (get_webhook_message request) (\<lambda>answer.
            case answer of
              None \<Rightarrow> return_task None
            | Some message \<Rightarrow>
                if wm_deleted_at message \<noteq> None \<or> wm_direction message \<noteq> Inbound then return_task None
                else return_task (Some message)))"

definition attachmentIdsForMessage :: "webhook_message option \<Rightarrow> string list" where
  "attachmentIdsForMessage message =
     (case message of None \<Rightarrow> [] | Some m \<Rightarrow> map wa_attachment_id (wm_attachments m))"

section \<open>Removal of the source\<close>

definition attachment_removals :: "string \<Rightarrow> string \<Rightarrow> string \<Rightarrow> webhook_db \<Rightarrow> authority_row list" where
  "attachment_removals tenant account conversation db =
     rev (sort_key (\<lambda>a. (ra_removed_at a, ra_id a))
       (filter (\<lambda>a. ra_tenant_id a = tenant \<and> ra_resource_type a = ''attachment''
          \<and> (ra_account_id a = None \<or> ra_account_id a = Some account)
          \<and> (ra_conversation_id a = None \<or> ra_conversation_id a = Some conversation))
         (removal_authority (ledger db))))"

definition last_delivered_payload :: "string \<Rightarrow> string \<Rightarrow> string \<Rightarrow> bool \<Rightarrow> webhook_db \<Rightarrow> webhook_payload option" where
  "last_delivered_payload tenant subscriptionId messageId createdOnly db =
     (case best_row delivered_later
        (filter (\<lambda>d. wd_tenant_id d = tenant \<and> wd_subscription_id d = subscriptionId
           \<and> wd_source_message_id d = Some messageId \<and> (createdOnly \<longrightarrow> wd_event_type d = Wh_message_created)
           \<and> wd_status d = Wh_delivered \<and> wd_payload_json d \<noteq> None) (webhook_deliveries db)) of
        None \<Rightarrow> None
      | Some d \<Rightarrow> wd_payload_json d)"

definition removalForDelivery :: "wh_delivery \<Rightarrow> string list \<Rightarrow> authority_row option task" where
  "removalForDelivery delivery currentAttachmentIds =
     (case (wd_source_message_id delivery, wd_source_account_id delivery, wd_source_conversation_id delivery) of
        (Some message, Some account, Some conversation) \<Rightarrow>
          let tenant = wd_tenant_id delivery;
              attachmentIds = unique_values (currentAttachmentIds @ attachmentIdsForPayload (wd_payload_json delivery))
          in
          await (query (\<lambda>db. readAuthorizedResourceRemoval (ledger db) tenant ''message'' message account conversation))
            (\<lambda>messageRemoval. if messageRemoval \<noteq> None then return_task messageRemoval else
          await (query (\<lambda>db. readAuthorizedResourceRemoval (ledger db) tenant ''conversation'' conversation account conversation))
            (\<lambda>conversationRemoval. if conversationRemoval \<noteq> None then return_task conversationRemoval else
          await (first_some attachmentIds (\<lambda>attachmentId.
              query (\<lambda>db. readAuthorizedResourceRemoval (ledger db) tenant ''attachment'' attachmentId account conversation)))
            (\<lambda>attachmentRemoval. if attachmentRemoval \<noteq> None then return_task attachmentRemoval else
          await (query (attachment_removals tenant account conversation)) (\<lambda>attachmentRows.
          if attachmentRows = [] then return_task None else
          await (query (last_delivered_payload tenant (wd_subscription_id delivery) message False)) (\<lambda>delivered.
          return_task (case delivered of
             None \<Rightarrow> None
           | Some p \<Rightarrow> find (\<lambda>a. ra_resource_id a \<in> set (payload_attachment_ids p)) attachmentRows))))))
      | _ \<Rightarrow> return_task None)"

definition removalAttachmentsForDelivery ::
  "wh_delivery \<Rightarrow> webhook_message option \<Rightarrow> removal_attachment_reference list task" where
  "removalAttachmentsForDelivery delivery message =
     (let fromMessage = (case message of None \<Rightarrow> [] | Some m \<Rightarrow> wm_attachments m) in
      if fromMessage \<noteq> [] then return_task (map attachment_metadata fromMessage)
      else case wd_source_message_id delivery of
        None \<Rightarrow> return_task []
      | Some messageId \<Rightarrow>
          await (query (last_delivered_payload (wd_tenant_id delivery) (wd_subscription_id delivery) messageId True))
            (\<lambda>payload. return_task (case payload of
               None \<Rightarrow> []
             | Some (Created_payload p) \<Rightarrow> map removal_attachment_reference.truncate (wp_attachments p)
             | Some (Edited_payload p) \<Rightarrow> map removal_attachment_reference.truncate (wp_attachments p)
             | Some (Removed_payload p) \<Rightarrow> wp_removal_attachments p)))"

definition removalPayloadFor ::
  "webhook_env \<Rightarrow> wh_delivery \<Rightarrow> webhook_subscription \<Rightarrow> authority_row \<Rightarrow> webhook_payload task" where
  "removalPayloadFor env delivery subscription authority =
     (case message_request_for delivery subscription of
        None \<Rightarrow> throw_task
      | Some request \<Rightarrow>
          await (catch_task (get_webhook_message request) (return_task None)) (\<lambda>message.
          await (removalAttachmentsForDelivery delivery message) (\<lambda>attachments.
          checked_payload env (Removed_payload
            \<lparr>wp_delivery_id = wd_id delivery, wp_source_event_id = wd_source_event_id delivery,
             wp_source_message_id = mq_message_id request, wp_tenant_id = wd_tenant_id delivery,
             wp_identity_id = mq_identity_id request, wp_account_id = mq_account_id request,
             wp_chat_id = mq_conversation_id request,
             wp_revision = (case wd_source_revision delivery of
                 Some r \<Rightarrow> r
               | None \<Rightarrow> (case ra_source_event_id authority of
                   Some e \<Rightarrow> e | None \<Rightarrow> ra_content_generation authority)),
             wp_timestamp = ra_removed_at authority,
             wp_remote_message_id = (case message of None \<Rightarrow> None | Some m \<Rightarrow> wm_remote_message_id m),
             wp_matrix_room_id = (case message of None \<Rightarrow> None | Some m \<Rightarrow> wm_matrix_room_id m),
             wp_matrix_event_id = (case message of None \<Rightarrow> None | Some m \<Rightarrow> wm_matrix_event_id m),
             wp_text = '''', wp_removed_at = ra_removed_at authority, wp_removal_reason = ra_reason authority,
             wp_content_generation = ra_content_generation authority,
             wp_removal_attachments = attachments\<rparr>))))"

section \<open>Claiming and finishing\<close>

definition iso_now :: "string task" where
  "iso_now = await nowFor (\<lambda>t. the_or_throw (to_iso_string t))"

definition held_by_another :: "int \<Rightarrow> wh_delivery option \<Rightarrow> bool" where
  "held_by_another now row =
     (case row of
        None \<Rightarrow> False
      | Some d \<Rightarrow> wd_status d = Wh_leased \<and> wd_lease_id d \<noteq> None
          \<and> (case wd_lease_expires_at d of
               None \<Rightarrow> True
             | Some t \<Rightarrow> (case date_parse t of None \<Rightarrow> False | Some ms \<Rightarrow> ms > now)))"

text \<open>The result is the lease, if the claim won it, and whether another worker holds one.\<close>

definition claimDelivery :: "string \<Rightarrow> string \<Rightarrow> int \<Rightarrow> (wh_delivery option \<times> bool) task" where
  "claimDelivery tenant deliveryId now =
     await random_text (\<lambda>uuid.
     let leaseId = ''lease_'' @ uuid in
     await (the_or_throw (to_iso_string (now + DELIVERY_LEASE_MS))) (\<lambda>leasedUntil.
     await (the_or_throw (to_iso_string now)) (\<lambda>nowIso.
     await (execute (doubt_expired tenant deliveryId nowIso) (\<lambda>_. ())) (\<lambda>_.
     await (execute (fail_overdue tenant deliveryId nowIso) (\<lambda>_. ())) (\<lambda>_.
     await (execute (lease_delivery tenant deliveryId leaseId leasedUntil nowIso) (\<lambda>_. ())) (\<lambda>_.
     await (query (readWebhookDelivery tenant deliveryId)) (\<lambda>row.
     return_task (case row of
        Some d \<Rightarrow>
          if wd_status d \<noteq> Wh_leased \<or> wd_lease_id d \<noteq> Some leaseId
          then (None, held_by_another now row)
          else (Some (d\<lparr>wd_lease_id := Some leaseId, wd_lease_expires_at := Some leasedUntil\<rparr>), False)
      | None \<Rightarrow> (None, False)))))))))"

definition lease_of :: "wh_delivery \<Rightarrow> string" where
  "lease_of lease = (case wd_lease_id lease of None \<Rightarrow> '''' | Some l \<Rightarrow> l)"

definition cancel_task :: "wh_delivery \<Rightarrow> string \<Rightarrow> string \<Rightarrow> unit task" where
  "cancel_task lease reason now =
     execute (cancelDelivery (wd_tenant_id lease) (wd_id lease) (lease_of lease) reason now) (\<lambda>_. ())"

definition finish_successful_task ::
  "wh_delivery \<Rightarrow> string \<Rightarrow> int \<Rightarrow> webhook_payload option \<Rightarrow> string option \<Rightarrow> int \<Rightarrow> bool task" where
  "finish_successful_task lease now httpStatus payloadJson responseBody removalEpoch =
     execute (finishSuccessfulDelivery (wd_tenant_id lease) (wd_id lease) (lease_of lease) now httpStatus payloadJson
         responseBody removalEpoch)
       (\<lambda>db. one_change (may_finish_successful (wd_tenant_id lease) (wd_id lease) (lease_of lease) removalEpoch db) db)"

definition finishFailedDelivery ::
  "wh_delivery \<Rightarrow> int \<Rightarrow> int option \<Rightarrow> string \<Rightarrow> webhook_payload option \<Rightarrow> string option \<Rightarrow> bool \<Rightarrow> int \<Rightarrow> bool task" where
  "finishFailedDelivery lease now httpStatus errorCode payloadJson responseBody providerRequestStarted removalEpoch =
     (let tenant = wd_tenant_id lease; deliveryId = wd_id lease; leaseId = lease_of lease in
      await (the_or_throw (next_attempt_for now (wd_retry_deadline lease) (wd_attempt_count lease))) (\<lambda>nextAttemptAt.
      await (execute (finish_failed_row tenant deliveryId leaseId nextAttemptAt httpStatus errorCode payloadJson
                responseBody providerRequestStarted removalEpoch)
              (\<lambda>db. one_change (may_finish_failed tenant deliveryId leaseId providerRequestStarted removalEpoch db) db))
        (\<lambda>changed.
         if \<not> changed then return_task False
         else if nextAttemptAt = None
         then await (execute (clear_next_attempt tenant deliveryId) (\<lambda>_. ())) (\<lambda>_. return_task True)
         else return_task True)))"

definition finish_uncertain_task ::
  "wh_delivery \<Rightarrow> string \<Rightarrow> int option \<Rightarrow> string \<Rightarrow> webhook_payload option \<Rightarrow> string option \<Rightarrow> unit task" where
  "finish_uncertain_task lease now httpStatus reason payloadJson responseBody =
     execute (finishUncertainDelivery (wd_tenant_id lease) (wd_id lease) (lease_of lease) now httpStatus reason
       payloadJson responseBody) (\<lambda>_. ())"

definition claim_provider_task :: "wh_delivery \<Rightarrow> int \<Rightarrow> bool task" where
  "claim_provider_task lease expectedRemovalEpoch =
     await iso_now (\<lambda>now.
     execute (claimProviderRequest (wd_tenant_id lease) (wd_id lease) (lease_of lease) now expectedRemovalEpoch)
       (\<lambda>db. one_change (may_start_request (wd_tenant_id lease) (wd_id lease) (lease_of lease) now
          expectedRemovalEpoch db) db))"

section \<open>One delivery\<close>

text \<open>The variables that the closures of \<open>deliverOne\<close> share.\<close>

record delivery_locals =
  lc_removalEpoch :: int
  lc_providerRequestStarted :: bool
  lc_payloadJson :: "webhook_payload option"
  lc_currentMessage :: "webhook_message option"

definition authorizationMatches ::
  "wh_delivery \<Rightarrow> webhook_subscription option \<Rightarrow> string option \<Rightarrow> bool task" where
  "authorizationMatches lease subscription credentialRef =
     (case (subscription, wd_source_account_id lease, wd_source_conversation_id lease) of
        (Some s, Some account, Some conversation) \<Rightarrow>
          if ws_active s
             \<and> subscriptionAllowsStoredDelivery s (wd_event_type lease) (Some account) (Some conversation)
             \<and> ws_destination_version s = wd_destination_version lease
             \<and> ds_credential_ref (ws_destination s) = credentialRef
          then currentAuthority s account conversation
          else return_task False
      | _ \<Rightarrow> return_task False)"

definition cancelFor :: "wh_delivery \<Rightarrow> webhook_subscription option \<Rightarrow> string option \<Rightarrow> string \<Rightarrow> unit task" where
  "cancelFor lease subscription credentialRef now =
     cancel_task lease
       (case subscription of
          None \<Rightarrow> ''subscription_revoked''
        | Some s \<Rightarrow>
            if \<not> ws_active s then ''subscription_revoked''
            else if ws_destination_version s \<noteq> wd_destination_version lease
                    \<or> ds_credential_ref (ws_destination s) \<noteq> credentialRef
            then ''destination_version_mismatch'' else ''authorization_revoked'') now"

definition removalFence :: "wh_delivery \<Rightarrow> delivery_locals \<Rightarrow> (bool \<times> authority_row option \<times> delivery_locals) task" where
  "removalFence lease loc =
     await (query (\<lambda>db. readTenantDeletionEpoch (ledger db) (wd_tenant_id lease))) (\<lambda>currentEpoch.
     await (removalForDelivery lease (attachmentIdsForMessage (lc_currentMessage loc))) (\<lambda>authority.
     return_task (currentEpoch \<noteq> lc_removalEpoch loc, authority, loc\<lparr>lc_removalEpoch := currentEpoch\<rparr>)))"

definition removal_blocks :: "wh_delivery \<Rightarrow> authority_row option \<Rightarrow> bool" where
  "removal_blocks lease authority =
     (isWebhookRemovalDelivery (wd_event_type lease) \<and> authority = None
      \<or> \<not> isWebhookRemovalDelivery (wd_event_type lease) \<and> authority \<noteq> None)"

definition cancelForRemoval :: "wh_delivery \<Rightarrow> string \<Rightarrow> unit task" where
  "cancelForRemoval lease now =
     cancel_task lease
       (if isWebhookRemovalDelivery (wd_event_type lease) then ''source_removal_authority_unavailable''
        else ''source_removed'') now"

definition removalUncertaintyReason :: "wh_delivery \<Rightarrow> string" where
  "removalUncertaintyReason lease =
     (if isWebhookRemovalDelivery (wd_event_type lease) then ''removal_epoch_advanced_in_flight''
      else ''source_removed_in_flight'')"

definition removalBecameUncertain :: "wh_delivery \<Rightarrow> bool \<Rightarrow> authority_row option \<Rightarrow> bool" where
  "removalBecameUncertain lease changed authority =
     (changed \<or> \<not> isWebhookRemovalDelivery (wd_event_type lease) \<and> authority \<noteq> None)"

text \<open>
  \<open>finishUncertainAfterRemovalRace\<close>, also the first half of \<open>markNetworkFailure\<close>: \<open>None\<close> is the answer
  that the row was settled as uncertain, otherwise the variables go on with the epoch just read.
\<close>

definition finishUncertainAfterRemovalRace ::
  "wh_delivery \<Rightarrow> delivery_locals \<Rightarrow> int option \<Rightarrow> string option \<Rightarrow> delivery_locals option task" where
  "finishUncertainAfterRemovalRace lease loc httpStatus responseBody =
     await (catch_task (await (removalFence lease loc) (\<lambda>f. return_task (Some f))) (return_task None)) (\<lambda>fence.
     case fence of
       None \<Rightarrow>
         await iso_now (\<lambda>now.
         await (finish_uncertain_task lease now httpStatus ''removal_fence_unavailable_in_flight''
           (lc_payloadJson loc) responseBody) (\<lambda>_. return_task None))
     | Some (changed, authority, loc') \<Rightarrow>
         if \<not> removalBecameUncertain lease changed authority then return_task (Some loc')
         else await iso_now (\<lambda>now.
           await (finish_uncertain_task lease now httpStatus (removalUncertaintyReason lease)
             (lc_payloadJson loc) responseBody) (\<lambda>_. return_task None)))"

definition in_flight_reason :: "webhook_subscription option \<Rightarrow> string" where
  "in_flight_reason latest =
     (case latest of
        None \<Rightarrow> ''subscription_revoked_in_flight''
      | Some s \<Rightarrow> if ws_active s then ''destination_version_changed_in_flight'' else ''subscription_revoked_in_flight'')"

definition markNetworkFailure ::
  "wh_delivery \<Rightarrow> delivery_locals \<Rightarrow> string \<Rightarrow> int option \<Rightarrow> string option \<Rightarrow> unit task" where
  "markNetworkFailure lease loc errorCode httpStatus responseBody =
     await (if lc_providerRequestStarted loc
            then finishUncertainAfterRemovalRace lease loc httpStatus responseBody
            else return_task (Some loc)) (\<lambda>going.
     case going of
       None \<Rightarrow> return_task ()
     | Some loc1 \<Rightarrow>
         await (currentSubscription (wd_tenant_id lease) (wd_subscription_id lease)) (\<lambda>latest.
         await (authorizationMatches lease latest
             (case latest of None \<Rightarrow> None | Some s \<Rightarrow> ds_credential_ref (ws_destination s))) (\<lambda>matches.
         if \<not> matches
         then await iso_now (\<lambda>now.
           finish_uncertain_task lease now httpStatus (in_flight_reason latest) (lc_payloadJson loc1) responseBody)
         else await nowFor (\<lambda>now.
           await (finishFailedDelivery lease now httpStatus errorCode (lc_payloadJson loc1) responseBody
             (lc_providerRequestStarted loc1) (lc_removalEpoch loc1)) (\<lambda>finished.
           if \<not> finished \<and> lc_providerRequestStarted loc1
           then await (finishUncertainAfterRemovalRace lease loc1 httpStatus responseBody) (\<lambda>_. return_task ())
           else return_task ())))))"

text \<open>
  The body of the \<open>try\<close> in stages. \<open>caught\<close> is what the \<open>catch\<close> does with the variables as they are when a
  stage throws; \<open>k\<close> is the end of the handler.
\<close>

definition http_error_code :: "int \<Rightarrow> string" where
  "http_error_code status = ''http_'' @ show_int status"

definition response_body :: "webhook_env \<Rightarrow> webhook_response \<Rightarrow> string option" where
  "response_body env response = map_option (\<lambda>chunks. we_textDecode env (readBody chunks [])) (rs_chunks response)"

definition settle_response ::
  "wh_delivery \<Rightarrow> delivery_locals \<Rightarrow> string option \<Rightarrow> webhook_response \<Rightarrow> string option \<Rightarrow> int
     \<Rightarrow> (delivery_locals \<Rightarrow> worker) \<Rightarrow> (unit \<Rightarrow> worker) \<Rightarrow> worker" where
  "settle_response lease loc credentialRef response responseBody outcomeNow caught k =
     (let status = rs_http_status response;
          uncertain = (\<lambda>loc' reason. await (the_or_throw (to_iso_string outcomeNow)) (\<lambda>now.
            finish_uncertain_task lease now (Some status) reason (lc_payloadJson loc') responseBody) k (caught loc'));
          race = (\<lambda>loc' finished.
            if finished then k ()
            else finishUncertainAfterRemovalRace lease loc' (Some status) responseBody (\<lambda>_. k ()) (caught loc'))
      in removalFence lease loc
        (\<lambda>(changed, authority, loc1).
          if removalBecameUncertain lease changed authority then uncertain loc1 (removalUncertaintyReason lease)
          else currentSubscription (wd_tenant_id lease) (wd_subscription_id lease) (\<lambda>afterResponse.
            authorizationMatches lease afterResponse credentialRef (\<lambda>matches.
              if \<not> matches then uncertain loc1 (in_flight_reason afterResponse)
              else if 200 \<le> status \<and> status \<le> 299
              then await (the_or_throw (to_iso_string outcomeNow)) (\<lambda>now.
                finish_successful_task lease now status (lc_payloadJson loc1) responseBody (lc_removalEpoch loc1))
                (race loc1) (caught loc1)
              else finishFailedDelivery lease outcomeNow (Some status) (http_error_code status) (lc_payloadJson loc1)
                responseBody (lc_providerRequestStarted loc1) (lc_removalEpoch loc1) (race loc1) (caught loc1))
              (caught loc1)) (caught loc1))
        (uncertain loc ''removal_fence_unavailable_in_flight''))"

definition send_request ::
  "webhook_env \<Rightarrow> wh_delivery \<Rightarrow> delivery_locals \<Rightarrow> webhook_subscription \<Rightarrow> string option \<Rightarrow> string option \<Rightarrow> webhook_payload
     \<Rightarrow> (delivery_locals \<Rightarrow> worker) \<Rightarrow> (unit \<Rightarrow> worker) \<Rightarrow> worker" where
  "send_request env lease loc subscription credentialRef authorizationHeader payload caught k =
     fetchWithTimeout \<lparr>rq_url = ds_url (ws_destination subscription), rq_idempotency_key = wd_id lease,
         rq_authorization = authorizationHeader, rq_body = payload\<rparr>
       (\<lambda>response.
         nowFor (\<lambda>outcomeNow. settle_response lease loc credentialRef response (response_body env response) outcomeNow caught k)
           (caught loc))
       (caught loc)"

text \<open>\<open>claimProviderRequest\<close> and its one repetition after an advance of the epoch that removed something else.\<close>

definition start_request ::
  "wh_delivery \<Rightarrow> string \<Rightarrow> delivery_locals \<Rightarrow> (delivery_locals \<Rightarrow> worker) \<Rightarrow> (unit \<Rightarrow> worker)
     \<Rightarrow> (delivery_locals \<Rightarrow> worker) \<Rightarrow> worker" where
  "start_request lease now loc caught k send =
     claim_provider_task lease (lc_removalEpoch loc) (\<lambda>started.
       if started then send (loc\<lparr>lc_providerRequestStarted := True\<rparr>)
       else removalFence lease loc (\<lambda>(changed, authority, loc1).
         if removal_blocks lease authority then cancelForRemoval lease now k (caught loc1)
         else if changed
         then claim_provider_task lease (lc_removalEpoch loc1) (\<lambda>again.
           if again then send (loc1\<lparr>lc_providerRequestStarted := True\<rparr>) else k ()) (caught loc1)
         else k ()) (caught loc))
       (caught loc)"

definition with_subscription ::
  "wh_delivery \<Rightarrow> string \<Rightarrow> delivery_locals \<Rightarrow> string option \<Rightarrow> (delivery_locals \<Rightarrow> worker) \<Rightarrow> (unit \<Rightarrow> worker)
     \<Rightarrow> (webhook_subscription \<Rightarrow> worker) \<Rightarrow> worker" where
  "with_subscription lease now loc credentialRef caught k go =
     currentSubscription (wd_tenant_id lease) (wd_subscription_id lease) (\<lambda>subscription.
       authorizationMatches lease subscription credentialRef (\<lambda>matches.
         case subscription of
           Some s \<Rightarrow> if matches then go s else cancelFor lease subscription credentialRef now k (caught loc)
         | None \<Rightarrow> cancelFor lease None credentialRef now k (caught loc)) (caught loc)) (caught loc)"

definition with_fence ::
  "wh_delivery \<Rightarrow> string \<Rightarrow> delivery_locals \<Rightarrow> (delivery_locals \<Rightarrow> worker) \<Rightarrow> (unit \<Rightarrow> worker)
     \<Rightarrow> (bool \<Rightarrow> authority_row option \<Rightarrow> delivery_locals \<Rightarrow> worker) \<Rightarrow> worker" where
  "with_fence lease now loc caught k go =
     removalFence lease loc (\<lambda>(changed, authority, loc1).
       if removal_blocks lease authority then cancelForRemoval lease now k (caught loc1)
       else go changed authority loc1) (caught loc)"

definition send_prepared ::
  "webhook_env \<Rightarrow> wh_delivery \<Rightarrow> string \<Rightarrow> delivery_locals \<Rightarrow> string option \<Rightarrow> string option \<Rightarrow> webhook_payload
     \<Rightarrow> (delivery_locals \<Rightarrow> worker) \<Rightarrow> (unit \<Rightarrow> worker) \<Rightarrow> worker" where
  "send_prepared env lease now loc credentialRef authorizationHeader payload caught k =
     with_subscription lease now loc credentialRef caught k (\<lambda>sendSubscription.
       with_fence lease now loc caught k (\<lambda>_ _ loc1.
         start_request lease now loc1 caught k (\<lambda>loc2.
           send_request env lease loc2 sendSubscription credentialRef authorizationHeader payload caught k)))"

definition prepare_payload ::
  "webhook_env \<Rightarrow> wh_delivery \<Rightarrow> int \<Rightarrow> string \<Rightarrow> delivery_locals \<Rightarrow> string option \<Rightarrow> string option
     \<Rightarrow> (delivery_locals \<Rightarrow> worker) \<Rightarrow> (unit \<Rightarrow> worker) \<Rightarrow> worker" where
  "prepare_payload env lease now nowIso loc credentialRef authorizationHeader caught k =
     with_subscription lease nowIso loc credentialRef caught k (\<lambda>preparedSubscription.
       with_fence lease nowIso loc caught k (\<lambda>_ authority loc1.
         let go = (\<lambda>payload. send_prepared env lease nowIso (loc1\<lparr>lc_payloadJson := Some payload\<rparr>) credentialRef
                     authorizationHeader payload caught k)
         in if isWebhookRemovalDelivery (wd_event_type lease) then
              (case authority of
                 None \<Rightarrow> cancelForRemoval lease nowIso k (caught loc1)
               | Some a \<Rightarrow> removalPayloadFor env lease preparedSubscription a go (caught loc1))
            else
              (case lc_currentMessage loc1 of
                 None \<Rightarrow> cancel_task lease ''source_tombstoned_or_unavailable'' nowIso k (caught loc1)
               | Some message \<Rightarrow>
                   payloadFor env preparedSubscription (wd_id lease) (wd_source_event_id lease) message now
                     (wd_event_type lease = Wh_message_edited)
                     (if wd_event_type lease = Wh_message_edited then wd_source_revision lease else None)
                     go (caught loc1))))"

definition with_message ::
  "wh_delivery \<Rightarrow> string \<Rightarrow> delivery_locals \<Rightarrow> webhook_subscription \<Rightarrow> (delivery_locals \<Rightarrow> worker) \<Rightarrow> (unit \<Rightarrow> worker)
     \<Rightarrow> (delivery_locals \<Rightarrow> worker) \<Rightarrow> worker" where
  "with_message lease nowIso loc subscription caught k go =
     (if isWebhookRemovalDelivery (wd_event_type lease) then go loc
      else currentMessageFor lease subscription (\<lambda>message.
        if message = None
        then cancel_task lease ''source_tombstoned_or_unavailable'' nowIso k (caught (loc\<lparr>lc_currentMessage := None\<rparr>))
        else go (loc\<lparr>lc_currentMessage := message\<rparr>)) (caught loc))"

text \<open>The loop that reads the fence again after an advance: two rounds at most.\<close>

fun settle_fence ::
  "nat \<Rightarrow> wh_delivery \<Rightarrow> string \<Rightarrow> delivery_locals \<Rightarrow> string option \<Rightarrow> (delivery_locals \<Rightarrow> worker) \<Rightarrow> (unit \<Rightarrow> worker)
     \<Rightarrow> (delivery_locals \<Rightarrow> worker) \<Rightarrow> worker" where
  "settle_fence 0 lease nowIso loc credentialRef caught k go = go loc"
| "settle_fence (Suc rounds) lease nowIso loc credentialRef caught k go =
     with_fence lease nowIso loc caught k (\<lambda>changed _ loc1.
       if \<not> changed then go loc1
       else with_subscription lease nowIso loc1 credentialRef caught k (\<lambda>refreshed.
         with_message lease nowIso loc1 refreshed caught k (\<lambda>loc2.
           settle_fence rounds lease nowIso loc2 credentialRef caught k go)))"

lemma settle_fence_code [code]:
  "settle_fence n lease nowIso loc credentialRef caught k go =
     (if n = 0 then go loc
      else with_fence lease nowIso loc caught k (\<lambda>changed _ loc1.
        if \<not> changed then go loc1
        else with_subscription lease nowIso loc1 credentialRef caught k (\<lambda>refreshed.
          with_message lease nowIso loc1 refreshed caught k (\<lambda>loc2.
            settle_fence (n - 1) lease nowIso loc2 credentialRef caught k go))))"
proof (cases n)
  case (Suc rounds)
  show ?thesis unfolding Suc settle_fence.simps diff_Suc_1 by simp
qed simp

definition attempt_delivery ::
  "webhook_env \<Rightarrow> wh_delivery \<Rightarrow> int \<Rightarrow> string \<Rightarrow> delivery_locals \<Rightarrow> string option \<Rightarrow> string option
     \<Rightarrow> (delivery_locals \<Rightarrow> worker) \<Rightarrow> (unit \<Rightarrow> worker) \<Rightarrow> worker" where
  "attempt_delivery env lease now nowIso loc credentialRef authorizationHeader caught k =
     with_subscription lease nowIso loc credentialRef caught k (\<lambda>finalSubscription.
       with_message lease nowIso loc finalSubscription caught k (\<lambda>loc1.
         settle_fence 2 lease nowIso loc1 credentialRef caught k (\<lambda>loc2.
           prepare_payload env lease now nowIso loc2 credentialRef authorizationHeader caught k)))"

text \<open>
  The credential of a destination that has one; without a configured resolver the answer of the
  question is \<open>null\<close>.
\<close>

definition with_credential ::
  "wh_delivery \<Rightarrow> delivery_locals \<Rightarrow> webhook_subscription \<Rightarrow> (delivery_locals \<Rightarrow> worker) \<Rightarrow> (unit \<Rightarrow> worker)
     \<Rightarrow> (string option \<Rightarrow> worker) \<Rightarrow> worker" where
  "with_credential lease loc subscription caught k go =
     (case ds_credential_ref (ws_destination subscription) of
        None \<Rightarrow> go None
      | Some credentialRef \<Rightarrow>
          resolve_credential \<lparr>cq_tenantId = wd_tenant_id lease, cq_subscriptionId = ws_id subscription,
              cq_ownerPrincipalId = ws_owner_principal_id subscription,
              cq_ownerInstallationId = ws_owner_installation_id subscription, cq_credentialRef = credentialRef\<rparr>
            (\<lambda>credential. case credential of
               None \<Rightarrow> markNetworkFailure lease loc ''credential_unavailable'' None None k (caught loc)
             | Some c \<Rightarrow> go (Some c)) (caught loc))"

definition try_delivery ::
  "webhook_env \<Rightarrow> wh_delivery \<Rightarrow> int \<Rightarrow> string \<Rightarrow> delivery_locals \<Rightarrow> (delivery_locals \<Rightarrow> worker) \<Rightarrow> (unit \<Rightarrow> worker) \<Rightarrow> worker" where
  "try_delivery env lease now nowIso loc caught k =
     currentSubscription (wd_tenant_id lease) (wd_subscription_id lease) (\<lambda>subscription.
       let credentialRef = (case subscription of None \<Rightarrow> None | Some s \<Rightarrow> ds_credential_ref (ws_destination s)) in
       authorizationMatches lease subscription credentialRef (\<lambda>matches.
         case subscription of
           None \<Rightarrow> cancelFor lease None credentialRef nowIso k (caught loc)
         | Some s \<Rightarrow>
             if \<not> matches then cancelFor lease subscription credentialRef nowIso k (caught loc)
             else with_credential lease loc s caught k (\<lambda>authorizationHeader.
               attempt_delivery env lease now nowIso loc credentialRef authorizationHeader caught k))
         (caught loc)) (caught loc)"

text \<open>
  \<open>deliverOne\<close>. What throws before the \<open>try\<close> rejects the handler and leaves a lease to its expiry; what
  throws inside is a network failure, and a failure of that is swallowed.
\<close>

definition deliverOne :: "webhook_env \<Rightarrow> string \<Rightarrow> string \<Rightarrow> unit task" where
  "deliverOne env tenant deliveryId k exn =
     nowFor (\<lambda>now.
     claimDelivery tenant deliveryId now (\<lambda>(claimed, busy).
       if busy then exn
       else case claimed of
         None \<Rightarrow> k ()
       | Some lease \<Rightarrow>
           (case to_iso_string now of
              None \<Rightarrow> exn
            | Some nowIso \<Rightarrow>
                let loc = \<lparr>lc_removalEpoch = wd_removal_epoch lease, lc_providerRequestStarted = False,
                           lc_payloadJson = None, lc_currentMessage = None\<rparr>;
                    caught = (\<lambda>loc'. markNetworkFailure lease loc' ''delivery_unavailable'' None None k (k ()))
                in removalFence lease loc (\<lambda>(_, authority, loc1).
                     if removal_blocks lease authority then cancelForRemoval lease nowIso k exn
                     else try_delivery env lease now nowIso loc1 caught k) exn)) exn) exn"

section \<open>Fan-out, reconciliation and the retry sweep\<close>

definition stableDeliveryId :: "webhook_env \<Rightarrow> string \<Rightarrow> string \<Rightarrow> string \<Rightarrow> string" where
  "stableDeliveryId env tenant subscriptionId sourceEventId =
     ''webhook_delivery_'' @ we_sha256Hex env (tenant @ [char_of (0 :: nat)] @ subscriptionId @ [char_of (0 :: nat)] @ sourceEventId)"

definition event_candidate ::
  "webhook_env \<Rightarrow> string \<Rightarrow> projection_event \<Rightarrow> webhook_event_type \<Rightarrow> string \<Rightarrow> webhook_subscription \<Rightarrow> bool task" where
  "event_candidate env tenant event eventType sourceMessageId subscription =
     (if \<not> subscriptionAllowsEvent subscription event then return_task False
      else await (if eventType = Wh_message_created then return_task True
                  else await (query (previouslyDeliveredDestinationVersion tenant (ws_id subscription) sourceMessageId
                         (ev_account_id event) (ev_conversation_id event)))
                    (\<lambda>previous. return_task (previous = Some (ws_destination_version subscription)))) (\<lambda>eligible.
           if \<not> eligible then return_task False
           else currentAuthority subscription (ev_account_id event) (ev_conversation_id event)))"

fun event_candidates ::
  "webhook_env \<Rightarrow> string \<Rightarrow> projection_event \<Rightarrow> webhook_event_type \<Rightarrow> string \<Rightarrow> webhook_subscription list
     \<Rightarrow> (projection_event \<times> webhook_event_type \<times> string \<times> webhook_subscription \<times> string) list task" where
  "event_candidates env tenant event eventType sourceMessageId [] = return_task []"
| "event_candidates env tenant event eventType sourceMessageId (s # ss) =
     await (event_candidate env tenant event eventType sourceMessageId s) (\<lambda>chosen.
     await (event_candidates env tenant event eventType sourceMessageId ss) (\<lambda>rest.
     return_task (if chosen then (event, eventType, sourceMessageId, s,
         stableDeliveryId env tenant (ws_id s) (ev_event_id event)) # rest else rest)))"

definition candidates_of ::
  "webhook_env \<Rightarrow> string \<Rightarrow> webhook_subscription list \<Rightarrow> projection_event
     \<Rightarrow> (projection_event \<times> webhook_event_type \<times> string \<times> webhook_subscription \<times> string) list task" where
  "candidates_of env tenant subscriptions event =
     (case (webhookDeliveryEventTypeFor event, sourceMessageIdForWebhookEvent event) of
        (Some eventType, Some sourceMessageId) \<Rightarrow>
          if ev_tenant_id event \<noteq> tenant \<or> \<not> isEligibleWebhookSource event then return_task []
          else event_candidates env tenant event eventType sourceMessageId subscriptions
      | _ \<Rightarrow> return_task [])"

definition candidate_row ::
  "int \<Rightarrow> string \<Rightarrow> string \<Rightarrow> projection_event \<times> webhook_event_type \<times> string \<times> webhook_subscription \<times> string
     \<Rightarrow> wh_delivery" where
  "candidate_row removalEpoch now retryDeadline candidate =
     (case candidate of (event, eventType, sourceMessageId, subscription, deliveryId) \<Rightarrow>
        new_delivery deliveryId (ev_tenant_id event) subscription (ev_event_id event) eventType sourceMessageId
          (Some (ev_identity_id event)) (Some (ev_account_id event)) (Some (ev_conversation_id event))
          (ev_event_id event) removalEpoch now retryDeadline)"

fun insert_chunks :: "nat \<Rightarrow> wh_delivery list \<Rightarrow> unit task" where
  "insert_chunks 0 rows = return_task ()"
| "insert_chunks (Suc n) rows =
     (if rows = [] then return_task ()
      else await (insert_or_throw (insert_batch (take MAX_DELIVERY_BATCH rows)))
        (\<lambda>_. insert_chunks n (drop MAX_DELIVERY_BATCH rows)))"

lemma insert_chunks_code [code]:
  "insert_chunks n rows =
     (if n = 0 \<or> rows = [] then return_task ()
      else await (insert_or_throw (insert_batch (take MAX_DELIVERY_BATCH rows)))
        (\<lambda>_. insert_chunks (n - 1) (drop MAX_DELIVERY_BATCH rows)))"
  by (cases n) simp_all

definition insertDeliveryRows ::
  "(projection_event \<times> webhook_event_type \<times> string \<times> webhook_subscription \<times> string) list \<Rightarrow> int \<Rightarrow> string \<Rightarrow> unit task" where
  "insertDeliveryRows candidates removalEpoch now =
     await (the_or_throw (retryDeadlineFor now)) (\<lambda>retryDeadline.
     insert_chunks (length candidates) (map (candidate_row removalEpoch now retryDeadline) candidates))"

definition fanOutIncomingWebhookDeliveries ::
  "webhook_env \<Rightarrow> string \<Rightarrow> projection_event list \<Rightarrow> string list task" where
  "fanOutIncomingWebhookDeliveries env tenant events =
     await nowFor (\<lambda>now.
     await (query (readActiveSubscriptions tenant)) (\<lambda>subscriptions.
     await (map_task (candidates_of env tenant subscriptions) events) (\<lambda>chosen.
     let candidates = concat chosen in
     if candidates = [] then return_task []
     else await (query (\<lambda>db. readTenantDeletionEpoch (ledger db) tenant)) (\<lambda>removalEpoch.
       await (the_or_throw (to_iso_string now)) (\<lambda>nowIso.
       await (insertDeliveryRows candidates removalEpoch nowIso) (\<lambda>_.
       return_task (unique_values (map (\<lambda>(_, _, _, _, d). d) candidates))))))))"

definition authoritySourceEventId :: "authority_row \<Rightarrow> string \<Rightarrow> string" where
  "authoritySourceEventId authority sourceMessageId =
     (let base = (case ra_source_event_id authority of Some e \<Rightarrow> e | None \<Rightarrow> ''removal_'' @ ra_id authority)
      in if ra_resource_type authority = ''message'' then base else base @ '':message:'' @ sourceMessageId)"

definition null_first :: "string option \<Rightarrow> string list" where
  "null_first v = (case v of None \<Rightarrow> [] | Some s \<Rightarrow> [s])"

definition deliveredRowsForRemovalAuthority :: "authority_row \<Rightarrow> webhook_db \<Rightarrow> wh_delivery list" where
  "deliveredRowsForRemovalAuthority authority db =
     (let source = (\<lambda>d. if ra_resource_type authority = ''message'' then wd_source_message_id d = Some (ra_resource_id authority)
                        else if ra_resource_type authority = ''conversation''
                        then wd_source_conversation_id d = Some (ra_resource_id authority)
                        else wd_source_message_id d \<noteq> None);
          rows = sort_key (\<lambda>d. (wd_subscription_id d, null_first (wd_source_message_id d), wd_id d))
            (filter (\<lambda>d. wd_tenant_id d = ra_tenant_id authority \<and> wd_status d = Wh_delivered \<and> source d)
              (webhook_deliveries db))
      in if ra_resource_type authority \<noteq> ''attachment'' then rows
         else filter (\<lambda>d. ra_resource_id authority \<in> set (attachmentIdsForPayload (wd_payload_json d))) rows)"

definition authorityAppliesToDeliveredRow :: "authority_row \<Rightarrow> wh_delivery \<Rightarrow> bool" where
  "authorityAppliesToDeliveredRow authority row =
     (wd_source_message_id row \<noteq> None \<and> wd_source_identity_id row \<noteq> None \<and> wd_source_account_id row \<noteq> None
      \<and> wd_source_conversation_id row \<noteq> None
      \<and> (ra_account_id authority = None \<or> ra_account_id authority = wd_source_account_id row)
      \<and> (ra_conversation_id authority = None \<or> ra_conversation_id authority = wd_source_conversation_id row))"

text \<open>The candidate of one delivered row: its subscription and the source event of the removal.\<close>

definition removal_candidate ::
  "webhook_env \<Rightarrow> authority_row \<Rightarrow> webhook_subscription list \<Rightarrow> wh_delivery
     \<Rightarrow> (wh_delivery \<times> webhook_subscription \<times> string \<times> string) list task" where
  "removal_candidate env authority subscriptions row =
     (case (wd_source_message_id row, wd_source_account_id row, wd_source_conversation_id row,
            find (\<lambda>s. ws_id s = wd_subscription_id row) subscriptions) of
        (Some message, Some account, Some conversation, Some s) \<Rightarrow>
          if \<not> authorityAppliesToDeliveredRow authority row
             \<or> ws_destination_version s \<noteq> wd_destination_version row
             \<or> \<not> subscriptionAllowsStoredDelivery s Wh_message_deleted (Some account) (Some conversation)
          then return_task []
          else await (currentAuthority s account conversation) (\<lambda>authorized.
            return_task (if authorized then [(row, s, authoritySourceEventId authority message, message)] else []))
      | _ \<Rightarrow> return_task [])"

definition removal_row ::
  "webhook_env \<Rightarrow> authority_row \<Rightarrow> int \<Rightarrow> string \<Rightarrow> string \<Rightarrow> wh_delivery \<times> webhook_subscription \<times> string \<times> string
     \<Rightarrow> wh_delivery" where
  "removal_row env authority removalEpoch now retryDeadline candidate =
     (case candidate of (row, subscription, sourceEventId, sourceMessageId) \<Rightarrow>
        new_delivery (stableDeliveryId env (ra_tenant_id authority) (ws_id subscription) sourceEventId)
          (ra_tenant_id authority) subscription sourceEventId Wh_message_deleted sourceMessageId
          (wd_source_identity_id row) (wd_source_account_id row) (wd_source_conversation_id row)
          (case ra_source_event_id authority of Some e \<Rightarrow> e | None \<Rightarrow> ra_content_generation authority)
          removalEpoch now retryDeadline)"

definition insertRemovalDeliveryRows ::
  "webhook_env \<Rightarrow> authority_row \<Rightarrow> webhook_subscription list \<Rightarrow> wh_delivery list \<Rightarrow> int \<Rightarrow> string \<Rightarrow> string list task" where
  "insertRemovalDeliveryRows env authority subscriptions rows removalEpoch now =
     await (map_task (removal_candidate env authority subscriptions) rows) (\<lambda>chosen.
     let candidates = concat chosen in
     if candidates = [] then return_task []
     else await (the_or_throw (retryDeadlineFor now)) (\<lambda>retryDeadline.
       let inserted = map (removal_row env authority removalEpoch now retryDeadline) candidates in
       await (insert_or_throw (insert_batch inserted)) (\<lambda>_. return_task (map wd_id inserted))))"

definition removal_order :: "authority_row \<Rightarrow> string \<times> string" where
  "removal_order a = (ra_removed_at a, ra_id a)"

text \<open>
  \<open>reconcileWebhookRemovalDeliveries\<close> of one tenant, or of all. The subscriptions of a tenant are read
  once, before its first authority, and kept in a map.
\<close>

fun reconcile_authorities ::
  "webhook_env \<Rightarrow> int \<Rightarrow> (string \<Rightarrow> webhook_subscription list option) \<Rightarrow> authority_row list \<Rightarrow> string list task" where
  "reconcile_authorities env now cache [] = return_task []"
| "reconcile_authorities env now cache (a # as) =
     (if ra_resource_type a \<notin> {''message'', ''conversation'', ''attachment''}
      then reconcile_authorities env now cache as
      else await (case cache (ra_tenant_id a) of
                    Some ss \<Rightarrow> return_task ss
                  | None \<Rightarrow> query (readActiveSubscriptions (ra_tenant_id a))) (\<lambda>subscriptions.
        await (query (deliveredRowsForRemovalAuthority a)) (\<lambda>rows.
        await (query (\<lambda>db. readTenantDeletionEpoch (ledger db) (ra_tenant_id a))) (\<lambda>epoch.
        await (the_or_throw (to_iso_string now)) (\<lambda>nowIso.
        await (insertRemovalDeliveryRows env a subscriptions rows epoch nowIso) (\<lambda>ids.
        await (reconcile_authorities env now (cache(ra_tenant_id a \<mapsto> subscriptions)) as) (\<lambda>rest.
        return_task (ids @ rest))))))))"

definition reconcileWebhookRemovalDeliveries :: "webhook_env \<Rightarrow> string option \<Rightarrow> int \<Rightarrow> string list task" where
  "reconcileWebhookRemovalDeliveries env tenant now =
     await (query (\<lambda>db. sort_key removal_order
       (filter (\<lambda>a. case tenant of None \<Rightarrow> True | Some t \<Rightarrow> ra_tenant_id a = t) (removal_authority (ledger db)))))
     (\<lambda>authorities.
     await (reconcile_authorities env now (\<lambda>_. None) authorities) (\<lambda>ids.
     return_task (unique_values ids)))"

text \<open>
  A live lease of another worker rejects one delivery; the others are still attempted and the first
  error is thrown at the end.
\<close>

fun deliver_all :: "webhook_env \<Rightarrow> string \<Rightarrow> string list \<Rightarrow> bool \<Rightarrow> bool task" where
  "deliver_all env tenant [] failed = return_task failed"
| "deliver_all env tenant (d # ds) failed =
     await (catch_task (await (deliverOne env tenant d) (\<lambda>_. return_task failed)) (return_task True))
       (deliver_all env tenant ds)"

definition deliverIncomingWebhookBatch :: "webhook_env \<Rightarrow> string \<Rightarrow> string list \<Rightarrow> unit task" where
  "deliverIncomingWebhookBatch env tenant deliveryIds =
     await (deliver_all env tenant (unique_values deliveryIds) False) (\<lambda>failed.
     if failed then throw_task else return_task ())"

definition runWebhookRetryTick :: "webhook_env \<Rightarrow> (nat \<times> nat) task" where
  "runWebhookRetryTick env =
     await nowFor (\<lambda>now.
     await (reconcileWebhookRemovalDeliveries env None now) (\<lambda>_.
     await (the_or_throw (to_iso_string now)) (\<lambda>nowIso.
     await (query (dueDeliveryIds nowIso)) (\<lambda>due.
     let tenants = unique_values (map fst due);
         idsOf = (\<lambda>t. map snd (filter (\<lambda>(t', _). t' = t) due))
     in await (for_each tenants (\<lambda>t.
          catch_task (deliverIncomingWebhookBatch env t (idsOf t)) (return_task ()))) (\<lambda>_.
        return_task (length due, length due))))))"

end
