(* ===== verification/Webhook_Steps.thy ===== *)
theory Webhook_Steps
  imports Webhook_Worker
begin

text \<open>
  The webhook tables under any interleaving of workers. One \<open>delivery_step\<close> is one SQL statement of any
  component that shares them; one \<open>worker_step\<close> is one interaction of a given worker or a step of the
  others. A rely and guarantee argument over the tree of interactions shows what holds whenever a
  worker sends a request.
\<close>

section \<open>Statements of the system\<close>

definition same_delivery :: "wh_delivery \<Rightarrow> wh_delivery \<Rightarrow> bool" where
  "same_delivery d e =
     (wd_id d = wd_id e \<and> wd_tenant_id d = wd_tenant_id e \<and> wd_subscription_id d = wd_subscription_id e
      \<and> wd_source_event_id d = wd_source_event_id e \<and> wd_event_type d = wd_event_type e
      \<and> wd_source_message_id d = wd_source_message_id e \<and> wd_source_identity_id d = wd_source_identity_id e
      \<and> wd_source_account_id d = wd_source_account_id e
      \<and> wd_source_conversation_id d = wd_source_conversation_id e
      \<and> wd_source_revision d = wd_source_revision e \<and> wd_destination_version d = wd_destination_version e
      \<and> wd_first_pending_at d = wd_first_pending_at e \<and> wd_retry_deadline d = wd_retry_deadline e)"

definition queued_row :: "wh_delivery \<Rightarrow> bool" where
  "queued_row d =
     (wd_status d = Wh_pending \<and> retryDeadlineFor (wd_first_pending_at d) = Some (wd_retry_deadline d)
      \<and> wd_next_attempt_at d = Some (wd_first_pending_at d) \<and> wd_attempt_count d = 0
      \<and> wd_cancelled_at d = None \<and> wd_lease_id d = None \<and> wd_lease_expires_at d = None
      \<and> wd_provider_request_started_at d = None \<and> wd_manual_retry_at d = None \<and> wd_payload_json d = None
      \<and> (\<exists>ms. to_iso_string ms = Some (wd_first_pending_at d)))"

inductive delivery_step :: "webhook_db \<Rightarrow> webhook_db \<Rightarrow> bool" where
  ds_ledger: "control_step (ledger db) c \<Longrightarrow> delivery_step db (db\<lparr>ledger := c\<rparr>)"
| ds_directory: "ledger db' = ledger db \<Longrightarrow> webhook_deliveries db' = webhook_deliveries db \<Longrightarrow> delivery_step db db'"
| ds_removal: "delivery_step db (cancelWebhookDeliveriesForRemoval authority now db)"
| ds_insert: "insert_batch rows db = Some db' \<Longrightarrow> list_all queued_row rows \<Longrightarrow> delivery_step db db'"
| ds_doubt: "delivery_step db (doubt_expired tenant deliveryId now db)"
| ds_overdue: "delivery_step db (fail_overdue tenant deliveryId now db)"
| ds_lease: "to_iso_string ms = Some now \<Longrightarrow> to_iso_string (ms + DELIVERY_LEASE_MS) = Some leasedUntil
    \<Longrightarrow> delivery_step db (lease_delivery tenant deliveryId leaseId leasedUntil now db)"
| ds_cancel: "delivery_step db (cancelDelivery tenant deliveryId leaseId reason now db)"
| ds_successful: "delivery_step db
    (finishSuccessfulDelivery tenant deliveryId leaseId now httpStatus payload body epoch db)"
| ds_failed: "(\<And>d. d \<in> set (webhook_deliveries db) \<Longrightarrow> wd_id d = deliveryId \<Longrightarrow>
       next_attempt_for ms (wd_retry_deadline d) attempts = Some nextAttemptAt)
    \<Longrightarrow> delivery_step db
      (finish_failed_row tenant deliveryId leaseId nextAttemptAt httpStatus code payload body started epoch db)"
| ds_clear: "delivery_step db (clear_next_attempt tenant deliveryId db)"
| ds_uncertain: "delivery_step db
    (finishUncertainDelivery tenant deliveryId leaseId now httpStatus reason payload body db)"
| ds_request: "delivery_step db (claimProviderRequest tenant deliveryId leaseId now epoch db)"
| ds_retry: "delivery_step db (retry_delivery tenant deliveryId now db)"
| ds_cutover: "delivery_step db (cutover_destination tenant subscriptionId destination now db)"
| ds_revoke: "delivery_step db (revoke_subscription tenant subscriptionId now db)"

lemmas statement_defs = cancelWebhookDeliveriesForRemoval_def doubt_expired_def fail_overdue_def
  lease_delivery_def cancelDelivery_def finishSuccessfulDelivery_def finish_failed_row_def
  clear_next_attempt_def finishUncertainDelivery_def claimProviderRequest_def retry_delivery_def
  cutover_destination_def revoke_subscription_def cancel_backlog_def

section \<open>How a row moves\<close>

definition deliveries_evolve :: "wh_delivery list \<Rightarrow> wh_delivery list \<Rightarrow> bool" where
  "deliveries_evolve ds es = (\<exists>f new. es = map f ds @ new \<and> (\<forall>d \<in> set ds. same_delivery (f d) d)
     \<and> (distinct (map wd_id ds) \<longrightarrow> distinct (map wd_id es)))"

lemma same_delivery_refl [simp]: "same_delivery d d"
  by (simp add: same_delivery_def)

lemma upd_where_evolves:
  assumes "\<And>d. same_delivery (f d) d"
  shows "deliveries_evolve ds (upd_where P f ds)"
proof -
  have "wd_id (if P d then f d else d) = wd_id d" for d
    using assms [of d] by (simp add: same_delivery_def)
  then have ids: "map wd_id (upd_where P f ds) = map wd_id ds"
    by (simp add: upd_where_def)
  have rows: "upd_where P f ds = map (\<lambda>d. if P d then f d else d) ds @ []"
    by (simp add: upd_where_def)
  show ?thesis
    unfolding deliveries_evolve_def ids using assms
    by (intro exI [of _ "\<lambda>d. if P d then f d else d"] exI [of _ "[]"]) (simp add: rows)
qed

lemma insert_delivery_evolves: "\<exists>new. insert_delivery d ds = ds @ new
    \<and> (distinct (map wd_id ds) \<longrightarrow> distinct (map wd_id (insert_delivery d ds)))"
  by (auto simp: insert_delivery_def list_ex_iff)

lemma insert_all_evolves:
  "\<exists>new. fold insert_delivery rows ds = ds @ new \<and> set new \<subseteq> set rows
     \<and> (distinct (map wd_id ds) \<longrightarrow> distinct (map wd_id (fold insert_delivery rows ds)))"
proof (induction rows arbitrary: ds)
  case (Cons r rows)
  obtain new where new: "fold insert_delivery rows (insert_delivery r ds) = insert_delivery r ds @ new"
      "set new \<subseteq> set rows"
      "distinct (map wd_id (insert_delivery r ds))
        \<longrightarrow> distinct (map wd_id (fold insert_delivery rows (insert_delivery r ds)))"
    using Cons [of "insert_delivery r ds"] by blast
  obtain one where "insert_delivery r ds = ds @ one" "set one \<subseteq> {r}"
    by (cases "insert_delivery r ds = ds") (force simp: insert_delivery_def split: if_splits)+
  then show ?case
    using new insert_delivery_evolves [of r ds] by (intro exI [of _ "one @ new"]) auto
qed simp

lemma deliveries_evolve_refl [simp]: "deliveries_evolve ds ds"
  unfolding deliveries_evolve_def by (intro exI [of _ id] exI [of _ "[]"]) simp

lemma evolve_statement:
  assumes "\<And>d. same_delivery (f d) d"
  shows "deliveries_evolve (webhook_deliveries db) (webhook_deliveries (upd_deliveries P f db))"
  using upd_where_evolves [OF assms] by (simp add: upd_deliveries_def)

lemma insert_batch_evolves:
  assumes "insert_batch rows db = Some db'"
  shows "deliveries_evolve (webhook_deliveries db) (webhook_deliveries db')"
proof -
  have eq: "webhook_deliveries db' = fold insert_delivery rows (webhook_deliveries db)"
    using assms by (auto simp: insert_batch_def split: if_splits)
  show ?thesis
    unfolding eq deliveries_evolve_def using insert_all_evolves [of rows "webhook_deliveries db"]
    by (metis list.map_id0 id_apply same_delivery_refl)
qed

lemma delivery_step_evolves:
  assumes "delivery_step db db'"
  shows "deliveries_evolve (webhook_deliveries db) (webhook_deliveries db')"
  using assms
proof cases
  case (ds_insert rows)
  then show ?thesis by (blast intro: insert_batch_evolves)
next
  case (ds_cutover tenant subscriptionId destination now)
  then show ?thesis
    using evolve_statement [where db = "_\<lparr>webhook_subscriptions := _\<rparr>"]
    by (simp add: statement_defs Let_def same_delivery_def)
next
  case (ds_revoke tenant subscriptionId now)
  then show ?thesis
    using evolve_statement [where db = "_\<lparr>webhook_subscriptions := _\<rparr>"]
    by (simp add: statement_defs Let_def same_delivery_def)
qed (auto simp: statement_defs Let_def lease_row_to_def cancel_row_def same_delivery_def intro!: evolve_statement)

section \<open>The deletion epoch as a fence\<close>

definition tenant_facts :: "control_db \<Rightarrow> string \<Rightarrow> _ list" where
  "tenant_facts c tenant = map authority_facts (filter (\<lambda>a. ra_tenant_id a = tenant) (removal_authority c))"

text \<open>
  A step that records a removal of the tenant advances the tenant's deletion epoch. Recording does so
  while no restore lease of the tenant is active.
\<close>

definition removals_advance :: "string \<Rightarrow> control_db \<Rightarrow> control_db \<Rightarrow> bool" where
  "removals_advance tenant c c' =
     (tenant_facts c' tenant \<noteq> tenant_facts c tenant \<longrightarrow> tenant_epoch c tenant < tenant_epoch c' tenant)"

definition other_step :: "string \<Rightarrow> webhook_db \<Rightarrow> webhook_db \<Rightarrow> bool" where
  "other_step tenant db db' = (delivery_step db db' \<and> removals_advance tenant (ledger db) (ledger db'))"

lemma upd_deliveries_ledger [simp]: "ledger (upd_deliveries P f db) = ledger db"
  by (simp add: upd_deliveries_def)

lemma delivery_step_ledger:
  "delivery_step db db' \<Longrightarrow> control_step (ledger db) (ledger db') \<or> ledger db' = ledger db"
  by (induction rule: delivery_step.induct)
    (auto simp: statement_defs insert_batch_def Let_def split: if_splits)

lemma other_step_epoch:
  assumes "other_step tenant db db'"
  shows "tenant_epoch (ledger db) tenant \<le> tenant_epoch (ledger db') tenant"
  using assms delivery_step_ledger [of db db'] tenant_epoch_mono [of "ledger db" "ledger db'" tenant]
  by (auto simp: other_step_def dest: control_step_kept)

lemma other_step_facts:
  assumes "other_step tenant db db'" and "tenant_epoch (ledger db') tenant = tenant_epoch (ledger db) tenant"
  shows "tenant_facts (ledger db') tenant = tenant_facts (ledger db) tenant"
  using assms by (auto simp: other_step_def removals_advance_def)

lemma best_row_facts:
  assumes "list_all2 (\<lambda>a b. authority_facts a = authority_facts b) xs ys"
  shows "map_option authority_facts (best_row authority_beats xs) = map_option authority_facts (best_row authority_beats ys)"
  using assms
proof (induction rule: list_all2_induct)
  case (Cons x xs y ys)
  have "authority_beats a x = authority_beats b y" if "authority_facts a = authority_facts b" for a b
    using that Cons.hyps(1) unfolding authority_beats_def authority_facts_def by (simp only: prod.inject)
  with Cons show ?case
    by (cases "best_row authority_beats xs"; cases "best_row authority_beats ys") (simp_all split: if_split)
qed simp

lemma filter_facts:
  assumes "map authority_facts xs = map authority_facts ys"
    and "\<And>a b. authority_facts a = authority_facts b \<Longrightarrow> P a = P b"
  shows "list_all2 (\<lambda>a b. authority_facts a = authority_facts b) (filter P xs) (filter P ys)"
proof -
  have "list_all2 (\<lambda>a b. authority_facts a = authority_facts b) xs ys"
    using assms(1) by (simp add: list_all2_conv_all_nth list_eq_iff_nth_eq)
  then show ?thesis
  proof (induction rule: list_all2_induct)
    case (Cons x xs y ys)
    show ?case using Cons.IH assms(2) [OF Cons.hyps(1)] Cons.hyps(1) by (cases "P y") simp_all
  qed simp
qed

lemma removal_read_facts:
  assumes "tenant_facts c tenant = tenant_facts c' tenant"
  shows "readAuthorizedResourceRemoval c tenant ty rid account conversation = None
     \<longleftrightarrow> readAuthorizedResourceRemoval c' tenant ty rid account conversation = None"
proof -
  let ?l = "\<lparr>lk_tenantId = tenant, lk_resourceType = ty, lk_resourceId = rid, lk_contentGeneration = None,
      lk_accountId = None, lk_conversationId = None\<rparr>"
  have split: "filter (lookup_matches ?l) (removal_authority d)
      = filter (lookup_matches ?l) (filter (\<lambda>a. ra_tenant_id a = tenant) (removal_authority d))" for d
    by (auto simp: lookup_matches_def intro!: filter_cong)
  have "list_all2 (\<lambda>a b. authority_facts a = authority_facts b)
      (filter (lookup_matches ?l) (removal_authority c)) (filter (lookup_matches ?l) (removal_authority c'))"
    unfolding split [of c] split [of c']
    by (rule filter_facts) (use assms in \<open>auto simp: tenant_facts_def lookup_matches_def authority_facts_def\<close>)
  from best_row_facts [OF this] show ?thesis
    unfolding readAuthorizedResourceRemoval_def readRemovalAuthority_def
    by (auto simp: authority_facts_def split: option.splits)
qed

text \<open>
  An assertion on the tenant's removals that was true when the epoch was \<open>e\<close> is true whenever the epoch
  is still \<open>e\<close>.
\<close>

definition at_epoch :: "string \<Rightarrow> int \<Rightarrow> (control_db \<Rightarrow> bool) \<Rightarrow> webhook_db \<Rightarrow> bool" where
  "at_epoch tenant e Q db =
     (e \<le> tenant_epoch (ledger db) tenant \<and> (tenant_epoch (ledger db) tenant = e \<longrightarrow> Q (ledger db)))"

definition about_removals :: "string \<Rightarrow> (control_db \<Rightarrow> bool) \<Rightarrow> bool" where
  "about_removals tenant Q = (\<forall>c c'. tenant_facts c tenant = tenant_facts c' tenant \<longrightarrow> Q c = Q c')"

lemma at_epoch_stable:
  assumes "about_removals tenant Q" and "at_epoch tenant e Q db" and "other_step tenant db db'"
  shows "at_epoch tenant e Q db'"
proof -
  have "Q (ledger db')" if now: "tenant_epoch (ledger db') tenant = e"
  proof -
    have same: "tenant_epoch (ledger db') tenant = tenant_epoch (ledger db) tenant"
      using now other_step_epoch [OF assms(3)] assms(2) by (simp add: at_epoch_def)
    then have "Q (ledger db)" using now assms(2) by (simp add: at_epoch_def)
    with other_step_facts [OF assms(3) same] assms(1) show ?thesis
      unfolding about_removals_def by blast
  qed
  with assms(2) other_step_epoch [OF assms(3)] show ?thesis by (simp add: at_epoch_def)
qed

end
