(* ===== verification/Webhook_Fence.thy ===== *)
theory Webhook_Fence
  imports Webhook_Steps
begin

text \<open>
  The rely and guarantee argument for one delivery: whatever the other workers do, every statement a
  worker runs is a statement of the ledger, and a request leaves only in the instant in which the
  provider claim succeeds, with the source of the delivery not removed.
\<close>

section \<open>Runs of a worker\<close>

inductive worker_step :: "string \<Rightarrow> webhook_db \<times> worker \<Rightarrow> webhook_db \<times> worker \<Rightarrow> bool" for tenant where
  others: "other_step tenant db db' \<Longrightarrow> worker_step tenant (db, w) (db', w)"
| statement: "worker_step tenant (db, Statement f k exn) (f db, k db)"
| statement_refused: "worker_step tenant (db, Statement f k exn) (db, exn)"
| statement_unanswered: "worker_step tenant (db, Statement f k exn) (f db, exn)"
| clock: "worker_step tenant (db, Clock k) (db, k t)"
| random: "worker_step tenant (db, Random k) (db, k s)"
| credential: "worker_step tenant (db, Credential rq k) (db, k c)"
| project: "worker_step tenant (db, Project mq k) (db, k m)"
| fetched: "worker_step tenant (db, Fetch wq k) (db, k r)"

inductive_cases worker_stepE: "worker_step tenant (db, w) (db', w')"

fun requests :: "worker \<Rightarrow> webhook_request option" where
  "requests (Fetch rq k) = Some rq"
| "requests _ = None"

text \<open>
  \<open>safe_worker\<close>: along every run, each statement is one of the ledger and a request appears only as the
  outcome of a statement on a database in which \<open>S\<close> allows it.
\<close>

primrec safe_worker ::
  "string \<Rightarrow> (webhook_db \<Rightarrow> webhook_request \<Rightarrow> bool) \<Rightarrow> worker \<Rightarrow> webhook_db \<Rightarrow> bool" where
  "safe_worker tenant S Finished = (\<lambda>db. True)"
| "safe_worker tenant S Rejected = (\<lambda>db. True)"
| "safe_worker tenant S (Statement f k exn) =
     (\<lambda>db. \<forall>db'. (other_step tenant)\<^sup>*\<^sup>* db db' \<longrightarrow>
        delivery_step db' (f db') \<and> ledger (f db') = ledger db'
        \<and> (\<forall>rq. requests (k db') = Some rq \<longrightarrow> S db' rq) \<and> requests exn = None
        \<and> safe_worker tenant S (k db') (f db') \<and> safe_worker tenant S exn db' \<and> safe_worker tenant S exn (f db'))"
| "safe_worker tenant S (Clock k) =
     (\<lambda>db. \<forall>db' x. (other_step tenant)\<^sup>*\<^sup>* db db' \<longrightarrow> requests (k x) = None \<and> safe_worker tenant S (k x) db')"
| "safe_worker tenant S (Random k) =
     (\<lambda>db. \<forall>db' x. (other_step tenant)\<^sup>*\<^sup>* db db' \<longrightarrow> requests (k x) = None \<and> safe_worker tenant S (k x) db')"
| "safe_worker tenant S (Credential rq k) =
     (\<lambda>db. \<forall>db' x. (other_step tenant)\<^sup>*\<^sup>* db db' \<longrightarrow> requests (k x) = None \<and> safe_worker tenant S (k x) db')"
| "safe_worker tenant S (Project mq k) =
     (\<lambda>db. \<forall>db' x. (other_step tenant)\<^sup>*\<^sup>* db db' \<longrightarrow> requests (k x) = None \<and> safe_worker tenant S (k x) db')"
| "safe_worker tenant S (Fetch wq k) =
     (\<lambda>db. \<forall>db' x. (other_step tenant)\<^sup>*\<^sup>* db db' \<longrightarrow> requests (k x) = None \<and> safe_worker tenant S (k x) db')"

lemma safe_worker_others:
  assumes "safe_worker tenant S w db" and "(other_step tenant)\<^sup>*\<^sup>* db db'"
  shows "safe_worker tenant S w db'"
  using assms by (cases w) (auto intro: rtranclp_trans)

lemma safe_worker_step:
  assumes "worker_step tenant (db, w) (db', w')" and "safe_worker tenant S w db"
  shows "safe_worker tenant S w' db'"
  using assms
  by (cases rule: worker_stepE) (auto intro: safe_worker_others elim!: allE [of _ db])

lemma safe_worker_run:
  assumes "(worker_step tenant)\<^sup>*\<^sup>* (db, w) (db', w')" and "safe_worker tenant S w db"
  shows "safe_worker tenant S w' db'"
  using assms(1) assms(2)
proof (induction rule: rtranclp_induct2)
  case (step db1 w1 db2 w2)
  then show ?case using safe_worker_step by blast
qed

lemma safe_worker_request:
  assumes "worker_step tenant (db, w) (db', w')" and "safe_worker tenant S w db"
    and "requests w = None" and "requests w' = Some rq"
  shows "S db rq"
  using assms
  by (cases rule: worker_stepE) (auto elim!: allE [of _ db])

lemma safe_worker_statement:
  assumes "worker_step tenant (db, w) (db', w')" and "safe_worker tenant S w db" and "w' \<noteq> w"
  shows "delivery_step db db' \<or> db' = db"
  using assms
  by (cases rule: worker_stepE) (auto elim!: allE [of _ db])

section \<open>Assertions\<close>

definition steady :: "string \<Rightarrow> (webhook_db \<Rightarrow> bool) \<Rightarrow> bool" where
  "steady tenant A = (\<forall>db db'. A db \<longrightarrow> other_step tenant db db' \<longrightarrow> A db')"

definition calm :: "string \<Rightarrow> (webhook_db \<Rightarrow> webhook_request \<Rightarrow> bool) \<Rightarrow> (webhook_db \<Rightarrow> bool) \<Rightarrow> worker \<Rightarrow> bool" where
  "calm tenant S A w = (\<forall>db. A db \<longrightarrow> requests w = None \<and> safe_worker tenant S w db)"

lemma steadyD: "steady tenant A \<Longrightarrow> A db \<Longrightarrow> other_step tenant db db' \<Longrightarrow> A db'"
  by (auto simp: steady_def)

lemma steady_others:
  assumes "steady tenant A" and "A db" and "(other_step tenant)\<^sup>*\<^sup>* db db'"
  shows "A db'"
  using assms(3) assms(2) by (induction) (auto intro: steadyD [OF assms(1)])

lemma own_statement_other: "delivery_step db db' \<Longrightarrow> ledger db' = ledger db \<Longrightarrow> other_step tenant db db'"
  by (simp add: other_step_def removals_advance_def)

lemma calm_weaken: "calm tenant S A w \<Longrightarrow> (\<And>db. B db \<Longrightarrow> A db) \<Longrightarrow> calm tenant S B w"
  by (auto simp: calm_def)

lemma calm_Finished [simp]: "calm tenant S A Finished"
  by (simp add: calm_def)

lemma calm_Rejected [simp]: "calm tenant S A Rejected"
  by (simp add: calm_def)

text \<open>A statement, whose answer \<open>B\<close> describes, and the questions to the outside.\<close>

lemma calm_execute_learn:
  assumes "steady tenant A" and "\<And>db. A db \<Longrightarrow> delivery_step db (u db) \<and> ledger (u db) = ledger db"
    and "\<And>db. A db \<Longrightarrow> B (r db) (u db)" and "\<And>x. calm tenant S (B x) (k x)" and "calm tenant S A exn"
  shows "calm tenant S A (execute u r k exn)"
  unfolding calm_def execute_def
proof (intro conjI allI impI)
  fix db assume "A db"
  show "safe_worker tenant S (Statement u (\<lambda>db. k (r db)) exn) db"
    unfolding safe_worker.simps
  proof (intro allI impI)
    fix db' assume "(other_step tenant)\<^sup>*\<^sup>* db db'"
    with assms(1) \<open>A db\<close> have here: "A db'" by (rule steady_others)
    note own = assms(2) [OF here]
    have "A (u db')" using steadyD [OF assms(1) here own_statement_other] own by blast
    with here own assms(3) [OF here] assms(4,5)
    show "delivery_step db' (u db') \<and> ledger (u db') = ledger db'
      \<and> (\<forall>rq. requests (k (r db')) = Some rq \<longrightarrow> S db' rq) \<and> requests exn = None
      \<and> safe_worker tenant S (k (r db')) (u db') \<and> safe_worker tenant S exn db' \<and> safe_worker tenant S exn (u db')"
      by (auto simp: calm_def)
  qed
qed simp

named_theorems calm_rules

lemma calm_execute [calm_rules]:
  assumes "steady tenant A" and "\<And>db. A db \<Longrightarrow> delivery_step db (u db) \<and> ledger (u db) = ledger db"
    and "\<And>x. calm tenant S A (k x)" and "calm tenant S A exn"
  shows "calm tenant S A (execute u r k exn)"
  by (rule calm_execute_learn [where B = "\<lambda>_. A"])
    (use assms steadyD [OF assms(1)] own_statement_other in blast)+

lemma query_execute: "query q = execute (\<lambda>db. db) q"
  by (simp add: query_def execute_def fun_eq_iff)

lemma delivery_step_same [simp]: "delivery_step db db"
  by (simp add: ds_directory)

lemma calm_query_learn:
  assumes "steady tenant A" and "\<And>db. A db \<Longrightarrow> B (q db) db"
    and "\<And>x. calm tenant S (B x) (k x)" and "calm tenant S A exn"
  shows "calm tenant S A (query q k exn)"
  unfolding query_execute using assms by (intro calm_execute_learn [where B = B]) auto

lemma calm_query [calm_rules]:
  assumes "steady tenant A" and "\<And>x. calm tenant S A (k x)" and "calm tenant S A exn"
  shows "calm tenant S A (query q k exn)"
  using assms by (intro calm_query_learn [where B = "\<lambda>_. A"]) auto

lemma calm_questions [calm_rules]:
  assumes "steady tenant A"
  shows "(\<And>x. calm tenant S A (kt x)) \<Longrightarrow> calm tenant S A (nowFor kt exn)"
    and "(\<And>x. calm tenant S A (ks x)) \<Longrightarrow> calm tenant S A (random_text ks exn)"
    and "(\<And>x. calm tenant S A (km x)) \<Longrightarrow> calm tenant S A exn \<Longrightarrow> calm tenant S A (get_webhook_message mq km exn)"
    and "(\<And>x. calm tenant S A (kc x)) \<Longrightarrow> calm tenant S A exn \<Longrightarrow> calm tenant S A (resolve_credential cq kc exn)"
  using steady_others [OF assms]
  by (auto simp: calm_def nowFor_def random_text_def get_webhook_message_def resolve_credential_def split: option.split)

lemma calm_the_or_throw [calm_rules]:
  "(\<And>x. v = Some x \<Longrightarrow> calm tenant S A (k x)) \<Longrightarrow> calm tenant S A exn \<Longrightarrow> calm tenant S A (the_or_throw v k exn)"
  by (cases v) (simp_all add: the_or_throw_def throw_task_def return_task_def)

lemmas task_simps = await_def return_task_def throw_task_def catch_task_def

section \<open>The tasks of a delivery\<close>

definition tracks :: "wh_delivery \<Rightarrow> webhook_db \<Rightarrow> bool" where
  "tracks lease db = (distinct (map wd_id (webhook_deliveries db))
     \<and> (\<exists>d \<in> set (webhook_deliveries db). same_delivery d lease))"

lemma same_delivery_trans: "same_delivery a b \<Longrightarrow> same_delivery b c \<Longrightarrow> same_delivery a c"
  by (simp add: same_delivery_def)

lemma tracks_step:
  assumes "tracks lease db" and "delivery_step db db'"
  shows "tracks lease db'"
proof -
  obtain f new where f: "webhook_deliveries db' = map f (webhook_deliveries db) @ new"
      "\<And>d. d \<in> set (webhook_deliveries db) \<Longrightarrow> same_delivery (f d) d" "distinct (map wd_id (webhook_deliveries db'))"
    using delivery_step_evolves [OF assms(2)] assms(1) unfolding deliveries_evolve_def tracks_def by blast
  obtain d where d: "d \<in> set (webhook_deliveries db)" "same_delivery d lease"
    using assms(1) by (auto simp: tracks_def)
  then have "f d \<in> set (webhook_deliveries db')" "same_delivery (f d) lease"
    using f(1) same_delivery_trans [OF f(2)] by auto
  with f(3) show ?thesis by (auto simp: tracks_def)
qed

lemma steady_tracks [simp]: "steady tenant (tracks lease)"
  by (auto simp: steady_def other_step_def intro: tracks_step)

lemma statement_ledger [simp]:
  "ledger (cancelDelivery t i l reason now db) = ledger db"
  "ledger (finishUncertainDelivery t i l now status reason payload body db) = ledger db"
  "ledger (finishSuccessfulDelivery t i l now code payload body epoch db) = ledger db"
  "ledger (finish_failed_row t i l next status reason payload body started epoch db) = ledger db"
  "ledger (clear_next_attempt t i db) = ledger db"
  "ledger (claimProviderRequest t i l now epoch db) = ledger db"
  "ledger (doubt_expired t i now db) = ledger db"
  "ledger (fail_overdue t i now db) = ledger db"
  "ledger (lease_delivery t i l until now db) = ledger db"
  by (simp_all add: statement_defs Let_def)

lemma calm_currentAuthority [calm_rules]:
  "steady tenant A \<Longrightarrow> (\<And>b. calm tenant S A (k b)) \<Longrightarrow> calm tenant S A exn
     \<Longrightarrow> calm tenant S A (currentAuthority s account conversation k exn)"
  unfolding currentAuthority_def Let_def task_simps
  by (auto intro!: calm_rules split: option.split)

lemma calm_currentSubscription [calm_rules]:
  "steady tenant A \<Longrightarrow> (\<And>s. calm tenant S A (k s)) \<Longrightarrow> calm tenant S A exn
     \<Longrightarrow> calm tenant S A (currentSubscription t sid k exn)"
  unfolding currentSubscription_def task_simps by (auto intro!: calm_rules)

lemma calm_authorizationMatches [calm_rules]:
  "steady tenant A \<Longrightarrow> (\<And>b. calm tenant S A (k b)) \<Longrightarrow> calm tenant S A exn
     \<Longrightarrow> calm tenant S A (authorizationMatches lease s ref k exn)"
  unfolding authorizationMatches_def task_simps by (auto intro!: calm_rules split: option.split)

lemma calm_iso_now [calm_rules]:
  "steady tenant A \<Longrightarrow> (\<And>t. calm tenant S A (k t)) \<Longrightarrow> calm tenant S A exn \<Longrightarrow> calm tenant S A (iso_now k exn)"
  unfolding iso_now_def task_simps by (auto intro!: calm_rules)

lemma calm_cancel_task [calm_rules]:
  "steady tenant A \<Longrightarrow> (\<And>u. calm tenant S A (k u)) \<Longrightarrow> calm tenant S A exn
     \<Longrightarrow> calm tenant S A (cancel_task lease reason now k exn)"
  unfolding cancel_task_def by (auto intro!: calm_rules ds_cancel)

lemma calm_cancelFor [calm_rules]:
  "steady tenant A \<Longrightarrow> (\<And>u. calm tenant S A (k u)) \<Longrightarrow> calm tenant S A exn
     \<Longrightarrow> calm tenant S A (cancelFor lease s ref now k exn)"
  unfolding cancelFor_def by (rule calm_cancel_task)

lemma calm_cancelForRemoval [calm_rules]:
  "steady tenant A \<Longrightarrow> (\<And>u. calm tenant S A (k u)) \<Longrightarrow> calm tenant S A exn
     \<Longrightarrow> calm tenant S A (cancelForRemoval lease now k exn)"
  unfolding cancelForRemoval_def by (rule calm_cancel_task)

lemma calm_finish_uncertain [calm_rules]:
  "steady tenant A \<Longrightarrow> (\<And>u. calm tenant S A (k u)) \<Longrightarrow> calm tenant S A exn
     \<Longrightarrow> calm tenant S A (finish_uncertain_task lease now status reason payload body k exn)"
  unfolding finish_uncertain_task_def
  by (auto intro!: calm_rules ds_uncertain)

lemma calm_finish_successful [calm_rules]:
  "steady tenant A \<Longrightarrow> (\<And>b. calm tenant S A (k b)) \<Longrightarrow> calm tenant S A exn
     \<Longrightarrow> calm tenant S A (finish_successful_task lease now status payload body epoch k exn)"
  unfolding finish_successful_task_def
  by (auto intro!: calm_rules ds_successful)

lemma tracks_deadline:
  assumes "tracks lease db" and "d \<in> set (webhook_deliveries db)" and "wd_id d = wd_id lease"
  shows "same_delivery d lease"
proof -
  obtain e where e: "e \<in> set (webhook_deliveries db)" "same_delivery e lease"
    using assms(1) by (auto simp: tracks_def)
  then have "wd_id e = wd_id d" using assms(3) by (simp add: same_delivery_def)
  then have "e = d"
    using assms(1,2) e(1) unfolding tracks_def by (auto simp: distinct_map dest: inj_onD)
  with e show ?thesis by simp
qed

lemma calm_finishFailed [calm_rules]:
  assumes "steady tenant A" and "\<And>db. A db \<Longrightarrow> tracks lease db"
    and "\<And>b. calm tenant S A (k b)" and "calm tenant S A exn"
  shows "calm tenant S A (finishFailedDelivery lease now status code payload body started epoch k exn)"
proof -
  have "delivery_step db (finish_failed_row (wd_tenant_id lease) (wd_id lease) (lease_of lease) nextAttemptAt status
      code payload body started epoch db)"
    if "next_attempt_for now (wd_retry_deadline lease) (wd_attempt_count lease) = Some nextAttemptAt" and "A db"
    for nextAttemptAt db
    using that tracks_deadline [OF assms(2) [OF that(2)]]
    by (intro ds_failed) (auto simp: same_delivery_def)
  then show ?thesis
    unfolding finishFailedDelivery_def Let_def task_simps
    by (auto intro!: calm_rules ds_clear assms)
qed

lemma calm_first_some [calm_rules]:
  assumes "steady tenant A" and "\<And>x. calm tenant S A (k x)" and "calm tenant S A exn"
    and "\<And>x k. (\<And>y. calm tenant S A (k y)) \<Longrightarrow> calm tenant S A (body x k exn)"
  shows "calm tenant S A (first_some xs body k exn)"
  using assms(2) by (induction xs) (auto simp: task_simps intro!: assms(4) split: option.split)

lemma calm_map_task [calm_rules]:
  assumes "\<And>x. calm tenant S A (k x)"
    and "\<And>x k. (\<And>y. calm tenant S A (k y)) \<Longrightarrow> calm tenant S A (f x k exn)"
  shows "calm tenant S A (map_task f xs k exn)"
  using assms(1) by (induction xs arbitrary: k) (auto simp: task_simps intro!: assms(2))

lemma calm_removalForDelivery [calm_rules]:
  "steady tenant A \<Longrightarrow> (\<And>b. calm tenant S A (k b)) \<Longrightarrow> calm tenant S A exn
     \<Longrightarrow> calm tenant S A (removalForDelivery lease ids k exn)"
  unfolding removalForDelivery_def Let_def task_simps by (auto intro!: calm_rules split: option.split)

lemma calm_removalFence [calm_rules]:
  "steady tenant A \<Longrightarrow> (\<And>b. calm tenant S A (k b)) \<Longrightarrow> calm tenant S A exn
     \<Longrightarrow> calm tenant S A (removalFence lease loc k exn)"
  unfolding removalFence_def task_simps by (auto intro!: calm_rules)

lemma calm_insert_grant [calm_rules]:
  assumes "steady tenant A" and "calm tenant S A (k ())" and "calm tenant S A exn"
  shows "calm tenant S A (insert_or_throw (insert_attachment_grant row) k exn)"
proof -
  let ?u = "\<lambda>db. case insert_attachment_grant row db of None \<Rightarrow> db | Some db' \<Rightarrow> db'"
  have "insert_or_throw (insert_attachment_grant row) k exn
      = execute ?u (\<lambda>db. insert_attachment_grant row db = None) (\<lambda>clash. if clash then exn else k ()) exn"
    by (auto simp: insert_or_throw_def execute_def fun_eq_iff split: option.split)
  moreover have "delivery_step db (?u db) \<and> ledger (?u db) = ledger db" for db
    by (auto simp: insert_attachment_grant_def intro!: ds_directory)
  ultimately show ?thesis
    using assms by (simp add: calm_execute)
qed

lemma calm_issueAttachmentGrant [calm_rules]:
  "steady tenant A \<Longrightarrow> (\<And>x. calm tenant S A (k x)) \<Longrightarrow> calm tenant S A exn
     \<Longrightarrow> calm tenant S A (issueAttachmentGrant env t actor a now k exn)"
  unfolding issueAttachmentGrant_def Let_def task_simps by (auto intro!: calm_rules)

lemma calm_payloadFor:
  assumes "steady tenant A" and "\<And>p. (\<And>r. p \<noteq> Removed_payload r) \<Longrightarrow> calm tenant S A (k p)" and "calm tenant S A exn"
  shows "calm tenant S A (payloadFor env s did eid m now edited override k exn)"
  unfolding payloadFor_def checked_payload_def Let_def task_simps
  using assms by (auto intro!: calm_rules)

lemma calm_removalAttachments [calm_rules]:
  "steady tenant A \<Longrightarrow> (\<And>x. calm tenant S A (k x)) \<Longrightarrow> calm tenant S A exn
     \<Longrightarrow> calm tenant S A (removalAttachmentsForDelivery lease m k exn)"
  unfolding removalAttachmentsForDelivery_def Let_def task_simps
  by (auto intro!: calm_rules split: option.split webhook_payload.split)

lemma calm_removalPayloadFor:
  assumes "steady tenant A" and "\<And>r. wp_text r = '''' \<Longrightarrow> calm tenant S A (k (Removed_payload r))" and "calm tenant S A exn"
  shows "calm tenant S A (removalPayloadFor env lease s a k exn)"
  unfolding removalPayloadFor_def checked_payload_def task_simps
  using assms by (auto intro!: calm_rules split: option.split)

lemma calm_currentMessageFor [calm_rules]:
  "steady tenant A \<Longrightarrow> (\<And>x. calm tenant S A (k x)) \<Longrightarrow> calm tenant S A exn
     \<Longrightarrow> calm tenant S A (currentMessageFor lease s k exn)"
  unfolding currentMessageFor_def task_simps by (auto intro!: calm_rules split: option.split)

lemma calm_race [calm_rules]:
  "steady tenant A \<Longrightarrow> (\<And>x. calm tenant S A (k x)) \<Longrightarrow> calm tenant S A exn
     \<Longrightarrow> calm tenant S A (finishUncertainAfterRemovalRace lease loc status body k exn)"
  unfolding finishUncertainAfterRemovalRace_def task_simps
  by (auto intro!: calm_rules split: option.split prod.split)

lemma calm_markNetworkFailure [calm_rules]:
  assumes "steady tenant A" and "\<And>db. A db \<Longrightarrow> tracks lease db"
    and "\<And>x. calm tenant S A (k x)" and "calm tenant S A exn"
  shows "calm tenant S A (markNetworkFailure lease loc code status body k exn)"
  unfolding markNetworkFailure_def task_simps
  using assms by (auto intro!: calm_rules split: option.split)

section \<open>From the fence to the request\<close>

abbreviation source_removal :: "wh_delivery \<Rightarrow> control_db \<Rightarrow> string \<Rightarrow> string \<Rightarrow> string \<Rightarrow> authority_row option" where
  "source_removal lease c m a cv \<equiv> readAuthorizedMessageRemoval c (wd_tenant_id lease) m a cv"

definition source_present :: "wh_delivery \<Rightarrow> control_db \<Rightarrow> bool" where
  "source_present d c =
     (\<forall>m a cv. wd_source_message_id d = Some m \<and> wd_source_account_id d = Some a \<and> wd_source_conversation_id d = Some cv
        \<longrightarrow> readAuthorizedMessageRemoval c (wd_tenant_id d) m a cv = None)"

text \<open>What may be sent when the provider claim of a delivery succeeds.\<close>

definition may_send :: "string \<Rightarrow> string \<Rightarrow> webhook_db \<Rightarrow> webhook_request \<Rightarrow> bool" where
  "may_send tenant deliveryId db rq =
     (\<exists>d \<in> set (webhook_deliveries db).
        wd_tenant_id d = tenant \<and> wd_id d = deliveryId \<and> wd_status d = Wh_leased
        \<and> wd_provider_request_started_at d = None \<and> rq_idempotency_key rq = deliveryId
        \<and> (if isWebhookRemovalDelivery (wd_event_type d)
           then \<exists>r. rq_body rq = Removed_payload r \<and> wp_text r = ''''
           else source_present d (ledger db)))"

definition wh_fenced :: "wh_delivery \<Rightarrow> int \<Rightarrow> authority_row option \<Rightarrow> webhook_db \<Rightarrow> bool" where
  "wh_fenced lease e authority db =
     (tracks lease db
      \<and> at_epoch (wd_tenant_id lease) e (\<lambda>c. authority = None \<longrightarrow> source_present lease c) db)"

lemma message_removal_None:
  "readAuthorizedMessageRemoval c t m a cv = None \<longleftrightarrow>
     readAuthorizedResourceRemoval c t ''message'' m a cv = None
     \<and> readAuthorizedResourceRemoval c t ''conversation'' cv a cv = None"
  by (simp add: readAuthorizedMessageRemoval_def split: option.split)

lemma about_read:
  "about_removals t (\<lambda>c. b \<longrightarrow> readAuthorizedResourceRemoval c t ty rid a cv = None)"
  unfolding about_removals_def
proof (intro allI impI)
  fix c c' assume "tenant_facts c t = tenant_facts c' t"
  from removal_read_facts [OF this, of ty rid a cv]
  show "(b \<longrightarrow> readAuthorizedResourceRemoval c t ty rid a cv = None)
      = (b \<longrightarrow> readAuthorizedResourceRemoval c' t ty rid a cv = None)" by simp
qed

lemma about_source_present: "about_removals (wd_tenant_id lease) (\<lambda>c. b \<longrightarrow> source_present lease c)"
  unfolding about_removals_def
proof (intro allI impI)
  fix c c' assume eq: "tenant_facts c (wd_tenant_id lease) = tenant_facts c' (wd_tenant_id lease)"
  have "readAuthorizedMessageRemoval c (wd_tenant_id lease) m a cv = None
      \<longleftrightarrow> readAuthorizedMessageRemoval c' (wd_tenant_id lease) m a cv = None" for m a cv
    unfolding message_removal_None
    by (simp only: removal_read_facts [OF eq, of "''message''" m a cv]
        removal_read_facts [OF eq, of "''conversation''" cv a cv])
  then show "(b \<longrightarrow> source_present lease c) = (b \<longrightarrow> source_present lease c')"
    by (simp only: source_present_def)
qed

lemma steady_known:
  assumes "about_removals (wd_tenant_id lease) Q"
  shows "steady (wd_tenant_id lease) (\<lambda>db. tracks lease db \<and> at_epoch (wd_tenant_id lease) e Q db)"
  using at_epoch_stable [OF assms] tracks_step by (auto simp: steady_def other_step_def)

lemma steady_fenced [simp]: "steady (wd_tenant_id lease) (wh_fenced lease e authority)"
  unfolding wh_fenced_def [abs_def] by (rule steady_known [OF about_source_present])

text \<open>
  Reading the fence establishes \<open>wh_fenced\<close> for the epoch it read first: an authority recorded later moves
  the epoch on.
\<close>

lemma wh_fenced_weaken: "wh_fenced lease e None db \<Longrightarrow> wh_fenced lease e a db" "wh_fenced lease e a db \<Longrightarrow> wh_fenced lease e (Some x) db"
  by (auto simp: wh_fenced_def at_epoch_def)

lemma calm_removal_reads:
  assumes cols: "wd_source_message_id lease = Some m" "wd_source_account_id lease = Some a"
      "wd_source_conversation_id lease = Some cv"
    and found: "\<And>x. calm (wd_tenant_id lease) S (wh_fenced lease e (Some undefined)) (k (Some x))"
    and absent: "calm (wd_tenant_id lease) S (wh_fenced lease e None) w"
    and exn: "calm (wd_tenant_id lease) S (tracks lease) exn"
  shows "calm (wd_tenant_id lease) S (wh_fenced lease e (Some undefined))
     (query (\<lambda>db. readAuthorizedResourceRemoval (ledger db) (wd_tenant_id lease) ''message'' m a cv) (\<lambda>x. if x \<noteq> None then k x else
      query (\<lambda>db. readAuthorizedResourceRemoval (ledger db) (wd_tenant_id lease) ''conversation'' cv a cv)
        (\<lambda>x. if x \<noteq> None then k x else w) exn) exn)"
proof -
  let ?t = "wd_tenant_id lease"
  let ?msg = "\<lambda>c. readAuthorizedResourceRemoval c ?t ''message'' m a cv"
  let ?conv = "\<lambda>c. readAuthorizedResourceRemoval c ?t ''conversation'' cv a cv"
  let ?M = "\<lambda>x db. tracks lease db \<and> at_epoch ?t e (\<lambda>c. x = None \<longrightarrow> ?msg c = None) db"
  let ?C = "\<lambda>y db. tracks lease db \<and> at_epoch ?t e (\<lambda>c. ?msg c = None \<and> (y = None \<longrightarrow> ?conv c = None)) db"
  have present: "source_present lease c \<longleftrightarrow> ?msg c = None \<and> ?conv c = None" for c
    using cols by (simp add: source_present_def message_removal_None)
  have "calm ?t S (?C y) (if y \<noteq> None then k y else w)" for y
    by (cases y) (auto simp: wh_fenced_def at_epoch_def present intro: calm_weaken [OF absent] calm_weaken [OF found])
  then have "calm ?t S (?M None) (query (\<lambda>db. ?conv (ledger db)) (\<lambda>x. if x \<noteq> None then k x else w) exn)"
    by (intro calm_query_learn [where B = ?C] steady_known [OF about_read] calm_weaken [OF exn]) (auto simp: at_epoch_def)
  then have "calm ?t S (?M x) (if x \<noteq> None then k x else
      query (\<lambda>db. ?conv (ledger db)) (\<lambda>x. if x \<noteq> None then k x else w) exn)" for x
    by (cases x) (auto simp: wh_fenced_def at_epoch_def intro: calm_weaken [OF found])
  then show ?thesis
    by (intro calm_query_learn [where B = ?M] calm_weaken [OF exn]) (auto simp: wh_fenced_def at_epoch_def)
qed

lemma if_task: "(if b then m else n) k exn = (if b then m k exn else n k exn)"
  by simp

lemma calm_removal_learn:
  assumes k: "\<And>a. calm (wd_tenant_id lease) S (wh_fenced lease e a) (k a)"
    and exn: "calm (wd_tenant_id lease) S (tracks lease) exn"
  shows "calm (wd_tenant_id lease) S (wh_fenced lease e (Some undefined)) (removalForDelivery lease ids k exn)"
proof (cases "\<exists>m a cv. wd_source_message_id lease = Some m \<and> wd_source_account_id lease = Some a
    \<and> wd_source_conversation_id lease = Some cv")
  case False
  then have "source_present lease c" for c by (auto simp: source_present_def)
  then have "calm (wd_tenant_id lease) S (wh_fenced lease e (Some undefined)) (k None)"
    by (intro calm_weaken [OF k]) (simp add: wh_fenced_def at_epoch_def)
  with False show ?thesis
    by (auto simp: removalForDelivery_def task_simps split: option.split)
next
  case True
  then obtain m a cv where cols: "wd_source_message_id lease = Some m" "wd_source_account_id lease = Some a"
      "wd_source_conversation_id lease = Some cv" by blast
  have after: "calm (wd_tenant_id lease) S (wh_fenced lease e None) (k x)" for x
    by (rule calm_weaken [OF k]) (rule wh_fenced_weaken)
  have throw: "calm (wd_tenant_id lease) S (wh_fenced lease e None) exn"
    by (rule calm_weaken [OF exn]) (simp add: wh_fenced_def)
  have found: "calm (wd_tenant_id lease) S (wh_fenced lease e (Some undefined)) (k (Some x))" for x
    by (rule calm_weaken [OF k]) (rule wh_fenced_weaken(2))
  show ?thesis
    unfolding removalForDelivery_def Let_def task_simps cols prod.case option.case if_task
    by (rule calm_removal_reads [where k = k, OF cols found _ exn]) (auto intro!: calm_rules after throw split: option.split)
qed

lemma calm_fence_learn:
  assumes "\<And>changed authority e. calm (wd_tenant_id lease) S (wh_fenced lease e authority)
      (k (changed, authority, loc\<lparr>lc_removalEpoch := e\<rparr>))"
    and "calm (wd_tenant_id lease) S (tracks lease) exn"
  shows "calm (wd_tenant_id lease) S (tracks lease) (removalFence lease loc k exn)"
  unfolding removalFence_def task_simps
  by (rule calm_query_learn [where B = "\<lambda>e. wh_fenced lease e (Some undefined)"])
    (auto simp: wh_fenced_def [of _ _ "Some _"] at_epoch_def readTenantDeletionEpoch_def
      intro: calm_removal_learn assms)

lemma calm_settle_response:
  assumes k: "\<And>u. calm (wd_tenant_id lease) S (tracks lease) (k u)"
    and caught: "\<And>loc. calm (wd_tenant_id lease) S (tracks lease) (caught loc)"
  shows "calm (wd_tenant_id lease) S (tracks lease) (settle_response lease loc ref r body now caught k)"
  unfolding settle_response_def Let_def task_simps
  by (auto intro!: calm_rules k caught)

text \<open>The request itself, once the claim has succeeded.\<close>

lemma send_request_shape:
  "requests (send_request env lease loc s ref auth payload caught k)
     = Some \<lparr>rq_url = ds_url (ws_destination s), rq_idempotency_key = wd_id lease, rq_authorization = auth, rq_body = payload\<rparr>"
  by (simp add: send_request_def fetchWithTimeout_def)

lemma safe_send_request:
  assumes "\<And>u. calm (wd_tenant_id lease) S (tracks lease) (k u)"
    and "\<And>loc. calm (wd_tenant_id lease) S (tracks lease) (caught loc)" and "tracks lease db"
  shows "safe_worker (wd_tenant_id lease) S (send_request env lease loc s ref auth payload caught k) db"
proof -
  have "calm (wd_tenant_id lease) S (tracks lease) (nowFor (\<lambda>t. settle_response lease loc ref r body t caught k) exn)"
    for r body exn
    by (intro calm_rules steady_tracks calm_settle_response assms)
  with assms(2,3) steady_others [OF steady_tracks] show ?thesis
    unfolding send_request_def fetchWithTimeout_def by (auto simp: calm_def split: option.split)
qed

lemma one_changeD: "one_change P db \<Longrightarrow> \<exists>d \<in> set (webhook_deliveries db). P d"
  by (auto simp: one_change_def length_Suc_conv filter_eq_Cons_iff)

text \<open>A claim under \<open>wh_fenced\<close>: what follows it may be a request.\<close>

lemma claimed_row:
  assumes "tracks lease db"
    and "one_change (may_start_request (wd_tenant_id lease) (wd_id lease) (lease_of lease) now e db) db"
  obtains d where "d \<in> set (webhook_deliveries db)" "same_delivery d lease" "wd_status d = Wh_leased"
    "wd_provider_request_started_at d = None" "tenant_epoch (ledger db) (wd_tenant_id lease) = e"
proof -
  obtain d where d: "d \<in> set (webhook_deliveries db)"
      "may_start_request (wd_tenant_id lease) (wd_id lease) (lease_of lease) now e db d"
    using one_changeD [OF assms(2)] by blast
  with tracks_deadline [OF assms(1) d(1)] show thesis
    by (intro that [of d]) (auto simp: may_start_request_def held_by_def wh_delivery_key_def)
qed

lemma calm_claim:
  assumes sends: "\<And>db. tracks lease db \<Longrightarrow> safe_worker (wd_tenant_id lease) S send db"
    and allowed: "\<And>db d rq. requests send = Some rq \<Longrightarrow> wh_fenced lease e authority db \<Longrightarrow> d \<in> set (webhook_deliveries db)
        \<Longrightarrow> same_delivery d lease \<Longrightarrow> wd_status d = Wh_leased \<Longrightarrow> wd_provider_request_started_at d = None
        \<Longrightarrow> tenant_epoch (ledger db) (wd_tenant_id lease) = e \<Longrightarrow> S db rq"
    and otherwise: "calm (wd_tenant_id lease) S (wh_fenced lease e authority) w"
    and exn: "calm (wd_tenant_id lease) S (wh_fenced lease e authority) exn"
  shows "calm (wd_tenant_id lease) S (wh_fenced lease e authority)
    (claim_provider_task lease e (\<lambda>started. if started then send else w) exn)"
proof -
  let ?t = "wd_tenant_id lease" and ?A = "wh_fenced lease e authority"
  have claim: "calm ?t S ?A (execute (claimProviderRequest ?t (wd_id lease) (lease_of lease) now e)
      (\<lambda>db. one_change (may_start_request ?t (wd_id lease) (lease_of lease) now e db) db)
      (\<lambda>started. if started then send else w) exn)" for now
    unfolding calm_def execute_def
  proof (intro conjI allI impI)
    fix db assume "?A db"
    let ?u = "claimProviderRequest ?t (wd_id lease) (lease_of lease) now e"
    let ?r = "\<lambda>db. one_change (may_start_request ?t (wd_id lease) (lease_of lease) now e db) db"
    show "safe_worker ?t S (Statement ?u (\<lambda>db. if ?r db then send else w) exn) db"
      unfolding safe_worker.simps
    proof (intro allI impI)
      fix db' assume "(other_step ?t)\<^sup>*\<^sup>* db db'"
      with \<open>?A db\<close> have here: "?A db'" by (rule steady_others [OF steady_fenced])
      have step: "delivery_step db' (?u db')" by (rule ds_request)
      have after: "?A (?u db')"
        using steadyD [OF steady_fenced here own_statement_other [OF step]] by simp
      have may: "S db' rq" if "?r db'" and "requests send = Some rq" for rq
        using claimed_row [OF _ that(1)] here allowed [OF that(2) here] by (auto simp: wh_fenced_def)
      show "delivery_step db' (?u db') \<and> ledger (?u db') = ledger db'
        \<and> (\<forall>rq. requests (if ?r db' then send else w) = Some rq \<longrightarrow> S db' rq) \<and> requests exn = None
        \<and> safe_worker ?t S (if ?r db' then send else w) (?u db') \<and> safe_worker ?t S exn db' \<and> safe_worker ?t S exn (?u db')"
        using step after here may otherwise exn sends [of "?u db'"] by (auto simp: calm_def wh_fenced_def)
    qed
  qed simp
  show ?thesis
    unfolding claim_provider_task_def task_simps by (intro calm_iso_now steady_fenced claim exn)
qed

definition payload_fits :: "wh_delivery \<Rightarrow> webhook_payload \<Rightarrow> bool" where
  "payload_fits lease payload =
     (isWebhookRemovalDelivery (wd_event_type lease) \<longrightarrow> (\<exists>r. payload = Removed_payload r \<and> wp_text r = ''''))"

abbreviation sendable :: "wh_delivery \<Rightarrow> webhook_db \<Rightarrow> webhook_request \<Rightarrow> bool" where
  "sendable lease \<equiv> may_send (wd_tenant_id lease) (wd_id lease)"

abbreviation calm_delivery :: "wh_delivery \<Rightarrow> (webhook_db \<Rightarrow> bool) \<Rightarrow> worker \<Rightarrow> bool" where
  "calm_delivery lease \<equiv> calm (wd_tenant_id lease) (sendable lease)"

lemma source_present_same: "same_delivery d lease \<Longrightarrow> source_present d c = source_present lease c"
  by (simp add: source_present_def same_delivery_def)

lemma sendable_claim:
  assumes "payload_fits lease (rq_body rq)" and "rq_idempotency_key rq = wd_id lease"
    and "\<not> removal_blocks lease authority" and "wh_fenced lease e authority db"
    and "d \<in> set (webhook_deliveries db)" and same: "same_delivery d lease" and "wd_status d = Wh_leased"
    and "wd_provider_request_started_at d = None" and "tenant_epoch (ledger db) (wd_tenant_id lease) = e"
  shows "sendable lease db rq"
proof -
  have "wd_tenant_id d = wd_tenant_id lease" "wd_id d = wd_id lease" "wd_event_type d = wd_event_type lease"
    using same by (simp_all add: same_delivery_def)
  then show ?thesis
    unfolding may_send_def using assms source_present_same [OF same]
    by (intro bexI [OF _ assms(5)]) (auto simp: removal_blocks_def payload_fits_def wh_fenced_def at_epoch_def)
qed

text \<open>
  The end of the handler and its \<open>catch\<close>, with what the stages of \<open>deliverOne\<close> rely on: they are calm
  wherever the delivery is in the ledger.
\<close>

locale delivery_handlers =
  fixes lease :: wh_delivery and k :: "unit \<Rightarrow> worker" and caught :: "delivery_locals \<Rightarrow> worker"
  assumes k: "\<And>u. calm_delivery lease (tracks lease) (k u)"
    and caught: "\<And>loc. calm_delivery lease (tracks lease) (caught loc)"
begin

lemma calm_here:
  "calm_delivery lease (wh_fenced lease e authority) (k u)"
  "calm_delivery lease (wh_fenced lease e authority) (caught loc)"
  by (rule calm_weaken [OF k] calm_weaken [OF caught]; simp add: wh_fenced_def)+

lemma calm_claim_send:
  assumes "payload_fits lease payload" and "\<not> removal_blocks lease authority"
    and "calm_delivery lease (wh_fenced lease e authority) w" and "calm_delivery lease (wh_fenced lease e authority) exn"
  shows "calm_delivery lease (wh_fenced lease e authority)
    (claim_provider_task lease e (\<lambda>started. if started then send_request env lease loc s ref auth payload caught k else w) exn)"
  by (rule calm_claim [OF safe_send_request [OF k caught] _ assms(3,4)])
    (auto simp: send_request_shape intro!: sendable_claim [OF _ _ assms(2)] assms(1))

lemma calm_start_request:
  assumes "payload_fits lease payload" and "\<not> removal_blocks lease authority"
  shows "calm_delivery lease (wh_fenced lease (lc_removalEpoch loc) authority)
    (start_request lease now loc caught k (\<lambda>loc2. send_request env lease loc2 s ref auth payload caught k))"
proof -
  have "calm_delivery lease (tracks lease)
      (removalFence lease loc (\<lambda>(changed, authority, loc1).
         if removal_blocks lease authority then cancelForRemoval lease now k (caught loc1)
         else if changed
         then claim_provider_task lease (lc_removalEpoch loc1) (\<lambda>again.
           if again then send_request env lease (loc1\<lparr>lc_providerRequestStarted := True\<rparr>) s ref auth payload caught k
           else k ()) (caught loc1)
         else k ()) (caught loc))"
    by (rule calm_fence_learn)
      (auto intro!: calm_claim_send assms(1) calm_here calm_cancelForRemoval caught)
  then show ?thesis
    unfolding start_request_def
    by (intro calm_claim_send assms calm_here) (erule calm_weaken, simp add: wh_fenced_def)
qed

lemma calm_with_subscription:
  assumes "\<And>s. calm_delivery lease (tracks lease) (go s)"
  shows "calm_delivery lease (tracks lease) (with_subscription lease now loc ref caught k go)"
  unfolding with_subscription_def by (auto intro!: calm_rules assms k caught split: option.split)

lemma calm_with_fence:
  assumes "\<And>changed authority e. \<not> removal_blocks lease authority
      \<Longrightarrow> calm_delivery lease (wh_fenced lease e authority) (go changed authority (loc\<lparr>lc_removalEpoch := e\<rparr>))"
  shows "calm_delivery lease (tracks lease) (with_fence lease now loc caught k go)"
  unfolding with_fence_def
  by (rule calm_fence_learn) (auto intro!: assms calm_cancelForRemoval calm_here caught)

lemma calm_with_message:
  assumes "\<And>loc. calm_delivery lease (tracks lease) (go loc)"
  shows "calm_delivery lease (tracks lease) (with_message lease now loc s caught k go)"
  unfolding with_message_def by (auto intro!: calm_rules assms k caught)

lemma calm_settle_fence:
  assumes "\<And>loc. calm_delivery lease (tracks lease) (go loc)"
  shows "calm_delivery lease (tracks lease) (settle_fence rounds lease now loc ref caught k go)"
proof (induction rounds arbitrary: loc)
  case (Suc rounds)
  have round: "calm_delivery lease (tracks lease) (if \<not> changed then go loc1
      else with_subscription lease now loc1 ref caught k (\<lambda>refreshed.
        with_message lease now loc1 refreshed caught k (\<lambda>loc2. settle_fence rounds lease now loc2 ref caught k go)))"
    for changed loc1
    using Suc assms by (auto intro!: calm_with_subscription calm_with_message)
  show ?case
    unfolding settle_fence.simps
    by (rule calm_with_fence, rule calm_weaken [OF round]) (simp add: wh_fenced_def)
qed (simp add: assms)

lemma calm_send_prepared:
  assumes "payload_fits lease payload"
  shows "calm_delivery lease (tracks lease) (send_prepared env lease now loc ref auth payload caught k)"
proof -
  have "calm_delivery lease (wh_fenced lease e authority)
      (start_request lease now (loc\<lparr>lc_removalEpoch := e\<rparr>) caught k
        (\<lambda>loc2. send_request env lease loc2 s ref auth payload caught k))"
    if "\<not> removal_blocks lease authority" for e authority s
    using calm_start_request [OF assms that, of "loc\<lparr>lc_removalEpoch := e\<rparr>"] by simp
  then show ?thesis
    unfolding send_prepared_def by (intro calm_with_subscription calm_with_fence)
qed

lemma calm_prepare_payload:
  "calm_delivery lease (tracks lease) (prepare_payload env lease now nowIso loc ref auth caught k)"
  unfolding prepare_payload_def Let_def
  by (intro calm_with_subscription calm_with_fence calm_weaken [of _ _ "tracks lease" _ "wh_fenced lease _ _"])
    (auto simp: wh_fenced_def payload_fits_def intro!: calm_removalPayloadFor calm_payloadFor calm_send_prepared
      calm_rules k caught split: option.split)

lemma calm_attempt_delivery:
  "calm_delivery lease (tracks lease) (attempt_delivery env lease now nowIso loc ref auth caught k)"
  unfolding attempt_delivery_def
  by (intro calm_with_subscription calm_with_message calm_settle_fence calm_prepare_payload)

lemma calm_try_delivery:
  "calm_delivery lease (tracks lease) (try_delivery env lease now nowIso loc caught k)"
  unfolding try_delivery_def with_credential_def Let_def
  by (auto intro!: calm_rules calm_attempt_delivery k caught split: option.split)

end

interpretation one_delivery: delivery_handlers lease "\<lambda>_. Finished"
  "\<lambda>loc. markNetworkFailure lease loc ''delivery_unavailable'' None None (\<lambda>_. Finished) Finished" for lease
  by unfold_locales (auto intro!: calm_rules)

section \<open>Every run of a delivery\<close>

definition unique_deliveries :: "webhook_db \<Rightarrow> bool" where
  "unique_deliveries db = distinct (map wd_id (webhook_deliveries db))"

lemma steady_unique [simp]: "steady tenant unique_deliveries"
  using delivery_step_evolves by (auto simp: steady_def other_step_def unique_deliveries_def deliveries_evolve_def)

definition read_row :: "string \<Rightarrow> string \<Rightarrow> wh_delivery option \<Rightarrow> webhook_db \<Rightarrow> bool" where
  "read_row tenant deliveryId row db = (unique_deliveries db
     \<and> (case row of None \<Rightarrow> True | Some d \<Rightarrow> tracks d db \<and> wh_delivery_key tenant deliveryId d))"

lemma read_row_read:
  assumes "unique_deliveries db"
  shows "read_row tenant deliveryId (readWebhookDelivery tenant deliveryId db) db"
proof (cases "readWebhookDelivery tenant deliveryId db")
  case (Some d)
  then have "d \<in> set (webhook_deliveries db)" "wh_delivery_key tenant deliveryId d"
    by (auto simp: readWebhookDelivery_def dest: find_SomeD)
  with Some assms show ?thesis
    by (auto simp: read_row_def tracks_def unique_deliveries_def intro: bexI [of _ d])
qed (simp add: read_row_def assms)

lemma tracks_lease: "tracks (d\<lparr>wd_lease_id := l, wd_lease_expires_at := t\<rparr>) = tracks d"
  by (simp add: fun_eq_iff tracks_def same_delivery_def)

lemma calm_claim_answer:
  assumes won: "\<And>lease. wh_delivery_key tenant deliveryId lease \<Longrightarrow> calm tenant S (tracks lease) (k (Some lease, False))"
    and lost: "\<And>busy. calm tenant S unique_deliveries (k (None, busy))"
  shows "calm tenant S (read_row tenant deliveryId row) (k (case row of
        None \<Rightarrow> (None, False)
      | Some d \<Rightarrow>
          if wd_status d \<noteq> Wh_leased \<or> wd_lease_id d \<noteq> Some leaseId then (None, held_by_another now row)
          else (Some (d\<lparr>wd_lease_id := Some leaseId, wd_lease_expires_at := Some leasedUntil\<rparr>), False)))"
proof (cases "\<exists>d. row = Some d \<and> wd_status d = Wh_leased \<and> wd_lease_id d = Some leaseId")
  case True
  then obtain d where d: "row = Some d" "wd_status d = Wh_leased" "wd_lease_id d = Some leaseId" by blast
  have "calm tenant S (read_row tenant deliveryId row)
      (k (Some (d\<lparr>wd_lease_id := Some leaseId, wd_lease_expires_at := Some leasedUntil\<rparr>), False))"
    using won [of "d\<lparr>wd_lease_id := Some leaseId, wd_lease_expires_at := Some leasedUntil\<rparr>"] d(1)
    by (auto simp: calm_def tracks_lease wh_delivery_key_def read_row_def)
  with d show ?thesis by simp
next
  case False
  then show ?thesis
    by (cases row) (auto intro!: calm_weaken [OF lost] simp: read_row_def)
qed

lemma calm_read_row:
  assumes "\<And>row. calm tenant S (read_row tenant deliveryId row) (w row)" and "calm tenant S unique_deliveries exn"
  shows "calm tenant S unique_deliveries (query (readWebhookDelivery tenant deliveryId) w exn)"
  by (rule calm_query_learn [where B = "read_row tenant deliveryId"]) (auto intro: read_row_read assms)

lemma calm_claimDelivery:
  assumes "\<And>lease. wh_delivery_key tenant deliveryId lease \<Longrightarrow> calm tenant S (tracks lease) (k (Some lease, False))"
    and "\<And>busy. calm tenant S unique_deliveries (k (None, busy))" and "calm tenant S unique_deliveries exn"
  shows "calm tenant S unique_deliveries (claimDelivery tenant deliveryId now k exn)"
  unfolding claimDelivery_def Let_def task_simps
  by (intro calm_execute calm_questions calm_the_or_throw calm_read_row calm_claim_answer steady_unique assms)
    (auto intro: ds_doubt ds_overdue ds_lease)

lemma calm_deliverOne:
  "calm tenant (may_send tenant deliveryId) unique_deliveries (deliverOne env tenant deliveryId (\<lambda>_. Finished) Rejected)"
proof -
  have won: "calm tenant (may_send tenant deliveryId) (tracks lease)
      (case to_iso_string now of
         None \<Rightarrow> Rejected
       | Some nowIso \<Rightarrow>
           removalFence lease loc (\<lambda>(_, authority, loc1).
             if removal_blocks lease authority then cancelForRemoval lease nowIso (\<lambda>_. Finished) Rejected
             else try_delivery env lease now nowIso loc1
               (\<lambda>loc'. markNetworkFailure lease loc' ''delivery_unavailable'' None None (\<lambda>_. Finished) Finished)
               (\<lambda>_. Finished)) Rejected)"
    if "wh_delivery_key tenant deliveryId lease" for lease loc now
    using that one_delivery.calm_try_delivery [of lease env now _]
    by (auto simp: wh_delivery_key_def intro!: calm_removalFence calm_cancelForRemoval split: option.split)
  show ?thesis
    unfolding deliverOne_def Let_def
    by (intro calm_questions(1) calm_claimDelivery steady_unique) (auto intro: won)
qed

end
