(* ===== verification/Webhook_Properties.thy ===== *)
theory Webhook_Properties
  imports Webhook_Fence
begin

text \<open>
  What the webhook ledger promises along every interleaving of workers, removals and owners.
\<close>

section \<open>The rows\<close>

definition wh_row_step :: "wh_delivery \<Rightarrow> wh_delivery \<Rightarrow> bool" where
  "wh_row_step d d' = (same_delivery d' d \<and> wd_attempt_count d \<le> wd_attempt_count d'
     \<and> (wd_status d = Wh_delivered \<or> wd_status d = Wh_cancelled \<longrightarrow> d' = d))"

text \<open>What \<open>Date.parse\<close> reads from a printed date is that date.\<close>

lemma date_parse_printed:
  assumes "to_iso_string ms = Some s" and "date_parse s = Some p"
  shows "p = ms"
proof (cases "0 \<le> year_from_day (ms div ms_per_day) \<and> year_from_day (ms div ms_per_day) \<le> 9999")
  case True
  then show ?thesis using date_parse_to_iso_string [OF assms(1)] assms(2) by simp
next
  case False
  then obtain c rest where "s = c # rest" "c = CHR ''-'' \<or> c = CHR ''+''"
    using assms(1) by (auto simp: to_iso_string_def year_text_def Let_def split: if_splits)
  then have "read_digits 4 0 s = None"
    by (auto simp: eval_nat_numeral digit_value_def)
  with assms(2) show ?thesis by (simp add: date_parse_def)
qed

definition next_in_window :: "wh_delivery \<Rightarrow> bool" where
  "next_in_window d =
     (case wd_next_attempt_at d of
        None \<Rightarrow> True
      | Some t \<Rightarrow> wd_manual_retry_at d \<noteq> None
          \<or> (\<exists>ms first. to_iso_string ms = Some t \<and> date_parse (wd_first_pending_at d) = Some first
               \<and> ms \<le> first + RETRY_WINDOW_MS))"

definition wh_row_ok :: "wh_delivery \<Rightarrow> bool" where
  "wh_row_ok d =
     ((wd_status d = Wh_cancelled) = (wd_cancelled_at d \<noteq> None)
      \<and> (wd_status d = Wh_leased) = (wd_lease_id d \<noteq> None)
      \<and> (wd_lease_id d \<noteq> None) = (wd_lease_expires_at d \<noteq> None)
      \<and> (wd_status d = Wh_delivered \<longrightarrow> wd_delivered_at d \<noteq> None)
      \<and> (wd_next_attempt_at d \<noteq> None \<longrightarrow> wd_status d = Wh_pending)
      \<and> retryDeadlineFor (wd_first_pending_at d) = Some (wd_retry_deadline d)
      \<and> 0 \<le> wd_attempt_count d \<and> next_in_window d)"

definition deliveries_ok :: "webhook_db \<Rightarrow> bool" where
  "deliveries_ok db = (unique_deliveries db \<and> (\<forall>d \<in> set (webhook_deliveries db). wh_row_ok d))"

definition wh_rows_step :: "webhook_db \<Rightarrow> webhook_db \<Rightarrow> bool" where
  "wh_rows_step db db' = (deliveries_ok db \<longrightarrow>
     deliveries_ok db' \<and> (\<forall>d \<in> set (webhook_deliveries db). \<exists>d' \<in> set (webhook_deliveries db'). wh_row_step d d'))"

lemma wh_row_step_refl [simp]: "wh_row_step d d"
  by (simp add: wh_row_step_def)

lemma wh_row_step_trans: "wh_row_step a b \<Longrightarrow> wh_row_step b c \<Longrightarrow> wh_row_step a c"
  by (auto simp: wh_row_step_def intro: same_delivery_trans)

lemma wh_rows_step_trans: "wh_rows_step a b \<Longrightarrow> wh_rows_step b c \<Longrightarrow> wh_rows_step a c"
  unfolding wh_rows_step_def by (meson wh_row_step_trans)

lemma wh_rows_step_refl [simp]: "wh_rows_step db db"
  unfolding wh_rows_step_def using wh_row_step_refl by blast

text \<open>An \<open>UPDATE\<close> keeps the rows well formed when it does so on each row it selects.\<close>

lemma update_rows_step:
  assumes "\<And>d. d \<in> set (webhook_deliveries db) \<Longrightarrow> P d \<Longrightarrow> wh_row_ok d \<Longrightarrow> wh_row_ok (f d) \<and> wh_row_step d (f d)"
  shows "wh_rows_step db (upd_deliveries P f db)"
  unfolding wh_rows_step_def
proof (intro impI)
  assume ok: "deliveries_ok db"
  let ?f = "\<lambda>d. if P d then f d else d"
  have rows: "webhook_deliveries (upd_deliveries P f db) = map ?f (webhook_deliveries db)"
    by (simp add: upd_deliveries_def upd_where_def)
  have each: "wh_row_ok (?f d) \<and> wh_row_step d (?f d)" if "d \<in> set (webhook_deliveries db)" for d
    using assms that ok by (auto simp: deliveries_ok_def)
  have "wd_id (?f d) = wd_id d" if "d \<in> set (webhook_deliveries db)" for d
    using each [OF that] by (simp only: wh_row_step_def same_delivery_def)
  then have ids: "map wd_id (map ?f (webhook_deliveries db)) = map wd_id (webhook_deliveries db)"
    by (simp only: map_map comp_def map_eq_conv) blast
  have "unique_deliveries (upd_deliveries P f db)"
    using ok unfolding deliveries_ok_def unique_deliveries_def rows ids by blast
  moreover have "\<forall>d \<in> set (map ?f (webhook_deliveries db)). wh_row_ok d"
    unfolding set_map using each by blast
  moreover have "\<forall>d \<in> set (webhook_deliveries db). \<exists>d' \<in> set (map ?f (webhook_deliveries db)). wh_row_step d d'"
    unfolding set_map using each by blast
  ultimately show "deliveries_ok (upd_deliveries P f db) \<and> (\<forall>d \<in> set (webhook_deliveries db).
      \<exists>d' \<in> set (webhook_deliveries (upd_deliveries P f db)). wh_row_step d d')"
    unfolding deliveries_ok_def rows by blast
qed

lemma queued_row_ok:
  assumes "queued_row d"
  shows "wh_row_ok d"
proof -
  obtain ms where ms: "to_iso_string ms = Some (wd_first_pending_at d)"
    using assms by (auto simp: queued_row_def)
  obtain first where first: "date_parse (wd_first_pending_at d) = Some first"
    using assms by (auto simp: queued_row_def retryDeadlineFor_def split: option.splits)
  then have "first = ms" by (rule date_parse_printed [OF ms])
  with assms ms first show ?thesis
    by (auto simp: queued_row_def wh_row_ok_def next_in_window_def RETRY_WINDOW_MS_def)
qed

lemma insert_rows_step:
  assumes "insert_batch rows db = Some db'" and "list_all queued_row rows"
  shows "wh_rows_step db db'"
proof -
  obtain new where new: "webhook_deliveries db' = webhook_deliveries db @ new" "set new \<subseteq> set rows"
      "unique_deliveries db \<longrightarrow> unique_deliveries db'"
    using assms(1) insert_all_evolves [of rows "webhook_deliveries db"]
    by (auto simp: insert_batch_def unique_deliveries_def split: if_splits)
  have "wh_row_ok d" if "d \<in> set new" for d
    using that new(2) assms(2) by (auto simp: list_all_iff intro: queued_row_ok)
  with new show ?thesis
    by (auto simp: wh_rows_step_def deliveries_ok_def intro: wh_row_step_refl)
qed

lemma next_attempt_in_window:
  assumes "wh_row_ok d" and "next_attempt_for now (wd_retry_deadline d) attempts = Some (Some t)"
  shows "\<exists>ms first. to_iso_string ms = Some t \<and> date_parse (wd_first_pending_at d) = Some first
    \<and> ms \<le> first + RETRY_WINDOW_MS"
proof -
  obtain first where first: "date_parse (wd_first_pending_at d) = Some first"
      "to_iso_string (first + RETRY_WINDOW_MS) = Some (wd_retry_deadline d)"
    using assms(1) by (auto simp: wh_row_ok_def retryDeadlineFor_def split: option.splits)
  obtain deadline where deadline: "date_parse (wd_retry_deadline d) = Some deadline"
      "to_iso_string (min (now + retryDelayFor attempts) deadline) = Some t"
    using assms(2) by (auto simp: next_attempt_for_def split: option.splits if_splits)
  have "deadline = first + RETRY_WINDOW_MS" by (rule date_parse_printed [OF first(2) deadline(1)])
  with first deadline show ?thesis by auto
qed

lemma failed_rows_step:
  assumes "\<And>d. d \<in> set (webhook_deliveries db) \<Longrightarrow> wd_id d = deliveryId \<Longrightarrow>
       next_attempt_for ms (wd_retry_deadline d) attempts = Some nextAttemptAt"
  shows "wh_rows_step db
    (finish_failed_row tenant deliveryId leaseId nextAttemptAt httpStatus code payload body started epoch db)"
  unfolding finish_failed_row_def Let_def
proof (rule update_rows_step)
  fix d
  assume d: "d \<in> set (webhook_deliveries db)" "wh_row_ok d"
    and may: "may_finish_failed tenant deliveryId leaseId started epoch db d"
  have here: "next_attempt_for ms (wd_retry_deadline d) attempts = Some nextAttemptAt"
    using assms d may by (simp add: may_finish_failed_def held_by_def wh_delivery_key_def)
  show "wh_row_ok (d\<lparr>wd_status := if nextAttemptAt \<noteq> None then Wh_pending else Wh_failed,
        wd_next_attempt_at := nextAttemptAt, wd_delivered_at := None, wd_http_status := httpStatus,
        wd_error_code := Some (if nextAttemptAt \<noteq> None then code else ''retry_deadline_exceeded''),
        wd_payload_json := payload, wd_last_response_body := body, wd_lease_id := None, wd_lease_expires_at := None,
        wd_manual_retry_at := None, wd_uncertain_at := None, wd_uncertainty_reason := None,
        wd_provider_request_started_at := None\<rparr>)
      \<and> wh_row_step d (d\<lparr>wd_status := if nextAttemptAt \<noteq> None then Wh_pending else Wh_failed,
        wd_next_attempt_at := nextAttemptAt, wd_delivered_at := None, wd_http_status := httpStatus,
        wd_error_code := Some (if nextAttemptAt \<noteq> None then code else ''retry_deadline_exceeded''),
        wd_payload_json := payload, wd_last_response_body := body, wd_lease_id := None, wd_lease_expires_at := None,
        wd_manual_retry_at := None, wd_uncertain_at := None, wd_uncertainty_reason := None,
        wd_provider_request_started_at := None\<rparr>)"
    using d(2) may next_attempt_in_window [OF d(2)] here
    by (cases nextAttemptAt)
      (auto simp: wh_row_ok_def next_in_window_def wh_row_step_def same_delivery_def may_finish_failed_def held_by_def)
qed

lemma subscriptions_rows_step:
  "wh_rows_step (db\<lparr>webhook_subscriptions := ss\<rparr>) db' \<Longrightarrow> wh_rows_step db db'"
  by (simp add: wh_rows_step_def deliveries_ok_def unique_deliveries_def)

lemma backlog_rows_step: "wh_rows_step db (cancel_backlog tenant subscriptionId reason P now db)"
  unfolding cancel_backlog_def
  by (rule update_rows_step) (auto simp: wh_row_ok_def next_in_window_def wh_row_step_def same_delivery_def)

lemma delivery_step_rows: "delivery_step db db' \<Longrightarrow> wh_rows_step db db'"
proof (induction rule: delivery_step.induct)
  case (ds_ledger db c)
  then show ?case by (auto simp: wh_rows_step_def deliveries_ok_def unique_deliveries_def intro: wh_row_step_refl)
next
  case (ds_directory db' db)
  then show ?case by (auto simp: wh_rows_step_def deliveries_ok_def unique_deliveries_def intro: wh_row_step_refl)
next
  case (ds_failed db deliveryId ms attempts nextAttemptAt tenant leaseId httpStatus code payload body started epoch)
  then show ?case by (rule failed_rows_step)
next
  case (ds_cutover db tenant subscriptionId destination now)
  then show ?case
    unfolding cutover_destination_def Let_def by (rule subscriptions_rows_step [OF backlog_rows_step])
next
  case (ds_revoke db tenant subscriptionId now)
  then show ?case
    unfolding revoke_subscription_def Let_def by (rule subscriptions_rows_step [OF backlog_rows_step])
next
  case (ds_insert rows db db')
  then show ?case by (rule insert_rows_step)
next
  case (ds_removal db authority now)
  then show ?case
    unfolding cancelWebhookDeliveriesForRemoval_def Let_def
    by (auto intro!: update_rows_step
        simp: wh_row_ok_def next_in_window_def wh_row_step_def same_delivery_def cancel_row_def)
next
  case (ds_lease ms now leasedUntil db tenant deliveryId leaseId)
  then show ?case
    unfolding lease_delivery_def
    by (auto intro!: update_rows_step simp: wh_row_ok_def next_in_window_def wh_row_step_def same_delivery_def
        lease_row_to_def claimable_def lease_expired_def)
qed (auto intro!: update_rows_step simp: wh_row_ok_def next_in_window_def wh_row_step_def same_delivery_def
    statement_defs cancel_row_def held_by_def lease_expired_def may_finish_successful_def may_start_request_def)

interpretation delivery_rows: step_relation delivery_step wh_rows_step
  by unfold_locales (auto intro: wh_rows_step_trans delivery_step_rows)

section \<open>Runs of workers\<close>

lemma safe_worker_database:
  assumes "worker_step tenant (db, w) (db', w')" and "safe_worker tenant S w db"
  shows "delivery_step\<^sup>*\<^sup>* db db'"
  using assms
  by (cases rule: worker_stepE) (auto simp: other_step_def elim!: allE [of _ db])

lemma safe_worker_databases:
  assumes "(worker_step tenant)\<^sup>*\<^sup>* (db, w) (db', w')" and "safe_worker tenant S w db"
  shows "delivery_step\<^sup>*\<^sup>* db db'"
  using assms(1)
proof (induction rule: rtranclp_induct2)
  case (step db1 w1 db2 w2)
  have "safe_worker tenant S w1 db1" by (rule safe_worker_run [OF step.hyps(1) assms(2)])
  then show ?case
    using safe_worker_database [OF step.hyps(2)] step.IH by (blast intro: rtranclp_trans)
qed simp

lemma safe_deliverOne:
  "unique_deliveries db \<Longrightarrow>
     safe_worker tenant (may_send tenant deliveryId) (deliverOne env tenant deliveryId (\<lambda>_. Finished) Rejected) db"
  using calm_deliverOne by (auto simp: calm_def)

text \<open>A scripted run up to the claim of the request: fixed answers of the outside, no other workers.\<close>

primrec drive :: "int \<Rightarrow> string \<Rightarrow> webhook_message \<Rightarrow> worker \<Rightarrow> webhook_db \<Rightarrow> webhook_db \<times> worker" where
  "drive t r m Finished = (\<lambda>db. (db, Finished))"
| "drive t r m Rejected = (\<lambda>db. (db, Rejected))"
| "drive t r m (Statement f k exn) =
     (\<lambda>db. if requests (k db) = None then drive t r m (k db) (f db) else (db, Statement f k exn))"
| "drive t r m (Clock k) = (\<lambda>db. drive t r m (k t) db)"
| "drive t r m (Random k) = (\<lambda>db. drive t r m (k r) db)"
| "drive t r m (Credential q k) = (\<lambda>db. drive t r m (k (Some None)) db)"
| "drive t r m (Project q k) = (\<lambda>db. drive t r m (k (Some (Some m))) db)"
| "drive t r m (Fetch q k) = (\<lambda>db. (db, Fetch q k))"

lemma drive_run: "(worker_step tenant)\<^sup>*\<^sup>* (db, w) (drive t r m w db)"
proof (induction w arbitrary: db)
  case (Statement f k exn)
  show ?case
    using converse_rtranclp_into_rtranclp [OF worker_step.statement [of tenant db f k exn] Statement(1) [OF rangeI]] by simp
next
  case (Clock k)
  show ?case
    using converse_rtranclp_into_rtranclp [OF worker_step.clock Clock [OF rangeI]] by simp
next
  case (Random k)
  show ?case
    using converse_rtranclp_into_rtranclp [OF worker_step.random Random [OF rangeI]] by simp
next
  case (Credential q k)
  show ?case
    using converse_rtranclp_into_rtranclp [OF worker_step.credential Credential [OF rangeI]] by simp
next
  case (Project q k)
  show ?case
    using converse_rtranclp_into_rtranclp [OF worker_step.project Project [OF rangeI]] by simp
qed simp_all

section \<open>A sample database\<close>

definition sample_subscription :: webhook_subscription where
  "sample_subscription =
     \<lparr>ws_id = ''whs_a'', ws_tenant_id = ''tnt_a'', ws_owner_installation_id = None, ws_owner_principal_id = ''prn_a'',
      ws_creator_principal_id = ''prn_a'', ws_creator_membership_id = ''mem_a'', ws_creator_identity_id = None,
      ws_logical_agent_id = None, ws_destination = \<lparr>ds_url = ''https://hooks.example'', ds_credential_ref = None\<rparr>,
      ws_destination_version = 1, ws_event_types = [''message.created''], ws_global_enabled = True,
      ws_account_rules = [], ws_chat_rules = [], ws_active = True\<rparr>"

definition sample_webhook_row :: wh_delivery where
  "sample_webhook_row = new_delivery ''whd_a'' ''tnt_a'' sample_subscription ''evt_a'' Wh_message_created ''msg_a''
     (Some ''idn_a'') (Some ''acc_a'') (Some ''cnv_a'') ''evt_a'' 0 ''2026-01-01T00:00:00.000Z''
     ''2026-01-02T00:00:00.000Z''"

definition sample_webhooks :: webhook_db where
  "sample_webhooks =
     \<lparr>ledger = empty_control, webhook_deliveries = [sample_webhook_row], webhook_subscriptions = [sample_subscription],
      connections = [\<lparr>cn_tenant_id = ''tnt_a'', cn_id = ''con_a''\<rparr>],
      connection_accounts = [\<lparr>ca_connection_id = ''con_a'', ca_account_id = ''acc_a'', ca_active = True\<rparr>],
      identities = [],
      memberships = [\<lparr>mb_tenant_id = ''tnt_a'', mb_id = ''mem_a'', mb_principal_id = ''prn_a'', mb_role = Role_owner,
        mb_active = True\<rparr>],
      principals = [\<lparr>pr_id = ''prn_a'', pr_active = True, pr_revoked_at = None\<rparr>],
      account_grants = [], account_grant_chats = [], oauth_client_installations = [],
      attachment_download_grants = []\<rparr>"

definition sample_message :: webhook_message where
  "sample_message =
     \<lparr>wm_message_id = ''msg_a'', wm_tenant_id = ''tnt_a'', wm_identity_id = ''idn_a'', wm_account_id = ''acc_a'',
      wm_conversation_id = ''cnv_a'', wm_direction = Inbound, wm_sender_participant_id = None,
      wm_sender_label = ''Ada'', wm_body = ''hello'', wm_occurred_at = ''2026-01-01T00:00:00.000Z'',
      wm_revision = ''evt_a'', wm_remote_message_id = None, wm_matrix_room_id = None, wm_matrix_event_id = None,
      wm_deleted_at = None, wm_attachments = []\<rparr>"

definition sample_webhook_env :: webhook_env where
  "sample_webhook_env = \<lparr>we_sha256Hex = id, we_textDecode = map char_of, we_payload_accepted = (\<lambda>_. True)\<rparr>"

definition sample_time :: int where
  "sample_time = 1767225600000"

definition sample_worker :: worker where
  "sample_worker = deliverOne sample_webhook_env ''tnt_a'' ''whd_a'' (\<lambda>_. Finished) Rejected"

definition sample_delivery_claim :: "webhook_db \<times> worker" where
  "sample_delivery_claim = drive sample_time ''u'' sample_message sample_worker sample_webhooks"

text \<open>The run has come to the claim after which the request of the sample delivery leaves.\<close>

fun claim_ready :: "webhook_db \<times> worker \<Rightarrow> bool" where
  "claim_ready (db, Statement f k exn) =
     (requests (k db) \<noteq> None
      \<and> list_all (\<lambda>d. wd_event_type d = Wh_message_created \<and> wd_source_message_id d = Some ''msg_a''
          \<and> wd_source_account_id d = Some ''acc_a'' \<and> wd_source_conversation_id d = Some ''cnv_a'')
        (webhook_deliveries db))"
| "claim_ready _ = False"

lemma claim_ready_step:
  assumes "claim_ready (db, w)"
  shows "\<exists>db' w' rq. worker_step tenant (db, w) (db', w') \<and> requests w = None \<and> requests w' = Some rq
    \<and> (\<forall>d \<in> set (webhook_deliveries db). wd_event_type d = Wh_message_created
         \<and> wd_source_message_id d = Some ''msg_a'' \<and> wd_source_account_id d = Some ''acc_a''
         \<and> wd_source_conversation_id d = Some ''cnv_a'')"
proof (cases w)
  case (Statement f k exn)
  with assms show ?thesis using worker_step.statement [of tenant db f k exn] by (auto simp: list_all_iff)
qed (use assms in simp_all)

section \<open>Properties\<close>

text \<open>
  C35: whatever the other workers, the owner and the removals do between two awaits of \<open>deliverOne\<close>, a
  request leaves only in the instant in which the provider claim of its delivery succeeds: the row is
  then leased and not yet started, the idempotency key is the delivery, a removal delivery carries
  a removal payload with an empty text, and no removal covers the source message of any other
  delivery at that instant. The steps of the others are those of the ledger, each of which advances
  the deletion epoch of the tenant when it records a removal.
\<close>

theorem webhook_request_needs_present_source:
  assumes "unique_deliveries db0"
    and "(worker_step tenant)\<^sup>*\<^sup>* (db0, deliverOne env tenant deliveryId (\<lambda>_. Finished) Rejected) (db, w)"
    and "worker_step tenant (db, w) (db', w')" and "requests w = None" and "requests w' = Some rq"
  shows "\<exists>d \<in> set (webhook_deliveries db).
    wd_tenant_id d = tenant \<and> wd_id d = deliveryId \<and> wd_status d = Wh_leased
    \<and> wd_provider_request_started_at d = None \<and> rq_idempotency_key rq = deliveryId
    \<and> (if isWebhookRemovalDelivery (wd_event_type d)
       then \<exists>r. rq_body rq = Removed_payload r \<and> wp_text r = ''''
       else \<forall>m a cv. wd_source_message_id d = Some m \<longrightarrow> wd_source_account_id d = Some a
         \<longrightarrow> wd_source_conversation_id d = Some cv
         \<longrightarrow> readAuthorizedMessageRemoval (ledger db) tenant m a cv = None)"
  using safe_worker_request [OF assms(3) safe_worker_run [OF assms(2) safe_deliverOne [OF assms(1)]] assms(4,5)]
  unfolding may_send_def source_present_def by fastforce

lemma sample_webhooks_unique: "unique_deliveries sample_webhooks"
  by code_simp

lemma sample_delivery_claim_ready: "claim_ready sample_delivery_claim"
  by code_simp

lemma sample_delivery_claim_run:
  "(worker_step ''tnt_a'')\<^sup>*\<^sup>* (sample_webhooks, sample_worker) (fst sample_delivery_claim, snd sample_delivery_claim)"
  using drive_run [of "''tnt_a''" sample_webhooks sample_worker] by (simp add: sample_delivery_claim_def)

theorem webhook_request_needs_present_source_witness:
  "\<exists>d \<in> set (webhook_deliveries (fst sample_delivery_claim)).
     wd_id d = ''whd_a'' \<and> wd_status d = Wh_leased \<and> wd_provider_request_started_at d = None
     \<and> readAuthorizedMessageRemoval (ledger (fst sample_delivery_claim)) ''tnt_a'' ''msg_a'' ''acc_a'' ''cnv_a'' = None"
proof -
  have "claim_ready (fst sample_delivery_claim, snd sample_delivery_claim)" using sample_delivery_claim_ready by simp
  then obtain db' w' rq where step: "worker_step ''tnt_a'' (fst sample_delivery_claim, snd sample_delivery_claim) (db', w')"
      "requests (snd sample_delivery_claim) = None" "requests w' = Some rq"
    and rows: "\<forall>d \<in> set (webhook_deliveries (fst sample_delivery_claim)). wd_event_type d = Wh_message_created
      \<and> wd_source_message_id d = Some ''msg_a'' \<and> wd_source_account_id d = Some ''acc_a''
      \<and> wd_source_conversation_id d = Some ''cnv_a''"
    using claim_ready_step by blast
  from webhook_request_needs_present_source
    [OF sample_webhooks_unique sample_delivery_claim_run [unfolded sample_worker_def] step]
  show ?thesis
    using rows by (auto simp: isWebhookRemovalDelivery_def)
qed

text \<open>
  C36: along every run of a delivery worker among the others the ledger stays well formed (a lease
  exactly on the leased rows, a cancellation time exactly on the cancelled ones, a next attempt only on
  pending rows and never after the retry window unless the owner asked for it, the deadline always
  that of the first attempt) and every row persists with its identity, its destination version and
  its deadline; its attempts never decrease, and once delivered or cancelled it never changes again.
\<close>

theorem webhook_rows_evolve:
  assumes "deliveries_ok db0"
    and "(worker_step tenant)\<^sup>*\<^sup>* (db0, deliverOne env tenant deliveryId (\<lambda>_. Finished) Rejected) (db, w)"
  shows "deliveries_ok db
    \<and> (\<forall>d \<in> set (webhook_deliveries db0). \<exists>d' \<in> set (webhook_deliveries db). wh_row_step d d')"
proof -
  have "delivery_step\<^sup>*\<^sup>* db0 db"
    by (rule safe_worker_databases [OF assms(2) safe_deliverOne]) (use assms(1) in \<open>simp add: deliveries_ok_def\<close>)
  from delivery_rows.rel_steps [OF this] assms(1) show ?thesis
    unfolding wh_rows_step_def by blast
qed

lemma sample_row_ok: "queued_row sample_webhook_row"
proof -
  have "to_iso_string sample_time = Some ''2026-01-01T00:00:00.000Z''" by code_simp
  moreover have "retryDeadlineFor ''2026-01-01T00:00:00.000Z'' = Some ''2026-01-02T00:00:00.000Z''" by code_simp
  ultimately show ?thesis
    unfolding queued_row_def sample_webhook_row_def new_delivery_def by auto
qed

lemma sample_webhooks_ok: "deliveries_ok sample_webhooks"
  using queued_row_ok [OF sample_row_ok] sample_webhooks_unique
  by (simp add: deliveries_ok_def sample_webhooks_def)

theorem webhook_rows_evolve_witness:
  "deliveries_ok (fst sample_delivery_claim)
   \<and> (\<exists>d' \<in> set (webhook_deliveries (fst sample_delivery_claim)). wh_row_step sample_webhook_row d')"
  using webhook_rows_evolve [OF sample_webhooks_ok sample_delivery_claim_run [unfolded sample_worker_def]]
  by (simp add: sample_webhooks_def)

lemma backoff_range: "1000 \<le> retryDelayFor n \<and> retryDelayFor n \<le> 21600000"
proof -
  have "list_all (\<lambda>i. 1000 \<le> RETRY_BACKOFF_MS ! i \<and> RETRY_BACKOFF_MS ! i \<le> 21600000) [0..<7]" by code_simp
  moreover have "nat (max 0 (min (n - 1) (int (length RETRY_BACKOFF_MS) - 1))) < 7"
    by (simp add: RETRY_BACKOFF_MS_def)
  ultimately show ?thesis unfolding retryDelayFor_def Let_def by (auto simp: list_all_iff)
qed

lemma backoff_sorted: "sorted RETRY_BACKOFF_MS"
  by code_simp

lemma backoff_mono:
  assumes "n \<le> n'"
  shows "retryDelayFor n \<le> retryDelayFor n'"
  unfolding retryDelayFor_def Let_def
  by (rule sorted_nth_mono [OF backoff_sorted]) (use assms in \<open>auto simp: RETRY_BACKOFF_MS_def\<close>)

text \<open>
  C37: a failed attempt is tried again at a time after now, not after the retry deadline and at most six
  hours away, and no sooner than a second unless the deadline comes first; a later attempt never waits
  less than an earlier one.
\<close>

theorem next_attempt_within_backoff_and_deadline:
  assumes "next_attempt_for now retryDeadline attemptCount = Some (Some t)"
  shows "(\<exists>ms deadline. date_parse retryDeadline = Some deadline \<and> to_iso_string ms = Some t
       \<and> now < ms \<and> ms \<le> deadline \<and> ms - now \<le> 6 * 60 * 60 * 1000 \<and> (ms = deadline \<or> 1000 \<le> ms - now))
    \<and> (\<forall>later \<ge> attemptCount. retryDelayFor attemptCount \<le> retryDelayFor later)"
proof -
  obtain deadline where deadline: "date_parse retryDeadline = Some deadline" "now < deadline"
      "to_iso_string (min (now + retryDelayFor attemptCount) deadline) = Some t"
    using assms by (auto simp: next_attempt_for_def split: option.splits if_splits)
  then show ?thesis
    using backoff_range [of attemptCount] backoff_mono
    by (intro conjI exI [of _ "min (now + retryDelayFor attemptCount) deadline"] exI [of _ deadline]) auto
qed

theorem next_attempt_within_backoff_and_deadline_witness:
  "next_attempt_for sample_time ''2026-01-02T00:00:00.000Z'' 1 = Some (Some ''2026-01-01T00:00:01.000Z'')
   \<and> retryDelayFor 1 \<le> retryDelayFor 2"
proof -
  have one: "next_attempt_for sample_time ''2026-01-02T00:00:00.000Z'' 1 = Some (Some ''2026-01-01T00:00:01.000Z'')"
    by code_simp
  from one next_attempt_within_backoff_and_deadline [OF one] show ?thesis by auto
qed

lemma readBody_takes:
  "length taken \<le> MAX_RESPONSE_BODY_BYTES \<Longrightarrow>
     readBody chunks taken = taken @ take (MAX_RESPONSE_BODY_BYTES - length taken) (concat chunks)"
proof (induction chunks arbitrary: taken)
  case Nil
  then show ?case by (subst readBody.simps) simp
next
  case (Cons chunk rest)
  then show ?case
    by (subst readBody.simps) (auto simp: Let_def)
qed

text \<open>
  C38: however the transport cuts a response into chunks, the body kept with a delivery is exactly its
  first 8192 bytes.
\<close>

theorem readBody_keeps_prefix: "readBody chunks [] = take MAX_RESPONSE_BODY_BYTES (concat chunks)"
  by (simp add: readBody_takes)

section \<open>The end of a delivery\<close>

text \<open>The three statements of \<open>claimDelivery\<close>, run by one worker.\<close>

definition claim_statements :: "string \<Rightarrow> string \<Rightarrow> string \<Rightarrow> string \<Rightarrow> string \<Rightarrow> webhook_db \<Rightarrow> webhook_db" where
  "claim_statements tenant deliveryId leaseId leasedUntil now db =
     lease_delivery tenant deliveryId leaseId leasedUntil now
       (fail_overdue tenant deliveryId now (doubt_expired tenant deliveryId now db))"

definition ended_row :: "wh_delivery \<Rightarrow> bool" where
  "ended_row d = (wd_status d \<in> {Wh_failed, Wh_uncertain, Wh_delivered, Wh_cancelled})"

lemma readWebhookDelivery_row:
  assumes "unique_deliveries db" and "d \<in> set (webhook_deliveries db)" and "wh_delivery_key tenant deliveryId d"
  shows "readWebhookDelivery tenant deliveryId db = Some d"
proof -
  have "find (wh_delivery_key tenant deliveryId) ds = Some d"
    if "distinct (map wd_id ds)" "d \<in> set ds" for ds
    using that assms(3) by (induction ds) (auto simp: wh_delivery_key_def)
  then show ?thesis using assms(1,2) by (simp add: readWebhookDelivery_def unique_deliveries_def)
qed

text \<open>One \<open>UPDATE\<close> as seen by the row with the key.\<close>

lemma upd_deliveries_row:
  assumes "unique_deliveries db" and "readWebhookDelivery tenant deliveryId db = Some d" and "\<And>x. wd_id (f x) = wd_id x"
    and "\<And>x. wd_tenant_id (f x) = wd_tenant_id x"
  shows "unique_deliveries (upd_deliveries P f db)
    \<and> readWebhookDelivery tenant deliveryId (upd_deliveries P f db) = Some (if P d then f d else d)"
proof -
  have rows: "webhook_deliveries (upd_deliveries P f db) = map (\<lambda>d. if P d then f d else d) (webhook_deliveries db)"
    by (simp add: upd_deliveries_def upd_where_def)
  have "map wd_id (webhook_deliveries (upd_deliveries P f db)) = map wd_id (webhook_deliveries db)"
    unfolding rows map_map comp_def by (intro map_cong refl) (simp add: assms(3))
  then have unique: "unique_deliveries (upd_deliveries P f db)"
    using assms(1) by (simp only: unique_deliveries_def)
  have "d \<in> set (webhook_deliveries db)" "wh_delivery_key tenant deliveryId d"
    using assms(2) by (auto simp: readWebhookDelivery_def dest: find_SomeD)
  then have "readWebhookDelivery tenant deliveryId (upd_deliveries P f db) = Some (if P d then f d else d)"
    by (intro readWebhookDelivery_row unique) (auto simp: rows wh_delivery_key_def assms(3,4))
  with unique show ?thesis by blast
qed

lemma updated_row:
  assumes "unique_deliveries db" and "readWebhookDelivery tenant deliveryId db = Some d" and "R (if P d then f d else d)"
    and "\<And>x. wd_id (f x) = wd_id x" and "\<And>x. wd_tenant_id (f x) = wd_tenant_id x"
  shows "unique_deliveries (upd_deliveries P f db)
    \<and> (\<exists>d'. readWebhookDelivery tenant deliveryId (upd_deliveries P f db) = Some d' \<and> R d')"
  using upd_deliveries_row [OF assms(1,2), of f P] assms(3-5) by auto

lemma doubted_row:
  assumes "unique_deliveries db" and "readWebhookDelivery tenant deliveryId db = Some d"
  shows "unique_deliveries (doubt_expired tenant deliveryId now db)
    \<and> (\<exists>d'. readWebhookDelivery tenant deliveryId (doubt_expired tenant deliveryId now db) = Some d'
        \<and> (if lease_expired now d \<and> wd_provider_request_started_at d \<noteq> None
           then wd_status d' = Wh_uncertain \<and> wd_lease_id d' = None else d' = d))"
  unfolding doubt_expired_def using assms(2)
  by (intro updated_row [OF assms]) (auto simp: readWebhookDelivery_def dest: find_SomeD)

lemma overdue_row:
  assumes "unique_deliveries db" and "readWebhookDelivery tenant deliveryId db = Some d"
  shows "unique_deliveries (fail_overdue tenant deliveryId now db)
    \<and> (\<exists>d'. readWebhookDelivery tenant deliveryId (fail_overdue tenant deliveryId now db) = Some d'
        \<and> (if wd_retry_deadline d \<le> now \<and> wd_manual_retry_at d = None
             \<and> (wd_status d = Wh_pending \<or> lease_expired now d \<and> wd_provider_request_started_at d = None)
           then wd_status d' = Wh_failed \<and> wd_lease_id d' = None else d' = d))"
  unfolding fail_overdue_def using assms(2)
  by (intro updated_row [OF assms]) (auto simp: readWebhookDelivery_def dest: find_SomeD)

lemma unclaimed_row:
  assumes "unique_deliveries db" and "readWebhookDelivery tenant deliveryId db = Some d" and "\<not> claimable now d"
  shows "unique_deliveries (lease_delivery tenant deliveryId leaseId leasedUntil now db)
    \<and> (\<exists>d'. readWebhookDelivery tenant deliveryId (lease_delivery tenant deliveryId leaseId leasedUntil now db) = Some d'
        \<and> d' = d)"
  unfolding lease_delivery_def
  by (intro updated_row [OF assms(1,2)]) (auto simp: assms(3) lease_row_to_def)

lemma claim_statements_row:
  assumes unique: "unique_deliveries db" and row: "readWebhookDelivery tenant deliveryId db = Some d"
    and "ended_row d \<Longrightarrow> wd_lease_id d = None"
    and over: "ended_row d \<or> wd_retry_deadline d \<le> now \<and> wd_manual_retry_at d = None
      \<and> (wd_status d = Wh_leased \<longrightarrow> lease_expired now d)"
  shows "unique_deliveries (claim_statements tenant deliveryId leaseId leasedUntil now db)
    \<and> (\<exists>d'. readWebhookDelivery tenant deliveryId (claim_statements tenant deliveryId leaseId leasedUntil now db) = Some d'
        \<and> ended_row d' \<and> wd_lease_id d' = None \<and> (ended_row d \<longrightarrow> d' = d))"
proof -
  let ?db1 = "doubt_expired tenant deliveryId now db"
  obtain d1 where d1: "unique_deliveries ?db1" "readWebhookDelivery tenant deliveryId ?db1 = Some d1"
      "if lease_expired now d \<and> wd_provider_request_started_at d \<noteq> None
       then wd_status d1 = Wh_uncertain \<and> wd_lease_id d1 = None else d1 = d"
    using doubted_row [OF unique row, of now] by blast
  let ?db2 = "fail_overdue tenant deliveryId now ?db1"
  obtain d2 where d2: "unique_deliveries ?db2" "readWebhookDelivery tenant deliveryId ?db2 = Some d2"
      "if wd_retry_deadline d1 \<le> now \<and> wd_manual_retry_at d1 = None
         \<and> (wd_status d1 = Wh_pending \<or> lease_expired now d1 \<and> wd_provider_request_started_at d1 = None)
       then wd_status d2 = Wh_failed \<and> wd_lease_id d2 = None else d2 = d1"
    using overdue_row [OF d1(1,2), of now] by blast
  have ended: "ended_row d2 \<and> wd_lease_id d2 = None \<and> (ended_row d \<longrightarrow> d2 = d)"
    using d1(3) d2(3) over assms(3)
    by (cases "wd_status d") (auto simp: ended_row_def lease_expired_def split: if_splits)
  then have "\<not> claimable now d2" by (auto simp: ended_row_def claimable_def lease_expired_def)
  from unclaimed_row [OF d2(1,2) this] ended show ?thesis
    unfolding claim_statements_def by auto
qed

lemma claimDelivery_alone:
  assumes "to_iso_string now = Some nowIso" and "to_iso_string (now + DELIVERY_LEASE_MS) = Some leasedUntil"
    and "readWebhookDelivery tenant deliveryId
      (claim_statements tenant deliveryId (''lease_'' @ uuid) leasedUntil nowIso db) = Some d"
    and "wd_status d \<noteq> Wh_leased"
  shows "(worker_step tenant)\<^sup>*\<^sup>* (db, claimDelivery tenant deliveryId now k exn)
    (claim_statements tenant deliveryId (''lease_'' @ uuid) leasedUntil nowIso db, k (None, False))"
proof -
  define answer where "answer uuid row = (case row of None \<Rightarrow> (None, False)
      | Some d \<Rightarrow> if wd_status d \<noteq> Wh_leased \<or> wd_lease_id d \<noteq> Some (''lease_'' @ uuid) then (None, held_by_another now row)
          else (Some (d\<lparr>wd_lease_id := Some (''lease_'' @ uuid), wd_lease_expires_at := Some leasedUntil\<rparr>), False))"
    for uuid row
  note more = converse_rtranclp_into_rtranclp [where r = "worker_step tenant"]
  have "(worker_step tenant)\<^sup>*\<^sup>* (db, random_text (\<lambda>uuid. execute (doubt_expired tenant deliveryId nowIso) (\<lambda>_. ()) (\<lambda>_.
      execute (fail_overdue tenant deliveryId nowIso) (\<lambda>_. ()) (\<lambda>_.
      execute (lease_delivery tenant deliveryId (''lease_'' @ uuid) leasedUntil nowIso) (\<lambda>_. ()) (\<lambda>_.
      query (readWebhookDelivery tenant deliveryId) (\<lambda>row. k (answer uuid row)) exn) exn) exn) exn) exn)
    (claim_statements tenant deliveryId (''lease_'' @ uuid) leasedUntil nowIso db, k (answer uuid (Some d)))"
    unfolding random_text_def execute_def query_def
    apply (rule more [OF worker_step.random [of _ _ _ uuid]])
    apply (rule more [OF worker_step.statement])+
    using assms(3) by (simp add: claim_statements_def)
  moreover have "claimDelivery tenant deliveryId now k exn = random_text (\<lambda>uuid.
      execute (doubt_expired tenant deliveryId nowIso) (\<lambda>_. ()) (\<lambda>_.
      execute (fail_overdue tenant deliveryId nowIso) (\<lambda>_. ()) (\<lambda>_.
      execute (lease_delivery tenant deliveryId (''lease_'' @ uuid) leasedUntil nowIso) (\<lambda>_. ()) (\<lambda>_.
      query (readWebhookDelivery tenant deliveryId) (\<lambda>row. k (answer uuid row)) exn) exn) exn) exn) exn" for exn
    unfolding claimDelivery_def Let_def task_simps the_or_throw_def assms(1,2) option.case answer_def ..
  moreover have "answer uuid (Some d) = (None, False)"
    using assms(4) by (simp add: answer_def held_by_another_def)
  ultimately show ?thesis by (metis (no_types))
qed

text \<open>
  C39: retrying ends. Once the retry deadline of a delivery has passed, without a pending manual retry
  and without a live lease, the next claim hands out no lease: it leaves the row failed, uncertain
  (when a request was in flight), delivered or cancelled, with no lease on it, and no later claim
  changes the row again.
\<close>

theorem delivery_ends_after_deadline:
  assumes "deliveries_ok db" and "readWebhookDelivery tenant deliveryId db = Some d"
    and "to_iso_string now = Some nowIso" and "to_iso_string (now + DELIVERY_LEASE_MS) = Some leasedUntil"
    and "wd_retry_deadline d \<le> nowIso" and "wd_manual_retry_at d = None"
    and "wd_status d = Wh_leased \<longrightarrow> lease_expired nowIso d"
  shows "\<exists>d'. wd_status d' \<in> {Wh_failed, Wh_uncertain, Wh_delivered, Wh_cancelled} \<and> wd_lease_id d' = None
    \<and> (worker_step tenant)\<^sup>*\<^sup>* (db, claimDelivery tenant deliveryId now k exn)
        (claim_statements tenant deliveryId (''lease_'' @ uuid) leasedUntil nowIso db, k (None, False))
    \<and> readWebhookDelivery tenant deliveryId
        (claim_statements tenant deliveryId (''lease_'' @ uuid) leasedUntil nowIso db) = Some d'
    \<and> (\<forall>l u t. readWebhookDelivery tenant deliveryId (claim_statements tenant deliveryId l u t
        (claim_statements tenant deliveryId (''lease_'' @ uuid) leasedUntil nowIso db)) = Some d')"
proof -
  let ?after = "claim_statements tenant deliveryId (''lease_'' @ uuid) leasedUntil nowIso db"
  have "d \<in> set (webhook_deliveries db)"
    using assms(2) by (auto simp: readWebhookDelivery_def dest: find_SomeD)
  then have "ended_row d \<Longrightarrow> wd_lease_id d = None"
    using assms(1) by (auto simp: deliveries_ok_def wh_row_ok_def ended_row_def)
  then obtain d' where d': "unique_deliveries ?after" "readWebhookDelivery tenant deliveryId ?after = Some d'"
      "ended_row d'" "wd_lease_id d' = None"
    using claim_statements_row [of db tenant deliveryId d nowIso "''lease_'' @ uuid" leasedUntil] assms
    by (auto simp: deliveries_ok_def)
  moreover have "readWebhookDelivery tenant deliveryId (claim_statements tenant deliveryId l u t ?after) = Some d'" for l u t
    using claim_statements_row [OF d'(1,2)] d'(3,4) by blast
  moreover have "wd_status d' \<noteq> Wh_leased" using d'(3) by (auto simp: ended_row_def)
  ultimately show ?thesis
    using claimDelivery_alone [OF assms(3,4) d'(2)] by (auto simp: ended_row_def)
qed

theorem delivery_ends_after_deadline_witness:
  "\<exists>d'. wd_lease_id d' = None \<and> wd_status d' \<noteq> Wh_leased \<and> wd_status d' \<noteq> Wh_pending
     \<and> readWebhookDelivery ''tnt_a'' ''whd_a''
       (claim_statements ''tnt_a'' ''whd_a'' ''lease_u'' ''2026-01-02T00:01:00.000Z'' ''2026-01-02T00:00:00.000Z'' sample_webhooks)
       = Some d'"
proof -
  have row: "readWebhookDelivery ''tnt_a'' ''whd_a'' sample_webhooks = Some sample_webhook_row"
    by (rule readWebhookDelivery_row [OF sample_webhooks_unique])
      (simp_all add: sample_webhooks_def wh_delivery_key_def sample_webhook_row_def new_delivery_def)
  have now: "to_iso_string (sample_time + RETRY_WINDOW_MS) = Some ''2026-01-02T00:00:00.000Z''"
    "to_iso_string (sample_time + RETRY_WINDOW_MS + DELIVERY_LEASE_MS) = Some ''2026-01-02T00:01:00.000Z''"
    by code_simp+
  have "wd_retry_deadline sample_webhook_row \<le> ''2026-01-02T00:00:00.000Z''" "wd_manual_retry_at sample_webhook_row = None"
      "wd_status sample_webhook_row = Wh_leased \<longrightarrow> lease_expired ''2026-01-02T00:00:00.000Z'' sample_webhook_row"
    by (simp_all add: sample_webhook_row_def new_delivery_def)
  from delivery_ends_after_deadline [OF sample_webhooks_ok row now this, of "\<lambda>_. Finished" Rejected "''u''"]
  show ?thesis by auto
qed

end
