(* ===== verification/Webhook_Fanout.thy ===== *)
theory Webhook_Fanout
  imports Webhook_Properties
begin

text \<open>
  Queueing: however often an event is fanned out, by however many workers, each subscription gets one
  delivery for it.
\<close>

section \<open>Names of deliveries\<close>

definition delivery_key :: "wh_delivery \<Rightarrow> string \<times> string" where
  "delivery_key d = (wd_subscription_id d, wd_source_event_id d)"

definition delivery_name :: "wh_delivery \<Rightarrow> string \<times> string \<times> string" where
  "delivery_name d = (wd_id d, delivery_key d)"

definition one_per_event :: "webhook_db \<Rightarrow> bool" where
  "one_per_event db = distinct (map delivery_key (webhook_deliveries db))"

definition names_kept :: "webhook_db \<Rightarrow> webhook_db \<Rightarrow> bool" where
  "names_kept db db' =
     ((one_per_event db \<longrightarrow> one_per_event db')
      \<and> delivery_name ` set (webhook_deliveries db) \<subseteq> delivery_name ` set (webhook_deliveries db'))"

lemma names_kept_refl [simp]: "names_kept db db"
  by (simp add: names_kept_def)

lemma names_kept_trans: "names_kept a b \<Longrightarrow> names_kept b c \<Longrightarrow> names_kept a c"
  unfolding names_kept_def by blast

lemma same_delivery_name: "same_delivery d e \<Longrightarrow> delivery_name d = delivery_name e"
  by (simp add: same_delivery_def delivery_name_def delivery_key_def)

lemma insert_delivery_keys:
  "distinct (map delivery_key ds) \<Longrightarrow> distinct (map delivery_key (insert_delivery d ds))"
  by (auto simp: insert_delivery_def delivery_key_def list_ex_iff)

lemma insert_all_keys:
  "distinct (map delivery_key ds) \<Longrightarrow> distinct (map delivery_key (fold insert_delivery rows ds))"
  by (induction rows arbitrary: ds) (simp_all add: insert_delivery_keys)

lemma insert_batch_kept:
  assumes "insert_batch rows db = Some db'"
  shows "names_kept db db'"
proof -
  have rows: "webhook_deliveries db' = fold insert_delivery rows (webhook_deliveries db)"
    using assms by (auto simp: insert_batch_def split: if_splits)
  then have "one_per_event db \<longrightarrow> one_per_event db'"
    using insert_all_keys by (simp add: one_per_event_def)
  moreover have "set (webhook_deliveries db) \<subseteq> set (webhook_deliveries db')"
    using rows insert_all_evolves [of rows "webhook_deliveries db"] by auto
  ultimately show ?thesis by (auto simp: names_kept_def)
qed

lemma keys_statement:
  assumes "\<And>d. same_delivery (f d) d"
  shows "one_per_event (upd_deliveries P f db) = one_per_event db"
proof -
  have "delivery_key (f d) = delivery_key d" for d
    using same_delivery_name [OF assms] by (simp add: delivery_name_def)
  then show ?thesis by (simp add: one_per_event_def upd_deliveries_def upd_where_def comp_def if_distrib cong: if_cong)
qed

lemma one_per_event_subscriptions [simp]: "one_per_event (db\<lparr>webhook_subscriptions := ss\<rparr>) = one_per_event db"
  by (simp add: one_per_event_def)

lemma delivery_step_keys: "delivery_step db db' \<Longrightarrow> one_per_event db \<Longrightarrow> one_per_event db'"
proof (induction rule: delivery_step.induct)
  case (ds_ledger db c)
  then show ?case by (simp add: one_per_event_def)
next
  case (ds_directory db' db)
  then show ?case by (simp add: one_per_event_def)
next
  case (ds_insert rows db db')
  then show ?case using insert_batch_kept by (auto simp: names_kept_def)
qed (auto simp: statement_defs Let_def keys_statement same_delivery_def lease_row_to_def cancel_row_def)

lemma delivery_step_kept: "delivery_step db db' \<Longrightarrow> names_kept db db'"
proof -
  assume step: "delivery_step db db'"
  then obtain f new where "webhook_deliveries db' = map f (webhook_deliveries db) @ new"
      "\<And>d. d \<in> set (webhook_deliveries db) \<Longrightarrow> same_delivery (f d) d"
    using delivery_step_evolves unfolding deliveries_evolve_def by metis
  then have "delivery_name d \<in> delivery_name ` set (webhook_deliveries db')" if "d \<in> set (webhook_deliveries db)" for d
    using that same_delivery_name [of "f d" d] by (metis UnCI image_eqI list.set_map set_append)
  then have "delivery_name ` set (webhook_deliveries db) \<subseteq> delivery_name ` set (webhook_deliveries db')" by blast
  with delivery_step_keys [OF step] show ?thesis by (simp add: names_kept_def)
qed

interpretation delivery_names: step_relation delivery_step names_kept
  by unfold_locales (auto intro: names_kept_trans delivery_step_kept)

lemma others_kept: "(other_step tenant)\<^sup>*\<^sup>* db db' \<Longrightarrow> names_kept db db'"
  by (induction rule: rtranclp_induct)
    (auto simp: other_step_def intro: names_kept_trans delivery_step_kept)

section \<open>Runs of the inserting worker\<close>

lemma run_Finished: "(worker_step tenant)\<^sup>*\<^sup>* (db, Finished) (db', w) \<Longrightarrow> w = Finished \<and> names_kept db db'"
proof (induction rule: rtranclp_induct2)
  case (step db1 w1 db2 w2)
  from step.hyps(2) step.IH show ?case
    by (cases rule: worker_stepE) (auto simp: other_step_def intro: names_kept_trans delivery_step_kept)
qed simp

lemma run_Rejected: "(worker_step tenant)\<^sup>*\<^sup>* (db, Rejected) (db', w) \<Longrightarrow> w = Rejected"
proof (induction rule: rtranclp_induct2)
  case (step db1 w1 db2 w2)
  from step.hyps(2) step.IH show ?case by (cases rule: worker_stepE) auto
qed simp

text \<open>A run through a statement: others first, then its effect and answer, or its failure.\<close>

lemma run_Statement:
  assumes "(worker_step tenant)\<^sup>*\<^sup>* (db, Statement f k exn) (db', Finished)"
  shows "\<exists>db1. (other_step tenant)\<^sup>*\<^sup>* db db1 \<and> ((worker_step tenant)\<^sup>*\<^sup>* (f db1, k db1) (db', Finished)
    \<or> (worker_step tenant)\<^sup>*\<^sup>* (db1, exn) (db', Finished) \<or> (worker_step tenant)\<^sup>*\<^sup>* (f db1, exn) (db', Finished))"
proof -
  have "w = Statement f k exn \<longrightarrow> (\<exists>db1. (other_step tenant)\<^sup>*\<^sup>* db db1
      \<and> ((worker_step tenant)\<^sup>*\<^sup>* (f db1, k db1) (db', Finished)
         \<or> (worker_step tenant)\<^sup>*\<^sup>* (db1, exn) (db', Finished) \<or> (worker_step tenant)\<^sup>*\<^sup>* (f db1, exn) (db', Finished)))"
    if "(worker_step tenant)\<^sup>*\<^sup>* (db, w) (db', Finished)" for w
    using that
  proof (induction rule: converse_rtranclp_induct2)
    case (step db0 w0 db1 w1)
    from step.hyps(1) show ?case
      by (cases rule: worker_stepE)
        (use step.hyps(2) step.IH in \<open>blast intro: converse_rtranclp_into_rtranclp\<close>)+
  qed simp
  with assms show ?thesis by blast
qed

definition queued_in :: "webhook_db \<Rightarrow> wh_delivery \<Rightarrow> bool" where
  "queued_in db r = (\<exists>d \<in> set (webhook_deliveries db). wd_id d = wd_id r \<or> delivery_key d = delivery_key r)"

lemma queued_in_kept: "queued_in db r \<Longrightarrow> names_kept db db' \<Longrightarrow> queued_in db' r"
  by (fastforce simp: queued_in_def names_kept_def delivery_name_def)

lemma insert_delivery_queued:
  assumes "1 \<le> wd_destination_version d"
  shows "\<exists>x \<in> set (insert_delivery d ds). wd_id x = wd_id d \<or> delivery_key x = delivery_key d"
  using assms by (auto simp: insert_delivery_def list_ex_iff delivery_key_def)

lemma insert_all_queued:
  assumes "r \<in> set rows" and "1 \<le> wd_destination_version r"
  shows "\<exists>x \<in> set (fold insert_delivery rows ds). wd_id x = wd_id r \<or> delivery_key x = delivery_key r"
  using assms(1)
proof (induction rows arbitrary: ds)
  case (Cons a rows)
  show ?case
  proof (cases "r = a")
    case True
    then obtain x where x: "x \<in> set (insert_delivery a ds)" "wd_id x = wd_id r \<or> delivery_key x = delivery_key r"
      using insert_delivery_queued [OF assms(2)] by blast
    moreover have "set (insert_delivery a ds) \<subseteq> set (fold insert_delivery rows (insert_delivery a ds))"
      using insert_all_evolves [of rows "insert_delivery a ds"] by auto
    ultimately show ?thesis by auto
  next
    case False
    with Cons show ?thesis by simp
  qed
qed simp

lemma insert_batch_queued:
  "insert_batch rows db = Some db' \<Longrightarrow> r \<in> set rows \<Longrightarrow> 1 \<le> wd_destination_version r \<Longrightarrow> queued_in db' r"
  using insert_all_queued [of r rows "webhook_deliveries db"]
  by (auto simp: insert_batch_def queued_in_def split: if_splits)

lemma insert_chunks_run:
  assumes "(worker_step tenant)\<^sup>*\<^sup>* (db, insert_chunks n rows (\<lambda>_. Finished) Rejected) (db', Finished)"
    and "length rows \<le> n"
  shows "names_kept db db' \<and> (\<forall>r \<in> set rows. 1 \<le> wd_destination_version r \<longrightarrow> queued_in db' r)"
  using assms
proof (induction n arbitrary: rows db)
  case 0
  then show ?case using run_Finished by (auto simp: return_task_def)
next
  case (Suc n)
  show ?case
  proof (cases "rows = []")
    case True
    with Suc.prems(1) show ?thesis using run_Finished by (auto simp: return_task_def)
  next
    case False
    let ?chunk = "take MAX_DELIVERY_BATCH rows" and ?rest = "drop MAX_DELIVERY_BATCH rows"
    have shorter: "length ?rest \<le> n"
      using Suc.prems(2) False by (simp add: MAX_DELIVERY_BATCH_def)
    obtain db1 where before: "(other_step tenant)\<^sup>*\<^sup>* db db1"
      and after: "(worker_step tenant)\<^sup>*\<^sup>*
         (case insert_batch ?chunk db1 of None \<Rightarrow> db1 | Some x \<Rightarrow> x,
          case insert_batch ?chunk db1 of None \<Rightarrow> Rejected
            | Some _ \<Rightarrow> insert_chunks n ?rest (\<lambda>_. Finished) Rejected) (db', Finished)"
      using run_Statement [of tenant db _ _ Rejected db'] Suc.prems(1) False run_Rejected
      by (simp add: await_def insert_or_throw_def) blast
    then obtain db2 where db2: "insert_batch ?chunk db1 = Some db2"
      using run_Rejected by (cases "insert_batch ?chunk db1") fastforce+
    with after have "(worker_step tenant)\<^sup>*\<^sup>* (db2, insert_chunks n ?rest (\<lambda>_. Finished) Rejected) (db', Finished)"
      by simp
    from Suc.IH [OF this shorter]
    have rest: "names_kept db2 db'" "\<forall>r \<in> set ?rest. 1 \<le> wd_destination_version r \<longrightarrow> queued_in db' r" by auto
    have "\<forall>r \<in> set ?chunk. 1 \<le> wd_destination_version r \<longrightarrow> queued_in db' r"
      using insert_batch_queued [OF db2] queued_in_kept rest(1) by blast
    moreover have "set rows = set ?chunk \<union> set ?rest" by (metis append_take_drop_id set_append)
    moreover have "names_kept db db'"
      using others_kept [OF before] insert_batch_kept [OF db2] rest(1) by (blast intro: names_kept_trans)
    ultimately show ?thesis using rest(2) by blast
  qed
qed

lemma insertDeliveryRows_run:
  assumes "(worker_step tenant)\<^sup>*\<^sup>* (db, insertDeliveryRows candidates epoch now (\<lambda>_. Finished) Rejected) (db', Finished)"
    and "c \<in> set candidates"
  shows "names_kept db db' \<and> (\<exists>deadline. 1 \<le> wd_destination_version (candidate_row epoch now deadline c)
    \<longrightarrow> queued_in db' (candidate_row epoch now deadline c))"
proof (cases "retryDeadlineFor now")
  case None
  then show ?thesis
    using assms(1) run_Rejected by (fastforce simp: insertDeliveryRows_def the_or_throw_def task_simps)
next
  case (Some deadline)
  then have "(worker_step tenant)\<^sup>*\<^sup>* (db, insert_chunks (length candidates)
      (map (candidate_row epoch now deadline) candidates) (\<lambda>_. Finished) Rejected) (db', Finished)"
    using assms(1) by (simp add: insertDeliveryRows_def the_or_throw_def task_simps)
  from insert_chunks_run [OF this] assms(2) show ?thesis by auto
qed

section \<open>Properties\<close>

text \<open>
  C40: one delivery per subscription and event. Once the candidates of a fan-out are inserted, then
  after any further statements of any workers, further fan-outs of the same event included, each
  candidate has exactly one delivery row for its subscription and event, unless its id, the SHA-256 of
  tenant, subscription and event, is taken by a row of another subscription or event. Other
  workers may run between the chunks of the insertion too.
\<close>

theorem event_is_queued_once:
  assumes "one_per_event db"
    and "(worker_step tenant)\<^sup>*\<^sup>* (db, insertDeliveryRows candidates epoch now (\<lambda>_. Finished) Rejected) (db1, Finished)"
    and "delivery_step\<^sup>*\<^sup>* db1 db2"
    and "(event, eventType, sourceMessageId, subscription, deliveryId) \<in> set candidates"
    and "1 \<le> ws_destination_version subscription"
  shows "length (filter (\<lambda>d. wd_subscription_id d = ws_id subscription \<and> wd_source_event_id d = ev_event_id event)
      (webhook_deliveries db2)) = 1
    \<or> (\<exists>d \<in> set (webhook_deliveries db2). wd_id d = deliveryId
        \<and> (wd_subscription_id d, wd_source_event_id d) \<noteq> (ws_id subscription, ev_event_id event))"
proof -
  let ?c = "(event, eventType, sourceMessageId, subscription, deliveryId)" and ?k = "(ws_id subscription, ev_event_id event)"
  note run = insertDeliveryRows_run [OF assms(2,4)]
  have row: "wd_id (candidate_row epoch now deadline ?c) = deliveryId"
      "delivery_key (candidate_row epoch now deadline ?c) = ?k"
      "wd_destination_version (candidate_row epoch now deadline ?c) = ws_destination_version subscription" for deadline
    by (simp_all add: candidate_row_def new_delivery_def delivery_key_def)
  have later: "names_kept db1 db2" by (rule delivery_names.rel_steps [OF assms(3)])
  have unique: "one_per_event db2"
    using assms(1) run later by (auto simp: names_kept_def)
  obtain d where d: "d \<in> set (webhook_deliveries db2)" "wd_id d = deliveryId \<or> delivery_key d = ?k"
    using run queued_in_kept [OF _ later] assms(5) row by (metis queued_in_def)
  show ?thesis
  proof (cases "delivery_key d = ?k")
    case True
    have "length (filter (\<lambda>d. delivery_key d = ?k) (webhook_deliveries db2)) \<le> 1"
      using distinct_filter_le_one [of delivery_key "\<lambda>_. True" "webhook_deliveries db2" ?k] unique
      by (simp add: one_per_event_def)
    moreover have "filter (\<lambda>d. delivery_key d = ?k) (webhook_deliveries db2) \<noteq> []"
      using True d(1) by (auto simp: filter_empty_conv)
    ultimately show ?thesis by (auto simp: delivery_key_def le_Suc_eq)
  next
    case False
    with d show ?thesis by (auto simp: delivery_key_def)
  qed
qed

definition sample_webhook_event :: projection_event where
  "sample_webhook_event =
     \<lparr>ev_event_id = ''evt_a'', ev_event_source = Live, ev_tenant_id = ''tnt_a'', ev_identity_id = ''idn_a'',
      ev_platform = Whatsapp, ev_account_id = ''acc_a'', ev_conversation_id = ''cnv_a'', ev_matrix_room_id = None,
      ev_matrix_event_id = None, ev_remote_message_id = None, ev_occurred_at = ''2026-01-01T00:00:00.000Z'',
      ev_observed_at = ''2026-01-01T00:00:00.000Z'',
      ev_payload = MessageDeleted \<lparr>md_message_id = ''msg_a'', md_reason_code = None\<rparr>\<rparr>"

definition sample_candidate :: "projection_event \<times> webhook_event_type \<times> string \<times> webhook_subscription \<times> string" where
  "sample_candidate = (sample_webhook_event, Wh_message_deleted, ''msg_a'', sample_subscription, ''whd_b'')"

definition sample_queue :: "webhook_db \<times> worker" where
  "sample_queue = drive sample_time ''u'' sample_message
     (insertDeliveryRows [sample_candidate] 0 ''2026-01-01T00:00:00.000Z'' (\<lambda>_. Finished) Rejected)
     (sample_webhooks\<lparr>webhook_deliveries := []\<rparr>)"

fun has_finished :: "worker \<Rightarrow> bool" where
  "has_finished Finished = True"
| "has_finished _ = False"

lemma has_finishedD: "has_finished w \<Longrightarrow> w = Finished"
  by (cases w) simp_all

theorem event_is_queued_once_witness:
  "length (filter (\<lambda>d. wd_subscription_id d = ''whs_a'' \<and> wd_source_event_id d = ''evt_a'')
     (webhook_deliveries (fst sample_queue))) = 1"
proof -
  have "has_finished (snd sample_queue)" by code_simp
  then have "sample_queue = (fst sample_queue, Finished)"
    using has_finishedD prod.collapse by metis
  then have run: "(worker_step ''tnt_a'')\<^sup>*\<^sup>* (sample_webhooks\<lparr>webhook_deliveries := []\<rparr>,
      insertDeliveryRows [sample_candidate] 0 ''2026-01-01T00:00:00.000Z'' (\<lambda>_. Finished) Rejected) (fst sample_queue, Finished)"
    unfolding sample_queue_def by (metis drive_run)
  have start: "one_per_event (sample_webhooks\<lparr>webhook_deliveries := []\<rparr>)" by (simp add: one_per_event_def)
  have "list_all (\<lambda>d. wd_subscription_id d = ''whs_a'' \<and> wd_source_event_id d = ''evt_a'')
      (webhook_deliveries (fst sample_queue))" by code_simp
  moreover have "1 \<le> ws_destination_version sample_subscription" "ws_id sample_subscription = ''whs_a''"
      "ev_event_id sample_webhook_event = ''evt_a''"
    by (simp_all add: sample_subscription_def sample_webhook_event_def)
  ultimately show ?thesis
    using event_is_queued_once [OF start run rtranclp.rtrancl_refl,
        of sample_webhook_event Wh_message_deleted "''msg_a''" sample_subscription "''whd_b''"]
    by (auto simp: sample_candidate_def list_all_iff)
qed

end
