(* ===== verification/Spec2Isabelle.thy ===== *)
theory Spec2Isabelle
  imports Tenant_Batch_Properties Ledger_Properties Canonical_Json Base64url Outbound_Alarm Rebuild_Properties Rebuild_Lifecycle
    Ledger_Guarantees Webhook_Properties Webhook_Fanout
begin

text \<open>
  Verification of the communicator control plane, the TypeScript worker under
  \<^verbatim>\<open>src/apps/control-plane/worker\<close> and the contracts package under \<^verbatim>\<open>src/packages/contracts/src\<close>.
  The theories follow the code: one definition per function, handler or SQL statement, with the
  source's names; strings are UTF-8 byte sequences, so the byte order of SQLite is the order of
  the model, and a thrown error is the left side of a sum.

  \<^bold>\<open>The program.\<close> Canonical events of a messaging tenant arrive in batches at an object per tenant, which
  projects them into SQLite tables (conversations, messages and versions, participants, reactions,
  receipts, attachments, commands, deliveries, tombstones), logs every change for clients, and owns the
  outbound ledger of replies. A control database shared by many workers holds the removal ledger (what
  was deleted, with a deletion epoch per tenant), the lease a restore works under, the directory and
  the webhook delivery ledger. A restore rebuilds a tenant's projection as a new generation, fenced
  by the removal ledger. Webhook workers send events to subscribed destinations, fenced by the
  deletion epoch.

  \<^bold>\<open>Shared base.\<close>
  \<^item> \<open>Prelude\<close>: failures, sequencing of computations that may throw, SQL fragments on lists of rows, string
    library, and the locale \<open>step_relation\<close>, which lifts a reflexive and transitive relation from one step
    to every run. \<open>Js_Date\<close>: \<open>Date.parse\<close> and \<open>toISOString\<close> with their round trip. \<open>Table_Steps\<close> and \<open>Batch_Loop\<close>
    (locales \<open>invariant_step\<close>, \<open>preserving_step\<close>): what holds of every statement of a table or round of a
    loop holds of the whole.

  \<^bold>\<open>Projection\<close> (\<^verbatim>\<open>projection/projector-*.ts\<close>, \<^verbatim>\<open>projection/tenant-projection.ts\<close>).
  \<^item> \<open>Projection_Types\<close>, \<open>Projector_Common\<close>, \<open>Projector_Deletion\<close>, \<open>Projector_Control\<close>, \<open>Projector_Social\<close>,
    \<open>Projector_Conversation\<close>, \<open>Projector_Messages\<close>, \<open>Projector_Domains\<close> hold the data and one definition per
    projector; \<open>projectEvent\<close> is their dispatch.
  \<^item> \<open>Projection_Invariants\<close>, \<open>Isolation\<close>, \<open>Deletion_Invariants\<close> and \<open>Projection_Properties\<close> show that every event
    keeps the tables well formed, touches only rows of its owner, and that what was deleted stays
    redacted under permanent tombstones. \<open>Summaries\<close> shows that summaries agree with the messages.
  \<^item> \<open>Tenant_Batch\<close> models the transaction \<open>#applyPreparedBatch\<close> with bindings, checkpoints, duplicates and
    the change log; \<open>Tenant_Batch_Invariants\<close>, \<open>Change_Log\<close>, \<open>Redelivery\<close> and \<open>Tenant_Batch_Properties\<close> show the
    invariant of the store, gapless change pages and that a redelivered batch changes nothing.

  \<^bold>\<open>Removal ledger and restore lease\<close> (\<^verbatim>\<open>removals/ledger.ts\<close>, \<^verbatim>\<open>removals/service.ts\<close>, \<^verbatim>\<open>restore/lease.ts\<close>,
  \<^verbatim>\<open>restore/gate.ts\<close>).
  \<^item> \<open>Restore_Lease\<close>, \<open>Removal_Ledger\<close>: handlers and statements. \<open>Ledger_Steps\<close>: \<open>control_step\<close> is one statement of
    any worker, and every handler is a sequence of them, so the properties of \<open>Ledger_Properties\<close> hold
    under every interleaving (one active lease, permanent authorities, growing epochs, expiry).
    \<open>Ledger_Guarantees\<close>: a lapsed lease never revives, and a recorded removal stays visible to the lookups.
    \<open>Restore_Gate\<close>: the gate accepts every ledger the system can write.

  \<^bold>\<open>Outbound\<close> (\<^verbatim>\<open>outbound/lifecycle.ts\<close>, \<^verbatim>\<open>projection/tenant-projection.ts\<close>).
  \<^item> \<open>Outbound_Lifecycle\<close>: the step of a waiting command. \<open>Outbound_Ledger\<close>, \<open>Outbound_Operations\<close>: accepting a
    reply, claims, payload release, failures, evidence, human decisions and the alarm. \<open>Outbound_Steps\<close>,
    \<open>Outbound_Properties\<close>, \<open>Outbound_Alarm\<close>: rows move forward through their phases, one sending lease per
    dispatch, acceptance happens once, and the alarm leaves nothing overdue.

  \<^bold>\<open>Rebuild\<close> (\<^verbatim>\<open>restore/outbound.ts\<close>, \<^verbatim>\<open>projection/tenant-projection.ts\<close>).
  \<^item> \<open>Projection_Rebuild\<close>: beginning, completing and aborting a rebuild. \<open>Rebuild_Fence\<close>, \<open>Rebuild_Properties\<close>,
    \<open>Rebuild_Lifecycle\<close>: removed work is never released afterwards, outbound views are restored,
    generations only move forward.

  \<^bold>\<open>Webhooks\<close> (\<^verbatim>\<open>webhooks/delivery.ts\<close>, \<^verbatim>\<open>webhooks/revisions.ts\<close>, parts of \<^verbatim>\<open>control-directory/webhooks.ts\<close>,
  \<^verbatim>\<open>control-directory/grants.ts\<close> and \<^verbatim>\<open>attachments/grants.ts\<close>).
  \<^item> \<open>Webhook_Ledger\<close>: rows, filters, directory queries and one definition per SQL statement. \<open>Webhook_Worker\<close>:
    the asynchronous handlers as trees of interactions, in which each \<open>await\<close> is a node that may fail and
    before which statements of other workers may run. The test seams \<open>beforeClaim\<close>, \<open>beforeFetch\<close> and
    \<open>beforeTerminalWrite\<close> are not part of the tree: what they are for, a change by another worker at that
    point, is a step of the environment.
  \<^item> \<open>Webhook_Steps\<close>, \<open>Webhook_Fence\<close>: the steps of the others and a rely and guarantee argument over the tree
    of one worker; the locale \<open>delivery_handlers\<close> holds what the stages of \<open>deliverOne\<close> rely on.
    \<open>Webhook_Properties\<close>: a request leaves only while its source is present, rows evolve forward,
    retries stay in their window and end, stored bodies are bounded prefixes. The environment is
    assumed to advance the deletion epoch whenever it records a removal; that assumption fails while
    a restore lease is active, when \<open>allocate_epoch\<close> gives out epoch 1. \<open>Webhook_Fanout\<close>: each subscription gets
    one delivery per event, however often the event is fanned out.

  \<^bold>\<open>Codecs.\<close> \<open>Canonical_Json\<close> (\<^verbatim>\<open>archive/canonical-json.ts\<close>): the canonical text identifies a value up to the
  order of members. \<open>Base64url\<close> (\<^verbatim>\<open>projection/cursor.ts\<close>): decoding accepts exactly the encodings.

  \<^bold>\<open>Parameters, fuel and bounds.\<close> Hashes, random identifiers, text decoding and the verdicts of the
  zod schemas are parameters of the definitions that use them. The
  clock, the network, the credential store and the projection read of a webhook worker are
  questions to the outside with arbitrary answers, refusal included. Loops of the code end by structural
  recursion or a measure; \<open>settle_fence\<close> runs the two rounds the source has, and \<open>insert_chunks\<close> gets the
  number of candidates as fuel, which is enough since each round removes at least one.

  \<^bold>\<open>Simplifications.\<close> Numbers of canonical JSON are integers. The two parallel reads of
  \<open>loadRestoreAuthority\<close> see one database; a removal between them makes the code throw. The awaits
  between the rows of the alarm admit no other call in \<open>processOutboundAlarm\<close>; the runs of \<open>Outbound_Steps\<close>
  interleave the rows one by one. The length check of the change log on event hashes, which are hex
  digests, and the schema checks of responses are left out or are parameters; a missing control
  database binding is not a case of \<open>completeRebuild\<close>.

  \<^bold>\<open>Not modelled.\<close> HTTP and tool routing, authentication and OAuth, whose work is platform
  cryptography and request shaping; archive objects and their purge; queue consumption and the
  preparation of batches; read-only list queries; history, linking, groups, contacts and receipts,
  which drive the gateway; WebSockets; \<open>#reapplyExternalRemovalRedactions\<close>; the directory apart from
  what webhooks use; the Rust gateway and the browser interface.
\<close>

end
